(* ===== verification/Prelude.thy ===== *)
theory Prelude
  imports Main "HOL-Library.Multiset" "HOL-Library.Word"
    "HOL-Library.List_Lexorder" "HOL-Library.Char_ord" "HOL-Library.Sublist"
begin

section \<open>Prelude: outcomes of Go calls, shared types and list lemmas\<close>

text \<open>
  What every component theory shares.
  \<^item> \<open>go_error\<close> and \<open>'a outcome\<close>: a Go function that returns \<open>(x, error)\<close> and may
    dereference a nil pointer returns \<open>Ok x\<close>, \<open>Err e\<close> or \<open>Panic\<close>; \<open>bind_o\<close> is
    \<^verbatim>\<open>if err != nil { return nil, err }\<close> and \<open>deref\<close> is a pointer dereference.
  \<^item> \<open>fold_o\<close>: a loop whose body may return early with an error.
  \<^item> a Go map is an association list with distinct keys, listed in the order in which one
    \<^verbatim>\<open>range\<close> loop visits it: the language fixes no order, so a definition that ranges over
    a map takes the order as part of its argument, and a lemma that is meant to hold for every
    run quantifies over it.
  \<^item> generic lemmas on lists and sorting that the components use.
\<close>

named_theorems outcome_simps "rules that evaluate and invert the outcome monad"
named_theorems wf_intros "introduction rules for well-formedness predicates"

type_synonym int32 = "32 word"
type_synonym byte = "8 word"
type_synonym ('k, 'v) go_map = "('k \<times> 'v) list"

subsection \<open>Errors and outcomes\<close>

text \<open>
  \<open>Errorf m\<close> is \<^verbatim>\<open>fmt.Errorf(m)\<close>, \<open>ErrorfW m e\<close> is \<^verbatim>\<open>fmt.Errorf(m + ": %w", e)\<close>.
  \<open>NotFound\<close> is the API server's not-found status, \<open>ApiError\<close> any other failed call.
\<close>

datatype go_error =
    Errorf string
  | ErrorfW string go_error
  | NotFound
  | ApiError string

datatype 'a outcome = Ok 'a | Err go_error | Panic

primrec bind_o :: "'a outcome \<Rightarrow> ('a \<Rightarrow> 'b outcome) \<Rightarrow> 'b outcome" where
  "bind_o (Ok x) f = f x"
| "bind_o (Err e) f = Err e"
| "bind_o Panic f = Panic"

primrec wrap_err :: "string \<Rightarrow> 'a outcome \<Rightarrow> 'a outcome" where
  "wrap_err m (Ok x) = Ok x"
| "wrap_err m (Err e) = Err (ErrorfW m e)"
| "wrap_err m Panic = Panic"

primrec deref :: "'a option \<Rightarrow> 'a outcome" where
  "deref None = Panic"
| "deref (Some x) = Ok x"

primrec is_ok :: "'a outcome \<Rightarrow> bool" where
  "is_ok (Ok x) = True"
| "is_ok (Err e) = False"
| "is_ok Panic = False"

primrec fold_o :: "('s \<Rightarrow> 'a \<Rightarrow> 's outcome) \<Rightarrow> 's \<Rightarrow> 'a list \<Rightarrow> 's outcome" where
  "fold_o f s [] = Ok s"
| "fold_o f s (x # xs) = bind_o (f s x) (\<lambda>s'. fold_o f s' xs)"

text \<open>\<^verbatim>\<open>client.IgnoreNotFound(err) != nil\<close>.\<close>

definition not_ignored :: "go_error \<Rightarrow> bool" where
  "not_ignored e \<longleftrightarrow> e \<noteq> NotFound"

lemma bind_o_Ok_iff [outcome_simps]:
  "bind_o m f = Ok y \<longleftrightarrow> (\<exists>x. m = Ok x \<and> f x = Ok y)"
  by (cases m) auto

lemma bind_o_Err_iff [outcome_simps]:
  "bind_o m f = Err e \<longleftrightarrow> m = Err e \<or> (\<exists>x. m = Ok x \<and> f x = Err e)"
  by (cases m) auto

lemma bind_o_Panic_iff [outcome_simps]:
  "bind_o m f = Panic \<longleftrightarrow> m = Panic \<or> (\<exists>x. m = Ok x \<and> f x = Panic)"
  by (cases m) auto

lemma bind_o_assoc: "bind_o (bind_o m f) g = bind_o m (\<lambda>x. bind_o (f x) g)"
  by (cases m) simp_all

lemma bind_o_cong [fundef_cong]:
  "m = m' \<Longrightarrow> (\<And>x. m' = Ok x \<Longrightarrow> f x = g x) \<Longrightarrow> bind_o m f = bind_o m' g"
  by (cases m') auto

lemma deref_Ok_iff [outcome_simps]: "deref p = Ok x \<longleftrightarrow> p = Some x"
  by (cases p) auto

lemma deref_Err [simp]: "deref p \<noteq> Err e"
  by (cases p) auto

lemma deref_Panic_iff [outcome_simps]: "deref p = Panic \<longleftrightarrow> p = None"
  by (cases p) auto

lemma wrap_err_Ok_iff [outcome_simps]: "wrap_err m r = Ok x \<longleftrightarrow> r = Ok x"
  by (cases r) auto

lemma wrap_err_Err_iff [outcome_simps]:
  "wrap_err m r = Err e \<longleftrightarrow> (\<exists>e'. r = Err e' \<and> e = ErrorfW m e')"
  by (cases r) auto

lemma wrap_err_Panic_iff [outcome_simps]: "wrap_err m r = Panic \<longleftrightarrow> r = Panic"
  by (cases r) auto

lemma is_ok_iff [outcome_simps]: "is_ok r \<longleftrightarrow> (\<exists>x. r = Ok x)"
  by (cases r) auto

lemma fold_o_append:
  "fold_o f s (xs @ ys) = bind_o (fold_o f s xs) (\<lambda>s'. fold_o f s' ys)"
  by (induction xs arbitrary: s) (simp_all add: bind_o_assoc)

lemma fold_o_pure: "(\<And>s x. x \<in> set xs \<Longrightarrow> f s x = Ok (g s x)) \<Longrightarrow> fold_o f s xs = Ok (foldl g s xs)"
  by (induction xs arbitrary: s) simp_all

text \<open>A loop that appends one block per element appends the concatenation of the blocks.\<close>

lemma fold_o_collect:
  "(\<And>s x. x \<in> set xs \<Longrightarrow> f s x = bind_o (h x) (\<lambda>ys. Ok (s @ ys))) \<Longrightarrow>
   (\<And>x. x \<in> set xs \<Longrightarrow> h x = Ok (g x)) \<Longrightarrow>
   fold_o f s xs = Ok (s @ concat (map g xs))"
  by (induction xs arbitrary: s) simp_all

lemma fold_o_invariant:
  assumes "fold_o f s xs = Ok t" and "P s"
    and "\<And>s x s'. P s \<Longrightarrow> x \<in> set xs \<Longrightarrow> f s x = Ok s' \<Longrightarrow> P s'"
  shows "P t"
  using assms
proof (induction xs arbitrary: s)
  case (Cons x xs)
  from Cons.prems(1) obtain s' where "f s x = Ok s'" "fold_o f s' xs = Ok t"
    by (auto simp: outcome_simps)
  with Cons.prems(2,3) show ?case
    by (intro Cons.IH [of s']) auto
qed simp

subsection \<open>Lists and maps\<close>

lemma distinct_map_upt:
  "(\<And>i j. name i = name j \<Longrightarrow> i = j) \<Longrightarrow> distinct (map name [a..<b])"
  by (auto simp: distinct_map intro: inj_onI)

lemma enumerate_map: "enumerate n (map f xs) = map (\<lambda>p. (fst p, f (snd p))) (enumerate n xs)"
  by (simp add: enumerate_eq_zip zip_map2 case_prod_unfold)

lemma map_of_append_distinct:
  "distinct (map fst (xs @ ys)) \<Longrightarrow> (k, v) \<in> set (xs @ ys) \<Longrightarrow> map_of (xs @ ys) k = Some v"
  by (rule map_of_is_SomeI)

lemma foldl_map_upd:
  "distinct (map fst kvs) \<Longrightarrow> foldl (\<lambda>m kv. m(fst kv \<mapsto> snd kv)) m kvs = m ++ map_of kvs"
proof (induction kvs arbitrary: m)
  case (Cons kv kvs)
  then have "fst kv \<notin> dom (map_of kvs)"
    by (simp add: dom_map_of_conv_image_fst)
  with Cons show ?case
    by (cases kv) (auto simp: map_add_def fun_eq_iff dom_def split: option.splits)
qed simp

text \<open>Sorting by a key that is injective on the list gives one result for every visiting order.\<close>

lemma sort_key_perm_eq:
  assumes "mset xs = mset ys" and "distinct (map f xs)"
  shows "sort_key f xs = sort_key f ys"
proof (rule sort_key_inj_key_eq)
  show "mset xs = mset (sort_key f ys)" using assms(1) by simp
  show "inj_on f (set xs)" using assms(2) by (simp add: distinct_map)
  show "sorted (map f (sort_key f ys))" by simp
qed

lemma sort_perm_eq: "mset xs = mset ys \<Longrightarrow> sort xs = sort ys"
  by (metis mset_sort properties_for_sort sorted_sort)

lemma mset_map_of_eq:
  assumes "mset xs = mset ys" and "distinct (map fst xs)"
  shows "map_of xs = map_of ys"
proof -
  from assms have "mset (map fst xs) = mset (map fst ys)" by simp
  with assms(2) have "distinct (map fst ys)"
    by (metis mset_eq_imp_distinct_iff)
  with assms have "map_of xs k = Some v \<longleftrightarrow> map_of ys k = Some v" for k v
    by (simp add: map_of_eq_Some_iff mset_eq_setD [OF assms(1)])
  then show ?thesis
    by (intro ext) (metis not_None_eq)
qed

text \<open>The laws of a loop over a map whose result may not depend on the visiting order.\<close>

locale map_traversal =
  fixes run :: "('k, 'v) go_map \<Rightarrow> 'r"
  assumes visiting_order: "distinct (map fst xs) \<Longrightarrow> mset xs = mset ys \<Longrightarrow> run xs = run ys"
begin

lemma run_perm_swap:
  "distinct (map fst (xs @ ys)) \<Longrightarrow> run (xs @ ys) = run (ys @ xs)"
  by (rule visiting_order) (simp_all add: union_commute)

lemma run_rev: "distinct (map fst xs) \<Longrightarrow> run (rev xs) = run xs"
  by (rule visiting_order [symmetric]) simp_all

end

end
