(* ===== verification/GoStd.thy ===== *)
theory GoStd
  imports Prelude
begin

section \<open>GoStd: the Go standard library functions the operator calls\<close>

text \<open>
  Executable models of the functions of \<^verbatim>\<open>strings\<close>, \<^verbatim>\<open>strconv\<close> and the other packages that
  the sources use, on byte strings (\<open>string\<close>, as a Go string is a byte sequence), with the
  laws the components need, such as that decimal printing is injective. \<^verbatim>\<open>path\<close> is in theory
  \<open>GoPath\<close>, \<^verbatim>\<open>encoding/base64\<close> and the URL functions in \<open>GoEncoding\<close>.
\<close>

subsection \<open>strings\<close>

definition HasPrefix :: "string \<Rightarrow> string \<Rightarrow> bool" where
  "HasPrefix s p \<longleftrightarrow> take (length p) s = p"

definition TrimPrefix :: "string \<Rightarrow> string \<Rightarrow> string" where
  "TrimPrefix s p = (if HasPrefix s p then drop (length p) s else s)"

text \<open>\<^verbatim>\<open>strings.ReplaceAll(s, old, new)\<close> for a pattern of one byte, the only use.\<close>

definition ReplaceAll1 :: "string \<Rightarrow> char \<Rightarrow> string \<Rightarrow> string" where
  "ReplaceAll1 s c r = concat (map (\<lambda>x. if x = c then r else [x]) s)"

fun Join :: "string list \<Rightarrow> string \<Rightarrow> string" where
  "Join [] sep = []"
| "Join [x] sep = x"
| "Join (x # xs) sep = x @ sep @ Join xs sep"

text \<open>\<^verbatim>\<open>strings.Split(s, c)\<close> for a separator of one byte.\<close>

fun Split1 :: "char \<Rightarrow> string \<Rightarrow> string list" where
  "Split1 c [] = [[]]"
| "Split1 c (x # xs) =
     (if x = c then [] # Split1 c xs
      else (case Split1 c xs of [] \<Rightarrow> [[x]] | y # ys \<Rightarrow> (x # y) # ys))"

text \<open>
  Raw string literals: \<open>lines_nl [l1, l2, \<dots>]\<close> is a literal that starts with a line break
  and has the lines \<open>l1\<close>, \<open>l2\<close>, \<dots>; \<open>tabs n l\<close> is the line \<open>l\<close> after \<open>n\<close> tabs.
\<close>

definition nl :: string where
  "nl = [CHR 0x0A]"

definition tabs :: "nat \<Rightarrow> string \<Rightarrow> string" where
  "tabs n l = replicate n (CHR 0x09) @ l"

definition lines_nl :: "string list \<Rightarrow> string" where
  "lines_nl ls = concat (map (\<lambda>l. nl @ l) ls)"

lemma HasPrefix_append [simp]: "HasPrefix (p @ s) p"
  by (simp add: HasPrefix_def)

lemma HasPrefix_Nil [simp]: "HasPrefix s []"
  by (simp add: HasPrefix_def)

lemma HasPrefix_Cons [simp]: "HasPrefix (x # xs) (y # ys) \<longleftrightarrow> x = y \<and> HasPrefix xs ys"
  by (auto simp: HasPrefix_def)

lemma HasPrefix_Nil_Cons [simp]: "\<not> HasPrefix [] (y # ys)"
  by (simp add: HasPrefix_def)

lemma HasPrefix_iff: "HasPrefix s p \<longleftrightarrow> (\<exists>t. s = p @ t)"
  by (metis HasPrefix_def append_eq_conv_conj)

lemma TrimPrefix_append [simp]: "TrimPrefix (p @ s) p = s"
  by (simp add: TrimPrefix_def)

lemma Split1_nonempty [simp]: "Split1 c s \<noteq> []"
  by (cases s) (auto split: list.splits)

lemma Split1_no_sep: "c \<notin> set s \<Longrightarrow> Split1 c s = [s]"
  by (induction s) auto

lemma Split1_append_sep: "c \<notin> set s \<Longrightarrow> Split1 c (s @ c # t) = s # Split1 c t"
  by (induction s) auto

lemma Split1_parts: "p \<in> set (Split1 c s) \<Longrightarrow> c \<notin> set p"
  by (induction s arbitrary: p) (auto split: list.splits if_splits)

lemma Join_Split1: "Join (Split1 c s) [c] = s"
proof (induction s)
  case (Cons x xs)
  then show ?case
    by (cases "Split1 c xs"; cases "tl (Split1 c xs)") (auto split: list.splits)
qed simp

lemma ReplaceAll1_id: "c \<notin> set s \<Longrightarrow> ReplaceAll1 s c r = s"
  by (induction s) (auto simp: ReplaceAll1_def)

lemma ReplaceAll1_no_char: "c \<notin> set r \<Longrightarrow> c \<notin> set (ReplaceAll1 s c r)"
  by (induction s) (auto simp: ReplaceAll1_def)

subsection \<open>strconv and the verb \<open>%d\<close>\<close>

definition digit :: "nat \<Rightarrow> char" where
  "digit n = ''0123456789'' ! n"

fun show_nat :: "nat \<Rightarrow> string" where
  "show_nat n = (if n < 10 then [digit n] else show_nat (n div 10) @ [digit (n mod 10)])"

declare show_nat.simps [simp del]

definition Itoa :: "int \<Rightarrow> string" where
  "Itoa i = (if i < 0 then CHR ''-'' # show_nat (nat (- i)) else show_nat (nat i))"

text \<open>\<^verbatim>\<open>%d\<close> and \<^verbatim>\<open>strconv.FormatInt(int64(x), 10)\<close> of an \<^verbatim>\<open>int32\<close>.\<close>

definition Format32 :: "int32 \<Rightarrow> string" where
  "Format32 w = Itoa (sint w)"

definition digit_val :: "char \<Rightarrow> nat" where
  "digit_val c = of_char c - 48"

definition read_nat :: "string \<Rightarrow> nat" where
  "read_nat s = foldl (\<lambda>a c. 10 * a + digit_val c) 0 s"

lemma nat_less_10_cases: "n < 10 \<Longrightarrow> n = 0 \<or> n = 1 \<or> n = 2 \<or> n = 3 \<or> n = 4 \<or> n = 5 \<or> n = 6 \<or> n = 7 \<or> n = 8 \<or> n = (9::nat)"
  by arith

lemma digit_val_digit [simp]: "n < 10 \<Longrightarrow> digit_val (digit n) = n"
  by (drule nat_less_10_cases) (auto simp: digit_def digit_val_def)

lemma digit_in_digits: "n < 10 \<Longrightarrow> digit n \<in> set ''0123456789''"
  by (drule nat_less_10_cases) (auto simp: digit_def)

lemma show_nat_digits: "set (show_nat n) \<subseteq> set ''0123456789''"
proof (induction n rule: show_nat.induct)
  case (1 n)
  show ?case
  proof (cases "n < 10")
    case True
    then show ?thesis
      using digit_in_digits by (simp add: show_nat.simps [of n])
  next
    case False
    with 1 have "set (show_nat (n div 10)) \<subseteq> set ''0123456789''" by simp
    moreover have "digit (n mod 10) \<in> set ''0123456789''" by (rule digit_in_digits) simp
    ultimately show ?thesis
      using False by (simp add: show_nat.simps [of n])
  qed
qed

lemma show_nat_nonempty [simp]: "show_nat n \<noteq> []"
  by (subst show_nat.simps) simp

lemma read_show_nat [simp]: "read_nat (show_nat n) = n"
proof (induction n rule: show_nat.induct)
  case (1 n)
  show ?case
    using 1 by (cases "n < 10") (simp_all add: show_nat.simps [of n] read_nat_def)
qed

lemma show_nat_inject [simp]: "show_nat m = show_nat n \<longleftrightarrow> m = n"
  by (metis read_show_nat)

lemma show_nat_no_dash: "CHR ''-'' \<notin> set (show_nat n)"
  using show_nat_digits [of n] by auto

lemma show_nat_no_slash: "CHR ''/'' \<notin> set (show_nat n)"
  using show_nat_digits [of n] by auto

lemma Itoa_inject [simp]: "Itoa i = Itoa j \<longleftrightarrow> i = j"
proof
  have dash: "CHR ''-'' # s \<noteq> show_nat n" for s n
    by (metis list.set_intros(1) show_nat_no_dash)
  assume "Itoa i = Itoa j"
  then show "i = j"
    using dash dash [symmetric] by (auto simp: Itoa_def split: if_splits)
qed simp

lemma Format32_inject [simp]: "Format32 v = Format32 w \<longleftrightarrow> v = w"
  by (auto simp: Format32_def intro: signed_word_eqI)

text \<open>A family of names \<open>prefix\<close>, decimal index, \<open>suffix\<close>: distinct indices give distinct names.\<close>

locale indexed_names =
  fixes name :: "nat \<Rightarrow> string" and pre :: string and suf :: string
  assumes shape: "name i = pre @ show_nat i @ suf"
begin

lemma name_inject: "name i = name j \<longleftrightarrow> i = j"
  by (simp add: shape)

lemma distinct_names: "distinct (map name [a..<b])"
  by (rule distinct_map_upt) (simp add: name_inject)

lemma name_has_prefix: "HasPrefix (name i) pre"
  by (simp add: shape)

lemma not_a_name: "\<not> HasPrefix s pre \<Longrightarrow> s \<noteq> name i"
  using name_has_prefix [of i] by auto

end

end
