(* ===== verification/GoPath.thy ===== *)
theory GoPath
  imports GoStd
begin

section \<open>GoPath: path.Clean and path.Join\<close>

text \<open>
  \<^verbatim>\<open>path.Clean\<close> processes a slash-separated path from left to right: empty elements and
  \<^verbatim>\<open>.\<close> are dropped, \<^verbatim>\<open>..\<close> removes the element before it, a \<^verbatim>\<open>..\<close> at the start
  is dropped in a rooted path and kept in a relative one. \<open>clean_elem\<close> is one step of that
  loop on the stack of elements kept so far (last element first).
\<close>

definition slash :: char where
  "slash = CHR ''/''"

definition clean_elem :: "bool \<Rightarrow> string list \<Rightarrow> string \<Rightarrow> string list" where
  "clean_elem rooted st e =
     (if e = [] \<or> e = ''.'' then st
      else if e = ''..'' then
        (case st of
           [] \<Rightarrow> if rooted then [] else [''..'']
         | t # st' \<Rightarrow> if t = ''..'' then ''..'' # st else st')
      else e # st)"

definition Clean :: "string \<Rightarrow> string" where
  "Clean p =
     (if p = [] then ''.''
      else
        let rooted = (hd p = slash);
            out = Join (rev (foldl (clean_elem rooted) [] (Split1 slash p))) ''/''
        in if rooted then slash # out else if out = [] then ''.'' else out)"

text \<open>The buffer loop of \<^verbatim>\<open>path.Join\<close>: leading empty elements are skipped.\<close>

definition join_elem :: "string \<Rightarrow> string \<Rightarrow> string" where
  "join_elem buf e =
     (if buf \<noteq> [] \<or> e \<noteq> [] then (if buf \<noteq> [] then buf @ ''/'' else buf) @ e else buf)"

definition path_join :: "string list \<Rightarrow> string" where
  "path_join elems =
     (if concat elems = [] then [] else Clean (foldl join_elem [] elems))"

subsection \<open>Clean absolute paths as component lists\<close>

definition valid_comp :: "string \<Rightarrow> bool" where
  "valid_comp c \<longleftrightarrow> c \<noteq> [] \<and> c \<noteq> ''.'' \<and> c \<noteq> ''..'' \<and> slash \<notin> set c"

definition abs_path :: "string list \<Rightarrow> string" where
  "abs_path cs = concat (map (\<lambda>c. slash # c) cs)"

lemma abs_path_simps [simp]:
  "abs_path [] = []"
  "abs_path (c # cs) = slash # c @ abs_path cs"
  "abs_path (cs @ ds) = abs_path cs @ abs_path ds"
  by (simp_all add: abs_path_def)

lemma abs_path_eq_Nil [simp]: "abs_path cs = [] \<longleftrightarrow> cs = []"
  by (cases cs) simp_all

lemma Split1_slash_append:
  "slash \<notin> set c \<Longrightarrow> Split1 slash (c @ abs_path cs) = c # (if cs = [] then [] else tl (Split1 slash (abs_path cs)))"
  by (cases cs) (simp_all add: Split1_no_sep Split1_append_sep)

lemma Split1_abs_path:
  "cs \<noteq> [] \<Longrightarrow> list_all (\<lambda>c. slash \<notin> set c) cs \<Longrightarrow> Split1 slash (abs_path cs) = [] # cs"
proof (induction cs)
  case (Cons c cs)
  then show ?case
    by (cases "cs = []") (simp_all add: Split1_slash_append Split1_no_sep)
qed simp

lemma abs_path_inject:
  assumes "list_all (\<lambda>c. slash \<notin> set c) cs" "list_all (\<lambda>c. slash \<notin> set c) ds"
    and "abs_path cs = abs_path ds"
  shows "cs = ds"
proof (cases "cs = []")
  case True
  with assms(3) show ?thesis by (metis abs_path_eq_Nil)
next
  case False
  with assms(3) have "ds \<noteq> []" by (metis abs_path_eq_Nil)
  with False assms show ?thesis
    by (metis Split1_abs_path list.inject)
qed

lemma foldl_clean_valid:
  "list_all valid_comp cs \<Longrightarrow> foldl (clean_elem r) st cs = rev cs @ st"
  by (induction cs arbitrary: st) (auto simp: clean_elem_def valid_comp_def)

lemma Join_abs_path: "cs \<noteq> [] \<Longrightarrow> slash # Join cs ''/'' = abs_path cs"
proof (induction cs rule: list_nonempty_induct)
  case (cons x xs)
  then show ?case by (cases xs) (auto simp: slash_def)
qed simp

lemma valid_comps_no_slash: "list_all valid_comp cs \<Longrightarrow> list_all (\<lambda>c. slash \<notin> set c) cs"
  by (auto simp: list_all_iff valid_comp_def)

lemma Clean_abs_path:
  assumes "cs \<noteq> []" and "list_all valid_comp cs"
  shows "Clean (abs_path cs) = abs_path cs"
proof -
  have "hd (abs_path cs) = slash" using assms(1) by (cases cs) auto
  moreover have "Split1 slash (abs_path cs) = [] # cs"
    using assms by (simp add: Split1_abs_path valid_comps_no_slash)
  moreover have "foldl (clean_elem True) [] ([] # cs) = rev cs"
    using assms by (simp add: clean_elem_def foldl_clean_valid)
  ultimately show ?thesis
    using assms(1) by (simp add: Clean_def Join_abs_path)
qed

lemma foldl_join_elem:
  "buf \<noteq> [] \<Longrightarrow> foldl join_elem buf es = buf @ abs_path es"
  by (induction es arbitrary: buf) (simp_all add: join_elem_def slash_def)

text \<open>
  The law the components use: joining a clean absolute path with clean components appends
  the components.
\<close>

theorem path_join_abs:
  assumes "cs \<noteq> []" "list_all valid_comp cs" "list_all valid_comp ds"
  shows "path_join (abs_path cs # ds) = abs_path (cs @ ds)"
proof -
  have "foldl join_elem [] (abs_path cs # ds) = abs_path (cs @ ds)"
    using assms(1) by (simp add: foldl_join_elem join_elem_def)
  moreover have "Clean (abs_path (cs @ ds)) = abs_path (cs @ ds)"
    using assms by (intro Clean_abs_path) auto
  ultimately show ?thesis
    using assms(1) by (simp add: path_join_def)
qed

subsection \<open>What a cleaned rooted path looks like\<close>

lemma clean_elem_rooted_valid:
  "list_all valid_comp st \<Longrightarrow> slash \<notin> set e \<Longrightarrow> list_all valid_comp (clean_elem True st e)"
  by (auto simp: clean_elem_def valid_comp_def split: list.splits)

lemma foldl_clean_rooted_valid:
  "list_all valid_comp st \<Longrightarrow> list_all (\<lambda>e. slash \<notin> set e) es \<Longrightarrow>
   list_all valid_comp (foldl (clean_elem True) st es)"
  by (induction es arbitrary: st) (simp_all add: clean_elem_rooted_valid)

text \<open>
  The elements of a rooted path after cleaning: the loop of \<^verbatim>\<open>Clean\<close> on its elements.
\<close>

definition clean_comps :: "string list \<Rightarrow> string list" where
  "clean_comps es = rev (foldl (clean_elem True) [] es)"

lemma clean_comps_valid:
  "list_all (\<lambda>e. slash \<notin> set e) es \<Longrightarrow> list_all valid_comp (clean_comps es)"
  by (simp add: clean_comps_def foldl_clean_rooted_valid)

lemma Clean_rooted:
  "hd p = slash \<Longrightarrow> p \<noteq> [] \<Longrightarrow> Clean p = (let cs = clean_comps (Split1 slash p) in if cs = [] then ''/'' else abs_path cs)"
  by (auto simp: Clean_def clean_comps_def Let_def Join_abs_path) (simp add: slash_def)

theorem Clean_idem_rooted:
  assumes "p \<noteq> []" "hd p = slash"
  shows "Clean (Clean p) = Clean p"
proof -
  let ?cs = "clean_comps (Split1 slash p)"
  have v: "list_all valid_comp ?cs"
    by (rule clean_comps_valid) (auto simp: list_all_iff dest: Split1_parts)
  have root: "Clean ''/'' = ''/''"
    by (simp add: Clean_def slash_def clean_elem_def)
  show ?thesis
    using v assms root by (cases "?cs = []") (simp_all add: Clean_rooted Let_def Clean_abs_path)
qed

lemma path_join_abs_any:
  assumes "cs \<noteq> []" "list_all valid_comp cs"
  shows "path_join [abs_path cs, e] =
    (let ds = clean_comps (cs @ Split1 slash e) in if ds = [] then ''/'' else abs_path ds)"
proof -
  have 1: "foldl join_elem [] [abs_path cs, e] = abs_path cs @ slash # e"
    using assms(1) by (simp add: join_elem_def slash_def)
  have 2: "Split1 slash (abs_path cs @ slash # e) = [] # cs @ Split1 slash e"
    using valid_comps_no_slash [OF assms(2)]
  proof (induction cs)
    case (Cons c cs)
    have "Split1 slash (c @ abs_path cs @ slash # e) = c # tl (Split1 slash (abs_path cs @ slash # e))"
      using Cons.prems by (cases cs) (simp_all add: Split1_append_sep)
    with Cons show ?case by simp
  qed simp
  have "hd (abs_path cs @ slash # e) = slash" using assms(1) by (cases cs) auto
  then show ?thesis
    using assms(1) 1 2 by (simp add: path_join_def Clean_rooted clean_comps_def clean_elem_def)
qed

lemma path_join_abs_shift:
  "cs \<noteq> [] \<Longrightarrow> path_join (abs_path cs # c # es) = path_join (abs_path (cs @ [c]) # es)"
  by (simp add: path_join_def join_elem_def slash_def)

lemma foldl_clean_append:
  "foldl (clean_elem r) st (xs @ ys) = foldl (clean_elem r) (foldl (clean_elem r) st xs) ys"
  by simp

lemma Split1_Join:
  "ds \<noteq> [] \<Longrightarrow> list_all (\<lambda>d. slash \<notin> set d) ds \<Longrightarrow> Split1 slash (Join ds ''/'') = ds"
proof (induction ds rule: list_nonempty_induct)
  case (cons x xs)
  then show ?case
    by (cases xs) (simp_all add: Split1_append_sep flip: slash_def)
qed (simp add: Split1_no_sep)

text \<open>Joining a slash-separated list of clean components appends them.\<close>

lemma path_join_abs_Join:
  assumes "cs \<noteq> []" "list_all valid_comp cs" "list_all valid_comp ds"
  shows "path_join [abs_path cs, Join ds ''/''] = abs_path (cs @ ds)"
proof (cases "ds = []")
  case True
  have "clean_comps (cs @ [[]]) = cs"
    using assms(2) by (simp add: clean_comps_def foldl_clean_valid clean_elem_def)
  with True assms show ?thesis by (simp add: path_join_abs_any)
next
  case False
  have "Split1 slash (Join ds ''/'') = ds"
    using False assms(3) by (simp add: Split1_Join valid_comps_no_slash)
  moreover have "clean_comps (cs @ ds) = cs @ ds"
    using assms(2,3) by (simp add: clean_comps_def foldl_clean_valid)
  ultimately show ?thesis
    using assms(1,2) by (simp add: path_join_abs_any Let_def)
qed

subsection \<open>A directory that holds a path\<close>

text \<open>
  \<open>covers m p\<close>: the cleaned absolute path \<open>p\<close> is \<open>m\<close> or lies below it, decided on path
  elements (\<^verbatim>\<open>/a\<close> covers \<^verbatim>\<open>/a/b\<close> but not \<^verbatim>\<open>/ab\<close>).
\<close>

definition covers :: "string \<Rightarrow> string \<Rightarrow> bool" where
  "covers m p \<longleftrightarrow> prefix (Split1 slash m) (Split1 slash p)"

lemma covers_refl [simp]: "covers p p"
  by (simp add: covers_def)

lemma covers_abs_path:
  assumes "cs \<noteq> []" "ds \<noteq> []" "list_all valid_comp cs" "list_all valid_comp ds"
  shows "covers (abs_path cs) (abs_path ds) \<longleftrightarrow> prefix cs ds"
  using assms by (simp add: covers_def Split1_abs_path valid_comps_no_slash)

end
