(* ===== verification/Kube.thy ===== *)
theory Kube
  imports GoPath
begin

section \<open>Kube: the Kubernetes API objects the operator builds\<close>

text \<open>
  The structs of \<^verbatim>\<open>k8s.io/api\<close> that the sources fill in, as records with the fields the
  sources set or read. They are plain data; the API server and controller-runtime behind them
  are parameters of the definitions that call them (theories \<open>OperatorGo\<close>, \<open>Secrets\<close>,
  \<open>Controller\<close>). A field that is a one-of (\<^verbatim>\<open>VolumeSource\<close>, \<^verbatim>\<open>EnvVarSource\<close>) is a
  datatype with one constructor per alternative in use.
\<close>

type_synonym labels = "(string, string) go_map"

record KeySelector =
  sel_Name :: string
  sel_Key :: string

datatype EnvVarSource =
    FieldRef string
  | ConfigMapKeyRef KeySelector
  | SecretKeyRef KeySelector

record EnvVar =
  env_Name :: string
  env_Value :: string
  env_ValueFrom :: "EnvVarSource option"

record VolumeMount =
  vm_Name :: string
  vm_MountPath :: string
  vm_SubPath :: string
  vm_ReadOnly :: bool

record KeyToPath =
  ktp_Key :: string
  ktp_Path :: string

text \<open>\<open>OtherSource\<close> stands for a volume source made by a library builder.\<close>

datatype VolumeSource =
    ConfigMapSource string
  | EmptyDirSource
  | SecretSource string "KeyToPath list"
  | OtherSource string

record Volume =
  vol_Name :: string
  vol_Source :: VolumeSource

record ContainerPort =
  port_Name :: string
  port_ContainerPort :: int32

record ResourceRequirements =
  res_Requests :: "(string, string) go_map"
  res_Limits :: "(string, string) go_map"

record Probe =
  probe_FailureThreshold :: int32
  probe_InitialDelaySeconds :: int32
  probe_PeriodSeconds :: int32
  probe_SuccessThreshold :: int32
  probe_TimeoutSeconds :: int32
  probe_TCPPort :: string

text \<open>\<^verbatim>\<open>corev1.PullPolicy\<close> is a string type; a container that does not set it has the empty string.\<close>

type_synonym PullPolicy = string

definition PullIfNotPresent :: PullPolicy where
  "PullIfNotPresent = ''IfNotPresent''"

definition PullUnset :: PullPolicy where
  "PullUnset = []"

record SecurityContext =
  sc_RunAsUser :: int
  sc_RunAsGroup :: int
  sc_NonRoot :: bool

record Container =
  c_Name :: string
  c_Image :: string
  c_ImagePullPolicy :: PullPolicy
  c_Command :: "string list"
  c_Args :: "string list"
  c_Env :: "EnvVar list"
  c_VolumeMounts :: "VolumeMount list"
  c_Ports :: "ContainerPort list"
  c_Resources :: ResourceRequirements
  c_LivenessProbe :: "Probe option"
  c_StartupProbe :: "Probe option"
  c_SecurityContext :: "SecurityContext option"

record PodSpec =
  pod_InitContainers :: "Container list"
  pod_Containers :: "Container list"
  pod_Volumes :: "Volume list"
  pod_ServiceAccountName :: string
  pod_RestartPolicy :: string
  pod_ImagePullSecrets :: "string list"
  pod_RunAsUser :: "int option"
  pod_RunAsGroup :: "int option"
  pod_FSGroup :: "int option"

record ObjectMeta =
  meta_Name :: string
  meta_Namespace :: string
  meta_Labels :: labels
  meta_Annotations :: labels

record StatefulSet =
  sts_Meta :: ObjectMeta
  sts_Replicas :: "int32 option"
  sts_Pod :: PodSpec

record ConfigMap =
  cm_Meta :: ObjectMeta
  cm_Data :: "string \<rightharpoonup> string"

record Secret =
  sec_Meta :: ObjectMeta
  sec_Data :: "string \<rightharpoonup> string"

record Service =
  svc_Meta :: ObjectMeta
  svc_ClusterIP :: string
  svc_PublishNotReadyAddresses :: bool
  svc_Selector :: labels
  svc_Ports :: "ContainerPort list"

record Job =
  job_Meta :: ObjectMeta
  job_BackoffLimit :: int32
  job_TTLSecondsAfterFinished :: int32
  job_TemplateLabels :: labels
  job_Pod :: PodSpec

record PolicyRule =
  rule_APIGroups :: "string list"
  rule_Resources :: "string list"
  rule_Verbs :: "string list"

text \<open>\<^verbatim>\<open>ctrlclient.Object\<close>: the dynamic type of a built object.\<close>

datatype Object =
    ObjStatefulSet StatefulSet
  | ObjConfigMap ConfigMap
  | ObjSecret Secret
  | ObjService Service
  | ObjJob Job
  | ObjOther string

definition ClusterIPNone :: string where
  "ClusterIPNone = ''None''"

subsection \<open>Well-formed pods\<close>

text \<open>
  The API server accepts a pod only if the names of its volumes are distinct, every mount
  names one of them, and the mount paths of a container are distinct; and an environment in
  which no name is bound twice has one meaning.
\<close>

definition env_ok :: "EnvVar list \<Rightarrow> bool" where
  "env_ok es \<longleftrightarrow> distinct (map env_Name es)"

definition mounts_backed :: "Volume list \<Rightarrow> VolumeMount list \<Rightarrow> bool" where
  "mounts_backed vs ms \<longleftrightarrow> set (map vm_Name ms) \<subseteq> set (map vol_Name vs)"

definition volumes_ok :: "Volume list \<Rightarrow> bool" where
  "volumes_ok vs \<longleftrightarrow> distinct (map vol_Name vs)"

definition mount_paths_ok :: "VolumeMount list \<Rightarrow> bool" where
  "mount_paths_ok ms \<longleftrightarrow> distinct (map vm_MountPath ms)"

lemma mounts_backed_append [simp]:
  "mounts_backed vs (ms @ ns) \<longleftrightarrow> mounts_backed vs ms \<and> mounts_backed vs ns"
  by (simp add: mounts_backed_def)

lemma mounts_backed_mono:
  "mounts_backed vs ms \<Longrightarrow> set (map vol_Name vs) \<subseteq> set (map vol_Name ws) \<Longrightarrow> mounts_backed ws ms"
  by (auto simp: mounts_backed_def)

lemma mounts_backed_Nil [simp]: "mounts_backed vs []"
  by (simp add: mounts_backed_def)

text \<open>A file below one of the mounts of a container.\<close>

definition mounted :: "VolumeMount list \<Rightarrow> string \<Rightarrow> bool" where
  "mounted ms p \<longleftrightarrow> (\<exists>m \<in> set ms. covers (vm_MountPath m) p)"

end
