(* ===== verification/Json.thy ===== *)
theory Json
  imports Prelude
begin

section \<open>Json: documents and their decoding into Go values\<close>

text \<open>
  A resource reaches the operator as a JSON document, which the client decodes into the structs
  of the API package with the rules of Go's JSON decoder: an object member fills the field whose
  tag names it, a missing member and \<^verbatim>\<open>null\<close> leave the zero value, a member of another type is an
  error, and so is a number that does not fit its integer type. Encoding writes the members in
  the order of the fields, leaves out empty values of fields tagged \<^verbatim>\<open>omitempty\<close> and writes maps
  in key order. \<open>JFloat\<close> is a number literal that is not an integer. The member names of an
  object are distinct, as in every document the API server stores.
\<close>

datatype json =
    JNull
  | JBool bool
  | JNum int
  | JFloat string
  | JStr string
  | JArr "json list"
  | JObj "(string \<times> json) list"

type_synonym members = "(string \<times> json) list"

definition TypeError :: "string \<Rightarrow> go_error" where
  "TypeError t = Errorf (''json: cannot unmarshal into Go value of type '' @ t)"

subsection \<open>Decoding\<close>

text \<open>The value a member gives to a field: \<^verbatim>\<open>null\<close> is as good as absent.\<close>

definition member :: "string \<Rightarrow> members \<Rightarrow> json option" where
  "member k ms = (case map_of ms k of Some JNull \<Rightarrow> None | r \<Rightarrow> r)"

fun dec_string :: "json \<Rightarrow> string outcome" where
  "dec_string (JStr s) = Ok s"
| "dec_string _ = Err (TypeError ''string'')"

fun dec_bool :: "json \<Rightarrow> bool outcome" where
  "dec_bool (JBool b) = Ok b"
| "dec_bool _ = Err (TypeError ''bool'')"

definition in_int32 :: "int \<Rightarrow> bool" where
  "in_int32 i \<longleftrightarrow> - (2 ^ 31) \<le> i \<and> i < 2 ^ 31"

fun dec_int32 :: "json \<Rightarrow> int32 outcome" where
  "dec_int32 (JNum i) = (if in_int32 i then Ok (word_of_int i) else Err (TypeError ''int32''))"
| "dec_int32 _ = Err (TypeError ''int32'')"

text \<open>Elements of a slice and values of a map: \<^verbatim>\<open>null\<close> gives the zero value of the element type.\<close>

definition dec_elem :: "'a \<Rightarrow> (json \<Rightarrow> 'a outcome) \<Rightarrow> json \<Rightarrow> 'a outcome" where
  "dec_elem zero dec j = (if j = JNull then Ok zero else dec j)"

primrec map_o :: "('a \<Rightarrow> 'b outcome) \<Rightarrow> 'a list \<Rightarrow> 'b list outcome" where
  "map_o f [] = Ok []"
| "map_o f (x # xs) = bind_o (f x) (\<lambda>y. bind_o (map_o f xs) (\<lambda>ys. Ok (y # ys)))"

fun dec_array :: "'a \<Rightarrow> (json \<Rightarrow> 'a outcome) \<Rightarrow> json \<Rightarrow> 'a list outcome" where
  "dec_array zero dec (JArr js) = map_o (dec_elem zero dec) js"
| "dec_array zero dec _ = Err (TypeError ''slice'')"

fun dec_map :: "'a \<Rightarrow> (json \<Rightarrow> 'a outcome) \<Rightarrow> json \<Rightarrow> (string, 'a) go_map outcome" where
  "dec_map zero dec (JObj ms) = map_o (\<lambda>e. bind_o (dec_elem zero dec (snd e)) (\<lambda>v. Ok (fst e, v))) ms"
| "dec_map zero dec _ = Err (TypeError ''map'')"

fun dec_struct :: "(members \<Rightarrow> 'a outcome) \<Rightarrow> json \<Rightarrow> 'a outcome" where
  "dec_struct dec (JObj ms) = dec ms"
| "dec_struct dec _ = Err (TypeError ''struct'')"

text \<open>A field of value type, and one of pointer (or slice) type.\<close>

definition field :: "'a \<Rightarrow> (json \<Rightarrow> 'a outcome) \<Rightarrow> string \<Rightarrow> members \<Rightarrow> 'a outcome" where
  "field zero dec k ms = (case member k ms of None \<Rightarrow> Ok zero | Some j \<Rightarrow> dec j)"

definition ptr_field :: "(json \<Rightarrow> 'a outcome) \<Rightarrow> string \<Rightarrow> members \<Rightarrow> 'a option outcome" where
  "ptr_field dec k ms = (case member k ms of None \<Rightarrow> Ok None | Some j \<Rightarrow> bind_o (dec j) (\<lambda>x. Ok (Some x)))"

subsection \<open>Encoding\<close>

definition enc_int32 :: "int32 \<Rightarrow> json" where
  "enc_int32 w = JNum (sint w)"

definition omitempty :: "bool \<Rightarrow> string \<Rightarrow> json \<Rightarrow> members" where
  "omitempty is_empty k j = (if is_empty then [] else [(k, j)])"

definition omit_nil :: "string \<Rightarrow> ('a \<Rightarrow> json) \<Rightarrow> 'a option \<Rightarrow> members" where
  "omit_nil k enc p = (case p of None \<Rightarrow> [] | Some x \<Rightarrow> [(k, enc x)])"

definition omit_string :: "string \<Rightarrow> string \<Rightarrow> members" where
  "omit_string k s = omitempty (s = []) k (JStr s)"

definition omit_list :: "string \<Rightarrow> ('a \<Rightarrow> json) \<Rightarrow> 'a list \<Rightarrow> members" where
  "omit_list k enc xs = omitempty (xs = []) k (JArr (map enc xs))"

definition enc_map :: "('a \<Rightarrow> json) \<Rightarrow> (string, 'a) go_map \<Rightarrow> json" where
  "enc_map enc m = JObj (map (\<lambda>e. (fst e, enc (snd e))) (sort_key fst m))"

subsection \<open>Lookup\<close>

named_theorems member_simps "evaluation of member lookups"

lemma member_Nil [member_simps]: "member k [] = None"
  by (simp add: member_def)

lemma member_Cons [member_simps]:
  "member k ((k', j) # ms) = (if k = k' then (if j = JNull then None else Some j) else member k ms)"
  by (cases j) (simp_all add: member_def)

lemma member_skip [member_simps]: "k \<noteq> k' \<Longrightarrow> member k (omitempty b k' j @ ms) = member k ms"
  by (simp add: omitempty_def member_Cons)

lemma member_hit [member_simps]: "j \<noteq> JNull \<Longrightarrow> member k (omitempty b k j @ ms) = (if b then member k ms else Some j)"
  by (simp add: omitempty_def member_Cons)

lemma member_last [member_simps]: "j \<noteq> JNull \<Longrightarrow> member k (omitempty b k' j) = (if k = k' \<and> \<not> b then Some j else None)"
  by (simp add: omitempty_def member_Cons member_Nil)

lemma omit_nil_eq [member_simps]: "omit_nil k enc p = omitempty (p = None) k (enc (the p))"
  by (cases p) (simp_all add: omit_nil_def omitempty_def)

lemma member_absent: "k \<notin> fst ` set ms \<Longrightarrow> member k ms = None"
  by (simp add: member_def map_of_eq_None_iff [THEN iffD2])

lemma not_absent: "member k ms = Some j \<Longrightarrow> j \<noteq> JNull"
  by (auto simp: member_def split: option.splits json.splits)

subsection \<open>Round trips of the building blocks\<close>

lemma map_o_Ok: "(\<And>x. x \<in> set xs \<Longrightarrow> f x = Ok (g x)) \<Longrightarrow> map_o f xs = Ok (map g xs)"
  by (induction xs) simp_all

lemma map_o_Ok_iff: "map_o f xs = Ok ys \<longleftrightarrow> list_all2 (\<lambda>x y. f x = Ok y) xs ys"
  by (induction xs arbitrary: ys) (auto simp: outcome_simps list_all2_Cons1)

lemma map_o_is_ok: "(\<And>x. x \<in> set xs \<Longrightarrow> is_ok (f x)) \<Longrightarrow> is_ok (map_o f xs)"
  by (induction xs) (auto simp: outcome_simps)

lemma sint_in_int32: "in_int32 (sint (w :: int32))"
  using sint_greater_eq [of w] sint_less [of w] by (simp add: in_int32_def)

lemma dec_enc_int32 [simp]: "dec_int32 (enc_int32 w) = Ok w"
  by (simp add: enc_int32_def sint_in_int32)

lemma dec_enc_array:
  assumes "\<And>x. x \<in> set xs \<Longrightarrow> enc x \<noteq> JNull" "\<And>x. x \<in> set xs \<Longrightarrow> dec (enc x) = Ok (f x)"
  shows "dec_array zero dec (JArr (map enc xs)) = Ok (map f xs)"
proof -
  have "map_o (dec_elem zero dec) (map enc xs) = Ok (map f xs)"
    using assms by (induction xs) (simp_all add: dec_elem_def)
  then show ?thesis by simp
qed

lemma dec_enc_map:
  assumes "\<And>x. enc x \<noteq> JNull" "\<And>x. dec (enc x) = Ok (f x)"
  shows "dec_map zero dec (enc_map enc m) = Ok (map (\<lambda>e. (fst e, f (snd e))) (sort_key fst m))"
proof -
  have "map_o (\<lambda>e. bind_o (dec_elem zero dec (snd e)) (\<lambda>v. Ok (fst e, v))) (map (\<lambda>e. (fst e, enc (snd e))) es) =
      Ok (map (\<lambda>e. (fst e, f (snd e))) es)" for es
    using assms by (induction es) (simp_all add: dec_elem_def)
  then show ?thesis by (simp add: enc_map_def)
qed

end
