(* ===== verification/Api.thy ===== *)
theory Api
  imports Kube Json
begin

section \<open>Api: the NifiCluster custom resource\<close>

text \<open>
  The types of \<^verbatim>\<open>api/v1alpha1\<close>: \<^verbatim>\<open>clusterconfig_types.go\<close>, \<^verbatim>\<open>image_types.go\<close>,
  \<^verbatim>\<open>nificluster_types.go\<close> and \<^verbatim>\<open>groupversion_info.go\<close>. A Go pointer is an
  \<open>option\<close> (nil is \<open>None\<close>); a slice whose nil-ness the code tests
  (\<^verbatim>\<open>ClusterConfigSpec.Authentication\<close>) is an optional list. Types of operator-go that the
  sources only pass on are uninterpreted (\<^theory_text>\<open>typedecl\<close>), and of the others the
  records have the fields that the sources read.
\<close>

subsection \<open>Types of operator-go that occur in the resource\<close>

text \<open>A \<^verbatim>\<open>RawExtension\<close> holds the JSON document it was given.\<close>

type_synonym RawExtension = json

typedecl OverridesSpec
typedecl RoleConfigSpec
typedecl ClusterOperationSpec

record OidcSpec =
  oidc_ClientCredentialsSecret :: string
  oidc_ExtraScopes :: "string list"

record RoleGroupConfigSpec =
  GracefulShutdownTimeout :: string

subsection \<open>clusterconfig\_types.go\<close>

record GitSyncSpec =
  Repo :: string
  Branch :: string
  CredentialsSecret :: string
  Depth :: int32
  GitFolder :: string
  GitSyncConfig :: "(string, string) go_map"
  Wait :: string

record AuthenticationSpec =
  AuthenticationClass :: string
  Oidc :: "OidcSpec option"

record CreateReportingTaskJobSpec =
  Enable :: bool
  PodOverrides :: "RawExtension option"

record SensitivePropertiesSpec =
  Algorithm :: string
  AutoGenerate :: bool
  KeySecret :: string

record TlsSpec =
  ServerSecretClass :: string

record ClusterConfigSpec =
  Authentication :: "AuthenticationSpec list option"
  CreateReportingTaskJob :: "CreateReportingTaskJobSpec option"
  ExtraVolumes :: "RawExtension option"
  SensitiveProperties :: "SensitivePropertiesSpec option"
  CustomComponentsGitSync :: "GitSyncSpec list"
  Tls :: "TlsSpec option"
  ListenerClass :: string
  VectorAggregatorConfigMapName :: string
  ZookeeperConfigMapName :: "string option"

subsection \<open>image\_types.go\<close>

definition DefaultRepository :: string where
  "DefaultRepository = ''quay.io/zncdatadev''"

definition DefaultProductVersion :: string where
  "DefaultProductVersion = ''2.4.0''"

definition DefaultProductName :: string where
  "DefaultProductName = ''nifi''"

record ImageSpec =
  img_Custom :: string
  img_Repo :: string
  img_KubedoopVersion :: string
  img_ProductVersion :: string
  img_PullPolicy :: "PullPolicy option"
  img_PullSecretName :: string

subsection \<open>nificluster\_types.go\<close>

record ConfigSpec =
  cfg_RoleGroupConfigSpec :: "RoleGroupConfigSpec option"

record JVMArgumentOverridesSpec =
  jvm_Add :: "string list"
  jvm_Remove :: "string list"
  jvm_RemoveRegex :: "string list"

record RoleGroupSpec =
  rg_Replicas :: "int32 option"
  rg_Config :: "ConfigSpec option"
  rg_OverridesSpec :: "OverridesSpec option"
  rg_JVMArgumentOverrides :: "JVMArgumentOverridesSpec option"

record NodesSpec =
  RoleGroups :: "(string, RoleGroupSpec) go_map"
  RoleConfig :: "RoleConfigSpec option"
  nodes_Config :: "ConfigSpec option"
  nodes_OverridesSpec :: "OverridesSpec option"
  nodes_JVMArgumentOverrides :: "JVMArgumentOverridesSpec option"

record NifiClusterSpec =
  ClusterConfig :: "ClusterConfigSpec option"
  ClusterOperation :: "ClusterOperationSpec option"
  spec_Image :: "ImageSpec option"
  Nodes :: "NodesSpec option"

record NifiCluster =
  nc_Name :: string
  nc_Namespace :: string
  nc_Spec :: NifiClusterSpec

subsection \<open>groupversion\_info.go\<close>

record GroupVersionKind =
  gvk_Group :: string
  gvk_Version :: string
  gvk_Kind :: string

definition GroupVersion :: "string \<times> string" where
  "GroupVersion = (''nifi.kubedoop.dev'', ''v1alpha1'')"

text \<open>
  The builder that collects the kinds of the API group (a registered object is known by the name of
  its Go type), as the package initialisation of \<^verbatim>\<open>nificluster_types.go\<close> leaves it.
\<close>

record scheme_builder =
  sch_GroupVersion :: "string \<times> string"
  sch_Kinds :: "string list"

definition SchemeBuilder :: scheme_builder where
  "SchemeBuilder = \<lparr>sch_GroupVersion = GroupVersion, sch_Kinds = []\<rparr>"

definition Register :: "string list \<Rightarrow> scheme_builder \<Rightarrow> scheme_builder" where
  "Register kinds b = b\<lparr>sch_Kinds := sch_Kinds b @ kinds\<rparr>"

definition api_scheme :: scheme_builder where
  "api_scheme = Register [''NifiCluster'', ''NifiClusterList''] SchemeBuilder"

end
