(* ===== verification/OperatorGo.thy ===== *)
theory OperatorGo
  imports Api
begin

section \<open>OperatorGo: the library the operator is built on, as parameters\<close>

text \<open>
  The module \<^verbatim>\<open>github.com/zncdatadev/operator-go\<close> is not part of the repository, so its
  constants and functions are parameters: the record \<open>operator_go\<close> (constants and pure
  functions; the argument is called \<open>L\<close> throughout) and one record per builder package.
  What the operator relies on is stated as named predicates on these records
  (\<open>properties_laws\<close>, \<open>configmap_laws\<close>, \<open>container_laws\<close>, \<open>statefulset_laws\<close>,
  \<open>image_laws\<close>, \<open>paths_ok\<close>, \<dots>), which occur as hypotheses of the theorems
  that need them.
\<close>

subsection \<open>Data passed to the library\<close>

record Image =
  im_ProductName :: string
  im_KubedoopVersion :: string
  im_ProductVersion :: string
  im_Custom :: string
  im_Repo :: string
  im_PullPolicy :: PullPolicy
  im_PullSecretName :: string

record ImageOptions =
  io_Custom :: string
  io_Repo :: string
  io_PullPolicy :: PullPolicy
  io_PullSecretName :: string

record ClusterInfo =
  ci_GVK :: GroupVersionKind
  ci_ClusterName :: string

record RoleInfo =
  ri_ClusterInfo :: ClusterInfo
  ri_RoleName :: string

record RoleGroupInfo =
  rgi_RoleInfo :: RoleInfo
  rgi_RoleGroupName :: string

definition rgi_ClusterName :: "RoleGroupInfo \<Rightarrow> string" where
  "rgi_ClusterName i = ci_ClusterName (ri_ClusterInfo (rgi_RoleInfo i))"

definition rgi_RoleName :: "RoleGroupInfo \<Rightarrow> string" where
  "rgi_RoleName i = ri_RoleName (rgi_RoleInfo i)"

text \<open>\<^verbatim>\<open>builder.Options\<close>, after the option functions of a constructor call have run.\<close>

record Options =
  o_ClusterName :: string
  o_RoleName :: string
  o_RoleGroupName :: string
  o_Labels :: labels
  o_Annotations :: labels

definition no_options :: Options where
  "no_options = \<lparr>o_ClusterName = [], o_RoleName = [], o_RoleGroupName = [], o_Labels = [], o_Annotations = []\<rparr>"

text \<open>\<^verbatim>\<open>builder.ServiceBuilderOptions\<close>.\<close>

record ServiceBuilderOptions =
  so_Options :: Options
  so_ListenerClass :: string
  so_Headless :: bool
  so_MatchingLabels :: labels

record SecretVolumeScope =
  scope_Pod :: bool
  scope_Node :: bool
  scope_Service :: "string list"

subsection \<open>Constants and pure functions\<close>

record operator_go =
  KubedoopRoot :: string
  KubedoopDataDir :: string
  KubedoopConfigDirMount :: string
  KubedoopSecretDir :: string
  KubedoopTlsDir :: string
  KubedoopDomain :: string
  ServiceScope :: string
  ExternalUnstable :: string
  LabelKubernetesInstance :: string
  LabelKubernetesManagedBy :: string
  LabelKubernetesComponent :: string
  IndentTab4Spaces :: "string \<Rightarrow> string"
  CommonBashTrapFunctions :: string
  RemoveVectorShutdownFileCommand :: string
  CreateVectorShutdownFileCommand :: string
  GetOwnerNamespace :: string
  GetFullName :: "RoleGroupInfo \<Rightarrow> string"
  RoleGroupLabels :: "RoleGroupInfo \<Rightarrow> labels"
  RoleGroupAnnotations :: "RoleGroupInfo \<Rightarrow> labels"
  ClusterLabels :: "ClusterInfo \<Rightarrow> labels"
  ClusterAnnotations :: "ClusterInfo \<Rightarrow> labels"
  IsStopped :: "ClusterOperationSpec option \<Rightarrow> bool"
  NewImage :: "string \<Rightarrow> string \<Rightarrow> string \<Rightarrow> ImageOptions \<Rightarrow> Image"
  GetImageWithTag :: "Image \<Rightarrow> string outcome"
  MergeConfig :: "ConfigSpec option \<Rightarrow> ConfigSpec option \<Rightarrow> ConfigSpec option outcome"
  MergeOverrides :: "OverridesSpec option \<Rightarrow> OverridesSpec option \<Rightarrow> OverridesSpec option outcome"
  SecretOperatorVolume :: "string \<Rightarrow> string \<Rightarrow> SecretVolumeScope option \<Rightarrow> Volume"
  NewObjectMeta :: "string \<Rightarrow> Options \<Rightarrow> ObjectMeta"

text \<open>The directory constants are clean absolute paths with at least one element.\<close>

definition clean_abs :: "string \<Rightarrow> bool" where
  "clean_abs p \<longleftrightarrow> tl (Split1 slash p) \<noteq> [] \<and> list_all valid_comp (tl (Split1 slash p)) \<and>
     p = abs_path (tl (Split1 slash p))"

definition paths_ok :: "operator_go \<Rightarrow> bool" where
  "paths_ok L \<longleftrightarrow> clean_abs (KubedoopRoot L) \<and> clean_abs (KubedoopDataDir L) \<and>
     clean_abs (KubedoopConfigDirMount L) \<and> clean_abs (KubedoopSecretDir L) \<and> clean_abs (KubedoopTlsDir L)"

lemma clean_abs_path:
  assumes "cs \<noteq> []" "list_all valid_comp cs"
  shows "clean_abs (abs_path cs)"
  using assms by (simp add: clean_abs_def Split1_abs_path valid_comps_no_slash)

lemma clean_absE:
  assumes "clean_abs p"
  obtains cs where "cs \<noteq> []" "list_all valid_comp cs" "p = abs_path cs"
  using assms unfolding clean_abs_def by blast

lemma path_join_clean_abs:
  assumes "clean_abs p" and "list_all valid_comp ds"
  shows "path_join (p # ds) = p @ abs_path ds" and "clean_abs (path_join (p # ds))"
proof -
  from assms(1) obtain cs where cs: "cs \<noteq> []" "list_all valid_comp cs" "p = abs_path cs"
    by (rule clean_absE)
  have "path_join (p # ds) = abs_path (cs @ ds)"
    unfolding cs(3) by (rule path_join_abs [OF cs(1,2) assms(2)])
  moreover have "clean_abs (abs_path (cs @ ds))"
    using cs assms(2) by (intro clean_abs_path) auto
  ultimately show "path_join (p # ds) = p @ abs_path ds" "clean_abs (path_join (p # ds))"
    using cs by simp_all
qed

text \<open>
  Where operator-go's directories lie: those for mounted configuration and for secrets are below the
  root, each in a subdirectory of its own that is none of those the operator itself makes below the
  root or below \<^verbatim>\<open>/kubedoop\<close>.
\<close>

definition layout_laws :: "operator_go \<Rightarrow> bool" where
  "layout_laws L \<longleftrightarrow>
     (\<exists>r m s. list_all valid_comp (r @ m @ s) \<and> r \<noteq> [] \<and> \<not> prefix [''kubedoop'', ''app''] r \<and> m \<noteq> [] \<and> s \<noteq> [] \<and> hd m \<noteq> hd s \<and>
        {hd m, hd s} \<inter> {''nifi'', ''sensitiveproperty'', ''users'', ''app''} = {} \<and>
        KubedoopRoot L = abs_path r \<and> KubedoopConfigDirMount L = abs_path (r @ m) \<and> KubedoopSecretDir L = abs_path (r @ s))"

definition image_laws :: "operator_go \<Rightarrow> bool" where
  "image_laws L \<longleftrightarrow> (\<forall>n k v o'. im_ProductVersion (NewImage L n k v o') = v \<and>
     im_PullSecretName (NewImage L n k v o') = io_PullSecretName o')"

definition volume_laws :: "operator_go \<Rightarrow> bool" where
  "volume_laws L \<longleftrightarrow> (\<forall>n c s. vol_Name (SecretOperatorVolume L n c s) = n)"

text \<open>The full name of a role group is \<^verbatim>\<open>cluster-role-group\<close>.\<close>

definition full_name_law :: "operator_go \<Rightarrow> bool" where
  "full_name_law L \<longleftrightarrow> (\<forall>i. GetFullName L i = rgi_ClusterName i @ ''-'' @ rgi_RoleName i @ ''-'' @ rgi_RoleGroupName i)"

subsection \<open>config/properties\<close>

record 'p properties_pkg =
  NewProperties :: 'p
  PropAdd :: "'p \<Rightarrow> string \<Rightarrow> string \<Rightarrow> 'p"
  PropGet :: "'p \<Rightarrow> string \<Rightarrow> string \<times> bool"
  PropKeys :: "'p \<Rightarrow> string list"
  PropMarshal :: "'p \<Rightarrow> string outcome"

definition prop_lookup :: "'p properties_pkg \<Rightarrow> 'p \<Rightarrow> string \<rightharpoonup> string" where
  "prop_lookup P p k = (if snd (PropGet P p k) then Some (fst (PropGet P p k)) else None)"

definition properties_laws :: "'p properties_pkg \<Rightarrow> bool" where
  "properties_laws P \<longleftrightarrow>
     (\<forall>k. prop_lookup P (NewProperties P) k = None) \<and>
     (\<forall>p k v. prop_lookup P (PropAdd P p k v) = (prop_lookup P p)(k \<mapsto> v)) \<and>
     (\<forall>p. distinct (PropKeys P p) \<and> set (PropKeys P p) = dom (prop_lookup P p))"

definition add_all :: "'p properties_pkg \<Rightarrow> 'p \<Rightarrow> (string \<times> string) list \<Rightarrow> 'p" where
  "add_all P p kvs = foldl (\<lambda>p kv. PropAdd P p (fst kv) (snd kv)) p kvs"

lemma add_all_append [simp]: "add_all P p (xs @ ys) = add_all P (add_all P p xs) ys"
  by (simp add: add_all_def)

lemma lookup_add_all:
  assumes "properties_laws P"
  shows "prop_lookup P (add_all P p kvs) = foldl (\<lambda>m kv. m(fst kv \<mapsto> snd kv)) (prop_lookup P p) kvs"
  using assms by (induction kvs arbitrary: p) (simp_all add: add_all_def properties_laws_def)

lemma lookup_add_all_distinct:
  assumes "properties_laws P" and "distinct (map fst kvs)"
  shows "prop_lookup P (add_all P (NewProperties P) kvs) = map_of kvs"
proof -
  have "prop_lookup P (NewProperties P) = Map.empty"
    using assms(1) by (simp add: properties_laws_def fun_eq_iff)
  then show ?thesis
    using assms by (simp add: lookup_add_all foldl_map_upd)
qed

subsection \<open>builder: config maps and secrets\<close>

record 'c configmap_pkg =
  NewConfigMapBuilder :: "string \<Rightarrow> Options \<Rightarrow> 'c"
  CmAddItem :: "'c \<Rightarrow> string \<Rightarrow> string \<Rightarrow> 'c"
  CmGetObject :: "'c \<Rightarrow> ConfigMap"

definition configmap_laws :: "'c configmap_pkg \<Rightarrow> bool" where
  "configmap_laws C \<longleftrightarrow>
     (\<forall>n opt. cm_Data (CmGetObject C (NewConfigMapBuilder C n opt)) = Map.empty \<and>
        meta_Name (cm_Meta (CmGetObject C (NewConfigMapBuilder C n opt))) = n) \<and>
     (\<forall>c k v. CmGetObject C (CmAddItem C c k v) =
        (CmGetObject C c)\<lparr>cm_Data := (cm_Data (CmGetObject C c))(k \<mapsto> v)\<rparr>)"

record 'c secret_pkg =
  NewSecretBuilder :: "string \<Rightarrow> Options \<Rightarrow> 'c"
  SecAddItem :: "'c \<Rightarrow> string \<Rightarrow> string \<Rightarrow> 'c"
  SecGetObject :: "'c \<Rightarrow> Secret"

definition secret_laws :: "'c secret_pkg \<Rightarrow> bool" where
  "secret_laws C \<longleftrightarrow>
     (\<forall>n opt. sec_Data (SecGetObject C (NewSecretBuilder C n opt)) = Map.empty \<and>
        meta_Name (sec_Meta (SecGetObject C (NewSecretBuilder C n opt))) = n) \<and>
     (\<forall>c k v. SecGetObject C (SecAddItem C c k v) =
        (SecGetObject C c)\<lparr>sec_Data := (sec_Data (SecGetObject C c))(k \<mapsto> v)\<rparr>)"

subsection \<open>builder: containers, stateful sets and services\<close>

record 'b container_pkg =
  NewContainerBuilder :: "string \<Rightarrow> Image \<Rightarrow> 'b"
  SetSecurityContext :: "'b \<Rightarrow> int \<Rightarrow> int \<Rightarrow> bool \<Rightarrow> 'b"
  SetCommand :: "'b \<Rightarrow> string list \<Rightarrow> 'b"
  SetArgs :: "'b \<Rightarrow> string list \<Rightarrow> 'b"
  AddEnvVars :: "'b \<Rightarrow> EnvVar list \<Rightarrow> 'b"
  AddVolumeMounts :: "'b \<Rightarrow> VolumeMount list \<Rightarrow> 'b"
  AddPorts :: "'b \<Rightarrow> ContainerPort list \<Rightarrow> 'b"
  SetLivenessProbe :: "'b \<Rightarrow> Probe \<Rightarrow> 'b"
  SetStartupProbe :: "'b \<Rightarrow> Probe \<Rightarrow> 'b"
  BuildContainer :: "'b \<Rightarrow> Container"

definition container_laws :: "'b container_pkg \<Rightarrow> bool" where
  "container_laws B \<longleftrightarrow>
     (\<forall>n im. let c = BuildContainer B (NewContainerBuilder B n im) in
        c_Name c = n \<and> c_Env c = [] \<and> c_VolumeMounts c = [] \<and> c_Ports c = []) \<and>
     (\<forall>b u g r. BuildContainer B (SetSecurityContext B b u g r) =
        (BuildContainer B b)\<lparr>c_SecurityContext := Some \<lparr>sc_RunAsUser = u, sc_RunAsGroup = g, sc_NonRoot = r\<rparr>\<rparr>) \<and>
     (\<forall>b cs. BuildContainer B (SetCommand B b cs) = (BuildContainer B b)\<lparr>c_Command := cs\<rparr>) \<and>
     (\<forall>b as. BuildContainer B (SetArgs B b as) = (BuildContainer B b)\<lparr>c_Args := as\<rparr>) \<and>
     (\<forall>b es. BuildContainer B (AddEnvVars B b es) = (BuildContainer B b)\<lparr>c_Env := c_Env (BuildContainer B b) @ es\<rparr>) \<and>
     (\<forall>b ms. BuildContainer B (AddVolumeMounts B b ms) =
        (BuildContainer B b)\<lparr>c_VolumeMounts := c_VolumeMounts (BuildContainer B b) @ ms\<rparr>) \<and>
     (\<forall>b ps. BuildContainer B (AddPorts B b ps) = (BuildContainer B b)\<lparr>c_Ports := c_Ports (BuildContainer B b) @ ps\<rparr>) \<and>
     (\<forall>b p. BuildContainer B (SetLivenessProbe B b p) = (BuildContainer B b)\<lparr>c_LivenessProbe := Some p\<rparr>) \<and>
     (\<forall>b p. BuildContainer B (SetStartupProbe B b p) = (BuildContainer B b)\<lparr>c_StartupProbe := Some p\<rparr>)"

record 's statefulset_pkg =
  NewStatefulSetBuilder ::
    "string \<Rightarrow> int32 option \<Rightarrow> Image \<Rightarrow> OverridesSpec option \<Rightarrow> RoleGroupConfigSpec option \<Rightarrow> Options \<Rightarrow> 's"
  AddInitContainer :: "'s \<Rightarrow> Container \<Rightarrow> 's"
  AddContainer :: "'s \<Rightarrow> Container \<Rightarrow> 's"
  AddVolumes :: "'s \<Rightarrow> Volume list \<Rightarrow> 's"
  BuildSts :: "'s \<Rightarrow> Object outcome"

text \<open>
  The contract of the stateful set builder. \<open>contents\<close> reads what the builder holds: the overrides of
  the role group and the init containers, containers and volumes added so far, in order. \<^verbatim>\<open>Build\<close>
  assembles a stateful set from these and then applies the overrides, if there are any. How they are
  applied is the parameter \<open>patch\<close>: the user's pod template is merged into the object, which may fail
  and may change anything in it, so nothing is assumed of \<open>patch\<close>.
\<close>

definition apply_overrides ::
    "(OverridesSpec \<Rightarrow> StatefulSet \<Rightarrow> StatefulSet outcome) \<Rightarrow> OverridesSpec option \<Rightarrow> StatefulSet \<Rightarrow> StatefulSet outcome" where
  "apply_overrides patch ov st = (case ov of None \<Rightarrow> Ok st | Some x \<Rightarrow> patch x st)"

lemma apply_overrides_simps [simp]:
  "apply_overrides patch None st = Ok st" "apply_overrides patch (Some x) st = patch x st"
  by (simp_all add: apply_overrides_def)

definition statefulset_laws ::
    "'s statefulset_pkg \<Rightarrow> ('s \<Rightarrow> OverridesSpec option \<times> Container list \<times> Container list \<times> Volume list)
      \<Rightarrow> (OverridesSpec \<Rightarrow> StatefulSet \<Rightarrow> StatefulSet outcome) \<Rightarrow> bool" where
  "statefulset_laws S contents patch \<longleftrightarrow>
     (\<forall>n r im ov rc opt. contents (NewStatefulSetBuilder S n r im ov rc opt) = (ov, [], [], [])) \<and>
     (\<forall>s c ov is cs vs. contents s = (ov, is, cs, vs) \<longrightarrow> contents (AddInitContainer S s c) = (ov, is @ [c], cs, vs)) \<and>
     (\<forall>s c ov is cs vs. contents s = (ov, is, cs, vs) \<longrightarrow> contents (AddContainer S s c) = (ov, is, cs @ [c], vs)) \<and>
     (\<forall>s ws ov is cs vs. contents s = (ov, is, cs, vs) \<longrightarrow> contents (AddVolumes S s ws) = (ov, is, cs, vs @ ws)) \<and>
     (\<forall>s ov is cs vs. contents s = (ov, is, cs, vs) \<longrightarrow>
        (\<exists>st. pod_InitContainers (sts_Pod st) = is \<and> pod_Containers (sts_Pod st) = cs \<and> pod_Volumes (sts_Pod st) = vs \<and>
           BuildSts S s = bind_o (apply_overrides patch ov st) (\<lambda>st. Ok (ObjStatefulSet st))))"

record 'v service_pkg =
  NewServiceBuilder :: "string \<Rightarrow> ContainerPort list \<Rightarrow> ServiceBuilderOptions \<Rightarrow> 'v"
  SvcGetObject :: "'v \<Rightarrow> Service"

definition service_laws :: "'v service_pkg \<Rightarrow> bool" where
  "service_laws V \<longleftrightarrow> (\<forall>n ps opt. let s = SvcGetObject V (NewServiceBuilder V n ps opt) in
     meta_Name (svc_Meta s) = n \<and> svc_Ports s = ps \<and>
     (so_Headless opt \<longrightarrow> svc_ClusterIP s = ClusterIPNone) \<and>
     (so_MatchingLabels opt \<noteq> [] \<longrightarrow> svc_Selector s = so_MatchingLabels opt))"

end
