(* ===== verification/Instances.thy ===== *)
theory Instances
  imports OperatorGo
begin

section \<open>Instances: concrete library parameters\<close>

text \<open>
  One concrete instance of every library parameter, with the laws of theory \<open>OperatorGo\<close>
  proved for it. The theorems are about every library that satisfies the laws; these instances
  show that the laws can hold together, and the witnesses evaluate at them.
\<close>

definition plain_meta :: "string \<Rightarrow> Options \<Rightarrow> ObjectMeta" where
  "plain_meta n opt = \<lparr>meta_Name = n, meta_Namespace = ''default'', meta_Labels = o_Labels opt, meta_Annotations = o_Annotations opt\<rparr>"

definition kubedoop :: operator_go where
  "kubedoop =
     \<lparr>KubedoopRoot = ''/kubedoop'',
      KubedoopDataDir = ''/kubedoop/data'',
      KubedoopConfigDirMount = ''/kubedoop/mount/config'',
      KubedoopSecretDir = ''/kubedoop/secret'',
      KubedoopTlsDir = ''/kubedoop/tls'',
      KubedoopDomain = ''kubedoop.dev'',
      ServiceScope = ''service'',
      ExternalUnstable = ''external-unstable'',
      LabelKubernetesInstance = ''app.kubernetes.io/instance'',
      LabelKubernetesManagedBy = ''app.kubernetes.io/managed-by'',
      LabelKubernetesComponent = ''app.kubernetes.io/component'',
      IndentTab4Spaces = (\<lambda>s. ReplaceAll1 s (CHR 0x09) ''    ''),
      CommonBashTrapFunctions = [],
      RemoveVectorShutdownFileCommand = [],
      CreateVectorShutdownFileCommand = [],
      GetOwnerNamespace = ''default'',
      GetFullName = (\<lambda>i. rgi_ClusterName i @ ''-'' @ rgi_RoleName i @ ''-'' @ rgi_RoleGroupName i),
      RoleGroupLabels = (\<lambda>i. []),
      RoleGroupAnnotations = (\<lambda>i. []),
      ClusterLabels = (\<lambda>i. []),
      ClusterAnnotations = (\<lambda>i. []),
      IsStopped = (\<lambda>c. False),
      NewImage = (\<lambda>n k v opt. \<lparr>im_ProductName = n, im_KubedoopVersion = k, im_ProductVersion = v,
        im_Custom = io_Custom opt, im_Repo = io_Repo opt, im_PullPolicy = io_PullPolicy opt,
        im_PullSecretName = io_PullSecretName opt\<rparr>),
      GetImageWithTag = (\<lambda>im. Ok (im_Repo im @ ''/'' @ im_ProductName im @ '':'' @ im_ProductVersion im)),
      MergeConfig = (\<lambda>a b. Ok (if b = None then a else b)),
      MergeOverrides = (\<lambda>a b. Ok (case b of None \<Rightarrow> a | Some x \<Rightarrow> Some x)),
      SecretOperatorVolume = (\<lambda>n c s. \<lparr>vol_Name = n, vol_Source = OtherSource c\<rparr>),
      NewObjectMeta = plain_meta\<rparr>"

lemma kubedoop_dirs:
  "KubedoopRoot kubedoop = abs_path [''kubedoop'']"
  "KubedoopDataDir kubedoop = abs_path [''kubedoop'', ''data'']"
  "KubedoopConfigDirMount kubedoop = abs_path [''kubedoop'', ''mount'', ''config'']"
  "KubedoopSecretDir kubedoop = abs_path [''kubedoop'', ''secret'']"
  "KubedoopTlsDir kubedoop = abs_path [''kubedoop'', ''tls'']"
  by (simp_all add: kubedoop_def slash_def)

lemma kubedoop_paths_ok: "paths_ok kubedoop"
  unfolding paths_ok_def kubedoop_dirs
  by (intro conjI clean_abs_path) (simp_all add: valid_comp_def slash_def)

lemma kubedoop_layout: "layout_laws kubedoop"
  unfolding layout_laws_def
  by (rule exI [of _ "[''kubedoop'']"], rule exI [of _ "[''mount'', ''config'']"], rule exI [of _ "[''secret'']"])
    (simp add: kubedoop_def valid_comp_def slash_def)

lemma kubedoop_image_laws: "image_laws kubedoop"
  by (simp add: image_laws_def kubedoop_def)

lemma kubedoop_volume_laws: "volume_laws kubedoop"
  by (simp add: volume_laws_def kubedoop_def)

lemma kubedoop_full_name: "full_name_law kubedoop"
  by (simp add: full_name_law_def kubedoop_def)

lemma kubedoop_namespace: "GetOwnerNamespace kubedoop = ''default''"
  by (simp add: kubedoop_def)

definition plain_props :: "(string \<times> string) list properties_pkg" where
  "plain_props =
     \<lparr>NewProperties = [],
      PropAdd = (\<lambda>p k v. (k, v) # p),
      PropGet = (\<lambda>p k. case map_of p k of None \<Rightarrow> ([], False) | Some v \<Rightarrow> (v, True)),
      PropKeys = (\<lambda>p. remdups (map fst p)),
      PropMarshal = (\<lambda>p. Ok (concat (map (\<lambda>kv. fst kv @ ''='' @ snd kv @ [CHR 0x0A]) (rev p))))\<rparr>"

lemma plain_props_lookup: "prop_lookup plain_props p = map_of p"
  by (auto simp: prop_lookup_def plain_props_def fun_eq_iff split: option.splits)

lemma plain_props_laws: "properties_laws plain_props"
  by (simp add: properties_laws_def plain_props_lookup dom_map_of_conv_image_fst) (simp add: plain_props_def)

definition plain_configmaps :: "ConfigMap configmap_pkg" where
  "plain_configmaps =
     \<lparr>NewConfigMapBuilder = (\<lambda>n opt. \<lparr>cm_Meta = plain_meta n opt, cm_Data = Map.empty\<rparr>),
      CmAddItem = (\<lambda>c k v. c\<lparr>cm_Data := (cm_Data c)(k \<mapsto> v)\<rparr>),
      CmGetObject = (\<lambda>c. c)\<rparr>"

lemma plain_configmaps_laws: "configmap_laws plain_configmaps"
  by (simp add: configmap_laws_def plain_configmaps_def plain_meta_def)

definition plain_secrets :: "Secret secret_pkg" where
  "plain_secrets =
     \<lparr>NewSecretBuilder = (\<lambda>n opt. \<lparr>sec_Meta = plain_meta n opt, sec_Data = Map.empty\<rparr>),
      SecAddItem = (\<lambda>c k v. c\<lparr>sec_Data := (sec_Data c)(k \<mapsto> v)\<rparr>),
      SecGetObject = (\<lambda>c. c)\<rparr>"

lemma plain_secrets_laws: "secret_laws plain_secrets"
  by (simp add: secret_laws_def plain_secrets_def plain_meta_def)

definition empty_container :: "string \<Rightarrow> string \<Rightarrow> Container" where
  "empty_container n im =
     \<lparr>c_Name = n, c_Image = im, c_ImagePullPolicy = PullUnset, c_Command = [], c_Args = [], c_Env = [],
      c_VolumeMounts = [], c_Ports = [], c_Resources = \<lparr>res_Requests = [], res_Limits = []\<rparr>,
      c_LivenessProbe = None, c_StartupProbe = None, c_SecurityContext = None\<rparr>"

definition plain_containers :: "Container container_pkg" where
  "plain_containers =
     \<lparr>NewContainerBuilder = (\<lambda>n im. empty_container n (im_Repo im)),
      SetSecurityContext = (\<lambda>b u g r. b\<lparr>c_SecurityContext := Some \<lparr>sc_RunAsUser = u, sc_RunAsGroup = g, sc_NonRoot = r\<rparr>\<rparr>),
      SetCommand = (\<lambda>b cs. b\<lparr>c_Command := cs\<rparr>),
      SetArgs = (\<lambda>b as. b\<lparr>c_Args := as\<rparr>),
      AddEnvVars = (\<lambda>b es. b\<lparr>c_Env := c_Env b @ es\<rparr>),
      AddVolumeMounts = (\<lambda>b ms. b\<lparr>c_VolumeMounts := c_VolumeMounts b @ ms\<rparr>),
      AddPorts = (\<lambda>b ps. b\<lparr>c_Ports := c_Ports b @ ps\<rparr>),
      SetLivenessProbe = (\<lambda>b p. b\<lparr>c_LivenessProbe := Some p\<rparr>),
      SetStartupProbe = (\<lambda>b p. b\<lparr>c_StartupProbe := Some p\<rparr>),
      BuildContainer = (\<lambda>b. b)\<rparr>"

lemma plain_containers_laws: "container_laws plain_containers"
  by (simp add: container_laws_def plain_containers_def empty_container_def)

text \<open>A stateful set builder is the stateful set built so far, with the overrides beside it.\<close>

type_synonym plain_builder = "OverridesSpec option \<times> StatefulSet"

definition plain_patch :: "OverridesSpec \<Rightarrow> StatefulSet \<Rightarrow> StatefulSet outcome" where
  "plain_patch ov st = Ok st"

definition on_pod :: "(PodSpec \<Rightarrow> PodSpec) \<Rightarrow> plain_builder \<Rightarrow> plain_builder" where
  "on_pod f b = (fst b, (snd b)\<lparr>sts_Pod := f (sts_Pod (snd b))\<rparr>)"

definition plain_sts :: "plain_builder statefulset_pkg" where
  "plain_sts =
     \<lparr>NewStatefulSetBuilder = (\<lambda>n r im ov rc opt. (ov, \<lparr>sts_Meta = plain_meta n opt, sts_Replicas = r,
        sts_Pod = \<lparr>pod_InitContainers = [], pod_Containers = [], pod_Volumes = [], pod_ServiceAccountName = [],
          pod_RestartPolicy = [], pod_ImagePullSecrets = [], pod_RunAsUser = None, pod_RunAsGroup = None, pod_FSGroup = None\<rparr>\<rparr>)),
      AddInitContainer = (\<lambda>s c. on_pod (\<lambda>p. p\<lparr>pod_InitContainers := pod_InitContainers p @ [c]\<rparr>) s),
      AddContainer = (\<lambda>s c. on_pod (\<lambda>p. p\<lparr>pod_Containers := pod_Containers p @ [c]\<rparr>) s),
      AddVolumes = (\<lambda>s vs. on_pod (\<lambda>p. p\<lparr>pod_Volumes := pod_Volumes p @ vs\<rparr>) s),
      BuildSts = (\<lambda>s. bind_o (apply_overrides plain_patch (fst s) (snd s)) (\<lambda>st. Ok (ObjStatefulSet st)))\<rparr>"

definition plain_sts_contents :: "plain_builder \<Rightarrow> OverridesSpec option \<times> Container list \<times> Container list \<times> Volume list" where
  "plain_sts_contents s = (fst s, pod_InitContainers (sts_Pod (snd s)), pod_Containers (sts_Pod (snd s)), pod_Volumes (sts_Pod (snd s)))"

lemma plain_sts_laws: "statefulset_laws plain_sts plain_sts_contents plain_patch"
  by (auto simp: statefulset_laws_def plain_sts_def plain_sts_contents_def on_pod_def)

definition plain_services :: "Service service_pkg" where
  "plain_services =
     \<lparr>NewServiceBuilder = (\<lambda>n ps opt. \<lparr>svc_Meta = plain_meta n (so_Options opt),
        svc_ClusterIP = (if so_Headless opt then ClusterIPNone else []), svc_PublishNotReadyAddresses = False,
        svc_Selector = so_MatchingLabels opt, svc_Ports = ps\<rparr>),
      SvcGetObject = (\<lambda>s. s)\<rparr>"

lemma plain_services_laws: "service_laws plain_services"
  by (simp add: service_laws_def plain_services_def plain_meta_def)

end
