(* ===== verification/GoEncoding.thy ===== *)
theory GoEncoding
  imports GoStd
begin

section \<open>GoEncoding: base64.StdEncoding and net/url\<close>

text \<open>
  \<^verbatim>\<open>base64.StdEncoding.EncodeToString\<close>, with a decoder for the unpadded groups and the
  round trip between them, and \<^verbatim>\<open>URL.String\<close> for a URL with a scheme, a host and
  a path (the only fields the operator sets).
\<close>

subsection \<open>Base64\<close>

definition b64_alphabet :: string where
  "b64_alphabet = ''ABCDEFGHIJKLMNOPQRSTUVWXYZabcdefghijklmnopqrstuvwxyz0123456789+/''"

definition b64_char :: "nat \<Rightarrow> char" where
  "b64_char n = b64_alphabet ! n"

text \<open>The 24-bit value of a group and its four 6-bit digits, as \<^verbatim>\<open>Encode\<close> computes them.\<close>

definition b64_val :: "byte \<Rightarrow> byte \<Rightarrow> byte \<Rightarrow> nat" where
  "b64_val a b c = unat a * 65536 + unat b * 256 + unat c"

fun EncodeToString :: "byte list \<Rightarrow> string" where
  "EncodeToString [] = []"
| "EncodeToString [a] =
     (let v = b64_val a 0 0 in
      [b64_char (v div 262144 mod 64), b64_char (v div 4096 mod 64), CHR ''='', CHR ''=''])"
| "EncodeToString [a, b] =
     (let v = b64_val a b 0 in
      [b64_char (v div 262144 mod 64), b64_char (v div 4096 mod 64),
       b64_char (v div 64 mod 64), CHR ''=''])"
| "EncodeToString (a # b # c # rest) =
     (let v = b64_val a b c in
      [b64_char (v div 262144 mod 64), b64_char (v div 4096 mod 64),
       b64_char (v div 64 mod 64), b64_char (v mod 64)] @ EncodeToString rest)"

definition b64_index :: "char \<Rightarrow> nat" where
  "b64_index c = length (takeWhile (\<lambda>x. x \<noteq> c) b64_alphabet)"

text \<open>The bytes of full groups of four digits.\<close>

fun b64_decode :: "string \<Rightarrow> byte list" where
  "b64_decode (w # x # y # z # rest) =
     (let v = b64_index w * 262144 + b64_index x * 4096 + b64_index y * 64 + b64_index z in
      [word_of_nat (v div 65536), word_of_nat (v div 256 mod 256), word_of_nat (v mod 256)]
        @ b64_decode rest)"
| "b64_decode _ = []"

lemma length_b64_alphabet: "length b64_alphabet = 64"
  by (simp add: b64_alphabet_def)

lemma distinct_b64_alphabet: "distinct b64_alphabet"
  by (simp add: b64_alphabet_def)

lemma b64_char_in: "n < 64 \<Longrightarrow> b64_char n \<in> set b64_alphabet"
  by (simp add: b64_char_def length_b64_alphabet)

lemma b64_index_char [simp]:
  assumes "n < 64"
  shows "b64_index (b64_char n) = n"
proof -
  let ?p = "\<lambda>x. x \<noteq> b64_char n"
  from assms have n: "n < length b64_alphabet" by (simp add: length_b64_alphabet)
  have "takeWhile ?p b64_alphabet = take n b64_alphabet"
  proof (rule takeWhile_eq_take_P_nth)
    fix i assume "i < n" "i < length b64_alphabet"
    with n distinct_b64_alphabet show "b64_alphabet ! i \<noteq> b64_char n"
      by (simp add: b64_char_def nth_eq_iff_index_eq)
  next
    show "\<not> b64_alphabet ! n \<noteq> b64_char n" by (simp add: b64_char_def)
  qed
  with n show ?thesis by (simp add: b64_index_def)
qed

lemma byte_bound: "unat (a :: byte) < 256"
  using unsigned_less [of a] by simp

lemma b64_val_bound: "b64_val a b c < 16777216"
  using byte_bound [of a] byte_bound [of b] byte_bound [of c] by (simp add: b64_val_def)

lemma b64_digits_sum:
  assumes "v < (16777216::nat)"
  shows "(v div 262144 mod 64) * 262144 + (v div 4096 mod 64) * 4096 + (v div 64 mod 64) * 64 + v mod 64 = v"
proof -
  have "v div 4096 = v div 64 div 64" and "v div 262144 = v div 4096 div 64"
    by (simp_all flip: div_mult2_eq)
  moreover have "v div 262144 mod 64 = v div 262144"
    using assms by (simp add: less_mult_imp_div_less)
  ultimately show ?thesis
    using div_mult_mod_eq [of v 64] div_mult_mod_eq [of "v div 64" 64] div_mult_mod_eq [of "v div 4096" 64]
    by linarith
qed

lemma b64_val_bytes:
  "b64_val a b c div 65536 = unat a"
  "b64_val a b c div 256 mod 256 = unat b"
  "b64_val a b c mod 256 = unat c"
proof -
  have v: "b64_val a b c = (unat a * 256 + unat b) * 256 + unat c"
    by (simp add: b64_val_def)
  show "b64_val a b c mod 256 = unat c"
    by (simp only: v mod_mult_self3 mod_less byte_bound)
  have d: "b64_val a b c div 256 = unat a * 256 + unat b"
    using byte_bound [of c] by (simp only: v) simp
  show "b64_val a b c div 256 mod 256 = unat b"
    by (simp only: d mod_mult_self3 mod_less byte_bound)
  have "b64_val a b c div 65536 = b64_val a b c div 256 div 256"
    by (simp flip: div_mult2_eq)
  then show "b64_val a b c div 65536 = unat a"
    using byte_bound [of b] by (simp add: d)
qed

lemma decode_group:
  "b64_decode (EncodeToString [a, b, c] @ s) = [a, b, c] @ b64_decode s"
proof -
  let ?v = "b64_val a b c"
  have "b64_decode (EncodeToString [a, b, c] @ s) =
      [word_of_nat (?v div 65536), word_of_nat (?v div 256 mod 256), word_of_nat (?v mod 256)] @ b64_decode s"
    by (simp add: Let_def b64_digits_sum [OF b64_val_bound] del: mod_mod_trivial)
  then show ?thesis
    by (simp only: b64_val_bytes) simp
qed

text \<open>Round trip: the digits of the full groups of an encoding decode to the encoded bytes.\<close>

theorem decode_EncodeToString:
  "length bs mod 3 = 0 \<Longrightarrow> b64_decode (EncodeToString bs @ s) = bs @ b64_decode s"
proof (induction bs rule: EncodeToString.induct)
  case (4 a b c rest)
  then have "length rest mod 3 = 0" by (simp add: mod_Suc split: if_splits)
  then have "b64_decode (EncodeToString rest @ s) = rest @ b64_decode s" by (rule "4.IH" [OF refl])
  moreover have "EncodeToString (a # b # c # rest) = EncodeToString [a, b, c] @ EncodeToString rest"
    by (simp add: Let_def)
  ultimately have "b64_decode (EncodeToString (a # b # c # rest) @ s) = [a, b, c] @ rest @ b64_decode s"
    by (simp only: append_assoc decode_group)
  then show ?case by simp
qed simp_all

lemma length_EncodeToString: "length (EncodeToString bs) = 4 * ((length bs + 2) div 3)"
proof (induction bs rule: EncodeToString.induct)
  case (4 a b c rest)
  have "(length (a # b # c # rest) + 2) div 3 = Suc ((length rest + 2) div 3)" by simp
  with 4 show ?case by (simp add: Let_def)
qed (simp_all add: Let_def)

lemma EncodeToString_append:
  "length xs mod 3 = 0 \<Longrightarrow> EncodeToString (xs @ ys) = EncodeToString xs @ EncodeToString ys"
proof (induction xs rule: EncodeToString.induct)
  case (4 a b c rest)
  then have "length rest mod 3 = 0" by (simp add: mod_Suc split: if_splits)
  with 4 show ?case by (simp add: Let_def)
qed simp_all

lemma EncodeToString_alphabet:
  "length bs mod 3 = 0 \<Longrightarrow> set (EncodeToString bs) \<subseteq> set b64_alphabet"
proof (induction bs rule: EncodeToString.induct)
  case (4 a b c rest)
  then have "length rest mod 3 = 0" by (simp add: mod_Suc split: if_splits)
  with 4 show ?case by (simp add: Let_def b64_char_in)
qed simp_all

subsection \<open>net/url\<close>

datatype url_mode = EncodePath | EncodeHost

definition alnum :: string where
  "alnum = ''ABCDEFGHIJKLMNOPQRSTUVWXYZabcdefghijklmnopqrstuvwxyz0123456789''"

definition shouldEscape :: "url_mode \<Rightarrow> char \<Rightarrow> bool" where
  "shouldEscape m c =
     (if c \<in> set alnum then False
      else if m = EncodeHost \<and> c \<in> set (''!$&()*+,;=:[]<>'' @ [CHR 0x27, CHR 0x22]) then False
      else if c \<in> set ''-_.~'' then False
      else if c \<in> set ''$&+,/:;=?@'' then (case m of EncodePath \<Rightarrow> c = CHR ''?'' | EncodeHost \<Rightarrow> True)
      else True)"

definition upper_hex :: "nat \<Rightarrow> char" where
  "upper_hex n = ''0123456789ABCDEF'' ! n"

definition escape_char :: "url_mode \<Rightarrow> char \<Rightarrow> string" where
  "escape_char m c =
     (if shouldEscape m c
      then [CHR ''%'', upper_hex (of_char c div 16), upper_hex (of_char c mod 16)] else [c])"

definition url_escape :: "url_mode \<Rightarrow> string \<Rightarrow> string" where
  "url_escape m s = concat (map (escape_char m) s)"

text \<open>\<^verbatim>\<open>(&url.URL{Scheme: scheme, Host: host, Path: p}).String()\<close> with a non-empty scheme.\<close>

definition EscapedPath :: "string \<Rightarrow> string" where
  "EscapedPath p = (if p = ''*'' then ''*'' else url_escape EncodePath p)"

definition url_String :: "string \<Rightarrow> string \<Rightarrow> string \<Rightarrow> string" where
  "url_String scheme host p =
     (let path = EscapedPath p in
      scheme @ '':'' @ (if host \<noteq> [] \<or> p \<noteq> [] then ''//'' else [])
      @ url_escape EncodeHost host
      @ (if path \<noteq> [] \<and> hd path \<noteq> CHR ''/'' \<and> host \<noteq> [] then ''/'' else [])
      @ path)"

lemma url_escape_id: "list_all (\<lambda>c. \<not> shouldEscape m c) s \<Longrightarrow> url_escape m s = s"
  by (induction s) (simp_all add: url_escape_def escape_char_def)

lemma url_escape_append: "url_escape m (s @ t) = url_escape m s @ url_escape m t"
  by (simp add: url_escape_def)

end
