(* ===== verification/Secrets.thy ===== *)
theory Secrets
  imports Instances GoEncoding
begin

section \<open>Secrets: the generated admin password and the sensitive properties key\<close>

text \<open>
  \<^verbatim>\<open>internal/common/security/oidc_admin_secret.go\<close> and \<^verbatim>\<open>sensitive_key.go\<close>: two
  reconcilers that create a secret with a random value when it does not exist and leave it
  alone when it does. The API server is the parameter \<open>api\<close>: \<open>ApiGet w ns n\<close> is
  \<^verbatim>\<open>Client.Get\<close> of a secret in the state \<open>w\<close>, \<open>GenericReconcile b w\<close> is
  \<^verbatim>\<open>GenericResourceReconciler.Reconcile\<close> with \<open>b\<close> what the builder's \<^verbatim>\<open>Build\<close> returns.
  What \<^verbatim>\<open>rand.Read\<close> delivers is an argument of \<open>Build\<close>.
  The locale \<open>create_once\<close> is the contract the two reconcilers share; both are
  interpretations of it.
\<close>

record CtrlResult =
  result_Requeue :: bool
  result_RequeueAfter :: int

definition empty_result :: CtrlResult where
  "empty_result = \<lparr>result_Requeue = False, result_RequeueAfter = 0\<rparr>"

record 'w api =
  ApiGet :: "'w \<Rightarrow> string \<Rightarrow> string \<Rightarrow> Secret outcome"
  GenericReconcile :: "Object outcome \<Rightarrow> 'w \<Rightarrow> CtrlResult outcome \<times> 'w"

text \<open>
  What controller-runtime and the API server promise: a failed build fails the
  reconciliation and changes nothing, a built secret that does not exist is created, and no
  other secret changes.
\<close>

definition api_laws :: "'w api \<Rightarrow> string \<Rightarrow> bool" where
  "api_laws A ns \<longleftrightarrow>
     (\<forall>e w. GenericReconcile A (Err e) w = (Err e, w)) \<and>
     (\<forall>s w. ApiGet A w ns (meta_Name (sec_Meta s)) = Err NotFound \<longrightarrow>
        fst (GenericReconcile A (Ok (ObjSecret s)) w) = Ok empty_result \<and>
        ApiGet A (snd (GenericReconcile A (Ok (ObjSecret s)) w)) ns (meta_Name (sec_Meta s)) = Ok s \<and>
        (\<forall>n. n \<noteq> meta_Name (sec_Meta s) \<longrightarrow>
           ApiGet A (snd (GenericReconcile A (Ok (ObjSecret s)) w)) ns n = ApiGet A w ns n))"

subsection \<open>Random passwords\<close>

definition NifiAdminUsername :: string where
  "NifiAdminUsername = ''admin''"

definition random_password :: "byte list \<Rightarrow> string" where
  "random_password randomBytes =
     (let password = EncodeToString randomBytes in
      if length password > 16 then take 16 password else password)"

subsection \<open>oidc\_admin\_secret.go\<close>

definition UserMountDir :: "operator_go \<Rightarrow> string" where
  "UserMountDir L = path_join [KubedoopRoot L, ''users'']"

definition oidcAdminPasswordSecretname :: "string \<Rightarrow> string" where
  "oidcAdminPasswordSecretname clusterName = clusterName @ ''-oidc-admin-password''"

record AdminSecretBuilder =
  asb_Name :: string
  asb_Options :: Options

definition NewAdminSecretBuilder :: "string \<Rightarrow> Options \<Rightarrow> AdminSecretBuilder" where
  "NewAdminSecretBuilder name options = \<lparr>asb_Name = name, asb_Options = options\<rparr>"

definition AdminSecretBuilder_Build ::
    "'c secret_pkg \<Rightarrow> AdminSecretBuilder \<Rightarrow> byte list outcome \<Rightarrow> Object outcome" where
  "AdminSecretBuilder_Build C b rnd =
     bind_o rnd (\<lambda>randomBytes.
       Ok (ObjSecret (SecGetObject C (SecAddItem C (NewSecretBuilder C (asb_Name b) (asb_Options b))
             NifiAdminUsername (random_password randomBytes)))))"

record AdminSecretReconciler =
  asr_Builder :: AdminSecretBuilder

definition NewAdminSecretReconciler :: "string \<Rightarrow> Options \<Rightarrow> AdminSecretReconciler" where
  "NewAdminSecretReconciler clusterName options =
     \<lparr>asr_Builder = NewAdminSecretBuilder (oidcAdminPasswordSecretname clusterName) options\<rparr>"

definition AdminSecret_Reconcile ::
    "operator_go \<Rightarrow> 'w api \<Rightarrow> 'c secret_pkg \<Rightarrow> AdminSecretReconciler \<Rightarrow> byte list outcome \<Rightarrow> 'w
      \<Rightarrow> CtrlResult outcome \<times> 'w" where
  "AdminSecret_Reconcile L A C r rnd w =
     (let ns = GetOwnerNamespace L; name = asb_Name (asr_Builder r) in
      case ApiGet A w ns name of
        Err e \<Rightarrow>
          if not_ignored e then (Err e, w)
          else GenericReconcile A (AdminSecretBuilder_Build C (asr_Builder r) rnd) w
      | Ok secret \<Rightarrow>
          if sec_Data secret NifiAdminUsername = None
          then (Err (Errorf (''admin secret '' @ ns @ ''/'' @ name @ '' does not contain the admin username'')), w)
          else (Ok empty_result, w)
      | Panic \<Rightarrow> (Panic, w))"

subsection \<open>sensitive\_key.go\<close>

record SensitiveKeyBuilder =
  skb_Name :: string
  skb_Options :: Options

definition NewSensitiveKeyBuilder :: "string \<Rightarrow> Options \<Rightarrow> SensitiveKeyBuilder" where
  "NewSensitiveKeyBuilder name options = \<lparr>skb_Name = name, skb_Options = options\<rparr>"

definition SensitiveKeyBuilder_Build ::
    "'c secret_pkg \<Rightarrow> SensitiveKeyBuilder \<Rightarrow> byte list outcome \<Rightarrow> Object outcome" where
  "SensitiveKeyBuilder_Build C b rnd =
     bind_o rnd (\<lambda>randomBytes.
       Ok (ObjSecret (SecGetObject C (SecAddItem C (NewSecretBuilder C (skb_Name b) (skb_Options b))
             ''nifiSensitivePropsKey'' (random_password randomBytes)))))"

record SensitiveKeyReconciler =
  skr_Builder :: SensitiveKeyBuilder
  autoGenerated :: bool

definition NewSensitiveKeyReconciler :: "string \<Rightarrow> bool \<Rightarrow> Options \<Rightarrow> SensitiveKeyReconciler" where
  "NewSensitiveKeyReconciler name authGenerated options =
     \<lparr>skr_Builder = NewSensitiveKeyBuilder name options, autoGenerated = authGenerated\<rparr>"

definition SensitiveKey_Reconcile ::
    "operator_go \<Rightarrow> 'w api \<Rightarrow> 'c secret_pkg \<Rightarrow> SensitiveKeyReconciler \<Rightarrow> byte list outcome \<Rightarrow> 'w
      \<Rightarrow> CtrlResult outcome \<times> 'w" where
  "SensitiveKey_Reconcile L A C r rnd w =
     (let ns = GetOwnerNamespace L; name = skb_Name (skr_Builder r) in
      case ApiGet A w ns name of
        Err e \<Rightarrow>
          if not_ignored e then (Err e, w)
          else if \<not> autoGenerated r
          then (Err (Errorf (''sensitive key secret '' @ ns @ ''/'' @ name @ '' not found, but auto generation is disabled'')), w)
          else GenericReconcile A (SensitiveKeyBuilder_Build C (skr_Builder r) rnd) w
      | Ok secret \<Rightarrow> (Ok empty_result, w)
      | Panic \<Rightarrow> (Panic, w))"

subsection \<open>The shared contract: create once, never overwrite\<close>

text \<open>
  Reconciling again and again, with fresh random bytes every time; and the steps of the
  cluster: the operator reconciles, or another party acts on other objects.
\<close>

definition reconcile_all :: "('r \<Rightarrow> 'w \<Rightarrow> 'x \<times> 'w) \<Rightarrow> 'r list \<Rightarrow> 'w \<Rightarrow> 'w" where
  "reconcile_all reconcile rs w = foldl (\<lambda>w r. snd (reconcile r w)) w rs"

inductive cluster_step :: "('r \<Rightarrow> 'w \<Rightarrow> 'x \<times> 'w) \<Rightarrow> ('w \<Rightarrow> 'g) \<Rightarrow> 'w \<Rightarrow> 'w \<Rightarrow> bool"
  for reconcile get where
  operator_step: "cluster_step reconcile get w (snd (reconcile r w))"
| other_step: "get w' = get w \<Longrightarrow> cluster_step reconcile get w w'"

inductive_cases cluster_stepE: "cluster_step reconcile get w w'"

locale create_once =
  fixes get :: "'w \<Rightarrow> Secret outcome"
    and generic :: "Object outcome \<Rightarrow> 'w \<Rightarrow> CtrlResult outcome \<times> 'w"
    and build :: "'r \<Rightarrow> Object outcome"
    and reconcile :: "'r \<Rightarrow> 'w \<Rightarrow> CtrlResult outcome \<times> 'w"
    and enabled :: bool
  assumes existing_unchanged: "get w = Ok s \<Longrightarrow> snd (reconcile r w) = w"
    and missing_created: "get w = Err NotFound \<Longrightarrow> enabled \<Longrightarrow> reconcile r w = generic (build r) w"
    and missing_refused: "get w = Err NotFound \<Longrightarrow> \<not> enabled \<Longrightarrow> \<exists>m. reconcile r w = (Err (Errorf m), w)"
    and failed_get: "get w = Err e \<Longrightarrow> e \<noteq> NotFound \<Longrightarrow> reconcile r w = (Err e, w)"
begin

lemma reconcile_all_existing: "get w = Ok s \<Longrightarrow> reconcile_all reconcile rs w = w"
  by (induction rs) (simp_all add: reconcile_all_def existing_unchanged)

lemma reconcile_all_disabled:
  "get w = Err NotFound \<Longrightarrow> \<not> enabled \<Longrightarrow> reconcile_all reconcile rs w = w"
proof (induction rs)
  case (Cons r rs)
  then obtain m where "reconcile r w = (Err (Errorf m), w)"
    using missing_refused by blast
  with Cons show ?case by (simp add: reconcile_all_def)
qed (simp add: reconcile_all_def)

lemma step_keeps_secret: "cluster_step reconcile get w w' \<Longrightarrow> get w = Ok s \<Longrightarrow> get w' = Ok s"
  by (induction rule: cluster_step.induct) (simp_all add: existing_unchanged)

lemma steps_keep_secret: "(cluster_step reconcile get)\<^sup>*\<^sup>* w w' \<Longrightarrow> get w = Ok s \<Longrightarrow> get w' = Ok s"
  by (induction rule: rtranclp_induct) (auto dest: step_keeps_secret)

end

interpretation adm: create_once
  "\<lambda>w. ApiGet A w (GetOwnerNamespace L) (asb_Name (asr_Builder r))" "GenericReconcile A"
  "AdminSecretBuilder_Build C (asr_Builder r)" "AdminSecret_Reconcile L A C r" True
  for L A C r
  by unfold_locales (simp_all add: AdminSecret_Reconcile_def not_ignored_def Let_def)

interpretation sens: create_once
  "\<lambda>w. ApiGet A w (GetOwnerNamespace L) (skb_Name (skr_Builder r))" "GenericReconcile A"
  "SensitiveKeyBuilder_Build C (skr_Builder r)" "SensitiveKey_Reconcile L A C r" "autoGenerated r"
  for L A C r
  by unfold_locales (simp_all add: SensitiveKey_Reconcile_def not_ignored_def Let_def)

subsection \<open>A store of secrets\<close>

text \<open>An API server with a map as its state, for the witnesses: the parameters made concrete.\<close>

type_synonym store = "string \<times> string \<rightharpoonup> Secret"

definition store_api :: "string \<Rightarrow> store api" where
  "store_api ns =
     \<lparr>ApiGet = (\<lambda>w n k. case w (n, k) of None \<Rightarrow> Err NotFound | Some s \<Rightarrow> Ok s),
      GenericReconcile = (\<lambda>b w. case b of
          Ok (ObjSecret s) \<Rightarrow> (Ok empty_result, w((ns, meta_Name (sec_Meta s)) \<mapsto> s))
        | Ok _ \<Rightarrow> (Ok empty_result, w)
        | Err e \<Rightarrow> (Err e, w)
        | Panic \<Rightarrow> (Panic, w))\<rparr>"

lemma store_api_laws: "api_laws (store_api ns) ns"
  by (simp add: api_laws_def store_api_def)

subsection \<open>Properties of the generated values\<close>

text \<open>
  C27: A generated password has exactly 16 characters, all from the base64 alphabet (no padding),
  and it is the encoding of the first 12 of the 16 random bytes: it decodes to them, so two
  reads give the same password only if they agree on these 12 bytes.
\<close>

theorem random_password_shape:
  assumes "length bs = 16"
  shows "length (random_password bs) = 16 \<and> set (random_password bs) \<subseteq> set b64_alphabet \<and>
    b64_decode (random_password bs) = take 12 bs"
proof -
  have len: "length (take 12 bs) mod 3 = 0" "length (EncodeToString (take 12 bs)) = 16"
    using assms by (simp_all add: length_EncodeToString)
  have "EncodeToString bs = EncodeToString (take 12 bs) @ EncodeToString (drop 12 bs)"
    using EncodeToString_append [OF len(1), of "drop 12 bs"] by simp
  moreover have "length (EncodeToString bs) = 24"
    using assms by (simp add: length_EncodeToString)
  ultimately have pw: "random_password bs = EncodeToString (take 12 bs)"
    using len(2) by (simp add: random_password_def)
  have "b64_decode (EncodeToString (take 12 bs) @ []) = take 12 bs @ b64_decode []"
    by (rule decode_EncodeToString [OF len(1)])
  with pw len show ?thesis
    using EncodeToString_alphabet [OF len(1)] by simp
qed

theorem random_password_shape_witness:
  "length (random_password (replicate 16 255)) = 16 \<and> b64_decode (random_password (replicate 16 255)) = replicate 12 255"
  using random_password_shape [of "replicate 16 255"] by simp

subsection \<open>Properties of the reconcilers\<close>

text \<open>
  C5: Once the sensitive properties key exists it never changes: in any interleaving of operator
  reconciliations, each with its own random bytes, and steps of other parties that leave this
  secret alone, the secret read at the end is the secret read at the start.
\<close>

theorem sensitive_key_never_changes:
  assumes "(cluster_step (SensitiveKey_Reconcile L A C r)
      (\<lambda>w. ApiGet A w (GetOwnerNamespace L) (skb_Name (skr_Builder r))))\<^sup>*\<^sup>* w w'"
    and "ApiGet A w (GetOwnerNamespace L) (skb_Name (skr_Builder r)) = Ok s"
  shows "ApiGet A w' (GetOwnerNamespace L) (skb_Name (skr_Builder r)) = Ok s"
  using assms by (rule sens.steps_keep_secret)

definition demo_secret :: "string \<Rightarrow> string \<Rightarrow> string \<Rightarrow> Secret" where
  "demo_secret n k v = \<lparr>sec_Meta = plain_meta n no_options, sec_Data = [k \<mapsto> v]\<rparr>"

definition demo_key :: "bool \<Rightarrow> SensitiveKeyReconciler" where
  "demo_key auto = NewSensitiveKeyReconciler ''key'' auto no_options"

lemma demo_key_name: "skb_Name (skr_Builder (demo_key auto)) = ''key''" "autoGenerated (demo_key auto) = auto"
  by (simp_all add: demo_key_def NewSensitiveKeyReconciler_def NewSensitiveKeyBuilder_def)

theorem sensitive_key_never_changes_witness:
  "let w = [(''default'', ''key'') \<mapsto> demo_secret ''key'' ''nifiSensitivePropsKey'' ''old'']
   in ApiGet (store_api ''default'')
        (snd (SensitiveKey_Reconcile kubedoop (store_api ''default'') plain_secrets (demo_key True) (Ok (replicate 16 7)) w))
        ''default'' ''key'' = Ok (demo_secret ''key'' ''nifiSensitivePropsKey'' ''old'')"
  unfolding Let_def
  by (rule sensitive_key_never_changes [of kubedoop "store_api ''default''" plain_secrets "demo_key True",
        unfolded demo_key_name kubedoop_namespace, OF r_into_rtranclp, OF cluster_step.operator_step])
    (simp add: store_api_def)

text \<open>
  With \<^verbatim>\<open>autoGenerate\<close> off and no secret present, reconciling fails with an error that
  names the secret, and no number of reconciliations changes the cluster.
\<close>

theorem sensitive_key_refused:
  assumes "ApiGet A w (GetOwnerNamespace L) (skb_Name (skr_Builder r)) = Err NotFound" and "\<not> autoGenerated r"
  shows "fst (SensitiveKey_Reconcile L A C r rnd w) =
      Err (Errorf (''sensitive key secret '' @ GetOwnerNamespace L @ ''/'' @ skb_Name (skr_Builder r)
        @ '' not found, but auto generation is disabled'')) \<and>
    reconcile_all (SensitiveKey_Reconcile L A C r) rnds w = w"
  using assms sens.reconcile_all_disabled [OF assms]
  by (simp add: SensitiveKey_Reconcile_def not_ignored_def)

theorem sensitive_key_refused_witness:
  "reconcile_all (SensitiveKey_Reconcile kubedoop (store_api ''default'') plain_secrets (demo_key False)) [Ok [], Ok [1]] Map.empty = Map.empty"
  by (rule sensitive_key_refused [THEN conjunct2]) (simp_all add: demo_key_name store_api_def)

lemma sensitive_key_created:
  assumes "api_laws A (GetOwnerNamespace L)" "secret_laws C" "autoGenerated r"
    and "ApiGet A w (GetOwnerNamespace L) (skb_Name (skr_Builder r)) = Err NotFound"
  obtains s where "fst (SensitiveKey_Reconcile L A C r (Ok bs) w) = Ok empty_result"
    "ApiGet A (snd (SensitiveKey_Reconcile L A C r (Ok bs) w)) (GetOwnerNamespace L) (skb_Name (skr_Builder r)) = Ok s"
    "sec_Data s = [''nifiSensitivePropsKey'' \<mapsto> random_password bs]"
proof -
  let ?n = "skb_Name (skr_Builder r)"
  define s where "s = SecGetObject C (SecAddItem C (NewSecretBuilder C ?n (skb_Options (skr_Builder r)))
      ''nifiSensitivePropsKey'' (random_password bs))"
  have build: "SensitiveKeyBuilder_Build C (skr_Builder r) (Ok bs) = Ok (ObjSecret s)"
    by (simp add: SensitiveKeyBuilder_Build_def s_def)
  have name: "meta_Name (sec_Meta s) = ?n" and data: "sec_Data s = [''nifiSensitivePropsKey'' \<mapsto> random_password bs]"
    using assms(2) by (simp_all add: secret_laws_def s_def)
  let ?g = "GenericReconcile A (Ok (ObjSecret s)) w"
  have "fst ?g = Ok empty_result" "ApiGet A (snd ?g) (GetOwnerNamespace L) ?n = Ok s"
    using assms(1,4) name unfolding api_laws_def by metis+
  moreover have "SensitiveKey_Reconcile L A C r (Ok bs) w = ?g"
    using sens.missing_created [OF assms(4,3), of C "Ok bs"] unfolding build .
  ultimately show thesis using that data by simp
qed

text \<open>
  With \<^verbatim>\<open>autoGenerate\<close> on and no secret present, the first reconciliation creates the
  secret with a 16-character key under \<^verbatim>\<open>nifiSensitivePropsKey\<close>, built from that
  reconciliation's random bytes, and every later one, whatever its random bytes, leaves the
  cluster as it is.
\<close>

theorem sensitive_key_created_once:
  assumes "api_laws A (GetOwnerNamespace L)" "secret_laws C" "autoGenerated r" "length bs = 16"
    and "ApiGet A w (GetOwnerNamespace L) (skb_Name (skr_Builder r)) = Err NotFound"
  shows "\<exists>s. fst (SensitiveKey_Reconcile L A C r (Ok bs) w) = Ok empty_result \<and>
      ApiGet A (reconcile_all (SensitiveKey_Reconcile L A C r) (Ok bs # rnds) w)
        (GetOwnerNamespace L) (skb_Name (skr_Builder r)) = Ok s \<and>
      sec_Data s = [''nifiSensitivePropsKey'' \<mapsto> random_password bs]"
proof (rule sensitive_key_created [OF assms(1-3,5), of bs])
  fix s
  let ?w = "snd (SensitiveKey_Reconcile L A C r (Ok bs) w)"
  assume s: "fst (SensitiveKey_Reconcile L A C r (Ok bs) w) = Ok empty_result"
    "ApiGet A ?w (GetOwnerNamespace L) (skb_Name (skr_Builder r)) = Ok s" "sec_Data s = [''nifiSensitivePropsKey'' \<mapsto> random_password bs]"
  have "reconcile_all (SensitiveKey_Reconcile L A C r) (Ok bs # rnds) w = reconcile_all (SensitiveKey_Reconcile L A C r) rnds ?w"
    by (simp add: reconcile_all_def)
  with s sens.reconcile_all_existing [OF s(2), of C rnds] show ?thesis by simp
qed

theorem sensitive_key_created_once_witness:
  "\<exists>s. ApiGet (store_api ''default'')
      (reconcile_all (SensitiveKey_Reconcile kubedoop (store_api ''default'') plain_secrets (demo_key True))
        [Ok (replicate 16 0), Ok (replicate 16 255)] Map.empty) ''default'' ''key'' = Ok s \<and>
    sec_Data s = [''nifiSensitivePropsKey'' \<mapsto> random_password (replicate 16 0)]"
  using sensitive_key_created_once [of "store_api ''default''" kubedoop plain_secrets "demo_key True" "replicate 16 0" Map.empty
      "[Ok (replicate 16 255)]", unfolded demo_key_name kubedoop_namespace]
  by (auto simp: store_api_laws plain_secrets_laws) (simp_all add: store_api_def)

subsection \<open>The key as a write-once cell\<close>

text \<open>
  The specification of the sensitive key, without an API server: a cell that is empty or holds
  the data of the secret. A reconciliation fills an empty cell from its random bytes if
  generation is on and they could be read, and never writes a full one.
\<close>

definition cell_step :: "bool \<Rightarrow> byte list outcome \<Rightarrow> (string \<rightharpoonup> string) option \<Rightarrow> bool \<times> (string \<rightharpoonup> string) option" where
  "cell_step auto rnd cell =
     (case (cell, rnd) of
        (Some d, _) \<Rightarrow> (True, Some d)
      | (None, Ok bs) \<Rightarrow> if auto then (True, Some [''nifiSensitivePropsKey'' \<mapsto> random_password bs]) else (False, None)
      | (None, _) \<Rightarrow> (False, None))"

definition cell_run :: "bool \<Rightarrow> byte list outcome list \<Rightarrow> (string \<rightharpoonup> string) option \<Rightarrow> (string \<rightharpoonup> string) option" where
  "cell_run auto rnds cell = foldl (\<lambda>c rnd. snd (cell_step auto rnd c)) cell rnds"

text \<open>The cell of a secret, for a world in which it can be read.\<close>

definition secret_cell :: "Secret outcome \<Rightarrow> (string \<rightharpoonup> string) option" where
  "secret_cell got = (case got of Ok s \<Rightarrow> Some (sec_Data s) | _ \<Rightarrow> None)"

definition readable :: "Secret outcome \<Rightarrow> bool" where
  "readable got \<longleftrightarrow> is_ok got \<or> got = Err NotFound"

lemma key_build_error: "api_laws A ns \<Longrightarrow> GenericReconcile A (SensitiveKeyBuilder_Build C b (Err e)) w = (Err e, w)"
  by (simp add: api_laws_def SensitiveKeyBuilder_Build_def)

lemma sensitive_key_step_refines:
  fixes L A r
  defines "get \<equiv> \<lambda>w. ApiGet A w (GetOwnerNamespace L) (skb_Name (skr_Builder r))"
  assumes "api_laws A (GetOwnerNamespace L)" "secret_laws C" "readable (get w)" "rnd \<noteq> Panic"
  shows "is_ok (fst (SensitiveKey_Reconcile L A C r rnd w)) = fst (cell_step (autoGenerated r) rnd (secret_cell (get w)))"
    and "secret_cell (get (snd (SensitiveKey_Reconcile L A C r rnd w))) = snd (cell_step (autoGenerated r) rnd (secret_cell (get w)))"
    and "readable (get (snd (SensitiveKey_Reconcile L A C r rnd w)))"
proof -
  consider s where "get w = Ok s" | "get w = Err NotFound" "\<not> autoGenerated r" |
    bs where "get w = Err NotFound" "autoGenerated r" "rnd = Ok bs" | e where "get w = Err NotFound" "autoGenerated r" "rnd = Err e"
    using assms(4,5) by (cases rnd) (auto simp: readable_def is_ok_iff)
  then have "is_ok (fst (SensitiveKey_Reconcile L A C r rnd w)) = fst (cell_step (autoGenerated r) rnd (secret_cell (get w))) \<and>
    secret_cell (get (snd (SensitiveKey_Reconcile L A C r rnd w))) = snd (cell_step (autoGenerated r) rnd (secret_cell (get w))) \<and>
    readable (get (snd (SensitiveKey_Reconcile L A C r rnd w)))"
  proof cases
    case 1
    then show ?thesis by (simp add: SensitiveKey_Reconcile_def get_def cell_step_def secret_cell_def readable_def)
  next
    case 2
    then show ?thesis
      by (cases rnd) (simp_all add: SensitiveKey_Reconcile_def not_ignored_def get_def cell_step_def secret_cell_def readable_def)
  next
    case 3
    note nf = 3(1) [unfolded get_def]
    obtain s where "fst (SensitiveKey_Reconcile L A C r (Ok bs) w) = Ok empty_result"
      "get (snd (SensitiveKey_Reconcile L A C r (Ok bs) w)) = Ok s" "sec_Data s = [''nifiSensitivePropsKey'' \<mapsto> random_password bs]"
      unfolding get_def by (rule sensitive_key_created [OF assms(2,3) 3(2) nf, of bs])
    with 3 show ?thesis by (simp add: cell_step_def secret_cell_def readable_def)
  next
    case 4
    note nf = 4(1) [unfolded get_def]
    have "SensitiveKey_Reconcile L A C r rnd w = (Err e, w)"
      using sens.missing_created [OF nf 4(2), of C rnd] unfolding 4(3) key_build_error [OF assms(2)] .
    with 4 show ?thesis by (simp add: cell_step_def secret_cell_def readable_def)
  qed
  then show "is_ok (fst (SensitiveKey_Reconcile L A C r rnd w)) = fst (cell_step (autoGenerated r) rnd (secret_cell (get w)))"
    "secret_cell (get (snd (SensitiveKey_Reconcile L A C r rnd w))) = snd (cell_step (autoGenerated r) rnd (secret_cell (get w)))"
    "readable (get (snd (SensitiveKey_Reconcile L A C r rnd w)))"
    by blast+
qed

text \<open>
  C25: The reconciler of the sensitive key refines the write-once cell: after any sequence of
  reconciliations, each with its own random bytes or a failure to read them, the secret is the
  content of the cell after the same sequence, and the next reconciliation succeeds exactly if
  the cell's step does.
\<close>

theorem sensitive_key_refines_cell:
  assumes "api_laws A (GetOwnerNamespace L)" "secret_laws C" "Panic \<notin> set (rnd # rnds)"
    and "get = (\<lambda>w. ApiGet A w (GetOwnerNamespace L) (skb_Name (skr_Builder r)))" "readable (get w)"
  shows "secret_cell (get (reconcile_all (SensitiveKey_Reconcile L A C r) rnds w)) =
      cell_run (autoGenerated r) rnds (secret_cell (get w)) \<and>
    is_ok (fst (SensitiveKey_Reconcile L A C r rnd (reconcile_all (SensitiveKey_Reconcile L A C r) rnds w))) =
      fst (cell_step (autoGenerated r) rnd (cell_run (autoGenerated r) rnds (secret_cell (get w))))"
  using assms(3,5)
proof (induction rnds arbitrary: w)
  case Nil
  then show ?case
    using sensitive_key_step_refines(1) [OF assms(1,2), where r = r and w = w and rnd = rnd] by (simp add: reconcile_all_def cell_run_def assms(4))
next
  case (Cons x rnds)
  let ?w = "snd (SensitiveKey_Reconcile L A C r x w)"
  have "x \<noteq> Panic" "readable (ApiGet A w (GetOwnerNamespace L) (skb_Name (skr_Builder r)))"
    using Cons.prems by (auto simp: assms(4))
  note step = sensitive_key_step_refines(2,3) [OF assms(1,2) this(2,1)]
  have "reconcile_all (SensitiveKey_Reconcile L A C r) (x # rnds) w = reconcile_all (SensitiveKey_Reconcile L A C r) rnds ?w"
    by (simp add: reconcile_all_def)
  moreover have "cell_run (autoGenerated r) (x # rnds) (secret_cell (get w)) = cell_run (autoGenerated r) rnds (secret_cell (get ?w))"
    by (simp add: cell_run_def step(1) assms(4))
  ultimately show ?case using Cons.IH [of ?w] Cons.prems(1) step(2) by (simp add: assms(4))
qed

theorem sensitive_key_refines_cell_witness:
  "secret_cell (ApiGet (store_api ''default'')
      (reconcile_all (SensitiveKey_Reconcile kubedoop (store_api ''default'') plain_secrets (demo_key True))
        [Err (ApiError ''entropy''), Ok (replicate 16 0), Ok (replicate 16 255)] Map.empty) ''default'' ''key'') =
    Some [''nifiSensitivePropsKey'' \<mapsto> random_password (replicate 16 0)]"
  using sensitive_key_refines_cell [of "store_api ''default''" kubedoop plain_secrets "Ok []"
      "[Err (ApiError ''entropy''), Ok (replicate 16 0), Ok (replicate 16 255)]" _ "demo_key True" Map.empty,
      unfolded demo_key_name kubedoop_namespace, OF store_api_laws plain_secrets_laws _ refl]
  by (simp add: store_api_def secret_cell_def readable_def cell_run_def cell_step_def)

text \<open>
  C26: The admin secret: a present secret is never written; it is accepted exactly if it has the
  key \<^verbatim>\<open>admin\<close>, and otherwise reconciling fails. A missing one is created with a password
  under that key, and is then accepted by every later reconciliation.
\<close>

theorem admin_secret_reconcile:
  assumes "api_laws A (GetOwnerNamespace L)" "secret_laws C"
    and "get = (\<lambda>w. ApiGet A w (GetOwnerNamespace L) (asb_Name (asr_Builder r)))"
  shows "case get w of
      Ok s \<Rightarrow> snd (AdminSecret_Reconcile L A C r rnd w) = w \<and>
        (is_ok (fst (AdminSecret_Reconcile L A C r rnd w)) \<longleftrightarrow> sec_Data s NifiAdminUsername \<noteq> None)
    | Err NotFound \<Rightarrow>
        (\<forall>bs. rnd = Ok bs \<longrightarrow> (\<exists>s. get (snd (AdminSecret_Reconcile L A C r rnd w)) = Ok s \<and>
           sec_Data s = [NifiAdminUsername \<mapsto> random_password bs] \<and>
           is_ok (fst (AdminSecret_Reconcile L A C r rnd' (snd (AdminSecret_Reconcile L A C r rnd w))))))
    | Err e \<Rightarrow> AdminSecret_Reconcile L A C r rnd w = (Err e, w)
    | Panic \<Rightarrow> AdminSecret_Reconcile L A C r rnd w = (Panic, w)"
proof -
  let ?ns = "GetOwnerNamespace L" and ?n = "asb_Name (asr_Builder r)"
  have created: "\<exists>s. get (snd (AdminSecret_Reconcile L A C r (Ok bs) w)) = Ok s \<and>
      sec_Data s = [NifiAdminUsername \<mapsto> random_password bs] \<and>
      is_ok (fst (AdminSecret_Reconcile L A C r rnd' (snd (AdminSecret_Reconcile L A C r (Ok bs) w))))"
    if nf: "get w = Err NotFound" for bs
  proof -
    define s where "s = SecGetObject C (SecAddItem C (NewSecretBuilder C ?n (asb_Options (asr_Builder r)))
        NifiAdminUsername (random_password bs))"
    have s: "meta_Name (sec_Meta s) = ?n" "sec_Data s = [NifiAdminUsername \<mapsto> random_password bs]"
      using assms(2) by (simp_all add: secret_laws_def s_def)
    have "AdminSecret_Reconcile L A C r (Ok bs) w = GenericReconcile A (Ok (ObjSecret s)) w"
      using nf adm.missing_created [of A w L r C "Ok bs"] assms(3)
      by (simp add: AdminSecretBuilder_Build_def s_def)
    moreover have "ApiGet A (snd (GenericReconcile A (Ok (ObjSecret s)) w)) ?ns ?n = Ok s"
      using assms(1,3) nf s(1) unfolding api_laws_def by metis
    ultimately show ?thesis
      using s(2) assms(3) by (simp add: AdminSecret_Reconcile_def)
  qed
  show ?thesis
  proof (cases "get w")
    case (Ok s)
    then show ?thesis
      using assms(3) by (simp add: AdminSecret_Reconcile_def)
  next
    case (Err e)
    then show ?thesis
      using created assms(3) by (cases e) (auto simp: AdminSecret_Reconcile_def not_ignored_def)
  next
    case Panic
    then show ?thesis
      using assms(3) by (simp add: AdminSecret_Reconcile_def)
  qed
qed

theorem admin_secret_reconcile_witness:
  "\<not> is_ok (fst (AdminSecret_Reconcile kubedoop (store_api ''default'') plain_secrets
      (NewAdminSecretReconciler ''c'' no_options) (Ok [])
      [(''default'', ''c-oidc-admin-password'') \<mapsto> demo_secret ''c-oidc-admin-password'' ''bob'' ''x'']))"
proof -
  let ?r = "NewAdminSecretReconciler ''c'' no_options"
  have n: "asb_Name (asr_Builder ?r) = ''c-oidc-admin-password''"
    by (simp add: NewAdminSecretReconciler_def NewAdminSecretBuilder_def oidcAdminPasswordSecretname_def)
  have "api_laws (store_api ''default'') (GetOwnerNamespace kubedoop)"
    by (simp add: kubedoop_namespace store_api_laws)
  from admin_secret_reconcile [OF this plain_secrets_laws refl, where r = ?r and rnd = "Ok []" and
      w = "[(''default'', ''c-oidc-admin-password'') \<mapsto> demo_secret ''c-oidc-admin-password'' ''bob'' ''x'']"]
  show ?thesis
    by (simp add: n kubedoop_namespace store_api_def demo_secret_def NifiAdminUsername_def)
qed

end
