(* ===== verification/Authenticators.thy ===== *)
theory Authenticators
  imports Secrets
begin

section \<open>Authenticators: OIDC, LDAP and static users\<close>

text \<open>
  \<^verbatim>\<open>internal/common/security/\<close>: \<^verbatim>\<open>oidc.go\<close>, \<^verbatim>\<open>ldap.go\<close> and \<^verbatim>\<open>static.go\<close>, the three
  implementations of the Go interface \<^verbatim>\<open>Authenticator\<close>, with one definition per method.
  A method that dereferences an optional part of the configuration returns an \<open>outcome\<close>.
  The provider types belong to operator-go's API: the records hold the fields the sources read. Where
  the sources do not show whether a nested struct is a pointer (\<^verbatim>\<open>LDAPFieldNames\<close>,
  \<^verbatim>\<open>UserCredentialsSecret\<close>) it is an option, so that a nil pointer is covered.
\<close>

subsection \<open>Provider types\<close>

record OIDCProvider =
  op_Hostname :: string
  op_Port :: int
  op_RootPath :: string
  op_Scopes :: "string list"
  op_PrincipalClaim :: string

record CredentialsScope =
  cs_Pod :: bool
  cs_Node :: bool
  cs_Services :: "string list"

record Credentials =
  cred_SecretClass :: string
  cred_Scope :: "CredentialsScope option"

record LDAPTLS =
  tls_Verification :: "unit option"

record LDAPProvider =
  lp_Hostname :: string
  lp_Port :: int
  lp_SearchBase :: string
  lp_SearchFilter :: string
  lp_LDAPFieldNames :: "string option"
  lp_BindCredentials :: "Credentials option"
  lp_TLS :: "LDAPTLS option"

record StaticProvider =
  sp_UserCredentialsSecret :: "string option"

record AuthenticationProvider =
  ap_OIDC :: "OIDCProvider option"
  ap_LDAP :: "LDAPProvider option"
  ap_Static :: "StaticProvider option"

subsection \<open>static.go\<close>

record staticAuthenticator =
  sa_clusterName :: string
  sa_provider :: StaticProvider

definition getAdminPasswordMountDir :: "operator_go \<Rightarrow> string" where
  "getAdminPasswordMountDir L = path_join [UserMountDir L, NifiAdminUsername]"

definition admin_volume :: "string \<Rightarrow> Volume" where
  "admin_volume secretName =
     \<lparr>vol_Name = NifiAdminUsername,
      vol_Source = SecretSource secretName [\<lparr>ktp_Key = NifiAdminUsername, ktp_Path = NifiAdminUsername\<rparr>]\<rparr>"

definition admin_mount :: "operator_go \<Rightarrow> VolumeMount" where
  "admin_mount L = \<lparr>vm_Name = NifiAdminUsername, vm_MountPath = UserMountDir L, vm_SubPath = [], vm_ReadOnly = True\<rparr>"

definition export_admin_password :: "operator_go \<Rightarrow> string" where
  \<open>export_admin_password L =
     lines_nl [''export NIFI_ADMIN_PASSWORD="$(python3 -c '' @ [CHR 0x27]
        @ ''import bcrypt; print(bcrypt.hashpw(open("'' @ getAdminPasswordMountDir L
        @ ''", "rb").read().strip(), bcrypt.gensalt()).decode("utf-8"), end="")'' @ [CHR 0x27] @ '')"'',
       tabs 1 []]\<close>

definition getIdentityProvider :: "operator_go \<Rightarrow> string list \<Rightarrow> string" where
  \<open>getIdentityProvider L provider =
     (let header = ''<?xml version="1.0" encoding="UTF-8" standalone="no"?>'' @ nl @ ''<loginIdentityProviders>'';
          foot = ''</loginIdentityProviders>'' @ nl;
          snippet = [header, Join provider nl, foot]
      in IndentTab4Spaces L (Join snippet nl))\<close>

definition getSingleUserLoginIdentityProvider :: "operator_go \<Rightarrow> string" where
  \<open>getSingleUserLoginIdentityProvider L =
     getIdentityProvider L
       [lines_nl
         [tabs 1 ''<provider>'',
          tabs 2 ''<identifier>login-identity-provider</identifier>'',
          tabs 2 ''<class>org.apache.nifi.authentication.single.user.SingleUserLoginIdentityProvider</class>'',
          tabs 2 ''<property name="Username">admin</property>'',
          tabs 2 ''<property name="Password">{{ getenv "NIFI_ADMIN_PASSWORD" }}</property>'',
          tabs 1 ''</provider>'']]\<close>

definition static_GetVolumes :: "staticAuthenticator \<Rightarrow> Volume list outcome" where
  "static_GetVolumes a =
     bind_o (deref (sp_UserCredentialsSecret (sa_provider a))) (\<lambda>name. Ok [admin_volume name])"

definition static_GetVolumeMounts :: "operator_go \<Rightarrow> staticAuthenticator \<Rightarrow> VolumeMount list" where
  "static_GetVolumeMounts L a = [admin_mount L]"

definition static_ExtendNifiProperties :: "staticAuthenticator \<Rightarrow> 'p option" where
  "static_ExtendNifiProperties a = None"

definition static_GetEnvVars :: "staticAuthenticator \<Rightarrow> EnvVar list" where
  "static_GetEnvVars a = []"

definition static_GetInitArgs :: "operator_go \<Rightarrow> staticAuthenticator \<Rightarrow> string" where
  "static_GetInitArgs L a = export_admin_password L"

definition static_GetLoginIdentiryProvider :: "operator_go \<Rightarrow> staticAuthenticator \<Rightarrow> string" where
  "static_GetLoginIdentiryProvider L a = getSingleUserLoginIdentityProvider L"

subsection \<open>oidc.go\<close>

record oidcAuthenticator =
  oa_clusterName :: string
  oa_config :: "OidcSpec option"
  oa_provider :: OIDCProvider

definition secret_env :: "string \<Rightarrow> string \<Rightarrow> string \<Rightarrow> EnvVar" where
  "secret_env name key secret =
     \<lparr>env_Name = name, env_Value = [], env_ValueFrom = Some (SecretKeyRef \<lparr>sel_Name = secret, sel_Key = key\<rparr>)\<rparr>"

definition oidc_GetEnvVars :: "oidcAuthenticator \<Rightarrow> EnvVar list outcome" where
  "oidc_GetEnvVars a =
     bind_o (deref (oa_config a)) (\<lambda>config.
       Ok [secret_env ''OIDC_CLIENT_ID'' ''CLIENT_ID'' (oidc_ClientCredentialsSecret config),
           secret_env ''OIDC_CLIENT_SECRET'' ''CLIENT_SECRET'' (oidc_ClientCredentialsSecret config)])"

definition oidc_GetVolumes :: "oidcAuthenticator \<Rightarrow> Volume list" where
  "oidc_GetVolumes a = [admin_volume (oidcAdminPasswordSecretname (oa_clusterName a))]"

definition oidc_GetVolumeMounts :: "operator_go \<Rightarrow> oidcAuthenticator \<Rightarrow> VolumeMount list" where
  "oidc_GetVolumeMounts L a = [admin_mount L]"

text \<open>The issuer URL: scheme \<^verbatim>\<open>http\<close>, the host with the port unless it is 0, the root path.\<close>

definition oidc_issuer :: "OIDCProvider \<Rightarrow> string" where
  "oidc_issuer p =
     url_String ''http''
       (if op_Port p \<noteq> 0 then op_Hostname p @ '':'' @ Itoa (op_Port p) else op_Hostname p)
       (op_RootPath p)"

definition oidc_properties :: "OIDCProvider \<Rightarrow> OidcSpec \<Rightarrow> (string \<times> string) list" where
  \<open>oidc_properties p config =
     (let scopes = op_Scopes p @ oidc_ExtraScopes config in
      [(''nifi.security.user.oidc.discovery.url'', oidc_issuer p),
       (''nifi.security.user.oidc.client.id'', ''{{ getenv "OIDC_CLIENT_ID" }}''),
       (''nifi.security.user.oidc.client.secret'', ''{{ getenv "OIDC_CLIENT_SECRET" }}''),
       (''nifi.security.user.oidc.extra.scopes'', Join scopes '',''),
       (''nifi.security.user.oidc.claim.identifying.user'', op_PrincipalClaim p)])\<close>

definition oidc_ExtendNifiProperties :: "'p properties_pkg \<Rightarrow> oidcAuthenticator \<Rightarrow> 'p option outcome" where
  "oidc_ExtendNifiProperties P a =
     bind_o (deref (oa_config a)) (\<lambda>config.
       Ok (Some (add_all P (NewProperties P) (oidc_properties (oa_provider a) config))))"

definition oidc_GetInitArgs :: "operator_go \<Rightarrow> oidcAuthenticator \<Rightarrow> string" where
  "oidc_GetInitArgs L a = export_admin_password L"

definition oidc_GetLoginIdentiryProvider :: "operator_go \<Rightarrow> oidcAuthenticator \<Rightarrow> string" where
  "oidc_GetLoginIdentiryProvider L a = getSingleUserLoginIdentityProvider L"

subsection \<open>ldap.go\<close>

definition DefaultServerTlsStorePassword :: string where
  "DefaultServerTlsStorePassword = ''changeit''"

definition DefaultServerTlsKeyPassword :: string where
  "DefaultServerTlsKeyPassword = ''changeit''"

record ldapAuthenticator =
  la_clusterName :: string
  la_provider :: LDAPProvider

definition getBindCredentialsVolumeName :: "ldapAuthenticator \<Rightarrow> string outcome" where
  "getBindCredentialsVolumeName a =
     bind_o (deref (lp_BindCredentials (la_provider a))) (\<lambda>c. Ok (cred_SecretClass c @ ''-bind-credentials''))"

definition getBindCredentialsMountDir :: "operator_go \<Rightarrow> ldapAuthenticator \<Rightarrow> string outcome" where
  "getBindCredentialsMountDir L a =
     bind_o (deref (lp_BindCredentials (la_provider a))) (\<lambda>c.
       Ok (path_join [KubedoopSecretDir L, cred_SecretClass c]))"

definition ldap_scope :: "operator_go \<Rightarrow> CredentialsScope option \<Rightarrow> SecretVolumeScope" where
  "ldap_scope L scope =
     (case scope of
        None \<Rightarrow> \<lparr>scope_Pod = False, scope_Node = False, scope_Service = []\<rparr>
      | Some s \<Rightarrow> \<lparr>scope_Pod = cs_Pod s, scope_Node = cs_Node s,
                   scope_Service = map (\<lambda>x. ServiceScope L @ ''='' @ x) (cs_Services s)\<rparr>)"

definition ldap_GetVolumes :: "operator_go \<Rightarrow> ldapAuthenticator \<Rightarrow> Volume list outcome" where
  "ldap_GetVolumes L a =
     bind_o (deref (lp_BindCredentials (la_provider a))) (\<lambda>c.
     bind_o (getBindCredentialsVolumeName a) (\<lambda>name.
       Ok [SecretOperatorVolume L name (cred_SecretClass c) (Some (ldap_scope L (cred_Scope c)))]))"

definition ldap_GetVolumeMounts :: "operator_go \<Rightarrow> ldapAuthenticator \<Rightarrow> VolumeMount list outcome" where
  "ldap_GetVolumeMounts L a =
     bind_o (getBindCredentialsVolumeName a) (\<lambda>name.
     bind_o (getBindCredentialsMountDir L a) (\<lambda>dir.
       Ok [\<lparr>vm_Name = name, vm_MountPath = dir, vm_SubPath = [], vm_ReadOnly = False\<rparr>]))"

definition ldap_ExtendNifiProperties :: "ldapAuthenticator \<Rightarrow> 'p option" where
  "ldap_ExtendNifiProperties a = None"

definition ldap_GetEnvVars :: "ldapAuthenticator \<Rightarrow> EnvVar list" where
  "ldap_GetEnvVars a = []"

definition ldap_GetInitArgs :: "ldapAuthenticator \<Rightarrow> string" where
  "ldap_GetInitArgs a = []"

definition getBindCredentialsMountPaths :: "operator_go \<Rightarrow> ldapAuthenticator \<Rightarrow> (string \<times> string) outcome" where
  "getBindCredentialsMountPaths L a =
     (case lp_BindCredentials (la_provider a) of
        None \<Rightarrow> Ok ([], [])
      | Some c \<Rightarrow>
          if cred_SecretClass c \<noteq> []
          then bind_o (getBindCredentialsMountDir L a) (\<lambda>dir.
                 Ok (path_join [dir, ''username''], path_join [dir, ''password'']))
          else Ok ([], []))"

definition tls_verified :: "LDAPProvider \<Rightarrow> bool" where
  "tls_verified p = (case lp_TLS p of None \<Rightarrow> False | Some t \<Rightarrow> tls_Verification t \<noteq> None)"

definition ldap_authStrategy :: "LDAPProvider \<Rightarrow> string \<times> string \<Rightarrow> string" where
  "ldap_authStrategy p files =
     (if fst files \<noteq> [] \<and> snd files \<noteq> []
      then (if tls_verified p then ''LDAPS'' else ''SIMPLE'')
      else ''ANONYMOUS'')"

definition ldap_protocol :: "LDAPProvider \<Rightarrow> string" where
  "ldap_protocol p = (if tls_verified p then ''ldaps'' else ''ldap'')"

definition ldap_searchFilter :: "LDAPProvider \<Rightarrow> string outcome" where
  "ldap_searchFilter p =
     (if lp_SearchFilter p = [] then bind_o (deref (lp_LDAPFieldNames p)) (\<lambda>uidField. Ok (uidField @ ''={0}''))
      else Ok (lp_SearchFilter p))"

definition ldap_provider_lines :: "operator_go \<Rightarrow> LDAPProvider \<Rightarrow> string \<times> string \<Rightarrow> string \<Rightarrow> string list" where
  \<open>ldap_provider_lines L p files searchFilter =
     [tabs 1 ''<provider>'',
      tabs 2 ''<identifier>login-identity-provider</identifier>'',
      tabs 2 ''<class>org.apache.nifi.ldap.LdapProvider</class>'',
      tabs 2 (''<property name="Authentication Strategy">'' @ ldap_authStrategy p files @ ''</property>''),
      [],
      tabs 2 (''<property name="Manager DN">${{file:UTF-8:'' @ fst files @ ''}}</property>''),
      tabs 2 (''<property name="Manager Password">${{file:UTF-8:'' @ snd files @ ''}</property>''),
      [],
      tabs 2 ''<property name="Referral Strategy">THROW</property>'',
      tabs 2 ''<property name="Connect Timeout">10 secs</property>'',
      tabs 2 ''<property name="Read Timeout">10 secs</property>'',
      tabs 2 (''<property name="Url">'' @ ldap_protocol p @ ''://'' @ lp_Hostname p @ '':'' @ Itoa (lp_Port p) @ ''</property>''),
      tabs 2 (''<property name="User Search Base">'' @ lp_SearchBase p @ ''</property>''),
      tabs 2 (''<property name="User Search Filter">'' @ searchFilter @ ''</property>''),
      [],
      tabs 2 ''<property name="TLS - Client Auth">NONE</property>'',
      tabs 2 (''<property name="TLS - Keystore">'' @ path_join [KubedoopTlsDir L, ''ldap'', ''keystore.p12''] @ ''</property>''),
      tabs 2 (''<property name="TLS - Keystore Password">'' @ DefaultServerTlsKeyPassword @ ''</property>''),
      tabs 2 ''<property name="TLS - Keystore Type">PKCS12</property>'',
      tabs 2 (''<property name="TLS - Truststore">'' @ path_join [KubedoopTlsDir L, ''ldap'', ''truststore.p12''] @ ''</property>''),
      tabs 2 (''<property name="TLS - Truststore Password">'' @ DefaultServerTlsStorePassword @ ''</property>''),
      tabs 2 ''<property name="TLS - Truststore Type">PKCS12</property>'',
      tabs 2 ''<property name="TLS - Protocol">TLSv1.2</property>'',
      tabs 2 ''<property name="TLS - Shutdown Gracefully">true</property>'',
      [],
      tabs 2 ''<property name="Identity Strategy">USE_DN</property>'',
      tabs 2 ''<property name="Authentication Expiration">7 days</property>'',
      tabs 1 ''</provider>'',
      tabs 1 []]\<close>

definition ldap_GetLoginIdentiryProvider :: "operator_go \<Rightarrow> ldapAuthenticator \<Rightarrow> string outcome" where
  "ldap_GetLoginIdentiryProvider L a =
     bind_o (getBindCredentialsMountPaths L a) (\<lambda>files.
     bind_o (ldap_searchFilter (la_provider a)) (\<lambda>searchFilter.
       Ok (getIdentityProvider L [lines_nl (ldap_provider_lines L (la_provider a) files searchFilter)])))"

subsection \<open>Properties of the LDAP provider\<close>

definition demo_ldap :: "Credentials option \<Rightarrow> LDAPTLS option \<Rightarrow> LDAPProvider" where
  "demo_ldap c t = \<lparr>lp_Hostname = ''ldap'', lp_Port = 389, lp_SearchBase = ''dc=x'', lp_SearchFilter = [], lp_LDAPFieldNames = Some ''uid'',
     lp_BindCredentials = c, lp_TLS = t\<rparr>"

definition demo_oidc :: OIDCProvider where
  "demo_oidc = \<lparr>op_Hostname = ''keycloak.local'', op_Port = 8080, op_RootPath = ''/realms/nifi'', op_Scopes = [''openid''],
     op_PrincipalClaim = ''preferred_username''\<rparr>"

text \<open>
  The LDAP strategy and protocol follow the configuration: anonymous exactly if there are no
  bind credentials or their secret class is empty, otherwise simple or, with TLS verification,
  LDAPS; the URL uses \<^verbatim>\<open>ldaps\<close> exactly with TLS verification.
\<close>

theorem ldap_strategy:
  assumes "a = \<lparr>la_clusterName = cn, la_provider = p\<rparr>" "getBindCredentialsMountPaths L a = Ok files"
  shows "(ldap_authStrategy p files = ''ANONYMOUS'' \<longleftrightarrow>
        (case lp_BindCredentials p of None \<Rightarrow> True | Some c \<Rightarrow> cred_SecretClass c = [])) \<and>
    (ldap_authStrategy p files = ''LDAPS'' \<longrightarrow> ldap_protocol p = ''ldaps'') \<and>
    (ldap_authStrategy p files = ''SIMPLE'' \<longrightarrow> ldap_protocol p = ''ldap'')"
proof -
  have nonempty: "path_join [d, n] \<noteq> []" if "n \<noteq> []" for d n :: string
    using that by (auto simp: path_join_def Clean_def Let_def join_elem_def)
  show ?thesis
    using assms nonempty
    by (auto simp: getBindCredentialsMountPaths_def getBindCredentialsMountDir_def ldap_authStrategy_def ldap_protocol_def
        outcome_simps split: option.splits if_splits)
qed

theorem ldap_strategy_witness:
  "ldap_authStrategy (demo_ldap None None) ([], []) = ''ANONYMOUS''"
  using ldap_strategy [OF refl, of kubedoop "''c''" "demo_ldap None None" "([], [])"]
  by (simp add: getBindCredentialsMountPaths_def demo_ldap_def)

text \<open>Opening minus closing braces of a text.\<close>

definition brace_balance :: "string \<Rightarrow> int" where
  "brace_balance s = int (length (filter (\<lambda>c. c = CHR ''{'') s)) - int (length (filter (\<lambda>c. c = CHR ''}'') s))"

lemma brace_balance_append [simp]: "brace_balance (s @ t) = brace_balance s + brace_balance t"
  by (simp add: brace_balance_def)

lemma brace_balance_Cons [simp]:
  "brace_balance (c # s) = (if c = CHR ''{'' then 1 else if c = CHR ''}'' then -1 else 0) + brace_balance s"
  by (simp add: brace_balance_def)

lemma brace_balance_Nil [simp]: "brace_balance [] = 0"
  by (simp add: brace_balance_def)

lemma brace_balance_lines_nl [simp]: "brace_balance (lines_nl ls) = sum_list (map brace_balance ls)"
  by (induction ls) (simp_all add: lines_nl_def nl_def)

lemma brace_balance_tabs [simp]: "brace_balance (tabs n l) = brace_balance l"
  by (induction n) (simp_all add: tabs_def)

lemma brace_balance_digits: "set s \<subseteq> set ''0123456789'' \<Longrightarrow> brace_balance s = 0"
  by (induction s) auto

lemma brace_balance_Itoa [simp]: "brace_balance (Itoa i) = 0"
  by (simp add: Itoa_def brace_balance_digits [OF show_nat_digits])

definition ldap_texts :: "operator_go \<Rightarrow> LDAPProvider \<Rightarrow> string \<times> string \<Rightarrow> string \<Rightarrow> string list" where
  "ldap_texts L p files searchFilter =
     [fst files, snd files, lp_Hostname p, lp_SearchBase p, searchFilter,
      path_join [KubedoopTlsDir L, ''ldap'', ''keystore.p12''], path_join [KubedoopTlsDir L, ''ldap'', ''truststore.p12'']]"

text \<open>
  The LDAP login provider file has an unclosed template action: with balanced braces in all
  configured texts, the file opens one brace more than it closes (the manager password is
  written with two opening braces and one closing), while the single-user file is balanced.
\<close>

theorem ldap_login_provider_unbalanced:
  assumes "ldap_GetLoginIdentiryProvider L a = Ok xml" "getBindCredentialsMountPaths L a = Ok files" "ldap_searchFilter (la_provider a) = Ok flt"
    and "\<And>s. brace_balance (IndentTab4Spaces L s) = brace_balance s"
    and "list_all (\<lambda>s. brace_balance s = 0) (ldap_texts L (la_provider a) files flt)"
  shows "brace_balance xml = 1 \<and> brace_balance (getSingleUserLoginIdentityProvider L) = 0"
proof -
  have "brace_balance (lines_nl (ldap_provider_lines L (la_provider a) files flt)) = 1"
    using assms(5)
    by (simp add: ldap_provider_lines_def ldap_texts_def ldap_authStrategy_def ldap_protocol_def
        DefaultServerTlsKeyPassword_def DefaultServerTlsStorePassword_def)
  then show ?thesis
    using assms(1-4)
    by (auto simp: ldap_GetLoginIdentiryProvider_def getIdentityProvider_def Let_def nl_def
        getSingleUserLoginIdentityProvider_def)
qed

lemma brace_balance_kubedoop_indent: "brace_balance (IndentTab4Spaces kubedoop s) = brace_balance s"
  by (induction s) (simp_all add: kubedoop_def ReplaceAll1_def)

definition bound_ldap :: ldapAuthenticator where
  "bound_ldap = \<lparr>la_clusterName = ''c'', la_provider = demo_ldap (Some \<lparr>cred_SecretClass = ''ldap'', cred_Scope = None\<rparr>) None\<rparr>"

lemma bound_ldap_files:
  "getBindCredentialsMountPaths kubedoop bound_ldap = Ok (''/kubedoop/secret/ldap/username'', ''/kubedoop/secret/ldap/password'')"
  by (simp add: getBindCredentialsMountPaths_def getBindCredentialsMountDir_def bound_ldap_def demo_ldap_def kubedoop_def
      path_join_def join_elem_def Clean_def slash_def clean_elem_def)

lemma bound_ldap_filter: "ldap_searchFilter (la_provider bound_ldap) = Ok ''uid={0}''"
  by (simp add: ldap_searchFilter_def bound_ldap_def demo_ldap_def)

theorem ldap_login_provider_unbalanced_witness:
  "\<exists>xml. ldap_GetLoginIdentiryProvider kubedoop bound_ldap = Ok xml \<and> brace_balance xml = 1"
proof -
  have ok: "ldap_GetLoginIdentiryProvider kubedoop bound_ldap = Ok (getIdentityProvider kubedoop
      [lines_nl (ldap_provider_lines kubedoop (la_provider bound_ldap) (''/kubedoop/secret/ldap/username'', ''/kubedoop/secret/ldap/password'') ''uid={0}'')])"
    by (simp add: ldap_GetLoginIdentiryProvider_def bound_ldap_files bound_ldap_filter)
  have "list_all (\<lambda>s. brace_balance s = 0)
      (ldap_texts kubedoop (la_provider bound_ldap) (''/kubedoop/secret/ldap/username'', ''/kubedoop/secret/ldap/password'') ''uid={0}'')"
    by (simp add: ldap_texts_def bound_ldap_def demo_ldap_def kubedoop_def
        path_join_def join_elem_def Clean_def slash_def clean_elem_def)
  from ldap_login_provider_unbalanced [OF ok bound_ldap_files bound_ldap_filter brace_balance_kubedoop_indent this] ok show ?thesis by blast
qed

subsection \<open>Properties of the OIDC provider\<close>

lemma alnum_not_escaped: "c \<in> set alnum \<Longrightarrow> \<not> shouldEscape m c"
  by (simp add: shouldEscape_def)

lemma digits_not_escaped:
  assumes "set s \<subseteq> set ''0123456789''"
  shows "list_all (\<lambda>c. \<not> shouldEscape m c) s"
proof -
  have "set ''0123456789'' \<subseteq> set alnum" by (simp add: alnum_def)
  with assms have "\<forall>c\<in>set s. c \<in> set alnum" by blast
  then show ?thesis using alnum_not_escaped by (simp add: list_all_iff)
qed

text \<open>
  For a host and a root path that need no escaping, the discovery URL is the plain
  concatenation: \<^verbatim>\<open>http://\<close>, host, colon and port unless the port is 0, and the path, which
  gets a leading slash if it has none.
\<close>

theorem oidc_issuer_plain:
  assumes "list_all (\<lambda>c. \<not> shouldEscape EncodeHost c) (op_Hostname p)" "op_Hostname p \<noteq> []"
    and "list_all (\<lambda>c. \<not> shouldEscape EncodePath c) (op_RootPath p)" "0 \<le> op_Port p"
  shows "oidc_issuer p = ''http://'' @ op_Hostname p
     @ (if op_Port p \<noteq> 0 then '':'' @ Itoa (op_Port p) else [])
     @ (if op_RootPath p \<noteq> [] \<and> hd (op_RootPath p) \<noteq> CHR ''/'' then ''/'' else []) @ op_RootPath p"
proof -
  have port: "list_all (\<lambda>c. \<not> shouldEscape EncodeHost c) (Itoa (op_Port p))"
    using assms(4) digits_not_escaped [OF show_nat_digits] by (simp add: Itoa_def)
  have colon: "url_escape EncodeHost (op_Hostname p @ '':'' @ Itoa (op_Port p)) = op_Hostname p @ '':'' @ Itoa (op_Port p)"
    using assms(1) port by (intro url_escape_id) (simp add: shouldEscape_def)
  have path: "EscapedPath (op_RootPath p) = op_RootPath p"
    using assms(3) by (simp add: EscapedPath_def url_escape_id)
  show ?thesis
    using assms(1,2) colon path by (auto simp: oidc_issuer_def url_String_def Let_def url_escape_id)
qed

theorem oidc_issuer_plain_witness:
  "oidc_issuer demo_oidc = ''http://keycloak.local:8080/realms/nifi''"
proof -
  have "oidc_issuer demo_oidc = ''http://'' @ op_Hostname demo_oidc @ (if op_Port demo_oidc \<noteq> 0 then '':'' @ Itoa (op_Port demo_oidc) else [])
     @ (if op_RootPath demo_oidc \<noteq> [] \<and> hd (op_RootPath demo_oidc) \<noteq> CHR ''/'' then ''/'' else []) @ op_RootPath demo_oidc"
    by (rule oidc_issuer_plain) (simp_all add: demo_oidc_def shouldEscape_def alnum_def)
  then show ?thesis
    by (simp add: demo_oidc_def Itoa_def show_nat.simps digit_def)
qed

end
