(* ===== verification/GitSync.thy ===== *)
theory GitSync
  imports Api
begin

section \<open>GitSync: git-sync containers, volumes and mounts\<close>

text \<open>
  \<^verbatim>\<open>internal/common/git_sync.go\<close>: for every entry of \<^verbatim>\<open>customComponentsGitSync\<close> one
  sidecar, one init container, one emptyDir volume, one mount for the NiFi container and the
  folder where the content appears. The loop over \<^verbatim>\<open>gitSyncs\<close> is \<open>add_git_sync\<close> folded
  over the indexed entries.
\<close>

definition gitSyncContainerNamePrefix :: string where
  "gitSyncContainerNamePrefix = ''git-sync''"

definition gitSyncVolumeNamePrefix :: string where
  "gitSyncVolumeNamePrefix = ''content-from-git''"

definition gitSyncMountPathPrefix :: string where
  "gitSyncMountPathPrefix = ''/kubedoop/app/git''"

definition gitSyncRootDir :: string where
  "gitSyncRootDir = ''/tmp/git''"

definition gitSyncLink :: string where
  "gitSyncLink = ''current''"

definition gitSyncImage :: string where
  "gitSyncImage = ''registry.k8s.io/git-sync/git-sync:v4.2.1''"

definition defaultGitBranch :: string where
  "defaultGitBranch = ''main''"

definition defaultGitSyncWait :: string where
  "defaultGitSyncWait = ''20s''"

record GitSyncResources =
  GitSyncContainers :: "Container list"
  GitSyncInitContainers :: "Container list"
  GitSyncVolumes :: "Volume list"
  GitSyncVolumeMounts :: "VolumeMount list"
  GitContentFolders :: "string list"

definition IsGitSyncEnabled :: "GitSyncResources \<Rightarrow> bool" where
  "IsGitSyncEnabled r \<longleftrightarrow> length (GitSyncContainers r) > 0"

subsection \<open>Arguments of the git-sync binary\<close>

definition reserved_git_sync_keys :: "string list" where
  "reserved_git_sync_keys =
     [''--git-config'', ''--repo'', ''--ref'', ''--depth'', ''--period'', ''--link'', ''--root'',
      ''--one-time=true'', ''--one-time=false'']"

text \<open>The arguments that do not come from \<^verbatim>\<open>GitSyncConfig\<close>.\<close>

definition fixed_git_sync_args :: "GitSyncSpec \<Rightarrow> bool \<Rightarrow> string list" where
  "fixed_git_sync_args gs oneTime =
     (let branch = (if Branch gs = [] then defaultGitBranch else Branch gs);
          depth = (if Depth gs = 0 then 1 else Depth gs);
          wait = (if Wait gs = [] then defaultGitSyncWait else Wait gs)
      in [''--repo='' @ Repo gs,
          ''--ref='' @ branch,
          ''--depth='' @ Format32 depth,
          ''--period='' @ wait,
          ''--link='' @ gitSyncLink,
          ''--root='' @ gitSyncRootDir]
         @ [''--one-time='' @ (if oneTime then ''true'' else ''false'')]
         @ [''--git-config=safe.directory:'' @ gitSyncRootDir])"

definition git_sync_config_arg :: "string list \<Rightarrow> string \<times> string \<Rightarrow> string list" where
  "git_sync_config_arg args kv =
     (if fst kv \<notin> set reserved_git_sync_keys then args @ [fst kv @ ''='' @ snd kv] else args)"

definition buildGitSyncArgs :: "GitSyncSpec \<Rightarrow> bool \<Rightarrow> string list" where
  "buildGitSyncArgs gs oneTime =
     foldl git_sync_config_arg (fixed_git_sync_args gs oneTime) (GitSyncConfig gs)"

definition gitSyncEnvVarFromSecret :: "string \<Rightarrow> string \<Rightarrow> string \<Rightarrow> EnvVar" where
  "gitSyncEnvVarFromSecret varName secretName secretKey =
     \<lparr>env_Name = varName, env_Value = [],
      env_ValueFrom = Some (SecretKeyRef \<lparr>sel_Name = secretName, sel_Key = secretKey\<rparr>)\<rparr>"

definition buildGitSyncContainer ::
    "string \<Rightarrow> GitSyncSpec \<Rightarrow> bool \<Rightarrow> EnvVar list \<Rightarrow> VolumeMount list \<Rightarrow> Container" where
  "buildGitSyncContainer name gs oneTime envVars volumeMounts =
     \<lparr>c_Name = name,
      c_Image = gitSyncImage,
      c_ImagePullPolicy = PullIfNotPresent,
      c_Command = [''/git-sync''],
      c_Args = buildGitSyncArgs gs oneTime,
      c_Env = envVars,
      c_VolumeMounts = volumeMounts,
      c_Ports = [],
      c_Resources =
        \<lparr>res_Requests = [(''cpu'', ''100m''), (''memory'', ''64Mi'')],
         res_Limits = [(''cpu'', ''200m''), (''memory'', ''64Mi'')]\<rparr>,
      c_LivenessProbe = None,
      c_StartupProbe = None,
      c_SecurityContext = None\<rparr>"

subsection \<open>The resources of all entries\<close>

definition gitSyncVolumeName :: "nat \<Rightarrow> string" where
  "gitSyncVolumeName i = gitSyncVolumeNamePrefix @ ''-'' @ show_nat i"

definition gitSyncMountPath :: "nat \<Rightarrow> string" where
  "gitSyncMountPath i = gitSyncMountPathPrefix @ ''-'' @ show_nat i"

definition gitSyncContainerName :: "nat \<Rightarrow> string" where
  "gitSyncContainerName i = gitSyncContainerNamePrefix @ ''-'' @ show_nat i"

definition gitSyncInitContainerName :: "nat \<Rightarrow> string" where
  "gitSyncInitContainerName i = gitSyncContainerNamePrefix @ ''-'' @ show_nat i @ ''-init''"

definition gitSyncEnvVars :: "GitSyncSpec \<Rightarrow> EnvVar list" where
  "gitSyncEnvVars gs =
     (if CredentialsSecret gs \<noteq> []
      then [gitSyncEnvVarFromSecret ''GITSYNC_USERNAME'' (CredentialsSecret gs) ''user'',
            gitSyncEnvVarFromSecret ''GITSYNC_PASSWORD'' (CredentialsSecret gs) ''password'']
      else [])"

definition gitContentFolder :: "nat \<Rightarrow> GitSyncSpec \<Rightarrow> string" where
  "gitContentFolder i gs =
     path_join [gitSyncMountPath i, gitSyncLink, TrimPrefix (GitFolder gs) ''/'']"

text \<open>One pass of the loop body of \<^verbatim>\<open>NewGitSyncResources\<close>.\<close>

definition add_git_sync :: "GitSyncResources \<Rightarrow> nat \<times> GitSyncSpec \<Rightarrow> GitSyncResources" where
  "add_git_sync r igs =
     (let i = fst igs; gs = snd igs;
          volumeName = gitSyncVolumeName i;
          mountPath = gitSyncMountPath i;
          envVars = gitSyncEnvVars gs;
          containerVolumeMounts =
            [\<lparr>vm_Name = volumeName, vm_MountPath = gitSyncRootDir, vm_SubPath = [], vm_ReadOnly = False\<rparr>];
          sidecarContainer = buildGitSyncContainer (gitSyncContainerName i) gs False envVars containerVolumeMounts;
          initContainer = buildGitSyncContainer (gitSyncInitContainerName i) gs True envVars containerVolumeMounts;
          volume = \<lparr>vol_Name = volumeName, vol_Source = EmptyDirSource\<rparr>;
          gitContentVolumeMount =
            \<lparr>vm_Name = volumeName, vm_MountPath = mountPath, vm_SubPath = [], vm_ReadOnly = False\<rparr>
      in r\<lparr>GitSyncContainers := GitSyncContainers r @ [sidecarContainer],
           GitSyncInitContainers := GitSyncInitContainers r @ [initContainer],
           GitSyncVolumes := GitSyncVolumes r @ [volume],
           GitSyncVolumeMounts := GitSyncVolumeMounts r @ [gitContentVolumeMount],
           GitContentFolders := GitContentFolders r @ [gitContentFolder i gs]\<rparr>)"

definition empty_git_sync :: GitSyncResources where
  "empty_git_sync =
     \<lparr>GitSyncContainers = [], GitSyncInitContainers = [], GitSyncVolumes = [],
      GitSyncVolumeMounts = [], GitContentFolders = []\<rparr>"

definition NewGitSyncResources :: "GitSyncSpec list \<Rightarrow> GitSyncResources outcome" where
  "NewGitSyncResources gitSyncs = Ok (foldl add_git_sync empty_git_sync (enumerate 0 gitSyncs))"

subsection \<open>The resources, entry by entry\<close>

text \<open>The closed form of the loop: every field is a map over the indexed entries.\<close>

definition git_sync_mount :: "nat \<Rightarrow> VolumeMount" where
  "git_sync_mount i =
     \<lparr>vm_Name = gitSyncVolumeName i, vm_MountPath = gitSyncMountPath i, vm_SubPath = [], vm_ReadOnly = False\<rparr>"

definition git_sync_root_mount :: "nat \<Rightarrow> VolumeMount" where
  "git_sync_root_mount i =
     \<lparr>vm_Name = gitSyncVolumeName i, vm_MountPath = gitSyncRootDir, vm_SubPath = [], vm_ReadOnly = False\<rparr>"

definition git_sync_volume :: "nat \<Rightarrow> Volume" where
  "git_sync_volume i = \<lparr>vol_Name = gitSyncVolumeName i, vol_Source = EmptyDirSource\<rparr>"

definition git_sync_spec :: "GitSyncSpec list \<Rightarrow> GitSyncResources" where
  "git_sync_spec gss =
     \<lparr>GitSyncContainers = map (\<lambda>(i, gs). buildGitSyncContainer (gitSyncContainerName i) gs False (gitSyncEnvVars gs) [git_sync_root_mount i]) (enumerate 0 gss),
      GitSyncInitContainers = map (\<lambda>(i, gs). buildGitSyncContainer (gitSyncInitContainerName i) gs True (gitSyncEnvVars gs) [git_sync_root_mount i]) (enumerate 0 gss),
      GitSyncVolumes = map git_sync_volume [0..<length gss],
      GitSyncVolumeMounts = map git_sync_mount [0..<length gss],
      GitContentFolders = map (\<lambda>(i, gs). gitContentFolder i gs) (enumerate 0 gss)\<rparr>"

lemma add_git_sync_apply:
  "add_git_sync r (i, gs) =
     \<lparr>GitSyncContainers = GitSyncContainers r @ [buildGitSyncContainer (gitSyncContainerName i) gs False (gitSyncEnvVars gs) [git_sync_root_mount i]],
      GitSyncInitContainers = GitSyncInitContainers r @ [buildGitSyncContainer (gitSyncInitContainerName i) gs True (gitSyncEnvVars gs) [git_sync_root_mount i]],
      GitSyncVolumes = GitSyncVolumes r @ [git_sync_volume i],
      GitSyncVolumeMounts = GitSyncVolumeMounts r @ [git_sync_mount i],
      GitContentFolders = GitContentFolders r @ [gitContentFolder i gs]\<rparr>"
  by (cases r) (simp add: add_git_sync_def Let_def git_sync_root_mount_def git_sync_volume_def git_sync_mount_def)

lemma foldl_add_git_sync:
  "foldl add_git_sync r (enumerate n gss) =
     \<lparr>GitSyncContainers = GitSyncContainers r @ map (\<lambda>(i, gs). buildGitSyncContainer (gitSyncContainerName i) gs False (gitSyncEnvVars gs) [git_sync_root_mount i]) (enumerate n gss),
      GitSyncInitContainers = GitSyncInitContainers r @ map (\<lambda>(i, gs). buildGitSyncContainer (gitSyncInitContainerName i) gs True (gitSyncEnvVars gs) [git_sync_root_mount i]) (enumerate n gss),
      GitSyncVolumes = GitSyncVolumes r @ map git_sync_volume [n..<n + length gss],
      GitSyncVolumeMounts = GitSyncVolumeMounts r @ map git_sync_mount [n..<n + length gss],
      GitContentFolders = GitContentFolders r @ map (\<lambda>(i, gs). gitContentFolder i gs) (enumerate n gss)\<rparr>"
proof (induction gss arbitrary: r n)
  case (Cons gs gss)
  have "[n..<Suc (n + length gss)] = n # [Suc n..<Suc (n + length gss)]"
    by (subst upt_conv_Cons) simp_all
  then show ?case
    by (simp del: upt_Suc add: Cons.IH add_git_sync_apply)
qed simp

lemma NewGitSyncResources_eq: "NewGitSyncResources gss = Ok (git_sync_spec gss)"
  by (simp add: NewGitSyncResources_def foldl_add_git_sync git_sync_spec_def empty_git_sync_def)

subsection \<open>Names\<close>

interpretation gsvol: indexed_names gitSyncVolumeName "gitSyncVolumeNamePrefix @ ''-''" "[]"
  by unfold_locales (simp add: gitSyncVolumeName_def)

interpretation gsmount: indexed_names gitSyncMountPath "gitSyncMountPathPrefix @ ''-''" "[]"
  by unfold_locales (simp add: gitSyncMountPath_def)

interpretation gscont: indexed_names gitSyncContainerName "gitSyncContainerNamePrefix @ ''-''" "[]"
  by unfold_locales (simp add: gitSyncContainerName_def)

interpretation gsinit: indexed_names gitSyncInitContainerName "gitSyncContainerNamePrefix @ ''-''" "''-init''"
  by unfold_locales (simp add: gitSyncInitContainerName_def)

lemma init_name_ne_sidecar_name: "gitSyncInitContainerName i \<noteq> gitSyncContainerName j"
proof
  assume "gitSyncInitContainerName i = gitSyncContainerName j"
  then have "show_nat j = show_nat i @ ''-init''"
    by (simp add: gitSyncInitContainerName_def gitSyncContainerName_def)
  then have "CHR ''-'' \<in> set (show_nat j)" by simp
  with show_nat_no_dash show False by blast
qed

lemma map_enumerate_fst: "map (\<lambda>x. f (fst x)) (enumerate n xs) = map f [n..<n + length xs]"
  using map_map [of f fst "enumerate n xs"] by (simp add: comp_def)

lemma git_sync_container_names:
  "map c_Name (GitSyncContainers (git_sync_spec gss)) = map gitSyncContainerName [0..<length gss]"
  "map c_Name (GitSyncInitContainers (git_sync_spec gss)) = map gitSyncInitContainerName [0..<length gss]"
  by (simp_all add: git_sync_spec_def comp_def case_prod_beta buildGitSyncContainer_def map_enumerate_fst)

lemma git_sync_volume_names:
  "map vol_Name (GitSyncVolumes (git_sync_spec gss)) = map gitSyncVolumeName [0..<length gss]"
  "map vm_Name (GitSyncVolumeMounts (git_sync_spec gss)) = map gitSyncVolumeName [0..<length gss]"
  "map vm_MountPath (GitSyncVolumeMounts (git_sync_spec gss)) = map gitSyncMountPath [0..<length gss]"
  by (simp_all add: git_sync_spec_def git_sync_volume_def git_sync_mount_def comp_def)

subsection \<open>The arguments of a container\<close>

lemma foldl_git_sync_config_arg:
  "foldl git_sync_config_arg args kvs =
     args @ map (\<lambda>kv. fst kv @ ''='' @ snd kv) (filter (\<lambda>kv. fst kv \<notin> set reserved_git_sync_keys) kvs)"
  by (induction kvs arbitrary: args) (simp_all add: git_sync_config_arg_def)

lemma buildGitSyncArgs_eq:
  "buildGitSyncArgs gs oneTime = fixed_git_sync_args gs oneTime @
     map (\<lambda>kv. fst kv @ ''='' @ snd kv) (filter (\<lambda>kv. fst kv \<notin> set reserved_git_sync_keys) (GitSyncConfig gs))"
  by (simp add: buildGitSyncArgs_def foldl_git_sync_config_arg)

lemma one_time_argument:
  "buildGitSyncArgs gs False ! 6 = ''--one-time=false''" "6 < length (buildGitSyncArgs gs False)"
  "buildGitSyncArgs gs True = (buildGitSyncArgs gs False)[6 := ''--one-time=true'']"
  by (simp_all add: buildGitSyncArgs_eq fixed_git_sync_args_def list_update_append)

lemma git_sync_container_pair:
  assumes "i < length gss"
  shows "GitSyncInitContainers (git_sync_spec gss) ! i = (GitSyncContainers (git_sync_spec gss) ! i)
    \<lparr>c_Name := gitSyncInitContainerName i, c_Args := (c_Args (GitSyncContainers (git_sync_spec gss) ! i))[6 := ''--one-time=true'']\<rparr>"
    and "c_Args (GitSyncContainers (git_sync_spec gss) ! i) = buildGitSyncArgs (gss ! i) False"
  using assms by (simp_all add: git_sync_spec_def nth_enumerate_eq buildGitSyncContainer_def one_time_argument(3))

subsection \<open>Properties of the generated resources\<close>

text \<open>
  C19: The loop of \<^verbatim>\<open>NewGitSyncResources\<close>, which appends to five slices, never fails and
  computes the reference definition \<open>git_sync_spec\<close>: for every entry, in order, one sidecar in
  continuous mode, one init container in one-time mode, one emptyDir volume, one mount and one
  content folder.
\<close>

theorem git_sync_loop_equivalence:
  "NewGitSyncResources gss = Ok (git_sync_spec gss)"
  by (rule NewGitSyncResources_eq)



subsection \<open>Properties of the arguments\<close>

text \<open>The flags whose value the operator fixes and filters by name.\<close>

definition operator_flags :: "string list" where
  "operator_flags = [''--git-config'', ''--repo'', ''--ref'', ''--depth'', ''--period'', ''--link'', ''--root'']"

lemma one_fixed_arg:
  "f \<in> set operator_flags \<Longrightarrow>
   length (filter (\<lambda>a. HasPrefix a (f @ ''=''))
     [''--repo='' @ r, ''--ref='' @ b, ''--depth='' @ d, ''--period='' @ w, ''--link='' @ l,
      ''--root='' @ t, ''--one-time='' @ n, ''--git-config=safe.directory:'' @ t]) = 1"
  unfolding operator_flags_def by (simp only: set_simps insert_iff empty_iff, elim disjE FalseE) simp_all

lemma fixed_args_config [simp]:
  "fixed_git_sync_args (gs\<lparr>GitSyncConfig := kvs\<rparr>) oneTime = fixed_git_sync_args gs oneTime"
  by (simp add: fixed_git_sync_args_def)

lemma user_argument_sets:
  assumes "f \<in> set operator_flags"
  shows "HasPrefix (k @ ''='' @ v) (f @ ''='') \<longleftrightarrow> HasPrefix k (f @ ''='') \<or> k = f" "HasPrefix k (f @ ''='') \<Longrightarrow> k \<notin> set reserved_git_sync_keys"
proof -
  have "CHR ''='' \<notin> set f" using assms by (auto simp: operator_flags_def)
  then show "HasPrefix (k @ ''='' @ v) (f @ ''='') \<longleftrightarrow> HasPrefix k (f @ ''='') \<or> k = f"
  proof (induction k arbitrary: f)
    case Nil
    then show ?case by (cases f) auto
  next
    case (Cons x k)
    then show ?case by (cases f) auto
  qed
  assume "HasPrefix k (f @ ''='')"
  with assms show "k \<notin> set reserved_git_sync_keys"
    by (auto simp: operator_flags_def reserved_git_sync_keys_def)
qed

text \<open>
  C36: Which arguments set one of the seven flags that the operator sets and filters by name: the
  operator's own, exactly one, and after it exactly the user entries whose key already contains the
  flag with an equals sign. Entries with the plain flag as the key are dropped, and no other entry
  sets the flag; but a key such as \<^verbatim>\<open>--repo=x\<close> passes the filter and the flag is then given twice.
\<close>

theorem git_sync_flag_arguments:
  assumes "f \<in> set operator_flags"
  shows "\<exists>own. HasPrefix own (f @ ''='') \<and> own \<in> set (fixed_git_sync_args gs oneTime) \<and>
    filter (\<lambda>a. HasPrefix a (f @ ''='')) (buildGitSyncArgs gs oneTime) =
      own # map (\<lambda>kv. fst kv @ ''='' @ snd kv) (filter (\<lambda>kv. HasPrefix (fst kv) (f @ ''='')) (GitSyncConfig gs))"
proof -
  let ?P = "\<lambda>a. HasPrefix a (f @ ''='')"
  have res: "f \<in> set reserved_git_sync_keys" using assms by (auto simp: operator_flags_def reserved_git_sync_keys_def)
  have "length (filter ?P (fixed_git_sync_args gs oneTime)) = 1"
    using one_fixed_arg [OF assms] by (simp only: fixed_git_sync_args_def Let_def append.simps)
  then obtain own where own: "filter ?P (fixed_git_sync_args gs oneTime) = [own]" by (auto simp: length_Suc_conv)
  then have "own \<in> set (filter ?P (fixed_git_sync_args gs oneTime))" by simp
  then have "?P own" "own \<in> set (fixed_git_sync_args gs oneTime)" by auto
  moreover have "filter ?P (map (\<lambda>kv. fst kv @ ''='' @ snd kv) (filter (\<lambda>kv. fst kv \<notin> set reserved_git_sync_keys) (GitSyncConfig gs))) =
      map (\<lambda>kv. fst kv @ ''='' @ snd kv) (filter (\<lambda>kv. ?P (fst kv)) (GitSyncConfig gs))"
    using user_argument_sets [OF assms] res by (auto simp: filter_map comp_def intro!: arg_cong [where f = "map _"] filter_cong)
  ultimately show ?thesis using own by (auto simp: buildGitSyncArgs_eq)
qed

theorem git_sync_flag_arguments_witness:
  "let gs = \<lparr>Repo = ''r'', Branch = [], CredentialsSecret = [], Depth = 0, GitFolder = ''/'',
        GitSyncConfig = [(''--repo'', ''evil''), (''--repo=x'', ''y'')], Wait = []\<rparr>
   in \<exists>own. own \<in> set (fixed_git_sync_args gs True) \<and> filter (\<lambda>a. HasPrefix a ''--repo='') (buildGitSyncArgs gs True) = [own, ''--repo=x=y'']"
  using git_sync_flag_arguments [of "''--repo''" "\<lparr>Repo = ''r'', Branch = [], CredentialsSecret = [], Depth = 0, GitFolder = ''/'',
        GitSyncConfig = [(''--repo'', ''evil''), (''--repo=x'', ''y'')], Wait = []\<rparr>" True]
  by (auto simp: operator_flags_def)

text \<open>
  The filter does not cover \<^verbatim>\<open>--one-time\<close>: it compares keys with
  \<^verbatim>\<open>--one-time=true\<close> and \<^verbatim>\<open>--one-time=false\<close>, so a user entry with the key
  \<^verbatim>\<open>--one-time\<close> is appended after the operator's own \<^verbatim>\<open>--one-time=true\<close>, and the init
  container gets two contradicting flags, the user's last.
\<close>

theorem git_sync_one_time_overridden:
  "let gs = \<lparr>Repo = ''r'', Branch = [], CredentialsSecret = [], Depth = 0, GitFolder = ''/'',
        GitSyncConfig = [(''--one-time'', ''false'')], Wait = []\<rparr>;
       args = buildGitSyncArgs gs True
   in filter (\<lambda>a. HasPrefix a ''--one-time='') args = [''--one-time=true'', ''--one-time=false''] \<and>
      last args = ''--one-time=false''"
  by (simp add: buildGitSyncArgs_eq fixed_git_sync_args_def Let_def reserved_git_sync_keys_def
      gitSyncRootDir_def gitSyncLink_def defaultGitBranch_def defaultGitSyncWait_def Format32_def Itoa_def show_nat.simps)

text \<open>
  Go visits a map in no fixed order. Whatever the visiting order of \<^verbatim>\<open>GitSyncConfig\<close>,
  the arguments are the operator's own eight in their fixed order followed by the same
  multiset of user arguments.
\<close>

theorem git_sync_args_visiting_order:
  assumes "mset kvs = mset (GitSyncConfig gs)"
  shows "mset (buildGitSyncArgs (gs\<lparr>GitSyncConfig := kvs\<rparr>) oneTime) = mset (buildGitSyncArgs gs oneTime) \<and>
    take 8 (buildGitSyncArgs (gs\<lparr>GitSyncConfig := kvs\<rparr>) oneTime) = fixed_git_sync_args gs oneTime"
proof -
  have "length (fixed_git_sync_args gs oneTime) = 8"
    by (simp add: fixed_git_sync_args_def)
  then show ?thesis
    using assms by (simp add: buildGitSyncArgs_eq)
qed

definition two_options :: GitSyncSpec where
  "two_options = \<lparr>Repo = ''r'', Branch = [], CredentialsSecret = [], Depth = 0, GitFolder = ''/'',
     GitSyncConfig = [(''--max-failures'', ''3''), (''--v'', ''6'')], Wait = []\<rparr>"

theorem git_sync_args_visiting_order_witness:
  "mset (buildGitSyncArgs (two_options\<lparr>GitSyncConfig := [(''--v'', ''6''), (''--max-failures'', ''3'')]\<rparr>) True) =
   mset (buildGitSyncArgs two_options True)"
  by (rule git_sync_args_visiting_order [THEN conjunct1]) (simp add: two_options_def)

text \<open>
  The order of the user arguments is not fixed: the same spec with two options, visited in
  the two possible orders, gives two different argument lists, and so two different pod
  templates for one unchanged resource.
\<close>

theorem git_sync_args_order_not_stable:
  "buildGitSyncArgs (two_options\<lparr>GitSyncConfig := rev (GitSyncConfig two_options)\<rparr>) oneTime \<noteq>
   buildGitSyncArgs two_options oneTime"
  by (simp add: buildGitSyncArgs_eq two_options_def reserved_git_sync_keys_def)

text \<open>
  The defaults that the custom resource definition declares for \<^verbatim>\<open>branch\<close>, \<^verbatim>\<open>depth\<close>
  and \<^verbatim>\<open>wait\<close>.
\<close>

definition crd_git_sync_defaults :: "GitSyncSpec \<Rightarrow> GitSyncSpec" where
  "crd_git_sync_defaults gs =
     gs\<lparr>Branch := (if Branch gs = [] then ''main'' else Branch gs),
        Depth := (if Depth gs = 0 then 1 else Depth gs),
        Wait := (if Wait gs = [] then ''20s'' else Wait gs)\<rparr>"

text \<open>
  The defaults in the code are those of the CRD: an entry whose fields are empty gives the
  same containers as the entry after the API server has filled in the defaults.
\<close>

theorem git_sync_defaults_agree:
  "NewGitSyncResources (map crd_git_sync_defaults gss) = NewGitSyncResources gss"
proof -
  have args: "buildGitSyncArgs (crd_git_sync_defaults gs) b = buildGitSyncArgs gs b" for gs b
    by (simp add: buildGitSyncArgs_eq fixed_git_sync_args_def crd_git_sync_defaults_def
        defaultGitBranch_def defaultGitSyncWait_def)
  have same: "buildGitSyncContainer n (crd_git_sync_defaults gs) b = buildGitSyncContainer n gs b"
    "gitSyncEnvVars (crd_git_sync_defaults gs) = gitSyncEnvVars gs"
    "gitContentFolder i (crd_git_sync_defaults gs) = gitContentFolder i gs" for n gs b i
    by (simp_all add: fun_eq_iff buildGitSyncContainer_def args)
      (simp_all add: crd_git_sync_defaults_def gitSyncEnvVars_def gitContentFolder_def)
  show ?thesis
    by (simp add: NewGitSyncResources_eq git_sync_spec_def enumerate_map comp_def case_prod_unfold same)
qed

subsection \<open>Where the content appears\<close>

definition gitSyncMountComps :: "nat \<Rightarrow> string list" where
  "gitSyncMountComps i = [''kubedoop'', ''app'', ''git-'' @ show_nat i]"

lemma gitSyncMountPath_abs:
  "gitSyncMountPath i = abs_path (gitSyncMountComps i)" "list_all valid_comp (gitSyncMountComps i)"
  using show_nat_no_slash [of i]
  by (simp_all add: gitSyncMountPath_def gitSyncMountPathPrefix_def gitSyncMountComps_def slash_def valid_comp_def)

text \<open>
  For a folder made of ordinary components, with or without a leading slash, the content
  folder is the mount path, the link \<^verbatim>\<open>current\<close> and the folder, and it lies below the
  volume mounted into the NiFi container.
\<close>

theorem git_content_folder_below_mount:
  assumes "TrimPrefix (GitFolder gs) ''/'' = Join ds ''/''" and "list_all valid_comp ds"
  shows "gitContentFolder i gs = gitSyncMountPath i @ ''/current'' @ abs_path ds \<and>
    covers (gitSyncMountPath i) (gitContentFolder i gs)"
proof -
  let ?cs = "gitSyncMountComps i"
  have cs: "?cs \<noteq> []" "list_all valid_comp ?cs" "list_all valid_comp (?cs @ [''current''] @ ds)"
    using gitSyncMountPath_abs(2) [of i] assms(2)
    by (simp_all add: gitSyncMountComps_def, simp_all add: valid_comp_def slash_def)
  have "gitContentFolder i gs = path_join [abs_path (?cs @ [''current'']), Join ds ''/'']"
    by (simp only: gitContentFolder_def gitSyncLink_def assms(1) gitSyncMountPath_abs path_join_abs_shift [OF cs(1)])
  also have "\<dots> = abs_path (?cs @ [''current''] @ ds)"
    using cs by (subst path_join_abs_Join) auto
  finally have eq: "gitContentFolder i gs = abs_path (?cs @ [''current''] @ ds)" .
  have "covers (abs_path ?cs) (abs_path (?cs @ [''current''] @ ds))"
    using cs by (subst covers_abs_path) auto
  then show ?thesis
    by (simp add: eq gitSyncMountPath_abs(1)) (simp add: slash_def)
qed

theorem git_content_folder_below_mount_witness:
  "gitContentFolder 1 (two_options\<lparr>GitFolder := ''/nar/lib''\<rparr>) = gitSyncMountPath 1 @ ''/current'' @ abs_path [''nar'', ''lib'']"
  by (rule git_content_folder_below_mount [THEN conjunct1])
    (simp_all add: two_options_def TrimPrefix_def valid_comp_def slash_def)

text \<open>
  A folder with parent references is not confined: the content folder computed for
  \<^verbatim>\<open>/../../secret\<close> is \<^verbatim>\<open>/kubedoop/app/secret\<close>, outside the volume of the entry.
\<close>

theorem git_content_folder_escapes:
  "let p = gitContentFolder 0 (two_options\<lparr>GitFolder := ''/../../secret''\<rparr>)
   in p = ''/kubedoop/app/secret'' \<and> \<not> covers (gitSyncMountPath 0) p"
proof -
  have "gitContentFolder 0 (two_options\<lparr>GitFolder := ''/../../secret''\<rparr>) =
      path_join [''/kubedoop/app/git-0'', ''current'', ''../../secret'']"
    by (simp add: gitContentFolder_def two_options_def gitSyncMountPath_def gitSyncMountPathPrefix_def
        gitSyncLink_def TrimPrefix_def show_nat.simps digit_def)
  also have "\<dots> = ''/kubedoop/app/secret''"
    by (simp add: path_join_def join_elem_def Clean_def slash_def clean_elem_def)
  finally show ?thesis
    by (simp add: covers_def gitSyncMountPath_def gitSyncMountPathPrefix_def show_nat.simps digit_def slash_def)
qed

end
