(* ===== verification/Authentication.thy ===== *)
theory Authentication
  imports Authenticators GitSync
begin

section \<open>Authentication: selecting and calling the authenticator\<close>

text \<open>
  \<^verbatim>\<open>internal/common/security/authentication.go\<close>. The Go interface \<^verbatim>\<open>Authenticator\<close> is the
  datatype \<open>authenticator\<close> with one constructor per implementation, and its methods dispatch
  on it; the locale \<open>authenticator_contract\<close> is what the pod and configuration builders rely
  on, and each implementation is an interpretation of it. \<^verbatim>\<open>client.Get\<close> of an
  \<^verbatim>\<open>AuthenticationClass\<close> is the parameter \<open>getClass\<close>, which returns the provider pointer
  of the object's spec.
\<close>

datatype AuthenticatorType = AuthenticatorTypeLDAP | AuthenticatorTypeOIDC | AuthenticatorStatic

definition SupportedAuthTypes :: "AuthenticatorType list" where
  "SupportedAuthTypes = [AuthenticatorTypeLDAP, AuthenticatorTypeOIDC, AuthenticatorStatic]"

datatype authenticator =
    OidcAuth oidcAuthenticator
  | LdapAuth ldapAuthenticator
  | StaticAuth staticAuthenticator

subsection \<open>The methods of the interface\<close>

fun GetEnvVars :: "authenticator \<Rightarrow> EnvVar list outcome" where
  "GetEnvVars (OidcAuth a) = oidc_GetEnvVars a"
| "GetEnvVars (LdapAuth a) = Ok (ldap_GetEnvVars a)"
| "GetEnvVars (StaticAuth a) = Ok (static_GetEnvVars a)"

fun GetVolumes :: "operator_go \<Rightarrow> authenticator \<Rightarrow> Volume list outcome" where
  "GetVolumes L (OidcAuth a) = Ok (oidc_GetVolumes a)"
| "GetVolumes L (LdapAuth a) = ldap_GetVolumes L a"
| "GetVolumes L (StaticAuth a) = static_GetVolumes a"

fun GetVolumeMounts :: "operator_go \<Rightarrow> authenticator \<Rightarrow> VolumeMount list outcome" where
  "GetVolumeMounts L (OidcAuth a) = Ok (oidc_GetVolumeMounts L a)"
| "GetVolumeMounts L (LdapAuth a) = ldap_GetVolumeMounts L a"
| "GetVolumeMounts L (StaticAuth a) = Ok (static_GetVolumeMounts L a)"

fun ExtendNifiProperties :: "'p properties_pkg \<Rightarrow> authenticator \<Rightarrow> 'p option outcome" where
  "ExtendNifiProperties P (OidcAuth a) = oidc_ExtendNifiProperties P a"
| "ExtendNifiProperties P (LdapAuth a) = Ok (ldap_ExtendNifiProperties a)"
| "ExtendNifiProperties P (StaticAuth a) = Ok (static_ExtendNifiProperties a)"

fun GetLoginIdentiryProvider :: "operator_go \<Rightarrow> authenticator \<Rightarrow> string outcome" where
  "GetLoginIdentiryProvider L (OidcAuth a) = Ok (oidc_GetLoginIdentiryProvider L a)"
| "GetLoginIdentiryProvider L (LdapAuth a) = ldap_GetLoginIdentiryProvider L a"
| "GetLoginIdentiryProvider L (StaticAuth a) = Ok (static_GetLoginIdentiryProvider L a)"

fun GetInitArgs :: "operator_go \<Rightarrow> authenticator \<Rightarrow> string" where
  "GetInitArgs L (OidcAuth a) = oidc_GetInitArgs L a"
| "GetInitArgs L (LdapAuth a) = ldap_GetInitArgs a"
| "GetInitArgs L (StaticAuth a) = static_GetInitArgs L a"

subsection \<open>The set of authenticators\<close>

record Authentication =
  Authenticators :: "(AuthenticatorType, authenticator list) go_map"

text \<open>
  The loops of the methods of \<^verbatim>\<open>Authentication\<close>: the first visited list with exactly one
  element, for \<^verbatim>\<open>GetLoginIdentiryProvider\<close> the first that is not empty.
\<close>

fun first_single :: "('t, 'a list) go_map \<Rightarrow> 'a option" where
  "first_single [] = None"
| "first_single ((t, xs) # m) = (if length xs = 1 then Some (hd xs) else first_single m)"

fun first_nonempty :: "('t, 'a list) go_map \<Rightarrow> 'a option" where
  "first_nonempty [] = None"
| "first_nonempty ((t, xs) # m) = (if length xs > 0 then Some (hd xs) else first_nonempty m)"

definition Auth_GetInitArgs :: "operator_go \<Rightarrow> Authentication \<Rightarrow> string" where
  "Auth_GetInitArgs L a = (case first_single (Authenticators a) of None \<Rightarrow> [] | Some x \<Rightarrow> GetInitArgs L x)"

definition Auth_GetEnvVars :: "Authentication \<Rightarrow> EnvVar list outcome" where
  "Auth_GetEnvVars a = (case first_single (Authenticators a) of None \<Rightarrow> Ok [] | Some x \<Rightarrow> GetEnvVars x)"

definition Auth_GetVolumes :: "operator_go \<Rightarrow> Authentication \<Rightarrow> Volume list outcome" where
  "Auth_GetVolumes L a = (case first_single (Authenticators a) of None \<Rightarrow> Ok [] | Some x \<Rightarrow> GetVolumes L x)"

definition Auth_GetVolumeMounts :: "operator_go \<Rightarrow> Authentication \<Rightarrow> VolumeMount list outcome" where
  "Auth_GetVolumeMounts L a = (case first_single (Authenticators a) of None \<Rightarrow> Ok [] | Some x \<Rightarrow> GetVolumeMounts L x)"

definition Auth_ExtendNifiProperties :: "'p properties_pkg \<Rightarrow> Authentication \<Rightarrow> 'p option outcome" where
  "Auth_ExtendNifiProperties P a =
     (case first_single (Authenticators a) of None \<Rightarrow> Ok None | Some x \<Rightarrow> ExtendNifiProperties P x)"

definition Auth_GetLoginIdentiryProvider :: "operator_go \<Rightarrow> Authentication \<Rightarrow> string outcome" where
  "Auth_GetLoginIdentiryProvider L a =
     (case first_nonempty (Authenticators a) of None \<Rightarrow> Ok [] | Some x \<Rightarrow> GetLoginIdentiryProvider L x)"

subsection \<open>NewAuthentication\<close>

type_synonym class_lookup = "string \<Rightarrow> AuthenticationProvider option outcome"

text \<open>
  When the class is not found, the error is ignored and the provider of the empty object, a nil
  pointer, is returned.
\<close>

definition GetAuthProvider :: "class_lookup \<Rightarrow> string \<Rightarrow> AuthenticationProvider option outcome" where
  "GetAuthProvider getClass authclass =
     (case getClass authclass of
        Err e \<Rightarrow> if not_ignored e then Err e else Ok None
      | Ok provider \<Rightarrow> Ok provider
      | Panic \<Rightarrow> Panic)"

text \<open>\<^verbatim>\<open>m[k] = append(m[k], x)\<close>.\<close>

fun append_at :: "'k \<Rightarrow> 'a \<Rightarrow> ('k, 'a list) go_map \<Rightarrow> ('k, 'a list) go_map" where
  "append_at k x [] = [(k, [x])]"
| "append_at k x ((l, xs) # m) = (if l = k then (l, xs @ [x]) # m else (l, xs) # append_at k x m)"

definition add_authenticator ::
    "class_lookup \<Rightarrow> string \<Rightarrow> (AuthenticatorType, authenticator list) go_map \<Rightarrow> AuthenticationSpec
      \<Rightarrow> (AuthenticatorType, authenticator list) go_map outcome" where
  "add_authenticator getClass clusterName authenticators auth =
     bind_o (GetAuthProvider getClass (AuthenticationClass auth)) (\<lambda>p.
     bind_o (deref p) (\<lambda>provider.
       if ap_OIDC provider \<noteq> None \<and> AuthenticatorTypeOIDC \<in> set SupportedAuthTypes then
         Ok (append_at AuthenticatorTypeOIDC
              (OidcAuth \<lparr>oa_clusterName = clusterName, oa_config = Oidc auth, oa_provider = the (ap_OIDC provider)\<rparr>)
              authenticators)
       else if ap_LDAP provider \<noteq> None \<and> AuthenticatorTypeLDAP \<in> set SupportedAuthTypes then
         Ok (append_at AuthenticatorTypeLDAP
              (LdapAuth \<lparr>la_clusterName = clusterName, la_provider = the (ap_LDAP provider)\<rparr>) authenticators)
       else if ap_Static provider \<noteq> None \<and> AuthenticatorStatic \<in> set SupportedAuthTypes then
         Ok (append_at AuthenticatorStatic
              (StaticAuth \<lparr>sa_clusterName = clusterName, sa_provider = the (ap_Static provider)\<rparr>) authenticators)
       else Err (Errorf (''unsupported authentication provider: '' @ AuthenticationClass auth))))"

definition NewAuthentication ::
    "class_lookup \<Rightarrow> string \<Rightarrow> AuthenticationSpec list \<Rightarrow> Authentication outcome" where
  "NewAuthentication getClass clusterName auths =
     (if length auths = 0 then Err (Errorf ''no authentication specifications provided'')
      else if length auths > 1 then Err (Errorf ''multiple authentication specifications are not supported'')
      else if length (AuthenticationClass (hd auths)) = 0 then Err (Errorf ''authentication class is required'')
      else bind_o (fold_o (add_authenticator getClass clusterName) [] auths) (\<lambda>authenticators.
             Ok \<lparr>Authenticators = authenticators\<rparr>))"

subsection \<open>The contract of an authenticator\<close>

text \<open>
  What the stateful set builder relies on: a complete configuration makes every method return;
  the environment variables are distinct and none of the operator's own; every mount names one
  of the authenticator's volumes, and these do not clash with the volumes of the pod.
\<close>

definition reserved_env :: "string list" where
  "reserved_env = [''POD_NAME'', ''STACKLET_NAME'', ''ZOOKEEPER_HOSTS'', ''ZOOKEEPER_CHROOT'']"

definition reserved_volumes :: "string list" where
  "reserved_volumes = [''nifi-config'', ''empty-dir'']"

locale authenticator_contract =
  fixes complete :: "'a \<Rightarrow> bool"
    and env :: "'a \<Rightarrow> EnvVar list outcome"
    and vols :: "'a \<Rightarrow> Volume list outcome"
    and mnts :: "'a \<Rightarrow> VolumeMount list outcome"
    and login :: "'a \<Rightarrow> string outcome"
  assumes returns: "complete a \<Longrightarrow> is_ok (env a) \<and> is_ok (vols a) \<and> is_ok (mnts a) \<and> is_ok (login a)"
    and env_distinct: "env a = Ok es \<Longrightarrow> env_ok es"
    and env_fresh: "env a = Ok es \<Longrightarrow> set (map env_Name es) \<inter> set reserved_env = {}"
    and backed: "complete a \<Longrightarrow> vols a = Ok vs \<Longrightarrow> mnts a = Ok ms \<Longrightarrow> mounts_backed vs ms"
    and vols_distinct: "complete a \<Longrightarrow> vols a = Ok vs \<Longrightarrow> volumes_ok vs"
    and vols_fresh: "complete a \<Longrightarrow> vols a = Ok vs \<Longrightarrow>
      set (map vol_Name vs) \<inter> (set reserved_volumes \<union> range gitSyncVolumeName) = {}"
begin

lemma env_extends:
  assumes "env a = Ok es" "env_ok base" "set (map env_Name base) \<subseteq> set reserved_env"
  shows "env_ok (base @ es)"
  using assms env_distinct [of a es] env_fresh [of a es] by (auto simp: env_ok_def)

lemma volumes_extend:
  assumes "complete a" "vols a = Ok vs" "volumes_ok base" "set (map vol_Name base) \<subseteq> set reserved_volumes"
    and "volumes_ok git" "set (map vol_Name git) \<subseteq> range gitSyncVolumeName"
    and "set reserved_volumes \<inter> range gitSyncVolumeName = {}"
  shows "volumes_ok (base @ vs @ git)"
proof -
  have "set (map vol_Name base) \<inter> set (map vol_Name vs) = {}" "set (map vol_Name vs) \<inter> set (map vol_Name git) = {}"
    using vols_fresh [OF assms(1,2)] assms(4,6) by blast+
  moreover have "set (map vol_Name base) \<inter> set (map vol_Name git) = {}"
    using assms(4,6,7) by blast
  ultimately show ?thesis
    using assms(3,5) vols_distinct [OF assms(1,2)] by (simp add: volumes_ok_def Int_Un_distrib)
qed

end

lemma reserved_volumes_not_git: "set reserved_volumes \<inter> range gitSyncVolumeName = {}"
  by (auto simp: reserved_volumes_def gitSyncVolumeName_def gitSyncVolumeNamePrefix_def)

lemma admin_volume_fresh: "NifiAdminUsername \<notin> set reserved_volumes \<union> range gitSyncVolumeName"
  by (auto simp: NifiAdminUsername_def reserved_volumes_def gitSyncVolumeName_def gitSyncVolumeNamePrefix_def)

lemma last_show_nat: "last (show_nat n) \<in> set ''0123456789''"
  using show_nat_digits [of n] last_in_set [OF show_nat_nonempty, of n] by blast

lemma bind_volume_fresh: "c @ ''-bind-credentials'' \<notin> set reserved_volumes \<union> range gitSyncVolumeName"
proof
  assume "c @ ''-bind-credentials'' \<in> set reserved_volumes \<union> range gitSyncVolumeName"
  then consider "c @ ''-bind-credentials'' = ''nifi-config''" | "c @ ''-bind-credentials'' = ''empty-dir''"
    | i where "c @ ''-bind-credentials'' = gitSyncVolumeName i"
    by (auto simp: reserved_volumes_def)
  then show False
  proof cases
    case 3
    then have "last (gitSyncVolumeName i) = CHR ''s''" by (metis last_appendR last.simps list.distinct(1))
    then have "last (show_nat i) = CHR ''s''" by (simp add: gitSyncVolumeName_def)
    with last_show_nat [of i] show False by simp
  qed (auto dest: arg_cong [where f = last])
qed

lemma bind_volume_names:
  "c @ ''-bind-credentials'' \<notin> set reserved_volumes" "c @ ''-bind-credentials'' \<noteq> gitSyncVolumeName i"
  using bind_volume_fresh [of c] by auto

interpretation oidc: authenticator_contract
  "\<lambda>a. oa_config a \<noteq> None" oidc_GetEnvVars "\<lambda>a. Ok (oidc_GetVolumes a)"
  "\<lambda>a. Ok (oidc_GetVolumeMounts L a)" "\<lambda>a. Ok (oidc_GetLoginIdentiryProvider L a)" for L
  using admin_volume_fresh
  by unfold_locales
    (auto simp: oidc_GetEnvVars_def secret_env_def env_ok_def reserved_env_def mounts_backed_def volumes_ok_def
      oidc_GetVolumes_def oidc_GetVolumeMounts_def admin_volume_def admin_mount_def outcome_simps)

definition ldap_complete :: "LDAPProvider \<Rightarrow> bool" where
  "ldap_complete p \<longleftrightarrow> lp_BindCredentials p \<noteq> None \<and> (lp_SearchFilter p \<noteq> [] \<or> lp_LDAPFieldNames p \<noteq> None)"

interpretation ldap: authenticator_contract
  "\<lambda>a. volume_laws L \<and> ldap_complete (la_provider a)" "\<lambda>a. Ok (ldap_GetEnvVars a)" "ldap_GetVolumes L"
  "ldap_GetVolumeMounts L" "ldap_GetLoginIdentiryProvider L" for L
  by unfold_locales
    (auto simp: bind_volume_names ldap_GetEnvVars_def env_ok_def mounts_backed_def volumes_ok_def ldap_GetVolumes_def volume_laws_def
      ldap_GetVolumeMounts_def getBindCredentialsVolumeName_def getBindCredentialsMountDir_def
      ldap_GetLoginIdentiryProvider_def getBindCredentialsMountPaths_def ldap_complete_def ldap_searchFilter_def outcome_simps)

interpretation static: authenticator_contract
  "\<lambda>a. sp_UserCredentialsSecret (sa_provider a) \<noteq> None" "\<lambda>a. Ok (static_GetEnvVars a)" static_GetVolumes
  "\<lambda>a. Ok (static_GetVolumeMounts L a)" "\<lambda>a. Ok (static_GetLoginIdentiryProvider L a)" for L
  using admin_volume_fresh
  by unfold_locales
    (auto simp: static_GetEnvVars_def env_ok_def mounts_backed_def volumes_ok_def
      static_GetVolumes_def static_GetVolumeMounts_def admin_volume_def admin_mount_def outcome_simps)

text \<open>The interface as a whole: each implementation keeps the contract, so the dispatch does.\<close>

fun complete_auth :: "operator_go \<Rightarrow> authenticator \<Rightarrow> bool" where
  "complete_auth L (OidcAuth a) = (oa_config a \<noteq> None)"
| "complete_auth L (LdapAuth a) = (volume_laws L \<and> ldap_complete (la_provider a))"
| "complete_auth L (StaticAuth a) = (sp_UserCredentialsSecret (sa_provider a) \<noteq> None)"

interpretation anyauth: authenticator_contract
  "complete_auth L" GetEnvVars "GetVolumes L" "GetVolumeMounts L" "GetLoginIdentiryProvider L" for L
proof unfold_locales
  fix a es vs ms
  show "complete_auth L a \<Longrightarrow> is_ok (GetEnvVars a) \<and> is_ok (GetVolumes L a) \<and> is_ok (GetVolumeMounts L a) \<and> is_ok (GetLoginIdentiryProvider L a)"
    using oidc.returns ldap.returns static.returns by (cases a) fastforce+
  show "GetEnvVars a = Ok es \<Longrightarrow> env_ok es"
    using oidc.env_distinct ldap.env_distinct static.env_distinct by (cases a) fastforce+
  show "GetEnvVars a = Ok es \<Longrightarrow> set (map env_Name es) \<inter> set reserved_env = {}"
    using oidc.env_fresh ldap.env_fresh static.env_fresh by (cases a) fastforce+
  show "complete_auth L a \<Longrightarrow> GetVolumes L a = Ok vs \<Longrightarrow> GetVolumeMounts L a = Ok ms \<Longrightarrow> mounts_backed vs ms"
    using oidc.backed ldap.backed static.backed by (cases a) fastforce+
  show "complete_auth L a \<Longrightarrow> GetVolumes L a = Ok vs \<Longrightarrow> volumes_ok vs"
    using oidc.vols_distinct ldap.vols_distinct static.vols_distinct by (cases a) fastforce+
  show "complete_auth L a \<Longrightarrow> GetVolumes L a = Ok vs \<Longrightarrow>
      set (map vol_Name vs) \<inter> (set reserved_volumes \<union> range gitSyncVolumeName) = {}"
  proof (cases a)
    case (OidcAuth x)
    assume "complete_auth L a" "GetVolumes L a = Ok vs"
    with OidcAuth show ?thesis using oidc.vols_fresh [of x vs] by simp
  next
    case (LdapAuth x)
    assume "complete_auth L a" "GetVolumes L a = Ok vs"
    with LdapAuth show ?thesis using ldap.vols_fresh [of L x vs] by simp
  next
    case (StaticAuth x)
    assume "complete_auth L a" "GetVolumes L a = Ok vs"
    with StaticAuth show ?thesis using static.vols_fresh [of x vs] by simp
  qed
qed

subsection \<open>Properties of the selection\<close>

text \<open>The authenticator a provider stands for: OIDC before LDAP before static users.\<close>

fun selected :: "string \<Rightarrow> AuthenticationSpec \<Rightarrow> AuthenticationProvider \<Rightarrow> (AuthenticatorType \<times> authenticator) option" where
  "selected cn s p =
     (case (ap_OIDC p, ap_LDAP p, ap_Static p) of
        (Some q, _, _) \<Rightarrow> Some (AuthenticatorTypeOIDC, OidcAuth \<lparr>oa_clusterName = cn, oa_config = Oidc s, oa_provider = q\<rparr>)
      | (None, Some q, _) \<Rightarrow> Some (AuthenticatorTypeLDAP, LdapAuth \<lparr>la_clusterName = cn, la_provider = q\<rparr>)
      | (None, None, Some q) \<Rightarrow> Some (AuthenticatorStatic, StaticAuth \<lparr>sa_clusterName = cn, sa_provider = q\<rparr>)
      | (None, None, None) \<Rightarrow> None)"

lemma all_supported [simp]: "t \<in> set SupportedAuthTypes"
  by (cases t) (simp_all add: SupportedAuthTypes_def)

lemma add_authenticator_first:
  "add_authenticator g cn [] s =
     bind_o (GetAuthProvider g (AuthenticationClass s)) (\<lambda>p. bind_o (deref p) (\<lambda>p.
       case selected cn s p of
         None \<Rightarrow> Err (Errorf (''unsupported authentication provider: '' @ AuthenticationClass s))
       | Some (t, x) \<Rightarrow> Ok [(t, [x])]))"
  unfolding add_authenticator_def by (intro bind_o_cong refl) (auto split: option.splits)

lemma NewAuthentication_single:
  "AuthenticationClass s \<noteq> [] \<Longrightarrow>
   NewAuthentication g cn [s] =
     bind_o (add_authenticator g cn [] s) (\<lambda>m. Ok \<lparr>Authenticators = m\<rparr>)"
  by (simp add: NewAuthentication_def bind_o_assoc)

lemma GetAuthProvider_Some_iff: "GetAuthProvider g c = Ok (Some p) \<longleftrightarrow> g c = Ok (Some p)"
  by (auto simp: GetAuthProvider_def split: outcome.splits if_splits)

lemma NewAuthentication_OkD:
  assumes "NewAuthentication g cn auths = Ok a"
  obtains s p t x where "auths = [s]" "AuthenticationClass s \<noteq> []" "g (AuthenticationClass s) = Ok (Some p)"
    "selected cn s p = Some (t, x)" "Authenticators a = [(t, [x])]"
proof -
  from assms obtain s where s: "auths = [s]" "AuthenticationClass s \<noteq> []"
    by (cases auths rule: remdups_adj.cases) (auto simp: NewAuthentication_def split: if_splits)
  with assms obtain m where m: "add_authenticator g cn [] s = Ok m" "a = \<lparr>Authenticators = m\<rparr>"
    by (auto simp: NewAuthentication_single outcome_simps)
  then show thesis
    using that [OF s] by (auto simp: add_authenticator_first outcome_simps GetAuthProvider_Some_iff split: option.splits)
qed

text \<open>
  C23: When \<^verbatim>\<open>NewAuthentication\<close> succeeds there was exactly one specification, naming a class that
  exists, and the result holds exactly one authenticator, the one of highest precedence (OIDC,
  then LDAP, then static) the provider configures; so every method of \<^verbatim>\<open>Authentication\<close>, though
  it ranges over a map, is that authenticator's method.
\<close>

theorem NewAuthentication_selects_one:
  assumes "NewAuthentication g cn auths = Ok a"
  shows "\<exists>s p t x. auths = [s] \<and> g (AuthenticationClass s) = Ok (Some p) \<and> selected cn s p = Some (t, x) \<and>
    Authenticators a = [(t, [x])] \<and>
    Auth_GetEnvVars a = GetEnvVars x \<and> Auth_GetVolumes L a = GetVolumes L x \<and>
    Auth_GetVolumeMounts L a = GetVolumeMounts L x \<and> Auth_ExtendNifiProperties P a = ExtendNifiProperties P x \<and>
    Auth_GetLoginIdentiryProvider L a = GetLoginIdentiryProvider L x \<and> Auth_GetInitArgs L a = GetInitArgs L x"
  using assms
  by (rule NewAuthentication_OkD)
    (auto simp: Auth_GetEnvVars_def Auth_GetVolumes_def Auth_GetVolumeMounts_def Auth_ExtendNifiProperties_def
      Auth_GetLoginIdentiryProvider_def Auth_GetInitArgs_def simp del: selected.simps)

definition static_class :: class_lookup where
  "static_class c = (if c = ''users'' then Ok (Some \<lparr>ap_OIDC = None, ap_LDAP = None, ap_Static = Some \<lparr>sp_UserCredentialsSecret = Some ''creds''\<rparr>\<rparr>)
     else Err NotFound)"

definition users_spec :: AuthenticationSpec where
  "users_spec = \<lparr>AuthenticationClass = ''users'', Oidc = None\<rparr>"

lemma static_authentication:
  "NewAuthentication static_class cn [users_spec] =
     Ok \<lparr>Authenticators = [(AuthenticatorStatic, [StaticAuth \<lparr>sa_clusterName = cn, sa_provider = \<lparr>sp_UserCredentialsSecret = Some ''creds''\<rparr>\<rparr>])]\<rparr>"
  by (simp add: NewAuthentication_single add_authenticator_first GetAuthProvider_def static_class_def users_spec_def)

theorem NewAuthentication_selects_one_witness:
  "\<exists>a. NewAuthentication static_class ''c'' [users_spec] = Ok a \<and>
     Auth_GetVolumes kubedoop a = Ok [admin_volume ''creds'']"
proof -
  obtain a where a: "NewAuthentication static_class ''c'' [users_spec] = Ok a"
    by (simp add: static_authentication)
  from NewAuthentication_selects_one [OF a, of kubedoop plain_props] a show ?thesis
    by (auto simp: static_class_def users_spec_def static_GetVolumes_def split: if_splits)
qed

text \<open>
  C24: \<^verbatim>\<open>NewAuthentication\<close> succeeds exactly for one specification whose class is named, exists and
  configures at least one of the three supported providers.
\<close>

theorem NewAuthentication_ok_iff:
  "is_ok (NewAuthentication g cn auths) \<longleftrightarrow>
     (\<exists>s p. auths = [s] \<and> AuthenticationClass s \<noteq> [] \<and> g (AuthenticationClass s) = Ok (Some p) \<and>
        (ap_OIDC p \<noteq> None \<or> ap_LDAP p \<noteq> None \<or> ap_Static p \<noteq> None))"
proof
  assume "is_ok (NewAuthentication g cn auths)"
  then obtain a where "NewAuthentication g cn auths = Ok a" by (auto simp: outcome_simps)
  then show "\<exists>s p. auths = [s] \<and> AuthenticationClass s \<noteq> [] \<and> g (AuthenticationClass s) = Ok (Some p) \<and>
        (ap_OIDC p \<noteq> None \<or> ap_LDAP p \<noteq> None \<or> ap_Static p \<noteq> None)"
    by (rule NewAuthentication_OkD) (auto split: option.splits)
next
  assume "\<exists>s p. auths = [s] \<and> AuthenticationClass s \<noteq> [] \<and> g (AuthenticationClass s) = Ok (Some p) \<and>
        (ap_OIDC p \<noteq> None \<or> ap_LDAP p \<noteq> None \<or> ap_Static p \<noteq> None)"
  then show "is_ok (NewAuthentication g cn auths)"
    by (auto simp: NewAuthentication_single add_authenticator_first GetAuthProvider_def outcome_simps split: option.splits)
qed

theorem NewAuthentication_ok_iff_witness:
  "is_ok (NewAuthentication static_class ''simple'' [users_spec]) \<and> \<not> is_ok (NewAuthentication static_class ''simple'' [])"
  unfolding NewAuthentication_ok_iff by (simp add: static_class_def users_spec_def)

text \<open>
  A class that does not exist is not reported as an error: \<^verbatim>\<open>GetAuthProvider\<close> swallows the
  not-found status and returns a nil provider, which \<^verbatim>\<open>NewAuthentication\<close> dereferences, so the
  operator panics for every specification that names a missing class.
\<close>

theorem missing_class_panics:
  assumes "AuthenticationClass s \<noteq> []" "g (AuthenticationClass s) = Err NotFound"
  shows "NewAuthentication g cn [s] = Panic"
  using assms by (simp add: NewAuthentication_single add_authenticator_first GetAuthProvider_def not_ignored_def)

theorem missing_class_panics_witness:
  "NewAuthentication static_class ''c'' [users_spec\<lparr>AuthenticationClass := ''typo''\<rparr>] = Panic"
  by (rule missing_class_panics) (simp_all add: users_spec_def static_class_def)

text \<open>
  A complete configuration is enough for every method to return, and the methods that read an
  absent optional part panic: OIDC without the \<^verbatim>\<open>oidc\<close> section when its environment is built,
  LDAP without bind credentials when its volumes and mounts are built, although the LDAP login
  provider treats missing credentials as the anonymous strategy.
\<close>

theorem incomplete_authenticators_panic:
  "(oa_config oa = None \<longrightarrow> GetEnvVars (OidcAuth oa) = Panic \<and> ExtendNifiProperties P (OidcAuth oa) = Panic) \<and>
   (lp_BindCredentials (la_provider l) = None \<longrightarrow>
      GetVolumes L (LdapAuth l) = Panic \<and> GetVolumeMounts L (LdapAuth l) = Panic \<and>
      (lp_SearchFilter (la_provider l) \<noteq> [] \<longrightarrow> is_ok (GetLoginIdentiryProvider L (LdapAuth l))) \<and> ldap_authStrategy (la_provider l) ([], []) = ''ANONYMOUS'')"
  by (simp add: oidc_GetEnvVars_def oidc_ExtendNifiProperties_def ldap_GetVolumes_def ldap_GetVolumeMounts_def
      getBindCredentialsVolumeName_def ldap_GetLoginIdentiryProvider_def getBindCredentialsMountPaths_def ldap_searchFilter_def ldap_authStrategy_def)

theorem incomplete_authenticators_panic_witness:
  "GetVolumes kubedoop (LdapAuth \<lparr>la_clusterName = ''c'', la_provider = demo_ldap None None\<rparr>) = Panic \<and>
   GetEnvVars (OidcAuth \<lparr>oa_clusterName = ''c'', oa_config = None, oa_provider = demo_oidc\<rparr>) = Panic"
  using incomplete_authenticators_panic
    [of "\<lparr>oa_clusterName = ''c'', oa_config = None, oa_provider = demo_oidc\<rparr>" plain_props
        "\<lparr>la_clusterName = ''c'', la_provider = demo_ldap None None\<rparr>" kubedoop]
  by (simp add: demo_ldap_def)

end
