(* ===== verification/NodeConfig.thy ===== *)
theory NodeConfig
  imports Authentication
begin

section \<open>NodeConfig: ports and the NiFi configuration files\<close>

text \<open>
  \<^verbatim>\<open>internal/controller/node/\<close>: \<^verbatim>\<open>port.go\<close> and \<^verbatim>\<open>configmap.go\<close>. The successive
  \<^verbatim>\<open>properties.Add(k, v)\<close> calls of \<^verbatim>\<open>getNifiProperties\<close> are lists of pairs in source
  order, one definition per group of calls, that \<open>add_all\<close> feeds to the property package;
  the builder \<^verbatim>\<open>NifiConfigMapBuilder\<close> is a record and its \<^verbatim>\<open>Build\<close> threads the embedded
  config map builder through the \<^verbatim>\<open>AddItem\<close> calls.
\<close>

subsection \<open>port.go\<close>

definition Ports :: "ContainerPort list" where
  "Ports =
     [\<lparr>port_Name = ''http'', port_ContainerPort = 8088\<rparr>,
      \<lparr>port_Name = ''https'', port_ContainerPort = 9443\<rparr>,
      \<lparr>port_Name = ''protocol'', port_ContainerPort = 9088\<rparr>,
      \<lparr>port_Name = ''balance'', port_ContainerPort = 6243\<rparr>,
      \<lparr>port_Name = ''metrics'', port_ContainerPort = 8081\<rparr>]"

fun find_port :: "string \<Rightarrow> ContainerPort list \<Rightarrow> int32" where
  "find_port name [] = 0"
| "find_port name (p # ps) = (if port_Name p = name then port_ContainerPort p else find_port name ps)"

definition GetPort :: "string \<Rightarrow> int32" where
  "GetPort name = find_port name Ports"

definition getPort :: "string \<Rightarrow> int32" where
  "getPort name = GetPort name"

subsection \<open>Directories\<close>

definition node_DefaultServerTlsStorePassword :: string where
  "node_DefaultServerTlsStorePassword = ''changeit''"

definition node_DefaultServerTlsKeyPassword :: string where
  "node_DefaultServerTlsKeyPassword = ''changeit''"

definition NifiRoot :: "operator_go \<Rightarrow> string" where
  "NifiRoot L = path_join [KubedoopRoot L, ''nifi'']"

definition NifiConfigDir :: "operator_go \<Rightarrow> string" where
  "NifiConfigDir L = path_join [NifiRoot L, ''conf'']"

definition NifiSensitivePropertyDir :: "operator_go \<Rightarrow> string" where
  "NifiSensitivePropertyDir L = path_join [NifiRoot L, ''sensitiveproperty'']"

definition NifiServerTlsDir :: "operator_go \<Rightarrow> string" where
  "NifiServerTlsDir L = path_join [NifiRoot L, ''server-tls'']"

definition nifiRepository :: "string \<Rightarrow> string" where
  "nifiRepository name = name @ ''-repository''"

definition repository_map :: "operator_go \<Rightarrow> (string, string) go_map" where
  "repository_map L =
     [(''database'', path_join [KubedoopDataDir L, nifiRepository ''data'']),
      (''flowfile'', path_join [KubedoopDataDir L, nifiRepository ''flowfile'']),
      (''content'', path_join [KubedoopDataDir L, nifiRepository ''content'']),
      (''provenance'', path_join [KubedoopDataDir L, nifiRepository ''provenance'']),
      (''state'', path_join [KubedoopDataDir L, nifiRepository ''state'']),
      (''status'', path_join [KubedoopDataDir L, nifiRepository ''status'']),
      (''server-tls'', path_join [KubedoopDataDir L, nifiRepository ''server_tls''])]"

text \<open>The indexing expression \<^verbatim>\<open>NifiRepositoryMouhtPath[k]\<close>: a missing key gives the empty string.\<close>

definition NifiRepositoryMouhtPath :: "operator_go \<Rightarrow> string \<Rightarrow> string" where
  "NifiRepositoryMouhtPath L k = (case map_of (repository_map L) k of None \<Rightarrow> [] | Some p \<Rightarrow> p)"

subsection \<open>The builder\<close>

record 'c NifiConfigMapBuilder =
  ncb_ConfigMapBuilder :: 'c
  ncb_ClusterConfig :: "ClusterConfigSpec option"
  ncb_Image :: "Image option"
  ncb_ClusterName :: string
  ncb_RoleName :: string
  ncb_RoleGroupName :: string
  ncb_Config :: "ConfigSpec option"
  ncb_Authentication :: "Authentication option"

definition NewNifiConfigBuilder ::
    "operator_go \<Rightarrow> 'c configmap_pkg \<Rightarrow> ClusterConfigSpec option \<Rightarrow> Image option \<Rightarrow> RoleGroupInfo
      \<Rightarrow> ConfigSpec option \<Rightarrow> Authentication option \<Rightarrow> 'c NifiConfigMapBuilder" where
  "NewNifiConfigBuilder L C clusterConfig img roleGroupInfo config authentication =
     \<lparr>ncb_ConfigMapBuilder = NewConfigMapBuilder C (GetFullName L roleGroupInfo)
        (no_options\<lparr>o_Labels := RoleGroupLabels L roleGroupInfo, o_Annotations := RoleGroupAnnotations L roleGroupInfo\<rparr>),
      ncb_ClusterConfig = clusterConfig,
      ncb_Image = img,
      ncb_ClusterName = rgi_ClusterName roleGroupInfo,
      ncb_RoleName = rgi_RoleName roleGroupInfo,
      ncb_RoleGroupName = rgi_RoleGroupName roleGroupInfo,
      ncb_Config = config,
      ncb_Authentication = authentication\<rparr>"

text \<open>
  \<^verbatim>\<open>useZooKeeperStateProvider\<close>, on the cluster configuration that the receiver's pointer
  holds; the callers dereference it.
\<close>

definition useZooKeeperStateProvider :: "ClusterConfigSpec \<Rightarrow> bool" where
  "useZooKeeperStateProvider cc \<longleftrightarrow>
     (case ZookeeperConfigMapName cc of None \<Rightarrow> False | Some n \<Rightarrow> n \<noteq> [])"

subsection \<open>state-management.xml\<close>

definition localProviderBlock :: "operator_go \<Rightarrow> string" where
  \<open>localProviderBlock L =
     lines_nl
       [tabs 1 ''<local-provider>'',
        tabs 2 ''<id>local-provider</id>'',
        tabs 2 ''<class>org.apache.nifi.controller.state.providers.local.WriteAheadLocalStateProvider</class>'',
        tabs 2 (''<property name="Directory">'' @ NifiRepositoryMouhtPath L ''state'' @ ''</property>''),
        tabs 2 ''<property name="Always Sync">false</property>'',
        tabs 2 ''<property name="Partitions">16</property>'',
        tabs 2 ''<property name="Checkpoint Interval">2 mins</property>'',
        tabs 1 ''</local-provider>'']\<close>

definition clusterProviderBlock :: "bool \<Rightarrow> string" where
  \<open>clusterProviderBlock zk =
     (if zk then
        lines_nl
          [tabs 1 ''<cluster-provider>'',
           tabs 2 ''<id>zk-provider</id>'',
           tabs 2 ''<class>org.apache.nifi.controller.state.providers.zookeeper.ZooKeeperStateProvider</class>'',
           tabs 2 ''<property name="Connect String">{{ getenv "ZOOKEEPER_HOSTS" }}</property>'',
           tabs 2 ''<property name="Root Node">{{ getenv "ZOOKEEPER_CHROOT" }}</property>'',
           tabs 2 ''<property name="Session Timeout">15 seconds</property>'',
           tabs 2 ''<property name="Access Control">Open</property>'',
           tabs 1 ''</cluster-provider>'']
      else
        lines_nl
          [tabs 1 ''<cluster-provider>'',
           tabs 2 ''<id>kubernetes-provider</id>'',
           tabs 2 ''<class>org.apache.nifi.kubernetes.state.provider.KubernetesConfigMapStateProvider</class>'',
           tabs 2 ''<property name="ConfigMap Name Prefix">{{ getenv "STACKLET_NAME" }}</property>'',
           tabs 1 ''</cluster-provider>''])\<close>

definition state_management_xml :: "operator_go \<Rightarrow> bool \<Rightarrow> string" where
  \<open>state_management_xml L zk =
     ''<?xml version="1.0" encoding="UTF-8" standalone="yes"?>'' @ nl @ ''<stateManagement>''
       @ localProviderBlock L @ clusterProviderBlock zk @ nl @ ''</stateManagement>'' @ nl\<close>

definition getStateManagementConfig :: "operator_go \<Rightarrow> 'c NifiConfigMapBuilder \<Rightarrow> string outcome" where
  "getStateManagementConfig L b =
     bind_o (deref (ncb_ClusterConfig b)) (\<lambda>cc.
       Ok (IndentTab4Spaces L (state_management_xml L (useZooKeeperStateProvider cc))))"

subsection \<open>bootstrap.conf\<close>

text \<open>
  \<open>bootstrap_data\<close> is the loop over \<^verbatim>\<open>slices.Sorted(maps.Keys(config))\<close>; its argument
  lists the map in the order of one traversal.
\<close>

definition map_index :: "(string, string) go_map \<Rightarrow> string \<Rightarrow> string" where
  "map_index m k = (case map_of m k of None \<Rightarrow> [] | Some v \<Rightarrow> v)"

definition bootstrap_data :: "(string, string) go_map \<Rightarrow> string" where
  "bootstrap_data config =
     foldl (\<lambda>data key. data @ key @ ''='' @ map_index config key @ nl) [] (sort (map fst config))"

definition bootstrap_map :: "string \<Rightarrow> (string, string) go_map" where
  "bootstrap_map gracefulShutdownTimeout =
     [(''java'', ''java''),
      (''run.as'', []),
      (''preserve.environment'', ''false''),
      (''lib.dir'', ''./lib''),
      (''conf.dir'', ''./conf''),
      (''graceful.shutdown.seconds'', gracefulShutdownTimeout)]"

definition getBootstrapConfig :: "'c NifiConfigMapBuilder \<Rightarrow> string outcome" where
  "getBootstrapConfig b =
     bind_o (deref (ncb_Config b)) (\<lambda>config.
     bind_o (deref (cfg_RoleGroupConfigSpec config)) (\<lambda>rgc.
       Ok (bootstrap_data (bootstrap_map (GracefulShutdownTimeout rgc)))))"

subsection \<open>nifi.properties\<close>

definition general_properties :: "operator_go \<Rightarrow> (string \<times> string) list" where
  "general_properties L =
     [(''nifi.templates.directory'', path_join [NifiConfigDir L, ''templates'']),
      (''nifi.ui.banner.text'', ''Welcome to Nifi''),
      (''nifi.ui.autorefresh.interval'', ''30 sec''),
      (''nifi.nar.library.directory'', path_join [NifiRoot L, ''lib'']),
      (''nifi.nar.library.autoload.directory'', path_join [NifiRoot L, ''extensions'']),
      (''nifi.nar.working.directory'', path_join [NifiRoot L, ''work'', ''nar'']),
      (''nifi.documentation.working.directory'', path_join [NifiRoot L, ''work'', ''docs'', ''components''])]"

definition state_properties :: "operator_go \<Rightarrow> bool \<Rightarrow> (string \<times> string) list" where
  "state_properties L zk =
     [(''nifi.state.management.configuration.file'', path_join [NifiConfigDir L, ''state-management.xml'']),
      (''nifi.state.management.provider.local'', ''local-provider''),
      if zk then (''nifi.state.management.provider.cluster'', ''zk-provider'')
      else (''nifi.state.management.provider.cluster'', ''kubernetes-provider''),
      (''nifi.state.management.embedded.zookeeper.start'', ''false'')]"

definition flow_properties :: "operator_go \<Rightarrow> (string \<times> string) list" where
  "flow_properties L =
     [(''nifi.database.directory'', NifiRepositoryMouhtPath L ''database''),
      (''nifi.h2.url.append'', '';LOCK_TIMEOUT=25000;WRITE_DELAY=0;AUTO_SERVER=FALSE''),
      (''nifi.flow.configuration.file'', path_join [NifiConfigDir L, ''flow.json.gz'']),
      (''nifi.flow.configuration.archive.enabled'', ''true''),
      (''nifi.flow.configuration.archive.dir'', path_join [NifiConfigDir L, ''archive'']),
      (''nifi.flow.configuration.archive.max.time'', []),
      (''nifi.flow.configuration.archive.max.count'', []),
      (''nifi.flowcontroller.autoResumeState'', ''true''),
      (''nifi.flowcontroller.graceful.shutdown.period'', ''10 sec''),
      (''nifi.flowservice.writedelay.interval'', ''500 ms'')]"

definition flowfile_properties :: "operator_go \<Rightarrow> (string \<times> string) list" where
  "flowfile_properties L =
     [(''nifi.flowfile.repository.implementation'', ''org.apache.nifi.controller.repository.WriteAheadFlowFileRepository''),
      (''nifi.flowfile.repository.wal.implementation'', ''org.apache.nifi.wali.SequentialAccessWriteAheadLog''),
      (''nifi.flowfile.repository.directory'', NifiRepositoryMouhtPath L ''flowfile''),
      (''nifi.flowfile.repository.checkpoint.interval'', ''20 sec''),
      (''nifi.flowfile.repository.always.sync'', ''false''),
      (''nifi.flowfile.repository.retain.orphaned.flowfiles'', ''true''),
      (''nifi.swap.manager.implementation'', ''org.apache.nifi.controller.FileSystemSwapManager''),
      (''nifi.queue.swap.threshold'', ''20000'')]"

definition content_properties :: "operator_go \<Rightarrow> (string \<times> string) list" where
  "content_properties L =
     [(''nifi.content.repository.implementation'', ''org.apache.nifi.controller.repository.FileSystemRepository''),
      (''nifi.content.claim.max.appendable.size'', ''1 MB''),
      (''nifi.content.repository.directory.default'', NifiRepositoryMouhtPath L ''content''),
      (''nifi.content.repository.archive.max.retention.period'', []),
      (''nifi.content.repository.archive.max.usage.percentage'', ''50%''),
      (''nifi.content.repository.archive.enabled'', ''true''),
      (''nifi.content.repository.always.sync'', ''false''),
      (''nifi.content.viewer.url'', ''../nifi/content-viewer'')]"

definition provenance_properties :: "operator_go \<Rightarrow> (string \<times> string) list" where
  "provenance_properties L =
     [(''nifi.provenance.repository.implementation'', ''org.apache.nifi.provenance.WriteAheadProvenanceRepository''),
      (''nifi.provenance.repository.directory.default'', NifiRepositoryMouhtPath L ''provenance''),
      (''nifi.provenance.repository.max.storage.time'', []),
      (''nifi.provenance.repository.rollover.time'', ''10 min''),
      (''nifi.provenance.repository.rollover.size'', ''100 MB''),
      (''nifi.provenance.repository.query.threads'', ''2''),
      (''nifi.provenance.repository.index.threads'', ''2''),
      (''nifi.provenance.repository.compress.on.rollover'', ''true''),
      (''nifi.provenance.repository.always.sync'', ''false''),
      (''nifi.provenance.repository.indexed.fields'', ''EventType, FlowFileUUID, Filename, ProcessorID, Relationship''),
      (''nifi.provenance.repository.indexed.attributes'', []),
      (''nifi.provenance.repository.index.shard.size'', ''500 MB''),
      (''nifi.provenance.repository.max.attribute.length'', ''65536''),
      (''nifi.provenance.repository.concurrent.merge.threads'', ''2''),
      (''nifi.provenance.repository.buffer.size'', ''100000''),
      (''nifi.components.status.repository.implementation'', ''org.apache.nifi.controller.status.history.VolatileComponentStatusRepository''),
      (''nifi.components.status.repository.buffer.size'', ''14400''),
      (''nifi.components.status.snapshot.frequency'', ''1 min'')]"

definition status_properties :: "operator_go \<Rightarrow> (string \<times> string) list" where
  "status_properties L =
     [(''nifi.status.repository.questdb.persist.node.days'', ''14''),
      (''nifi.status.repository.questdb.persist.component.days'', ''3''),
      (''nifi.status.repository.questdb.persist.location'', NifiRepositoryMouhtPath L ''status'')]"

definition tls_properties :: "operator_go \<Rightarrow> bool \<Rightarrow> (string \<times> string) list" where
  "tls_properties L enableTls =
     (if enableTls then
     [(''nifi.web.https.host'', []),
      (''nifi.web.https.port'', Format32 (getPort ''https'')),
      (''nifi.web.https.network.interface.default'', []),
      (''nifi.security.keystore'', path_join [NifiServerTlsDir L, ''keystore.p12'']),
      (''nifi.security.keystoreType'', ''PKCS12''),
      (''nifi.security.keystorePasswd'', node_DefaultServerTlsKeyPassword),
      (''nifi.security.truststore'', path_join [NifiServerTlsDir L, ''truststore.p12'']),
      (''nifi.security.truststoreType'', ''PKCS12''),
      (''nifi.security.truststorePasswd'', node_DefaultServerTlsStorePassword)]
      else [])"

definition web_properties :: "operator_go \<Rightarrow> (string \<times> string) list" where
  "web_properties L =
     [(''nifi.web.http.host'', []),
      (''nifi.web.http.port'', Format32 (getPort ''http'')),
      (''nifi.web.http.network.interface.default'', []),
      (''nifi.web.jetty.working.directory'', path_join [NifiRoot L, ''work'', ''jetty'']),
      (''nifi.web.jetty.threads'', ''200''),
      (''nifi.web.max.header.size'', ''16 KB''),
      (''nifi.web.proxy.context.path'', [])]"

definition reportingTaskFQDN :: "operator_go \<Rightarrow> string \<Rightarrow> string" where
  "reportingTaskFQDN L clusterName =
     clusterName @ ''-reporting-task.'' @ GetOwnerNamespace L @ ''.svc.cluster.local:'' @ Format32 (getPort ''https'')"

definition proxy_enabled :: "Image option \<Rightarrow> ClusterConfigSpec \<Rightarrow> bool" where
  "proxy_enabled img cc \<longleftrightarrow>
     (case img of None \<Rightarrow> False | Some im \<Rightarrow> HasPrefix (im_ProductVersion im) ''1.'') \<and>
     (case CreateReportingTaskJob cc of None \<Rightarrow> False | Some j \<Rightarrow> Enable j)"

definition proxy_properties :: "operator_go \<Rightarrow> 'c NifiConfigMapBuilder \<Rightarrow> ClusterConfigSpec \<Rightarrow> (string \<times> string) list" where
  "proxy_properties L b cc =
     (if proxy_enabled (ncb_Image b) cc
      then [(''nifi.web.proxy.host'', reportingTaskFQDN L (ncb_ClusterName b))] else [])"

definition sensitive_properties :: "operator_go \<Rightarrow> ClusterConfigSpec \<Rightarrow> (string \<times> string) list" where
  "sensitive_properties L cc =
     [(''nifi.sensitive.props.key'',
        ''${file:UTF-8:'' @ path_join [KubedoopRoot L, ''sensitiveproperty'', ''nifiSensitivePropsKey''] @ ''}''),
      (''nifi.sensitive.props.key.protected'', [])]
     @ (case SensitiveProperties cc of
          None \<Rightarrow> []
        | Some sp \<Rightarrow> if Algorithm sp \<noteq> [] then [(''nifi.sensitive.props.algorithm'', Algorithm sp)] else [])"

definition security_properties :: "operator_go \<Rightarrow> (string \<times> string) list" where
  "security_properties L =
     [(''nifi.administrative.yield.duration'', ''30 sec''),
      (''nifi.authorizer.configuration.file'', path_join [NifiConfigDir L, ''authorizers.xml'']),
      (''nifi.login.identity.provider.configuration.file'', path_join [NifiConfigDir L, ''login-identity-providers.xml'']),
      (''nifi.security.user.login.identity.provider'', ''login-identity-provider''),
      (''nifi.security.user.authorizer'', ''authorizer''),
      (''nifi.security.allow.anonymous.authentication'', ''false'')]"

definition cluster_properties :: "bool \<Rightarrow> bool \<Rightarrow> (string \<times> string) list" where
  \<open>cluster_properties zk enableTls =
     (if \<not> zk then
     [if enableTls then (''nifi.cluster.protocol.is.secure'', ''true'') else (''nifi.cluster.protocol.is.secure'', ''false''),
      (''nifi.cluster.node.protocol.port'', Format32 (getPort ''protocol'')),
      (''nifi.cluster.flow.election.max.wait.time'', ''1 min''),
      (''nifi.cluster.flow.election.max.candidates'', []),
      (''nifi.cluster.is.node'', ''true''),
      (''nifi.cluster.node.address'', ''{{ getenv "NODE_ADDRESS" }}''),
      (''nifi.cluster.leader.election.implementation'', ''KubernetesLeaderElectionManager''),
      (''nifi.cluster.leader.election.kubernetes.lease.prefix'', ''{{ getenv "STACKLET_NAME" }}'')]
      else
     [if enableTls then (''nifi.cluster.protocol.is.secure'', ''true'') else (''nifi.cluster.protocol.is.secure'', ''false''),
      (''nifi.cluster.node.protocol.port'', Format32 (getPort ''protocol'')),
      (''nifi.cluster.flow.election.max.wait.time'', ''1 min''),
      (''nifi.cluster.flow.election.max.candidates'', []),
      (''nifi.cluster.is.node'', ''true''),
      (''nifi.cluster.node.address'', ''{{ getenv "NODE_ADDRESS" }}''),
      (''nifi.cluster.leader.election.implementation'', ''CuratorLeaderElectionManager''),
      (''nifi.zookeeper.connect.string'', ''{{ getenv "ZOOKEEPER_HOSTS" }}''),
      (''nifi.zookeeper.root.node'', ''{{ getenv "ZOOKEEPER_CHROOT" }}'')])\<close>

text \<open>All \<^verbatim>\<open>Add\<close> calls before the authentication block.\<close>

definition nifi_properties :: "operator_go \<Rightarrow> 'c NifiConfigMapBuilder \<Rightarrow> ClusterConfigSpec \<Rightarrow> (string \<times> string) list" where
  "nifi_properties L b cc =
     (let enableTls = Tls cc \<noteq> None; zk = useZooKeeperStateProvider cc in
      general_properties L @ state_properties L zk @ flow_properties L @ flowfile_properties L
      @ content_properties L @ provenance_properties L @ status_properties L @ tls_properties L enableTls
      @ web_properties L @ proxy_properties L b cc @ sensitive_properties L cc @ security_properties L
      @ cluster_properties zk enableTls)"

text \<open>The loop over \<^verbatim>\<open>authProperties.Keys()\<close>.\<close>

definition copy_properties :: "'p properties_pkg \<Rightarrow> 'p \<Rightarrow> 'p \<Rightarrow> 'p" where
  "copy_properties P properties authProperties =
     foldl (\<lambda>p key. PropAdd P p key (fst (PropGet P authProperties key))) properties (PropKeys P authProperties)"

definition nifi_property_set ::
    "operator_go \<Rightarrow> 'p properties_pkg \<Rightarrow> class_lookup \<Rightarrow> 'c NifiConfigMapBuilder \<Rightarrow> 'p outcome" where
  "nifi_property_set L P getClass b =
     bind_o (deref (ncb_ClusterConfig b)) (\<lambda>cc.
       let properties = add_all P (NewProperties P) (nifi_properties L b cc) in
       case Authentication cc of
         None \<Rightarrow> Ok properties
       | Some auths \<Rightarrow>
           bind_o (wrap_err ''failed to create authentication'' (NewAuthentication getClass (ncb_ClusterName b) auths)) (\<lambda>auth.
           bind_o (Auth_ExtendNifiProperties P auth) (\<lambda>authProperties.
             case authProperties of None \<Rightarrow> Ok properties | Some ap \<Rightarrow> Ok (copy_properties P properties ap))))"

definition getNifiProperties ::
    "operator_go \<Rightarrow> 'p properties_pkg \<Rightarrow> class_lookup \<Rightarrow> 'c NifiConfigMapBuilder \<Rightarrow> string outcome" where
  "getNifiProperties L P getClass b = bind_o (nifi_property_set L P getClass b) (PropMarshal P)"

subsection \<open>Build\<close>

definition ConfigMap_Build ::
    "operator_go \<Rightarrow> 'p properties_pkg \<Rightarrow> 'c configmap_pkg \<Rightarrow> class_lookup \<Rightarrow> 'c NifiConfigMapBuilder \<Rightarrow> Object outcome" where
  "ConfigMap_Build L P C getClass b =
     bind_o (getBootstrapConfig b) (\<lambda>bootstrapProperties.
     let cm = CmAddItem C (ncb_ConfigMapBuilder b) ''bootstrap.conf'' bootstrapProperties in
     bind_o (getNifiProperties L P getClass b) (\<lambda>nifiProperties.
     let cm = CmAddItem C cm ''nifi.properties'' nifiProperties in
     bind_o (deref (ncb_ClusterConfig b)) (\<lambda>cc.
     bind_o (if Authentication cc \<noteq> None
             then bind_o (deref (ncb_Authentication b)) (\<lambda>auth.
                  bind_o (Auth_GetLoginIdentiryProvider L auth) (\<lambda>xml.
                    Ok (CmAddItem C cm ''login-identity-providers.xml'' xml)))
             else Ok cm) (\<lambda>cm.
     bind_o (getStateManagementConfig L b) (\<lambda>state.
       Ok (ObjConfigMap (CmGetObject C (CmAddItem C cm ''state-management.xml'' state))))))))"

text \<open>
  \<^verbatim>\<open>NewConfigReconciler\<close> wraps the builder in a \<^verbatim>\<open>SimpleResourceReconciler\<close>, whose only
  content is that builder.
\<close>

definition NewConfigReconciler ::
    "operator_go \<Rightarrow> 'c configmap_pkg \<Rightarrow> ClusterConfigSpec option \<Rightarrow> Image option \<Rightarrow> RoleGroupInfo
      \<Rightarrow> ConfigSpec option \<Rightarrow> Authentication option \<Rightarrow> 'c NifiConfigMapBuilder" where
  "NewConfigReconciler L C clusterConfig img roleGroupInfo config authentication =
     NewNifiConfigBuilder L C clusterConfig img roleGroupInfo config authentication"

subsection \<open>Keys\<close>

lemmas property_groups = general_properties_def state_properties_def flow_properties_def flowfile_properties_def
  content_properties_def provenance_properties_def status_properties_def tls_properties_def web_properties_def
  proxy_properties_def sensitive_properties_def security_properties_def cluster_properties_def

definition cluster_keys :: "string list" where
  "cluster_keys = [''nifi.cluster.protocol.is.secure'', ''nifi.cluster.node.protocol.port'',
     ''nifi.cluster.flow.election.max.wait.time'', ''nifi.cluster.flow.election.max.candidates'',
     ''nifi.cluster.is.node'', ''nifi.cluster.node.address'', ''nifi.cluster.leader.election.implementation'',
     ''nifi.cluster.leader.election.kubernetes.lease.prefix'',
     ''nifi.zookeeper.connect.string'', ''nifi.zookeeper.root.node'']"

text \<open>Every key \<^verbatim>\<open>getNifiProperties\<close> can add, the five of the OIDC authenticator last.\<close>

definition nifi_keys :: "operator_go \<Rightarrow> string list" where
  "nifi_keys L =
      map fst (general_properties L) @ map fst (state_properties L True) @ map fst (flow_properties L)
      @ map fst (flowfile_properties L) @ map fst (content_properties L) @ map fst (provenance_properties L)
      @ map fst (status_properties L) @ map fst (tls_properties L True) @ map fst (web_properties L)
      @ [''nifi.web.proxy.host'']
      @ [''nifi.sensitive.props.key'', ''nifi.sensitive.props.key.protected'', ''nifi.sensitive.props.algorithm'']
      @ map fst (security_properties L)
      @ cluster_keys"

definition oidc_keys :: "string list" where
  "oidc_keys = [''nifi.security.user.oidc.discovery.url'', ''nifi.security.user.oidc.client.id'',
     ''nifi.security.user.oidc.client.secret'', ''nifi.security.user.oidc.extra.scopes'',
     ''nifi.security.user.oidc.claim.identifying.user'']"

text \<open>
  The groups of keys are told apart by their prefixes, so distinctness has to be evaluated
  within each group only.
\<close>

definition key_group :: "string \<Rightarrow> nat" where
  "key_group k =
     (let s = drop 5 k in
      if HasPrefix s ''state.'' then 1
      else if HasPrefix s ''flowfile.'' \<or> HasPrefix s ''swap.'' \<or> HasPrefix s ''queue.'' then 3
      else if HasPrefix s ''flow'' \<or> HasPrefix s ''database.'' \<or> HasPrefix s ''h2.'' then 2
      else if HasPrefix s ''content.'' then 4
      else if HasPrefix s ''provenance.'' \<or> HasPrefix s ''components.'' then 5
      else if HasPrefix s ''status.'' then 6
      else if HasPrefix s ''web.https.'' \<or> HasPrefix s ''security.keystore'' \<or> HasPrefix s ''security.truststore'' then 7
      else if HasPrefix s ''web.proxy.host'' then 9
      else if HasPrefix s ''web.'' then 8
      else if HasPrefix s ''sensitive.'' then 10
      else if HasPrefix s ''security.user.oidc.'' then 13
      else if HasPrefix s ''security.'' \<or> HasPrefix s ''a'' \<or> HasPrefix s ''login.'' then 11
      else if HasPrefix s ''cluster.'' \<or> HasPrefix s ''zookeeper.'' then 12
      else 0)"

lemma distinct_concat_by_group:
  fixes f :: "'k \<Rightarrow> nat"
  assumes "list_all (\<lambda>(n, xs). distinct xs \<and> list_all (\<lambda>k. f k = n) xs) gs" "sorted_wrt (<) (map fst gs)"
  shows "distinct (concat (map snd gs))"
  using assms
proof (induction gs)
  case (Cons g gs)
  obtain n xs where g: "g = (n, xs)" by force
  have "k \<notin> set xs" if "k \<in> set (concat (map snd gs))" for k
  proof
    assume "k \<in> set xs"
    with Cons.prems(1) g have "f k = n" by (simp add: list_all_iff)
    from that obtain m ys where "(m, ys) \<in> set gs" "k \<in> set ys" by auto
    with Cons.prems(1) have "f k = m" by (fastforce simp: list_all_iff)
    moreover have "n < m" using Cons.prems(2) g \<open>(m, ys) \<in> set gs\<close> by force
    ultimately show False using \<open>f k = n\<close> by simp
  qed
  with Cons g show ?case by auto
qed simp

lemma nifi_keys_distinct: "distinct (nifi_keys L @ oidc_keys)"
proof -
  let ?gs = "[(0, map fst (general_properties L)), (1, map fst (state_properties L True)), (2, map fst (flow_properties L)),
     (3, map fst (flowfile_properties L)), (4, map fst (content_properties L)), (5, map fst (provenance_properties L)),
     (6, map fst (status_properties L)), (7, map fst (tls_properties L True)), (8, map fst (web_properties L)),
     (9, [''nifi.web.proxy.host'']),
     (10, [''nifi.sensitive.props.key'', ''nifi.sensitive.props.key.protected'', ''nifi.sensitive.props.algorithm'']),
     (11, map fst (security_properties L)), (12, cluster_keys), (13::nat, oidc_keys)]"
  have "distinct (concat (map snd ?gs))"
  proof (rule distinct_concat_by_group [where f = key_group])
    show "list_all (\<lambda>(n, xs). distinct xs \<and> list_all (\<lambda>k. key_group k = n) xs) ?gs"
      unfolding oidc_keys_def cluster_keys_def property_groups key_group_def Let_def by simp
  qed simp
  then show ?thesis by (simp only: nifi_keys_def concat.simps list.map snd_conv append_assoc append_Nil2)
qed

lemma nifi_keys_sub: "subseq (map fst (nifi_properties L b cc)) (nifi_keys L)"
  unfolding nifi_properties_def nifi_keys_def Let_def map_append
  by (intro list_emb_append_mono) (auto simp: property_groups cluster_keys_def split: option.splits)

lemma subseq_distinct: "subseq xs ys \<Longrightarrow> distinct ys \<Longrightarrow> distinct xs"
  by (induction rule: list_emb.induct) (auto elim: list_emb_set)

lemma nifi_properties_distinct:
  "distinct (map fst (nifi_properties L b cc))" "set (map fst (nifi_properties L b cc)) \<inter> set oidc_keys = {}"
proof -
  have "distinct (nifi_keys L)" "set (nifi_keys L) \<inter> set oidc_keys = {}"
    using nifi_keys_distinct [of L] by simp_all
  moreover have "set (map fst (nifi_properties L b cc)) \<subseteq> set (nifi_keys L)"
    using list_emb_set [OF nifi_keys_sub] by blast
  ultimately show "distinct (map fst (nifi_properties L b cc))" "set (map fst (nifi_properties L b cc)) \<inter> set oidc_keys = {}"
    using subseq_distinct [OF nifi_keys_sub] by blast+
qed

end
