(* ===== verification/NodeConfigProps.thy ===== *)
theory NodeConfigProps
  imports NodeConfig Instances
begin

section \<open>NodeConfigProps: what the configuration files contain\<close>

text \<open>
  Properties of the configuration files of theory \<open>NodeConfig\<close>: which text
  \<^verbatim>\<open>bootstrap.conf\<close> is, that no entry of \<^verbatim>\<open>nifi.properties\<close> is lost, that the files agree
  with each other, and what the config map holds.
\<close>

subsection \<open>Properties of bootstrap.conf\<close>

interpretation bootstrap: map_traversal bootstrap_data
proof
  fix xs ys :: "(string, string) go_map"
  assume "distinct (map fst xs)" "mset xs = mset ys"
  moreover then have "sort (map fst xs) = sort (map fst ys)" by (intro sort_perm_eq) simp
  ultimately show "bootstrap_data xs = bootstrap_data ys"
    by (simp add: bootstrap_data_def map_index_def mset_map_of_eq)
qed

lemma bootstrap_keys_sorted:
  "sort (map fst (bootstrap_map t)) =
     [''conf.dir'', ''graceful.shutdown.seconds'', ''java'', ''lib.dir'', ''preserve.environment'', ''run.as'']"
  by (rule properties_for_sort) (simp_all add: bootstrap_map_def)

text \<open>
  C32: Whatever order the traversal of the map visits its keys in, \<^verbatim>\<open>bootstrap.conf\<close> is the same
  text, one line per key in ascending order of the keys.
\<close>

theorem bootstrap_conf_stable:
  assumes "mset m = mset (bootstrap_map t)"
  shows "bootstrap_data m =
     ''conf.dir=./conf'' @ nl @ ''graceful.shutdown.seconds='' @ t @ nl @ ''java=java'' @ nl @
     ''lib.dir=./lib'' @ nl @ ''preserve.environment=false'' @ nl @ ''run.as='' @ nl"
proof -
  have "bootstrap_data (bootstrap_map t) = bootstrap_data m"
    using assms by (intro bootstrap.visiting_order) (simp_all add: bootstrap_map_def)
  moreover have "bootstrap_data (bootstrap_map t) =
     ''conf.dir=./conf'' @ nl @ ''graceful.shutdown.seconds='' @ t @ nl @ ''java=java'' @ nl @
     ''lib.dir=./lib'' @ nl @ ''preserve.environment=false'' @ nl @ ''run.as='' @ nl"
    unfolding bootstrap_data_def bootstrap_keys_sorted by (simp add: bootstrap_map_def map_index_def nl_def)
  ultimately show ?thesis by simp
qed

theorem bootstrap_conf_stable_witness:
  "bootstrap_data (rev (bootstrap_map ''30s'')) = bootstrap_data (bootstrap_map ''30s'') \<and>
   HasPrefix (bootstrap_data (rev (bootstrap_map ''30s''))) ''conf.dir=./conf''"
  using bootstrap_conf_stable [of "rev (bootstrap_map ''30s'')" "''30s''"] bootstrap_conf_stable [of "bootstrap_map ''30s''" "''30s''"]
  by simp

subsection \<open>Properties of nifi.properties\<close>

lemma copy_properties_lookup:
  assumes "properties_laws P"
  shows "prop_lookup P (copy_properties P p ap) = prop_lookup P p ++ prop_lookup P ap"
proof -
  let ?f = "\<lambda>k. fst (PropGet P ap k)"
  have keys: "distinct (PropKeys P ap)" "set (PropKeys P ap) = dom (prop_lookup P ap)"
    using assms by (simp_all add: properties_laws_def)
  have "copy_properties P p ap = add_all P p (map (\<lambda>k. (k, ?f k)) (PropKeys P ap))"
    by (simp add: copy_properties_def add_all_def foldl_map)
  then have "prop_lookup P (copy_properties P p ap) =
      foldl (\<lambda>m kv. m(fst kv \<mapsto> snd kv)) (prop_lookup P p) (map (\<lambda>k. (k, ?f k)) (PropKeys P ap))"
    by (simp add: lookup_add_all [OF assms])
  also have "\<dots> = prop_lookup P p ++ map_of (map (\<lambda>k. (k, ?f k)) (PropKeys P ap))"
    using keys(1) by (intro foldl_map_upd) (simp add: comp_def)
  also have "map_of (map (\<lambda>k. (k, ?f k)) (PropKeys P ap)) = prop_lookup P ap"
    unfolding map_of_map_restrict keys(2)
    by (auto simp: fun_eq_iff restrict_map_def dom_def prop_lookup_def)
  finally show ?thesis .
qed

lemma oidc_properties_keys: "map fst (oidc_properties q c) = oidc_keys"
  by (simp add: oidc_properties_def oidc_keys_def Let_def)

lemma extend_properties_dom:
  assumes "properties_laws P" "Auth_ExtendNifiProperties P a = Ok (Some ap)"
  shows "dom (prop_lookup P ap) \<subseteq> set oidc_keys"
proof -
  from assms(2) obtain x where "ExtendNifiProperties P x = Ok (Some ap)"
    by (auto simp: Auth_ExtendNifiProperties_def split: option.splits)
  then obtain q c where ap: "ap = add_all P (NewProperties P) (oidc_properties q c)"
    by (cases x) (auto simp: ldap_ExtendNifiProperties_def static_ExtendNifiProperties_def
        oidc_ExtendNifiProperties_def outcome_simps)
  have "distinct (map fst (oidc_properties q c))"
    using nifi_keys_distinct by (simp add: oidc_properties_keys)
  then show ?thesis
    using lookup_add_all_distinct [OF assms(1)] ap oidc_properties_keys [of q c]
    by (metis dom_map_of_conv_image_fst list.set_map subset_refl)
qed

lemma nifi_property_set_lookup:
  assumes "properties_laws P" "nifi_property_set L P g b = Ok p" "ncb_ClusterConfig b = Some cc"
  obtains auth where "dom auth \<subseteq> set oidc_keys" "prop_lookup P p = map_of (nifi_properties L b cc) ++ auth"
    "Authentication cc = None \<Longrightarrow> auth = Map.empty"
proof -
  let ?base = "add_all P (NewProperties P) (nifi_properties L b cc)"
  have base: "prop_lookup P ?base = map_of (nifi_properties L b cc)"
    by (rule lookup_add_all_distinct [OF assms(1) nifi_properties_distinct(1)])
  from assms(2,3) consider "p = ?base"
    | a ap where "Authentication cc \<noteq> None" "Auth_ExtendNifiProperties P a = Ok (Some ap)" "p = copy_properties P ?base ap"
    by (auto simp: nifi_property_set_def Let_def outcome_simps split: option.splits)
  then show thesis
  proof cases
    case 1
    with base show ?thesis by (intro that [of Map.empty]) simp_all
  next
    case 2
    with base show ?thesis
      by (intro that [OF extend_properties_dom [OF assms(1) 2(2)]]) (simp_all add: copy_properties_lookup [OF assms(1)])
  qed
qed

lemma nifi_property_kept:
  assumes "properties_laws P" "nifi_property_set L P g b = Ok p" "ncb_ClusterConfig b = Some cc"
    and kv: "(k, v) \<in> set (nifi_properties L b cc)"
  shows "prop_lookup P p k = Some v"
proof -
  obtain auth where auth: "dom auth \<subseteq> set oidc_keys" "prop_lookup P p = map_of (nifi_properties L b cc) ++ auth"
    using nifi_property_set_lookup [OF assms(1-3)] by metis
  have "k \<notin> dom auth"
    using auth(1) kv nifi_properties_distinct(2) [of L b cc] by force
  moreover have "map_of (nifi_properties L b cc) k = Some v"
    using kv nifi_properties_distinct(1) [of L b cc] by (rule map_of_is_SomeI [rotated])
  ultimately show ?thesis
    using auth(2) by (simp add: map_add_dom_app_simps)
qed

text \<open>
  C9: No setting the operator writes to \<^verbatim>\<open>nifi.properties\<close> is overwritten: every key of the
  sequence of \<^verbatim>\<open>Add\<close> calls keeps the value it was added with, whatever the authenticator adds
  later, and the only other keys are those of the OIDC authenticator.
\<close>

theorem nifi_properties_never_overwritten:
  assumes "properties_laws P" "nifi_property_set L P g b = Ok p" "ncb_ClusterConfig b = Some cc"
  shows "(\<forall>(k, v) \<in> set (nifi_properties L b cc). prop_lookup P p k = Some v) \<and>
    dom (prop_lookup P p) \<subseteq> fst ` set (nifi_properties L b cc) \<union> set oidc_keys"
proof (intro conjI)
  show "\<forall>(k, v) \<in> set (nifi_properties L b cc). prop_lookup P p k = Some v"
    using nifi_property_kept [OF assms] by blast
  obtain auth where "dom auth \<subseteq> set oidc_keys" "prop_lookup P p = map_of (nifi_properties L b cc) ++ auth"
    using nifi_property_set_lookup [OF assms] by metis
  then show "dom (prop_lookup P p) \<subseteq> fst ` set (nifi_properties L b cc) \<union> set oidc_keys"
    by (auto simp: dom_map_of_conv_image_fst)
qed

lemma nifi_property_set_plain:
  "Authentication cc = None \<Longrightarrow> ncb_ClusterConfig b = Some cc \<Longrightarrow>
   nifi_property_set L P g b = Ok (add_all P (NewProperties P) (nifi_properties L b cc))"
  by (simp add: nifi_property_set_def Let_def)

definition demo_cluster_config :: ClusterConfigSpec where
  "demo_cluster_config =
     \<lparr>Authentication = None, CreateReportingTaskJob = None, ExtraVolumes = None, SensitiveProperties = None,
      CustomComponentsGitSync = [], Tls = None, ListenerClass = ''cluster-internal'',
      VectorAggregatorConfigMapName = [], ZookeeperConfigMapName = Some ''zk''\<rparr>"

definition demo_image :: Image where
  "demo_image = NewImage kubedoop ''nifi'' ''0.0.0'' ''2.4.0''
     \<lparr>io_Custom = [], io_Repo = ''quay.io'', io_PullPolicy = PullIfNotPresent, io_PullSecretName = []\<rparr>"

definition demo_info :: "string \<Rightarrow> RoleGroupInfo" where
  "demo_info rg = \<lparr>rgi_RoleInfo = \<lparr>ri_ClusterInfo = \<lparr>ci_GVK = \<lparr>gvk_Group = ''nifi.kubedoop.dev'', gvk_Version = ''v1alpha1'', gvk_Kind = ''NifiCluster''\<rparr>,
     ci_ClusterName = ''demo''\<rparr>, ri_RoleName = ''node''\<rparr>, rgi_RoleGroupName = rg\<rparr>"

definition demo_config :: ConfigSpec where
  "demo_config = \<lparr>cfg_RoleGroupConfigSpec = Some \<lparr>GracefulShutdownTimeout = ''30s''\<rparr>\<rparr>"

definition demo_config_builder :: "ClusterConfigSpec \<Rightarrow> Authentication option \<Rightarrow> ConfigMap NifiConfigMapBuilder" where
  "demo_config_builder cc auth =
     NewConfigReconciler kubedoop plain_configmaps (Some cc) (Some demo_image) (demo_info ''default'') (Some demo_config) auth"

lemma demo_config_builder_fields [simp]:
  "ncb_ClusterConfig (demo_config_builder cc auth) = Some cc" "ncb_Config (demo_config_builder cc auth) = Some demo_config"
  "ncb_Authentication (demo_config_builder cc auth) = auth"
  by (simp_all add: demo_config_builder_def NewConfigReconciler_def NewNifiConfigBuilder_def)

lemma demo_cluster_config_auth [simp]: "Authentication demo_cluster_config = None"
  by (simp add: demo_cluster_config_def)

lemma demo_property_set:
  "nifi_property_set kubedoop P g (demo_config_builder demo_cluster_config auth) =
     Ok (add_all P (NewProperties P) (nifi_properties kubedoop (demo_config_builder demo_cluster_config auth) demo_cluster_config))"
  by (rule nifi_property_set_plain) simp_all

theorem nifi_properties_never_overwritten_witness:
  "\<exists>p. nifi_property_set kubedoop plain_props static_class (demo_config_builder demo_cluster_config None) = Ok p \<and>
     prop_lookup plain_props p ''nifi.cluster.is.node'' = Some ''true''"
proof -
  let ?b = "demo_config_builder demo_cluster_config None"
  obtain p where p: "nifi_property_set kubedoop plain_props static_class ?b = Ok p"
    using demo_property_set by blast
  moreover have "(''nifi.cluster.is.node'', ''true'') \<in> set (nifi_properties kubedoop ?b demo_cluster_config)"
    by (simp add: nifi_properties_def Let_def cluster_properties_def)
  ultimately show ?thesis
    using nifi_properties_never_overwritten [OF plain_props_laws p demo_config_builder_fields(1)] by blast
qed

lemma state_xml_shape:
  "\<exists>pre mid post. state_management_xml L zk = pre @
        tabs 1 ''<local-provider>'' @ nl @ tabs 2 (''<id>local-provider</id>'') @ mid @
        tabs 1 ''<cluster-provider>'' @ nl @ tabs 2 (''<id>'' @ (if zk then ''zk-provider'' else ''kubernetes-provider'') @ ''</id>'') @ post"
proof -
  obtain mid where local: "localProviderBlock L =
      nl @ tabs 1 ''<local-provider>'' @ nl @ tabs 2 ''<id>local-provider</id>'' @ mid"
    unfolding localProviderBlock_def lines_nl_def list.map concat.simps append_assoc by blast
  obtain post where cluster: "clusterProviderBlock zk =
      nl @ tabs 1 ''<cluster-provider>'' @ nl
      @ tabs 2 (''<id>'' @ (if zk then ''zk-provider'' else ''kubernetes-provider'') @ ''</id>'') @ post"
    unfolding clusterProviderBlock_def lines_nl_def list.map concat.simps append_assoc by (cases zk) auto
  show ?thesis
    unfolding state_management_xml_def local cluster
    by (metis append_assoc)
qed

text \<open>
  C11: The configuration files agree on the state providers: the ids that \<^verbatim>\<open>nifi.properties\<close> names
  for the local and the cluster state provider are the ids \<^verbatim>\<open>state-management.xml\<close> declares,
  and the leader election implementation is the ZooKeeper one exactly when the cluster provider
  is.
\<close>

theorem state_providers_agree:
  assumes "properties_laws P" "nifi_property_set L P g b = Ok p" "ncb_ClusterConfig b = Some cc"
  shows "\<exists>lid cid election pre mid post.
     prop_lookup P p ''nifi.state.management.provider.local'' = Some lid \<and>
     prop_lookup P p ''nifi.state.management.provider.cluster'' = Some cid \<and>
     prop_lookup P p ''nifi.cluster.leader.election.implementation'' = Some election \<and>
     getStateManagementConfig L b = Ok (IndentTab4Spaces L (pre @
        tabs 1 ''<local-provider>'' @ nl @ tabs 2 (''<id>'' @ lid @ ''</id>'') @ mid @
        tabs 1 ''<cluster-provider>'' @ nl @ tabs 2 (''<id>'' @ cid @ ''</id>'') @ post)) \<and>
     (cid = ''zk-provider'' \<longleftrightarrow> useZooKeeperStateProvider cc) \<and>
     (election = ''CuratorLeaderElectionManager'' \<longleftrightarrow> useZooKeeperStateProvider cc)"
proof -
  let ?zk = "useZooKeeperStateProvider cc"
  let ?cid = "if ?zk then ''zk-provider'' else ''kubernetes-provider''"
  let ?el = "if ?zk then ''CuratorLeaderElectionManager'' else ''KubernetesLeaderElectionManager''"
  note kept = nifi_property_kept [OF assms]
  obtain pre mid post where xml: "state_management_xml L ?zk = pre @
        tabs 1 ''<local-provider>'' @ nl @ tabs 2 (''<id>local-provider</id>'') @ mid @
        tabs 1 ''<cluster-provider>'' @ nl @ tabs 2 (''<id>'' @ ?cid @ ''</id>'') @ post"
    using state_xml_shape by blast
  have "prop_lookup P p ''nifi.state.management.provider.local'' = Some ''local-provider''"
    by (rule kept) (simp add: nifi_properties_def Let_def state_properties_def)
  moreover have "prop_lookup P p ''nifi.state.management.provider.cluster'' = Some ?cid"
    by (rule kept) (simp add: nifi_properties_def Let_def state_properties_def)
  moreover have "prop_lookup P p ''nifi.cluster.leader.election.implementation'' = Some ?el"
    by (rule kept) (simp add: nifi_properties_def Let_def cluster_properties_def)
  moreover have "getStateManagementConfig L b = Ok (IndentTab4Spaces L (state_management_xml L ?zk))"
    by (simp add: getStateManagementConfig_def assms(3))
  ultimately show ?thesis
    using xml
    by - (rule exI [of _ "''local-provider''"], rule exI [of _ ?cid], rule exI [of _ ?el], rule exI [of _ pre],
      rule exI [of _ mid], rule exI [of _ post], cases ?zk; simp)
qed

theorem state_providers_agree_witness:
  "\<exists>p. nifi_property_set kubedoop plain_props static_class (demo_config_builder demo_cluster_config None) = Ok p \<and>
     prop_lookup plain_props p ''nifi.state.management.provider.cluster'' = Some ''zk-provider''"
proof -
  let ?b = "demo_config_builder demo_cluster_config None"
  obtain p where p: "nifi_property_set kubedoop plain_props static_class ?b = Ok p"
    using demo_property_set by blast
  have "useZooKeeperStateProvider demo_cluster_config"
    by (simp add: useZooKeeperStateProvider_def demo_cluster_config_def)
  then show ?thesis
    using p state_providers_agree [OF plain_props_laws p demo_config_builder_fields(1)] by blast
qed

subsection \<open>Properties of the config map\<close>

text \<open>The items of the config map, when every part is built.\<close>

definition config_items :: "string \<Rightarrow> string \<Rightarrow> string option \<Rightarrow> string \<Rightarrow> (string \<times> string) list" where
  "config_items bootstrap properties login state =
     [(''bootstrap.conf'', bootstrap), (''nifi.properties'', properties)]
     @ (case login of None \<Rightarrow> [] | Some xml \<Rightarrow> [(''login-identity-providers.xml'', xml)])
     @ [(''state-management.xml'', state)]"

lemma config_items_map:
  "map_of (config_items boot props None st) =
     [''bootstrap.conf'' \<mapsto> boot, ''nifi.properties'' \<mapsto> props, ''state-management.xml'' \<mapsto> st]"
  "map_of (config_items boot props (Some xml) st) =
     [''bootstrap.conf'' \<mapsto> boot, ''nifi.properties'' \<mapsto> props, ''login-identity-providers.xml'' \<mapsto> xml, ''state-management.xml'' \<mapsto> st]"
  by (simp_all add: config_items_def fun_eq_iff)

lemma config_map_data:
  assumes "configmap_laws C" and b: "b = NewConfigReconciler L C cc im info cfg auth"
    and "ConfigMap_Build L P C g b = Ok obj"
  obtains cm cs boot props login st where "obj = ObjConfigMap cm" "meta_Name (cm_Meta cm) = GetFullName L info"
    "cc = Some cs" "getBootstrapConfig b = Ok boot" "getNifiProperties L P g b = Ok props" "getStateManagementConfig L b = Ok st"
    "login = None \<longleftrightarrow> Authentication cs = None"
    "\<And>xml. login = Some xml \<Longrightarrow> \<exists>a. auth = Some a \<and> Auth_GetLoginIdentiryProvider L a = Ok xml"
    "cm_Data cm = map_of (config_items boot props login st)"
proof -
  note laws = assms(1) [unfolded configmap_laws_def, THEN conjunct1, rule_format]
    assms(1) [unfolded configmap_laws_def, THEN conjunct2, rule_format]
  have f: "ncb_ClusterConfig b = cc" "ncb_Authentication b = auth"
    "CmGetObject C (ncb_ConfigMapBuilder b) = CmGetObject C (NewConfigMapBuilder C (GetFullName L info)
        (no_options\<lparr>o_Labels := RoleGroupLabels L info, o_Annotations := RoleGroupAnnotations L info\<rparr>))"
    by (simp_all add: b NewConfigReconciler_def NewNifiConfigBuilder_def)
  from assms(3) obtain boot props cs cm st where
    parts: "getBootstrapConfig b = Ok boot" "getNifiProperties L P g b = Ok props" "cc = Some cs" "getStateManagementConfig L b = Ok st"
      and cm: "(if Authentication cs \<noteq> None
             then bind_o (deref auth) (\<lambda>a. bind_o (Auth_GetLoginIdentiryProvider L a) (\<lambda>xml.
                    Ok (CmAddItem C (CmAddItem C (CmAddItem C (ncb_ConfigMapBuilder b) ''bootstrap.conf'' boot) ''nifi.properties'' props)
                          ''login-identity-providers.xml'' xml)))
             else Ok (CmAddItem C (CmAddItem C (ncb_ConfigMapBuilder b) ''bootstrap.conf'' boot) ''nifi.properties'' props)) = Ok cm"
      and obj: "obj = ObjConfigMap (CmGetObject C (CmAddItem C cm ''state-management.xml'' st))"
    unfolding ConfigMap_Build_def Let_def bind_o_Ok_iff f deref_Ok_iff by blast
  show thesis
  proof (cases "Authentication cs")
    case None
    with cm show ?thesis
      by (intro that [OF obj _ parts(3,1,2,4), of None])
        (auto simp: config_items_map laws f)
  next
    case (Some as)
    with cm obtain a xml where "auth = Some a" "Auth_GetLoginIdentiryProvider L a = Ok xml"
      "cm = CmAddItem C (CmAddItem C (CmAddItem C (ncb_ConfigMapBuilder b) ''bootstrap.conf'' boot) ''nifi.properties'' props)
                          ''login-identity-providers.xml'' xml"
      by (auto simp: outcome_simps)
    with Some show ?thesis
      by (intro that [OF obj _ parts(3,1,2,4), of "Some xml"])
        (auto simp: config_items_map laws f)
  qed
qed

text \<open>
  C22: The config map is named after the role group and holds exactly the three files the pod
  always reads and, exactly when the cluster configures authentication, the login identity
  providers; the contents are those of the four generators, the login identity providers being those of
  the authentication the builder was given.
\<close>

theorem config_map_contents:
  assumes "configmap_laws C" "b = NewConfigReconciler L C (Some cc) im info cfg auth" "ConfigMap_Build L P C g b = Ok obj"
  shows "\<exists>cm. obj = ObjConfigMap cm \<and> meta_Name (cm_Meta cm) = GetFullName L info \<and>
    dom (cm_Data cm) = set ([''bootstrap.conf'', ''nifi.properties'']
      @ (if Authentication cc = None then [] else [''login-identity-providers.xml'']) @ [''state-management.xml'']) \<and>
    map_option Ok (cm_Data cm ''bootstrap.conf'') = Some (getBootstrapConfig b) \<and>
    map_option Ok (cm_Data cm ''nifi.properties'') = Some (getNifiProperties L P g b) \<and>
    map_option Ok (cm_Data cm ''state-management.xml'') = Some (getStateManagementConfig L b) \<and>
    (Authentication cc \<noteq> None \<longrightarrow>
       (\<exists>a. auth = Some a \<and> map_option Ok (cm_Data cm ''login-identity-providers.xml'') = Some (Auth_GetLoginIdentiryProvider L a)))"
proof (rule config_map_data [OF assms])
  fix cm cs boot props login st
  assume 1: "obj = ObjConfigMap cm" "meta_Name (cm_Meta cm) = GetFullName L info" "Some cc = Some cs"
    and 2: "getBootstrapConfig b = Ok boot" "getNifiProperties L P g b = Ok props" "getStateManagementConfig L b = Ok st"
    and 3: "(login = None) = (Authentication cs = None)" "cm_Data cm = map_of (config_items boot props login st)"
    and 4: "\<And>xml. login = Some xml \<Longrightarrow> \<exists>a. auth = Some a \<and> Auth_GetLoginIdentiryProvider L a = Ok xml"
  have dom: "dom (cm_Data cm) = set ([''bootstrap.conf'', ''nifi.properties'']
      @ (if Authentication cc = None then [] else [''login-identity-providers.xml'']) @ [''state-management.xml''])"
  proof (cases "Authentication cs")
    case None
    with 1(3) 3 show ?thesis by (simp add: dom_map_of_conv_image_fst config_items_def)
  next
    case (Some as)
    with 3(1) obtain xml where "login = Some xml" by auto
    with Some 1(3) 3(2) show ?thesis by (simp add: dom_map_of_conv_image_fst config_items_def)
  qed
  have "cm_Data cm ''bootstrap.conf'' = Some boot" "cm_Data cm ''nifi.properties'' = Some props"
    "cm_Data cm ''state-management.xml'' = Some st"
    using 3(2) by (cases login; simp add: config_items_map)+
  moreover have "\<exists>a. auth = Some a \<and> map_option Ok (cm_Data cm ''login-identity-providers.xml'') = Some (Auth_GetLoginIdentiryProvider L a)"
    if "Authentication cc \<noteq> None"
  proof -
    from that 1(3) 3(1) obtain xml where xml: "login = Some xml" by auto
    with 3(2) have "cm_Data cm ''login-identity-providers.xml'' = Some xml" by (simp add: config_items_map)
    with 4 [OF xml] show ?thesis by auto
  qed
  ultimately show ?thesis using 1 2 dom by (intro exI [of _ cm] conjI impI) simp_all
qed

lemma config_map_build_ok:
  assumes "ncb_ClusterConfig b = Some cc" "ncb_Config b = Some c" "cfg_RoleGroupConfigSpec c = Some rgc"
    and "is_ok (getNifiProperties L P g b)"
    and "Authentication cc \<noteq> None \<Longrightarrow> \<exists>a. ncb_Authentication b = Some a \<and> is_ok (Auth_GetLoginIdentiryProvider L a)"
  shows "is_ok (ConfigMap_Build L P C g b)"
  using assms
  by (cases "Authentication cc")
    (auto simp: ConfigMap_Build_def getBootstrapConfig_def getStateManagementConfig_def Let_def outcome_simps)

lemma demo_config_map_ok:
  "is_ok (ConfigMap_Build kubedoop plain_props plain_configmaps g (demo_config_builder demo_cluster_config None))"
proof (rule config_map_build_ok)
  show "is_ok (getNifiProperties kubedoop plain_props g (demo_config_builder demo_cluster_config None))"
    by (simp add: getNifiProperties_def demo_property_set plain_props_def outcome_simps)
  show "cfg_RoleGroupConfigSpec demo_config = Some \<lparr>GracefulShutdownTimeout = ''30s''\<rparr>"
    by (simp add: demo_config_def)
  show "\<exists>a. ncb_Authentication (demo_config_builder demo_cluster_config None) = Some a \<and> is_ok (Auth_GetLoginIdentiryProvider kubedoop a)"
    if "Authentication demo_cluster_config \<noteq> None"
    using that demo_cluster_config_auth by contradiction
qed simp_all

theorem config_map_contents_witness:
  "\<exists>cm. ConfigMap_Build kubedoop plain_props plain_configmaps static_class (demo_config_builder demo_cluster_config None) = Ok (ObjConfigMap cm) \<and>
     meta_Name (cm_Meta cm) = ''demo-node-default'' \<and> cm_Data cm ''login-identity-providers.xml'' = None"
proof -
  obtain obj where obj: "ConfigMap_Build kubedoop plain_props plain_configmaps static_class (demo_config_builder demo_cluster_config None) = Ok obj"
    using demo_config_map_ok by (auto simp: outcome_simps)
  have "GetFullName kubedoop (demo_info ''default'') = ''demo-node-default''"
    by (simp add: kubedoop_def demo_info_def rgi_ClusterName_def rgi_RoleName_def)
  moreover obtain cm where cm: "obj = ObjConfigMap cm" "meta_Name (cm_Meta cm) = GetFullName kubedoop (demo_info ''default'')"
    "dom (cm_Data cm) = set ([''bootstrap.conf'', ''nifi.properties''] @ [] @ [''state-management.xml''])"
    using config_map_contents [OF plain_configmaps_laws demo_config_builder_def obj]
    unfolding demo_cluster_config_auth if_P [OF refl] by blast
  moreover have "''login-identity-providers.xml'' \<notin> dom (cm_Data cm)"
    unfolding cm(3) by simp
  then have "cm_Data cm ''login-identity-providers.xml'' = None" by (simp only: domIff not_not)
  ultimately show ?thesis
    using obj by simp
qed

text \<open>
  \<^verbatim>\<open>Build\<close> of the config map dereferences the merged role group configuration without a check:
  a role group for which neither the role nor the group has a \<^verbatim>\<open>config\<close> section panics.
\<close>

theorem config_map_needs_config:
  assumes "ncb_Config b = None \<or> (\<exists>c. ncb_Config b = Some c \<and> cfg_RoleGroupConfigSpec c = None)"
  shows "ConfigMap_Build L P C g b = Panic"
  using assms by (auto simp: ConfigMap_Build_def getBootstrapConfig_def)

theorem config_map_needs_config_witness:
  "ConfigMap_Build kubedoop plain_props plain_configmaps static_class
     ((demo_config_builder demo_cluster_config None)\<lparr>ncb_Config := None\<rparr>) = Panic"
  by (rule config_map_needs_config) simp

end
