(* ===== verification/NodeStatefulSet.thy ===== *)
theory NodeStatefulSet
  imports NodeConfigProps
begin

section \<open>NodeStatefulSet: the pods of a role group and their service\<close>

text \<open>
  \<^verbatim>\<open>internal/controller/node/\<close>: \<^verbatim>\<open>statefulset.go\<close> and \<^verbatim>\<open>service.go\<close>. The builder struct is
  the record \<open>StatefulSetBuilder\<close>; the fields \<^verbatim>\<open>Name\<close> and \<^verbatim>\<open>Image\<close>, which the Go struct
  promotes from the embedded library builder, are \<open>sb_Name\<close> and \<open>sb_Image\<close>. \<^verbatim>\<open>Build\<close> threads
  the library builder through the \<^verbatim>\<open>Add\<close> calls in source order.
\<close>

subsection \<open>Names and the builder\<close>

definition NifiConfigVolumeName :: string where
  "NifiConfigVolumeName = ''nifi-config''"

definition NifiAdminPasswordVolumeName :: string where
  "NifiAdminPasswordVolumeName = ''nifi-admin-password''"

definition EmptyDirVolumeName :: string where
  "EmptyDirVolumeName = ''empty-dir''"

definition NifiServiceAccountName :: "string \<Rightarrow> string" where
  "NifiServiceAccountName clusterName = clusterName @ ''-nifi''"

record 's StatefulSetBuilder =
  sb_StatefulSet :: 's
  sb_Name :: string
  sb_Image :: Image
  sb_Ports :: "ContainerPort list"
  sb_ClusterConfig :: "ClusterConfigSpec option"
  sb_ClusterName :: string
  sb_RoleName :: string
  sb_Authentication :: "Authentication option"
  sb_GitSyncResources :: GitSyncResources

record 's StatefulSetReconciler =
  sr_Builder :: "'s StatefulSetBuilder"
  sr_Stopped :: bool

definition role_group_options :: "operator_go \<Rightarrow> RoleGroupInfo \<Rightarrow> Options" where
  "role_group_options L info =
     \<lparr>o_ClusterName = rgi_ClusterName info, o_RoleName = rgi_RoleName info, o_RoleGroupName = rgi_RoleGroupName info,
      o_Labels = RoleGroupLabels L info, o_Annotations = RoleGroupAnnotations L info\<rparr>"

definition NewStatefulSetReconciler ::
    "operator_go \<Rightarrow> 's statefulset_pkg \<Rightarrow> RoleGroupInfo \<Rightarrow> ClusterConfigSpec option \<Rightarrow> ContainerPort list \<Rightarrow> Image
      \<Rightarrow> int32 option \<Rightarrow> bool \<Rightarrow> Authentication option \<Rightarrow> OverridesSpec option \<Rightarrow> ConfigSpec option
      \<Rightarrow> 's StatefulSetReconciler outcome" where
  "NewStatefulSetReconciler L S roleGroupInfo clusterConfig ports img replicas stopped authentication overrides roleGroupConfig =
     (let commonsRoleGroupConfig = (case roleGroupConfig of None \<Rightarrow> None | Some c \<Rightarrow> cfg_RoleGroupConfigSpec c) in
      bind_o (deref clusterConfig) (\<lambda>cc.
      bind_o (wrap_err ''building git-sync resources'' (NewGitSyncResources (CustomComponentsGitSync cc))) (\<lambda>gitSyncResources.
        Ok \<lparr>sr_Builder =
              \<lparr>sb_StatefulSet = NewStatefulSetBuilder S (GetFullName L roleGroupInfo) replicas img overrides
                 commonsRoleGroupConfig (role_group_options L roleGroupInfo),
               sb_Name = GetFullName L roleGroupInfo,
               sb_Image = img,
               sb_Ports = ports,
               sb_ClusterConfig = clusterConfig,
               sb_ClusterName = rgi_ClusterName roleGroupInfo,
               sb_RoleName = rgi_RoleName roleGroupInfo,
               sb_Authentication = authentication,
               sb_GitSyncResources = gitSyncResources\<rparr>,
            sr_Stopped = stopped\<rparr>)))"

subsection \<open>Environment, mounts and volumes\<close>

definition zookeeper_env :: "string \<Rightarrow> string \<Rightarrow> EnvVar" where
  "zookeeper_env name configMap =
     \<lparr>env_Name = name, env_Value = [], env_ValueFrom = Some (ConfigMapKeyRef \<lparr>sel_Name = configMap, sel_Key = name\<rparr>)\<rparr>"

definition base_env :: "string \<Rightarrow> ClusterConfigSpec \<Rightarrow> EnvVar list" where
  "base_env clusterName cc =
     [\<lparr>env_Name = ''POD_NAME'', env_Value = [], env_ValueFrom = Some (FieldRef ''metadata.name'')\<rparr>,
      \<lparr>env_Name = ''STACKLET_NAME'', env_Value = clusterName, env_ValueFrom = None\<rparr>]
     @ (case ZookeeperConfigMapName cc of
          None \<Rightarrow> []
        | Some n \<Rightarrow> if n \<noteq> [] then [zookeeper_env ''ZOOKEEPER_HOSTS'' n, zookeeper_env ''ZOOKEEPER_CHROOT'' n] else [])"

definition getContainerEnv :: "'s StatefulSetBuilder \<Rightarrow> EnvVar list outcome" where
  "getContainerEnv b =
     bind_o (deref (sb_ClusterConfig b)) (\<lambda>cc.
     let envVars = base_env (sb_ClusterName b) cc
     in case sb_Authentication b of
          None \<Rightarrow> Ok envVars
        | Some auth \<Rightarrow> bind_o (Auth_GetEnvVars auth) (\<lambda>es. Ok (envVars @ es)))"

definition base_mounts :: "operator_go \<Rightarrow> VolumeMount list" where
  "base_mounts L =
     [\<lparr>vm_Name = NifiConfigVolumeName, vm_MountPath = KubedoopConfigDirMount L, vm_SubPath = [], vm_ReadOnly = True\<rparr>,
      \<lparr>vm_Name = EmptyDirVolumeName, vm_MountPath = NifiConfigDir L, vm_SubPath = ''config'', vm_ReadOnly = False\<rparr>]"

definition getVolumeMounts :: "operator_go \<Rightarrow> 's StatefulSetBuilder \<Rightarrow> VolumeMount list outcome" where
  "getVolumeMounts L b =
     (case sb_Authentication b of
        None \<Rightarrow> Ok (base_mounts L)
      | Some auth \<Rightarrow> bind_o (Auth_GetVolumeMounts L auth) (\<lambda>ms. Ok (base_mounts L @ ms)))"

definition base_volumes :: "string \<Rightarrow> Volume list" where
  "base_volumes name =
     [\<lparr>vol_Name = NifiConfigVolumeName, vol_Source = ConfigMapSource name\<rparr>,
      \<lparr>vol_Name = EmptyDirVolumeName, vol_Source = EmptyDirSource\<rparr>]"

definition getVolumes :: "operator_go \<Rightarrow> 's StatefulSetBuilder \<Rightarrow> Volume list outcome" where
  "getVolumes L b =
     bind_o (case sb_Authentication b of
               None \<Rightarrow> Ok (base_volumes (sb_Name b))
             | Some auth \<Rightarrow> bind_o (Auth_GetVolumes L auth) (\<lambda>vs. Ok (base_volumes (sb_Name b) @ vs))) (\<lambda>volumes.
       Ok (volumes @ GitSyncVolumes (sb_GitSyncResources b)))"

subsection \<open>Containers\<close>

definition getContainerTemplate ::
    "operator_go \<Rightarrow> 'b container_pkg \<Rightarrow> 's StatefulSetBuilder \<Rightarrow> string \<Rightarrow> 'b outcome" where
  "getContainerTemplate L B b name =
     (let container = NewContainerBuilder B name (sb_Image b);
          container = SetSecurityContext B container 0 0 False;
          container = SetCommand B container [''/bin/bash'', ''-x'', ''-euo'', ''pipefail'', ''-c'']
      in bind_o (getContainerEnv b) (\<lambda>envVars.
         let container = AddEnvVars B container envVars in
         bind_o (getVolumeMounts L b) (\<lambda>volumeMounts.
           Ok (AddVolumeMounts B container volumeMounts))))"

definition node_address :: "operator_go \<Rightarrow> string \<Rightarrow> string" where
  "node_address L name = ''$POD_NAME.'' @ name @ ''.'' @ GetOwnerNamespace L @ ''.svc.cluster.local''"

definition gomplate_line :: "operator_go \<Rightarrow> string \<Rightarrow> string" where
  "gomplate_line L file =
     ''gomplate -f '' @ KubedoopConfigDirMount L @ ''/'' @ file @ '' -o '' @ NifiConfigDir L @ ''/'' @ file @ nl"

definition prepare_script :: "operator_go \<Rightarrow> 's StatefulSetBuilder \<Rightarrow> string" where
  \<open>prepare_script L b =
     (let nodeAddress = node_address L (sb_Name b);
          authArgs = (case sb_Authentication b of None \<Rightarrow> [] | Some auth \<Rightarrow> Auth_GetInitArgs L auth)
      in nl @ ''cp '' @ path_join [KubedoopConfigDirMount L, ''*''] @ '' '' @ NifiConfigDir L @ nl @ nl
         @ ''export NODE_ADDRESS="'' @ nodeAddress @ ''"'' @ nl
         @ authArgs @ nl @ nl
         @ gomplate_line L ''nifi.properties''
         @ gomplate_line L ''login-identity-providers.xml''
         @ gomplate_line L ''state-management.xml'')\<close>

definition getPrepareContainerArgs :: "operator_go \<Rightarrow> 's StatefulSetBuilder \<Rightarrow> string" where
  "getPrepareContainerArgs L b = IndentTab4Spaces L (prepare_script L b)"

definition getPrepareContainer ::
    "operator_go \<Rightarrow> 'b container_pkg \<Rightarrow> 's StatefulSetBuilder \<Rightarrow> 'b outcome" where
  "getPrepareContainer L B b =
     bind_o (getContainerTemplate L B b ''prepare'') (\<lambda>container.
       Ok (SetArgs B container [getPrepareContainerArgs L b]))"

definition getMainContainerArgs :: "operator_go \<Rightarrow> string" where
  "getMainContainerArgs L =
     IndentTab4Spaces L
       (CommonBashTrapFunctions L @ nl @ nl @ RemoveVectorShutdownFileCommand L @ nl @ nl
        @ ''prepare_signal_handlers'' @ nl @ nl @ ''# sleep infinity'' @ nl @ nl
        @ ''bin/nifi.sh run &'' @ nl @ nl @ ''wait_for_termination $!'' @ nl @ nl
        @ CreateVectorShutdownFileCommand L @ nl)"

definition main_probe :: "int32 \<Rightarrow> string \<Rightarrow> Probe" where
  "main_probe failureThreshold port =
     \<lparr>probe_FailureThreshold = failureThreshold, probe_InitialDelaySeconds = 10, probe_PeriodSeconds = 10,
      probe_SuccessThreshold = 1, probe_TimeoutSeconds = 3, probe_TCPPort = port\<rparr>"

definition setupMainContainerProbe :: "'b container_pkg \<Rightarrow> 's StatefulSetBuilder \<Rightarrow> 'b \<Rightarrow> 'b outcome" where
  "setupMainContainerProbe B b container =
     bind_o (deref (sb_ClusterConfig b)) (\<lambda>cc.
       let port = (if Tls cc \<noteq> None then ''https'' else ''http'');
           container = SetLivenessProbe B container (main_probe 30 port)
       in Ok (SetStartupProbe B container (main_probe 120 port)))"

definition getMainContainerBuilder ::
    "operator_go \<Rightarrow> 'b container_pkg \<Rightarrow> 's StatefulSetBuilder \<Rightarrow> 'b outcome" where
  "getMainContainerBuilder L B b =
     bind_o (getContainerTemplate L B b (sb_RoleName b)) (\<lambda>container.
       let container = SetArgs B container [getMainContainerArgs L];
           container = AddPorts B container Ports
       in setupMainContainerProbe B b container)"

subsection \<open>Build\<close>

text \<open>The dynamic type of an object as \<^verbatim>\<open>%T\<close> prints it.\<close>

fun object_type :: "Object \<Rightarrow> string" where
  "object_type (ObjStatefulSet s) = ''*v1.StatefulSet''"
| "object_type (ObjConfigMap c) = ''*v1.ConfigMap''"
| "object_type (ObjSecret s) = ''*v1.Secret''"
| "object_type (ObjService s) = ''*v1.Service''"
| "object_type (ObjJob j) = ''*v1.Job''"
| "object_type (ObjOther t) = t"

definition StatefulSet_Build ::
    "operator_go \<Rightarrow> 'b container_pkg \<Rightarrow> 's statefulset_pkg \<Rightarrow> 's StatefulSetBuilder \<Rightarrow> Object outcome" where
  "StatefulSet_Build L B S b =
     (let git = sb_GitSyncResources b in
      bind_o (getPrepareContainer L B b) (\<lambda>prepareContainer.
      let s = AddInitContainer S (sb_StatefulSet b) (BuildContainer B prepareContainer);
          s = foldl (AddInitContainer S) s (GitSyncInitContainers git)
      in bind_o (getMainContainerBuilder L B b) (\<lambda>mainContainerBuilder.
      let mainContainer = BuildContainer B (AddVolumeMounts B mainContainerBuilder (GitSyncVolumeMounts git));
          s = AddContainer S s mainContainer;
          s = foldl (AddContainer S) s (GitSyncContainers git)
      in bind_o (getVolumes L b) (\<lambda>volumes.
      let s = AddVolumes S s volumes in
      bind_o (BuildSts S s) (\<lambda>obj.
        case obj of
          ObjStatefulSet sts \<Rightarrow>
            Ok (ObjStatefulSet (sts\<lparr>sts_Pod := (sts_Pod sts)\<lparr>pod_ServiceAccountName := NifiServiceAccountName (sb_ClusterName b)\<rparr>\<rparr>))
        | _ \<Rightarrow> Err (Errorf (''expected *appv1.StatefulSet from StatefulSet builder, got '' @ object_type obj)))))))"

subsection \<open>service.go\<close>

record 'v ServiceBuilder =
  BaseServiceBuilder :: 'v

definition node_NewServiceBuilder ::
    "'v service_pkg \<Rightarrow> string \<Rightarrow> ContainerPort list \<Rightarrow> ServiceBuilderOptions \<Rightarrow> 'v ServiceBuilder" where
  "node_NewServiceBuilder V name ports options = \<lparr>BaseServiceBuilder = NewServiceBuilder V name ports options\<rparr>"

definition Service_Build :: "'v service_pkg \<Rightarrow> 'v ServiceBuilder \<Rightarrow> Object outcome" where
  "Service_Build V b =
     (let obj = SvcGetObject V (BaseServiceBuilder b);
          obj = (if svc_ClusterIP obj = ClusterIPNone then obj\<lparr>svc_PublishNotReadyAddresses := True\<rparr> else obj)
      in Ok (ObjService obj))"

definition NewServiceReconciler ::
    "'v service_pkg \<Rightarrow> string \<Rightarrow> ContainerPort list \<Rightarrow> ServiceBuilderOptions \<Rightarrow> 'v ServiceBuilder" where
  "NewServiceReconciler V name ports options = node_NewServiceBuilder V name ports options"

subsection \<open>The pod, part by part\<close>

text \<open>
  What \<^verbatim>\<open>NewAuthentication\<close> returns for a class whose configuration is complete: no
  authentication, or exactly one complete authenticator.
\<close>

definition usable_auth :: "operator_go \<Rightarrow> Authentication option \<Rightarrow> bool" where
  "usable_auth L auth \<longleftrightarrow> (\<forall>a. auth = Some a \<longrightarrow> (\<exists>t x. Authenticators a = [(t, [x])] \<and> complete_auth L x))"

definition git_builder :: "'s StatefulSetBuilder \<Rightarrow> ClusterConfigSpec \<Rightarrow> bool" where
  "git_builder b cc \<longleftrightarrow> sb_ClusterConfig b = Some cc \<and> sb_GitSyncResources b = git_sync_spec (CustomComponentsGitSync cc)"

lemma auth_is_single:
  assumes "Authenticators a = [(t, [x])]"
  shows "Auth_GetEnvVars a = GetEnvVars x" "Auth_GetVolumes L a = GetVolumes L x" "Auth_GetVolumeMounts L a = GetVolumeMounts L x"
    "Auth_ExtendNifiProperties P a = ExtendNifiProperties P x" "Auth_GetLoginIdentiryProvider L a = GetLoginIdentiryProvider L x"
  by (simp_all add: Auth_GetEnvVars_def Auth_GetVolumes_def Auth_GetVolumeMounts_def Auth_ExtendNifiProperties_def
      Auth_GetLoginIdentiryProvider_def assms)

lemma base_env_names:
  "map env_Name (base_env n cc) =
     [''POD_NAME'', ''STACKLET_NAME''] @ (if useZooKeeperStateProvider cc then [''ZOOKEEPER_HOSTS'', ''ZOOKEEPER_CHROOT''] else [])"
  by (simp add: base_env_def zookeeper_env_def useZooKeeperStateProvider_def split: option.split)

lemma base_env_ok: "env_ok (base_env n cc)" "set (map env_Name (base_env n cc)) \<subseteq> set reserved_env"
  unfolding env_ok_def base_env_names by (simp, auto simp: reserved_env_def)

lemma base_volumes_ok:
  "volumes_ok (base_volumes n)" "set (map vol_Name (base_volumes n)) \<subseteq> set reserved_volumes"
  "mounts_backed (base_volumes n) (base_mounts L)"
  by (simp_all add: base_volumes_def base_mounts_def volumes_ok_def mounts_backed_def reserved_volumes_def
      NifiConfigVolumeName_def EmptyDirVolumeName_def)

lemma git_volumes_ok:
  assumes "git_builder b cc"
  shows "volumes_ok (GitSyncVolumes (sb_GitSyncResources b))"
    "set (map vol_Name (GitSyncVolumes (sb_GitSyncResources b))) \<subseteq> range gitSyncVolumeName"
proof -
  have "map vol_Name (GitSyncVolumes (sb_GitSyncResources b)) = map gitSyncVolumeName [0..<length (CustomComponentsGitSync cc)]"
    using assms by (simp add: git_builder_def git_sync_volume_names)
  then show "volumes_ok (GitSyncVolumes (sb_GitSyncResources b))"
    "set (map vol_Name (GitSyncVolumes (sb_GitSyncResources b))) \<subseteq> range gitSyncVolumeName"
    unfolding volumes_ok_def by (simp_all only: gsvol.distinct_names) auto
qed

lemma usable_authE:
  assumes "usable_auth L auth"
  obtains "auth = None"
    | a x es vs ms where "auth = Some a" "complete_auth L x" "GetEnvVars x = Ok es" "GetVolumes L x = Ok vs" "GetVolumeMounts L x = Ok ms"
      "Auth_GetEnvVars a = Ok es" "Auth_GetVolumes L a = Ok vs" "Auth_GetVolumeMounts L a = Ok ms"
      "is_ok (Auth_GetLoginIdentiryProvider L a)"
proof (cases auth)
  case (Some a)
  with assms obtain t x where x: "Authenticators a = [(t, [x])]" "complete_auth L x"
    by (auto simp: usable_auth_def)
  from anyauth.returns [OF x(2)] obtain es vs ms where
    "GetEnvVars x = Ok es" "GetVolumes L x = Ok vs" "GetVolumeMounts L x = Ok ms" "is_ok (GetLoginIdentiryProvider L x)"
    by (auto simp: is_ok_iff)
  with that(2) Some x show thesis by (simp add: auth_is_single [OF x(1)])
qed (rule that(1))

lemma env_built:
  assumes "usable_auth L (sb_Authentication b)" "sb_ClusterConfig b = Some cc"
  obtains es where "getContainerEnv b = Ok (base_env (sb_ClusterName b) cc @ es)" "env_ok (base_env (sb_ClusterName b) cc @ es)"
  using assms(1)
proof (cases rule: usable_authE)
  case 1
  then show thesis
    using that [of "[]"] base_env_ok(1) by (simp add: getContainerEnv_def assms(2))
next
  case (2 a x es)
  then show thesis
    using that [of es] anyauth.env_extends [OF _ base_env_ok] by (simp add: getContainerEnv_def assms(2))
qed

lemma volumes_built:
  assumes "usable_auth L (sb_Authentication b)" "git_builder b cc"
  obtains ms vs where "getVolumeMounts L b = Ok (base_mounts L @ ms)"
    "getVolumes L b = Ok (base_volumes (sb_Name b) @ vs @ GitSyncVolumes (sb_GitSyncResources b))"
    "volumes_ok (base_volumes (sb_Name b) @ vs @ GitSyncVolumes (sb_GitSyncResources b))"
    "mounts_backed (base_volumes (sb_Name b) @ vs @ GitSyncVolumes (sb_GitSyncResources b)) (base_mounts L @ ms)"
  using assms(1)
proof (cases rule: usable_authE)
  case 1
  let ?git = "GitSyncVolumes (sb_GitSyncResources b)"
  have "set (map vol_Name (base_volumes (sb_Name b))) \<inter> set (map vol_Name ?git) = {}"
    using base_volumes_ok(2) git_volumes_ok(2) [OF assms(2)] reserved_volumes_not_git by blast
  then have "volumes_ok (base_volumes (sb_Name b) @ ?git)"
    using base_volumes_ok(1) git_volumes_ok(1) [OF assms(2)] by (simp add: volumes_ok_def)
  moreover have "mounts_backed (base_volumes (sb_Name b) @ ?git) (base_mounts L)"
    by (rule mounts_backed_mono [OF base_volumes_ok(3) [of "sb_Name b"]]) simp
  ultimately show thesis
    using 1 that [of "[]" "[]"] by (simp add: getVolumeMounts_def getVolumes_def)
next
  case (2 a x es vs ms)
  let ?all = "base_volumes (sb_Name b) @ vs @ GitSyncVolumes (sb_GitSyncResources b)"
  have "mounts_backed ?all (base_mounts L)"
    by (rule mounts_backed_mono [OF base_volumes_ok(3) [of "sb_Name b"]]) simp
  moreover have "mounts_backed ?all ms"
    by (rule mounts_backed_mono [OF anyauth.backed [OF 2(2,4,5)]]) auto
  moreover have "volumes_ok ?all"
    by (rule anyauth.volumes_extend [OF 2(2,4) base_volumes_ok(1,2) git_volumes_ok [OF assms(2)] reserved_volumes_not_git])
  ultimately show thesis
    using 2 that [of ms vs] by (simp add: getVolumeMounts_def getVolumes_def)
qed

lemma template_built:
  assumes "container_laws B" "getContainerEnv b = Ok es" "getVolumeMounts L b = Ok ms"
  obtains t where "getContainerTemplate L B b name = Ok t" "c_Name (BuildContainer B t) = name"
    "c_Env (BuildContainer B t) = es" "c_VolumeMounts (BuildContainer B t) = ms"
  using assms that by (simp add: getContainerTemplate_def container_laws_def Let_def)

lemma prepare_built:
  assumes "container_laws B" "getContainerEnv b = Ok es" "getVolumeMounts L b = Ok ms"
  obtains c where "getPrepareContainer L B b = Ok c" "c_Name (BuildContainer B c) = ''prepare''"
    "c_Env (BuildContainer B c) = es" "c_VolumeMounts (BuildContainer B c) = ms"
    "c_Args (BuildContainer B c) = [getPrepareContainerArgs L b]"
proof (rule template_built [OF assms, of "''prepare''"])
  fix t
  assume "getContainerTemplate L B b ''prepare'' = Ok t" "c_Name (BuildContainer B t) = ''prepare''"
    "c_Env (BuildContainer B t) = es" "c_VolumeMounts (BuildContainer B t) = ms"
  with assms(1) that [of "SetArgs B t [getPrepareContainerArgs L b]"] show thesis
    by (simp add: getPrepareContainer_def container_laws_def)
qed

lemma main_built:
  assumes "container_laws B" "getContainerEnv b = Ok es" "getVolumeMounts L b = Ok ms" "sb_ClusterConfig b = Some cc"
  obtains c where "getMainContainerBuilder L B b = Ok c" "c_Name (BuildContainer B c) = sb_RoleName b"
    "c_Env (BuildContainer B c) = es" "c_VolumeMounts (BuildContainer B c) = ms"
    "c_LivenessProbe (BuildContainer B c) = Some (main_probe 30 (if Tls cc \<noteq> None then ''https'' else ''http''))"
proof (rule template_built [OF assms(1-3), of "sb_RoleName b"])
  fix t
  assume "getContainerTemplate L B b (sb_RoleName b) = Ok t" "c_Name (BuildContainer B t) = sb_RoleName b"
    "c_Env (BuildContainer B t) = es" "c_VolumeMounts (BuildContainer B t) = ms"
  with assms(1,4) that show thesis
    by (simp add: getMainContainerBuilder_def setupMainContainerProbe_def container_laws_def Let_def)
qed

lemma statefulset_lawsD:
  assumes "statefulset_laws S contents patch"
  shows "contents s = (ov, is, cs, vs) \<Longrightarrow> contents (AddInitContainer S s c) = (ov, is @ [c], cs, vs)"
    "contents s = (ov, is, cs, vs) \<Longrightarrow> contents (AddContainer S s c) = (ov, is, cs @ [c], vs)"
    "contents s = (ov, is, cs, vs) \<Longrightarrow> contents (AddVolumes S s ws) = (ov, is, cs, vs @ ws)"
  using assms by (simp_all add: statefulset_laws_def)

lemma contents_foldl:
  assumes "statefulset_laws S contents patch"
  shows "contents s = (ov, is, cs, vs) \<Longrightarrow> contents (foldl (AddInitContainer S) s ds) = (ov, is @ ds, cs, vs)"
    and "contents s = (ov, is, cs, vs) \<Longrightarrow> contents (foldl (AddContainer S) s ds) = (ov, is, cs @ ds, vs)"
proof (induction ds arbitrary: s "is" cs)
  case (Cons d ds)
  { case 1
    then have "contents (AddInitContainer S s d) = (ov, is @ [d], cs, vs)" by (rule statefulset_lawsD(1) [OF assms])
    from Cons.IH(1) [OF this] show ?case by simp }
  { case 2
    then have "contents (AddContainer S s d) = (ov, is, cs @ [d], vs)" by (rule statefulset_lawsD(2) [OF assms])
    from Cons.IH(2) [OF this] show ?case by simp }
qed simp_all

lemma build_sts:
  assumes "statefulset_laws S contents patch" "contents s = (ov, is, cs, vs)"
  obtains st where "BuildSts S s = bind_o (apply_overrides patch ov st) (\<lambda>st. Ok (ObjStatefulSet st))" "pod_InitContainers (sts_Pod st) = is"
    "pod_Containers (sts_Pod st) = cs" "pod_Volumes (sts_Pod st) = vs"
  using assms unfolding statefulset_laws_def by blast

text \<open>The last step of \<^verbatim>\<open>Build\<close>, after the overrides.\<close>

definition run_as :: "string \<Rightarrow> StatefulSet \<Rightarrow> StatefulSet" where
  "run_as account st = st\<lparr>sts_Pod := (sts_Pod st)\<lparr>pod_ServiceAccountName := account\<rparr>\<rparr>"

lemma run_as_pod [simp]:
  "pod_InitContainers (sts_Pod (run_as n st)) = pod_InitContainers (sts_Pod st)" "pod_Containers (sts_Pod (run_as n st)) = pod_Containers (sts_Pod st)"
  "pod_Volumes (sts_Pod (run_as n st)) = pod_Volumes (sts_Pod st)" "pod_ServiceAccountName (sts_Pod (run_as n st)) = n"
  by (simp_all add: run_as_def)

text \<open>Whatever the library and the overrides do, a pod that is built runs under the cluster's account.\<close>

lemma statefulset_account:
  "StatefulSet_Build L B S b = Ok (ObjStatefulSet st) \<Longrightarrow>
   pod_ServiceAccountName (sts_Pod st) = NifiServiceAccountName (sb_ClusterName b)"
  unfolding StatefulSet_Build_def Let_def bind_o_Ok_iff by (elim exE conjE) (auto split: Object.split_asm)

text \<open>
  What \<^verbatim>\<open>Build\<close> makes, for any library that keeps the builder contracts: the overrides applied to a
  stateful set that is made of the operator's own parts.
\<close>

lemma statefulset_base_built:
  assumes laws: "container_laws B" "statefulset_laws S contents patch" "contents (sb_StatefulSet b) = (ov, [], [], [])"
    and auth: "usable_auth L (sb_Authentication b)" and git: "git_builder b cc"
  obtains st p m es ms vs where
    "StatefulSet_Build L B S b =
       bind_o (apply_overrides patch ov st) (\<lambda>st. Ok (ObjStatefulSet (run_as (NifiServiceAccountName (sb_ClusterName b)) st)))"
    "pod_InitContainers (sts_Pod st) = p # GitSyncInitContainers (sb_GitSyncResources b)"
    "pod_Containers (sts_Pod st) = m # GitSyncContainers (sb_GitSyncResources b)"
    "getContainerEnv b = Ok es" "getVolumeMounts L b = Ok ms" "getVolumes L b = Ok (pod_Volumes (sts_Pod st))"
    "c_Name p = ''prepare''" "c_Env p = es" "c_VolumeMounts p = ms" "c_Args p = [getPrepareContainerArgs L b]"
    "c_Name m = sb_RoleName b" "c_Env m = es" "c_VolumeMounts m = ms @ GitSyncVolumeMounts (sb_GitSyncResources b)"
    "c_LivenessProbe m = Some (main_probe 30 (if Tls cc \<noteq> None then ''https'' else ''http''))"
proof -
  let ?git = "sb_GitSyncResources b"
  have cc: "sb_ClusterConfig b = Some cc" using git by (simp add: git_builder_def)
  obtain es where es: "getContainerEnv b = Ok es" using env_built [OF auth cc] by metis
  obtain ms vs where ms: "getVolumeMounts L b = Ok ms" and vs: "getVolumes L b = Ok vs"
    using volumes_built [OF auth git] by metis
  obtain p where p: "getPrepareContainer L B b = Ok p" "c_Name (BuildContainer B p) = ''prepare''"
    "c_Env (BuildContainer B p) = es" "c_VolumeMounts (BuildContainer B p) = ms"
    "c_Args (BuildContainer B p) = [getPrepareContainerArgs L b]"
    by (rule prepare_built [OF laws(1) es ms])
  obtain m where m: "getMainContainerBuilder L B b = Ok m" "c_Name (BuildContainer B m) = sb_RoleName b"
    "c_Env (BuildContainer B m) = es" "c_VolumeMounts (BuildContainer B m) = ms"
    "c_LivenessProbe (BuildContainer B m) = Some (main_probe 30 (if Tls cc \<noteq> None then ''https'' else ''http''))"
    by (rule main_built [OF laws(1) es ms cc])
  let ?P = "BuildContainer B p" and ?M = "BuildContainer B (AddVolumeMounts B m (GitSyncVolumeMounts ?git))"
  let ?s1 = "AddInitContainer S (sb_StatefulSet b) ?P"
  let ?s2 = "foldl (AddInitContainer S) ?s1 (GitSyncInitContainers ?git)"
  let ?s4 = "foldl (AddContainer S) (AddContainer S ?s2 ?M) (GitSyncContainers ?git)"
  have "contents ?s1 = (ov, [] @ [?P], [], [])" by (rule statefulset_lawsD(1) [OF laws(2,3)])
  from contents_foldl(1) [OF laws(2) this] have "contents (AddContainer S ?s2 ?M) = (ov, ([] @ [?P]) @ GitSyncInitContainers ?git, [] @ [?M], [])"
    by (rule statefulset_lawsD(2) [OF laws(2)])
  from contents_foldl(2) [OF laws(2) this]
  have "contents (AddVolumes S ?s4 vs) = (ov, ([] @ [?P]) @ GitSyncInitContainers ?git, ([] @ [?M]) @ GitSyncContainers ?git, [] @ vs)"
    by (rule statefulset_lawsD(3) [OF laws(2)])
  then obtain st where st: "BuildSts S (AddVolumes S ?s4 vs) = bind_o (apply_overrides patch ov st) (\<lambda>st. Ok (ObjStatefulSet st))"
    "pod_InitContainers (sts_Pod st) = ?P # GitSyncInitContainers ?git" "pod_Containers (sts_Pod st) = ?M # GitSyncContainers ?git"
    "pod_Volumes (sts_Pod st) = vs"
    by (rule build_sts [OF laws(2)]) simp
  have M: "c_Name ?M = sb_RoleName b" "c_Env ?M = es" "c_VolumeMounts ?M = ms @ GitSyncVolumeMounts ?git"
    "c_LivenessProbe ?M = Some (main_probe 30 (if Tls cc \<noteq> None then ''https'' else ''http''))"
    using laws(1) m by (simp_all add: container_laws_def)
  have "StatefulSet_Build L B S b =
      bind_o (apply_overrides patch ov st) (\<lambda>st. Ok (ObjStatefulSet (run_as (NifiServiceAccountName (sb_ClusterName b)) st)))"
    by (simp add: StatefulSet_Build_def Let_def p(1) m(1) vs st(1) bind_o_assoc run_as_def)
  from that [OF this, of ?P ?M es ms] st es ms vs p M show thesis by simp
qed

lemmas statefulset_built = statefulset_base_built [where ov = None, unfolded apply_overrides_simps bind_o.simps]

lemma new_statefulset:
  "NewStatefulSetReconciler L S info (Some cc) ports im reps stopped auth ov cfg =
     Ok \<lparr>sr_Builder =
        \<lparr>sb_StatefulSet = NewStatefulSetBuilder S (GetFullName L info) reps im ov
           (case cfg of None \<Rightarrow> None | Some c \<Rightarrow> cfg_RoleGroupConfigSpec c) (role_group_options L info),
         sb_Name = GetFullName L info, sb_Image = im, sb_Ports = ports, sb_ClusterConfig = Some cc,
         sb_ClusterName = rgi_ClusterName info, sb_RoleName = rgi_RoleName info, sb_Authentication = auth,
         sb_GitSyncResources = git_sync_spec (CustomComponentsGitSync cc)\<rparr>, sr_Stopped = stopped\<rparr>"
  by (simp add: NewStatefulSetReconciler_def NewGitSyncResources_eq Let_def)

definition role_group_builder ::
    "operator_go \<Rightarrow> 's statefulset_pkg \<Rightarrow> RoleGroupInfo \<Rightarrow> ClusterConfigSpec \<Rightarrow> Authentication option \<Rightarrow> OverridesSpec option
      \<Rightarrow> 's StatefulSetBuilder \<Rightarrow> bool" where
  "role_group_builder L S info cc auth ov b \<longleftrightarrow>
     (\<exists>ports im reps stopped cfg r. NewStatefulSetReconciler L S info (Some cc) ports im reps stopped auth ov cfg = Ok r \<and> b = sr_Builder r)"

lemma role_group_builderI:
  "NewStatefulSetReconciler L S info (Some cc) ports im reps stopped auth ov cfg = Ok r \<Longrightarrow>
   role_group_builder L S info cc auth ov (sr_Builder r)"
  unfolding role_group_builder_def by blast

lemma role_group_builderD:
  assumes "role_group_builder L S info cc auth ov b"
  shows "git_builder b cc" "sb_Name b = GetFullName L info" "sb_ClusterName b = rgi_ClusterName info"
    "sb_RoleName b = rgi_RoleName info" "sb_Authentication b = auth" "sb_ClusterConfig b = Some cc"
    "sb_GitSyncResources b = git_sync_spec (CustomComponentsGitSync cc)"
    "statefulset_laws S contents patch \<Longrightarrow> contents (sb_StatefulSet b) = (ov, [], [], [])"
  using assms by (auto simp: role_group_builder_def new_statefulset git_builder_def statefulset_laws_def)

lemma git_sync_containers_ok:
  "mounts_backed (GitSyncVolumes (git_sync_spec gss)) (GitSyncVolumeMounts (git_sync_spec gss))"
  "list_all (\<lambda>c. mounts_backed (GitSyncVolumes (git_sync_spec gss)) (c_VolumeMounts c) \<and> env_ok (c_Env c))
     (GitSyncInitContainers (git_sync_spec gss) @ GitSyncContainers (git_sync_spec gss))"
  by (simp only: mounts_backed_def git_sync_volume_names order_refl)
    (auto simp: list_all_iff mounts_backed_def git_sync_spec_def buildGitSyncContainer_def env_ok_def gitSyncEnvVars_def
        gitSyncEnvVarFromSecret_def git_sync_root_mount_def git_sync_volume_def in_set_enumerate_eq)

lemma git_sync_mounts_single:
  "list_all (\<lambda>c. mount_paths_ok (c_VolumeMounts c)) (GitSyncInitContainers (git_sync_spec gss))"
  "list_all (\<lambda>c. mount_paths_ok (c_VolumeMounts c)) (GitSyncContainers (git_sync_spec gss))"
  by (auto simp: list_all_iff mount_paths_ok_def git_sync_spec_def buildGitSyncContainer_def)

lemma git_sync_names_distinct:
  assumes "r \<noteq> ''prepare''" "\<not> HasPrefix r (gitSyncContainerNamePrefix @ ''-'')"
  shows "distinct (''prepare'' # map gitSyncInitContainerName [0..<n] @ r # map gitSyncContainerName [0..<n])"
proof -
  have "\<not> HasPrefix ''prepare'' (gitSyncContainerNamePrefix @ ''-'')" by (simp add: gitSyncContainerNamePrefix_def)
  note fresh = gscont.not_a_name [OF this] gsinit.not_a_name [OF this] gscont.not_a_name [OF assms(2)] gsinit.not_a_name [OF assms(2)]
  then show ?thesis
    using assms(1) init_name_ne_sidecar_name gscont.distinct_names [of 0 n] gsinit.distinct_names [of 0 n] by auto
qed

subsection \<open>Where the volumes are mounted\<close>

text \<open>
  The bind credentials of LDAP are mounted in a directory named after their secret class, which is
  user input: the class has to be an ordinary name for the mount to be where it is meant to be.
\<close>

fun plain_secret_class :: "authenticator \<Rightarrow> bool" where
  "plain_secret_class (LdapAuth a) = (case lp_BindCredentials (la_provider a) of None \<Rightarrow> True | Some c \<Rightarrow> valid_comp (cred_SecretClass c))"
| "plain_secret_class x = True"

definition plain_auth :: "Authentication option \<Rightarrow> bool" where
  "plain_auth auth \<longleftrightarrow> (\<forall>a t x. auth = Some a \<longrightarrow> Authenticators a = [(t, [x])] \<longrightarrow> plain_secret_class x)"

lemma plain_None [simp]: "plain_auth None"
  by (simp add: plain_auth_def)

lemma layoutE:
  assumes "layout_laws L"
  obtains r m s where "list_all valid_comp r" "list_all valid_comp m" "list_all valid_comp s" "r \<noteq> []" "\<not> prefix [''kubedoop'', ''app''] r"
    "m \<noteq> []" "s \<noteq> []" "hd m \<noteq> hd s" "{hd m, hd s} \<inter> {''nifi'', ''sensitiveproperty'', ''users'', ''app''} = {}" "KubedoopRoot L = abs_path r"
    "KubedoopConfigDirMount L = abs_path (r @ m)" "NifiConfigDir L = abs_path (r @ [''nifi'', ''conf''])" "UserMountDir L = abs_path (r @ [''users''])"
    "\<And>c. valid_comp c \<Longrightarrow> path_join [KubedoopSecretDir L, c] = abs_path (r @ s @ [c])"
proof -
  from assms obtain r m s where l: "list_all valid_comp r" "list_all valid_comp m" "list_all valid_comp s" "r \<noteq> []" "\<not> prefix [''kubedoop'', ''app''] r"
    "m \<noteq> []" "s \<noteq> []" "hd m \<noteq> hd s" "{hd m, hd s} \<inter> {''nifi'', ''sensitiveproperty'', ''users'', ''app''} = {}"
    "KubedoopRoot L = abs_path r" "KubedoopConfigDirMount L = abs_path (r @ m)" "KubedoopSecretDir L = abs_path (r @ s)"
    unfolding layout_laws_def list_all_append by (elim exE conjE) (rule that; assumption)
  have v: "list_all valid_comp [''nifi'']" "list_all valid_comp [''conf'']" "list_all valid_comp [''users'']"
    by (simp_all add: valid_comp_def slash_def)
  have "NifiConfigDir L = abs_path ((r @ [''nifi'']) @ [''conf''])"
    unfolding NifiConfigDir_def NifiRoot_def l(10) path_join_abs [OF l(4,1) v(1)] by (rule path_join_abs) (use l(1) v in auto)
  moreover have "UserMountDir L = abs_path (r @ [''users''])"
    unfolding UserMountDir_def l(10) by (rule path_join_abs [OF l(4,1) v(3)])
  moreover have "path_join [KubedoopSecretDir L, c] = abs_path ((r @ s) @ [c])" if "valid_comp c" for c
    unfolding l(12) by (rule path_join_abs) (use l that in auto)
  ultimately show thesis using that [OF l(1-11)] by simp
qed

definition own_dir :: "string list \<Rightarrow> bool" where
  "own_dir d \<longleftrightarrow> d \<noteq> [] \<and> list_all valid_comp d \<and> hd d \<notin> {''sensitiveproperty'', ''app''} \<and> (hd d = ''nifi'' \<longrightarrow> d = [''nifi'', ''conf''])"

lemma mounts_below_root:
  assumes "layout_laws L" "usable_auth L (sb_Authentication b)" "plain_auth (sb_Authentication b)" "getVolumeMounts L b = Ok ms"
  obtains r ds where "KubedoopRoot L = abs_path r" "list_all valid_comp r" "r \<noteq> []" "\<not> prefix [''kubedoop'', ''app''] r"
    "map vm_MountPath ms = map (\<lambda>d. abs_path (r @ d)) ds" "list_all own_dir ds" "distinct (map hd ds)"
proof -
  obtain r m s where l: "list_all valid_comp r" "list_all valid_comp m" "list_all valid_comp s" "r \<noteq> []" "\<not> prefix [''kubedoop'', ''app''] r"
    "m \<noteq> []" "s \<noteq> []" "hd m \<noteq> hd s" "{hd m, hd s} \<inter> {''nifi'', ''sensitiveproperty'', ''users'', ''app''} = {}" "KubedoopRoot L = abs_path r"
    "KubedoopConfigDirMount L = abs_path (r @ m)" "NifiConfigDir L = abs_path (r @ [''nifi'', ''conf''])" "UserMountDir L = abs_path (r @ [''users''])"
    "\<And>c. valid_comp c \<Longrightarrow> path_join [KubedoopSecretDir L, c] = abs_path (r @ s @ [c])"
    by (rule layoutE [OF assms(1)]) blast
  have base: "map vm_MountPath (base_mounts L) = map (\<lambda>d. abs_path (r @ d)) [m, [''nifi'', ''conf'']]"
    by (simp add: base_mounts_def l(11,12))
  have own: "own_dir m" "own_dir [''nifi'', ''conf'']" "own_dir [''users'']" "valid_comp c \<Longrightarrow> own_dir (s @ [c])" for c
    using l(2,3,6,7,9) by (auto simp: own_dir_def valid_comp_def slash_def hd_append)
  have auth: "\<exists>ams ds. ms = base_mounts L @ ams \<and> map vm_MountPath ams = map (\<lambda>d. abs_path (r @ d)) ds \<and>
      (ds = [] \<or> ds = [[''users'']] \<or> (\<exists>c. valid_comp c \<and> ds = [s @ [c]]))"
  proof (cases "sb_Authentication b")
    case None
    with assms(4) show ?thesis by (simp add: getVolumeMounts_def)
  next
    case (Some a)
    with assms(2) obtain t x where x: "Authenticators a = [(t, [x])]" "complete_auth L x" by (auto simp: usable_auth_def)
    with Some assms(3,4) obtain ams where ams: "GetVolumeMounts L x = Ok ams" "ms = base_mounts L @ ams" "plain_secret_class x"
      by (auto simp: getVolumeMounts_def auth_is_single outcome_simps plain_auth_def)
    have "ams = [admin_mount L] \<or> (\<exists>c n. valid_comp c \<and> ams = [\<lparr>vm_Name = n, vm_MountPath = path_join [KubedoopSecretDir L, c], vm_SubPath = [], vm_ReadOnly = False\<rparr>])"
      using ams(1,3) x(2)
      by (cases x) (auto simp: oidc_GetVolumeMounts_def static_GetVolumeMounts_def ldap_GetVolumeMounts_def ldap_complete_def
          getBindCredentialsVolumeName_def getBindCredentialsMountDir_def outcome_simps)
    then show ?thesis
    proof (elim disjE exE conjE)
      assume "ams = [admin_mount L]"
      with ams(2) l(13) show ?thesis by (intro exI [of _ ams] exI [of _ "[[''users'']]"]) (simp add: admin_mount_def)
    next
      fix c n
      assume c: "valid_comp c" "ams = [\<lparr>vm_Name = n, vm_MountPath = path_join [KubedoopSecretDir L, c], vm_SubPath = [], vm_ReadOnly = False\<rparr>]"
      with ams(2) l(14) [OF c(1)] show ?thesis by (intro exI [of _ ams] exI [of _ "[s @ [c]]"]) simp
    qed
  qed
  then obtain ams ds where ams: "ms = base_mounts L @ ams" "map vm_MountPath ams = map (\<lambda>d. abs_path (r @ d)) ds"
    "ds = [] \<or> ds = [[''users'']] \<or> (\<exists>c. valid_comp c \<and> ds = [s @ [c]])" by blast
  show thesis
    by (rule that [of r "[m, [''nifi'', ''conf'']] @ ds"])
      (use l ams base own in \<open>auto simp: hd_append\<close>)
qed

lemma below_root_not_git:
  assumes "r \<noteq> []" "\<not> prefix [''kubedoop'', ''app''] r" "e \<noteq> []" "hd e \<noteq> ''app''"
  shows "\<not> prefix (gitSyncMountComps i) (r @ e)"
proof
  assume "prefix (gitSyncMountComps i) (r @ e)"
  then have p: "prefix [''kubedoop'', ''app''] (r @ e)" by (auto simp: gitSyncMountComps_def prefix_def)
  show False
  proof (cases r)
    case (Cons x r')
    with p assms(2-4) show False by (cases r'; cases e) auto
  qed (use assms(1) in simp)
qed

lemma git_sync_mount_paths: "map vm_MountPath (map git_sync_mount is) = map gitSyncMountPath is"
  by (simp add: git_sync_mount_def)

lemma pod_mount_paths_ok:
  assumes "layout_laws L" "usable_auth L (sb_Authentication b)" "plain_auth (sb_Authentication b)" "getVolumeMounts L b = Ok ms"
  shows "mount_paths_ok (ms @ map git_sync_mount [0..<n])"
proof -
  obtain r ds where l: "list_all valid_comp r" "r \<noteq> []" "\<not> prefix [''kubedoop'', ''app''] r"
    "map vm_MountPath ms = map (\<lambda>d. abs_path (r @ d)) ds" "list_all own_dir ds" "distinct (map hd ds)"
    by (rule mounts_below_root [OF assms])
  have v: "list_all valid_comp (r @ d) \<and> d \<noteq> [] \<and> hd d \<noteq> ''app''" if "d \<in> set ds" for d
    using that l(1,5) by (auto simp: list_all_iff own_dir_def)
  have inj: "inj_on (\<lambda>d. abs_path (r @ d)) (set ds)"
  proof (rule inj_onI)
    fix d d'
    assume "d \<in> set ds" "d' \<in> set ds" "abs_path (r @ d) = abs_path (r @ d')"
    then have "r @ d = r @ d'" using v by (intro abs_path_inject valid_comps_no_slash) auto
    then show "d = d'" by simp
  qed
  have "abs_path (r @ d) \<noteq> gitSyncMountPath i" if d: "d \<in> set ds" for d i
  proof
    assume "abs_path (r @ d) = gitSyncMountPath i"
    then have "r @ d = gitSyncMountComps i"
      using v [OF d] unfolding gitSyncMountPath_abs(1) by (intro abs_path_inject valid_comps_no_slash) (auto simp: gitSyncMountPath_abs(2))
    with below_root_not_git [OF l(2,3), of d i] v [OF d] show False by auto
  qed
  then have "set (map (\<lambda>d. abs_path (r @ d)) ds) \<inter> set (map gitSyncMountPath [0..<n]) = {}" by auto
  moreover have "distinct (map (\<lambda>d. abs_path (r @ d)) ds)" using inj l(6) by (simp add: distinct_map)
  ultimately show ?thesis
    unfolding mount_paths_ok_def map_append l(4) git_sync_mount_paths distinct_append using gsmount.distinct_names [of 0 n] by blast
qed

lemma not_mounted:
  assumes "layout_laws L" "usable_auth L (sb_Authentication b)" "plain_auth (sb_Authentication b)" "getVolumeMounts L b = Ok ms"
    and e: "list_all valid_comp e" "e \<noteq> []" "hd e \<noteq> ''app''" "\<And>d. own_dir d \<Longrightarrow> \<not> prefix d e"
  shows "\<exists>r. KubedoopRoot L = abs_path r \<and> r \<noteq> [] \<and> list_all valid_comp r \<and> \<not> mounted (ms @ map git_sync_mount is) (abs_path (r @ e))"
proof -
  obtain r ds where l: "KubedoopRoot L = abs_path r" "list_all valid_comp r" "r \<noteq> []" "\<not> prefix [''kubedoop'', ''app''] r"
    "map vm_MountPath ms = map (\<lambda>d. abs_path (r @ d)) ds" "list_all own_dir ds" "distinct (map hd ds)"
    by (rule mounts_below_root [OF assms(1-4)])
  have "\<not> covers (abs_path (r @ d)) (abs_path (r @ e))" if "d \<in> set ds" for d
  proof -
    from that l(6) have d: "own_dir d" by (auto simp: list_all_iff)
    then have "list_all valid_comp (r @ d)" using l(2) by (simp add: own_dir_def)
    then show ?thesis using e(4) [OF d] e(1) l(2,3) by (subst covers_abs_path) auto
  qed
  moreover have "\<not> covers (gitSyncMountPath i) (abs_path (r @ e))" for i
    unfolding gitSyncMountPath_abs(1) using below_root_not_git [OF l(3,4) e(2,3), of i] gitSyncMountPath_abs(2) [of i] l(2,3) e(1)
    by (subst covers_abs_path) (auto simp: gitSyncMountComps_def)
  moreover have "vm_MountPath x \<in> set (map (\<lambda>d. abs_path (r @ d)) ds)" if "x \<in> set ms" for x
    using that unfolding l(5) [symmetric] by simp
  ultimately have "\<not> mounted (ms @ map git_sync_mount is) (abs_path (r @ e))"
    by (fastforce simp: mounted_def git_sync_mount_def)
  with l show ?thesis by blast
qed

subsection \<open>Properties of the stateful set\<close>

text \<open>
  C12: For every list of git-sync entries and every usable authentication, \<^verbatim>\<open>Build\<close> makes a stateful
  set in which the prepare container runs first, then one git-sync init container per entry, and the
  NiFi container is the first main container, followed by one sidecar per entry. Without overrides
  it succeeds with that stateful set, and with overrides it returns what applying them to it returns.
  In both cases the service account, which is set last, is the one of the cluster.
\<close>

theorem statefulset_build_succeeds:
  assumes "container_laws B" "statefulset_laws S contents patch" "role_group_builder L S info cc auth ov b" "usable_auth L auth"
  shows "\<exists>st. map c_Name (pod_InitContainers (sts_Pod st)) = ''prepare'' # map gitSyncInitContainerName [0..<length (CustomComponentsGitSync cc)] \<and>
    map c_Name (pod_Containers (sts_Pod st)) = rgi_RoleName info # map gitSyncContainerName [0..<length (CustomComponentsGitSync cc)] \<and>
    (case ov of
       None \<Rightarrow> StatefulSet_Build L B S b = Ok (ObjStatefulSet (run_as (NifiServiceAccountName (rgi_ClusterName info)) st))
     | Some x \<Rightarrow> StatefulSet_Build L B S b =
         bind_o (patch x st) (\<lambda>st'. Ok (ObjStatefulSet (run_as (NifiServiceAccountName (rgi_ClusterName info)) st'))))"
proof -
  note b = role_group_builderD [OF assms(3)]
  have "usable_auth L (sb_Authentication b)" using assms(4) b(5) by simp
  then show ?thesis
  proof (rule statefulset_base_built [OF assms(1,2) b(8) [OF assms(2)] _ b(1)])
    fix st p m
    assume "StatefulSet_Build L B S b =
       bind_o (apply_overrides patch ov st) (\<lambda>st. Ok (ObjStatefulSet (run_as (NifiServiceAccountName (sb_ClusterName b)) st)))"
      "pod_InitContainers (sts_Pod st) = p # GitSyncInitContainers (sb_GitSyncResources b)"
      "pod_Containers (sts_Pod st) = m # GitSyncContainers (sb_GitSyncResources b)" "c_Name p = ''prepare''" "c_Name m = sb_RoleName b"
    then show ?thesis by (intro exI [of _ st]) (simp add: b git_sync_container_names split: option.split)
  qed
qed

definition demo_builder :: "ClusterConfigSpec \<Rightarrow> Authentication option \<Rightarrow> plain_builder StatefulSetBuilder" where
  "demo_builder cc auth =
     (case NewStatefulSetReconciler kubedoop plain_sts (demo_info ''default'') (Some cc) Ports demo_image (Some 2) False auth None (Some demo_config) of
        Ok r \<Rightarrow> sr_Builder r | _ \<Rightarrow> undefined)"

lemma demo_builder: "role_group_builder kubedoop plain_sts (demo_info ''default'') cc auth None (demo_builder cc auth)"
  unfolding demo_builder_def new_statefulset outcome.case by (rule role_group_builderI [OF new_statefulset])

lemma usable_None [simp]: "usable_auth L None"
  by (simp add: usable_auth_def)

theorem statefulset_build_succeeds_witness:
  "\<exists>st. StatefulSet_Build kubedoop plain_containers plain_sts (demo_builder demo_cluster_config None) = Ok (ObjStatefulSet st) \<and>
     map c_Name (pod_Containers (sts_Pod st)) = [''node''] \<and> pod_ServiceAccountName (sts_Pod st) = ''demo-nifi''"
  using statefulset_build_succeeds [OF plain_containers_laws plain_sts_laws demo_builder usable_None, of demo_cluster_config]
  by (auto simp: demo_cluster_config_def demo_info_def rgi_RoleName_def rgi_ClusterName_def NifiServiceAccountName_def)

text \<open>
  C4: Without pod overrides the pod is well formed: the volume names are distinct, every mount of
  every container, init container and sidecar names a volume of the pod, and no environment binds a
  name twice; when the role is not named like one of the operator's containers all container names are
  distinct; and when the secret class of the bind credentials is an ordinary name no container has two
  mounts at one path.
\<close>

theorem statefulset_pod_wellformed:
  assumes "container_laws B" "statefulset_laws S contents patch" "role_group_builder L S info cc auth None b" "usable_auth L auth"
    and "StatefulSet_Build L B S b = Ok (ObjStatefulSet st)"
  shows "volumes_ok (pod_Volumes (sts_Pod st)) \<and>
    list_all (\<lambda>c. mounts_backed (pod_Volumes (sts_Pod st)) (c_VolumeMounts c) \<and> env_ok (c_Env c))
      (pod_InitContainers (sts_Pod st) @ pod_Containers (sts_Pod st)) \<and>
    (rgi_RoleName info \<noteq> ''prepare'' \<and> \<not> HasPrefix (rgi_RoleName info) (gitSyncContainerNamePrefix @ ''-'') \<longrightarrow>
       distinct (map c_Name (pod_InitContainers (sts_Pod st) @ pod_Containers (sts_Pod st)))) \<and>
    (layout_laws L \<and> plain_auth auth \<longrightarrow>
       list_all (\<lambda>c. mount_paths_ok (c_VolumeMounts c)) (pod_InitContainers (sts_Pod st) @ pod_Containers (sts_Pod st)))"
proof -
  note b = role_group_builderD [OF assms(3)]
  let ?gss = "CustomComponentsGitSync cc" and ?pod = "sts_Pod st"
  have auth: "usable_auth L (sb_Authentication b)" using assms(4) b(5) by simp
  show ?thesis
  proof (rule statefulset_built [OF assms(1,2) b(8) [OF assms(2)] auth b(1)])
    fix st' p m es ms
    assume "StatefulSet_Build L B S b = Ok (ObjStatefulSet (run_as (NifiServiceAccountName (sb_ClusterName b)) st'))"
    then have st: "st = run_as (NifiServiceAccountName (sb_ClusterName b)) st'" using assms(5) by simp
    assume "pod_InitContainers (sts_Pod st') = p # GitSyncInitContainers (sb_GitSyncResources b)"
        "pod_Containers (sts_Pod st') = m # GitSyncContainers (sb_GitSyncResources b)"
      and "getContainerEnv b = Ok es" "getVolumeMounts L b = Ok ms" "getVolumes L b = Ok (pod_Volumes (sts_Pod st'))"
    then have pod: "pod_InitContainers ?pod = p # GitSyncInitContainers (git_sync_spec ?gss)"
        "pod_Containers ?pod = m # GitSyncContainers (git_sync_spec ?gss)"
      and built: "getContainerEnv b = Ok es" "getVolumeMounts L b = Ok ms" "getVolumes L b = Ok (pod_Volumes ?pod)"
      by (simp_all add: st b(7))
    assume "c_Name p = ''prepare''" "c_Env p = es" "c_VolumeMounts p = ms" "c_Name m = sb_RoleName b" "c_Env m = es"
        "c_VolumeMounts m = ms @ GitSyncVolumeMounts (sb_GitSyncResources b)"
    then have pm: "c_Name p = ''prepare''" "c_Env p = es" "c_VolumeMounts p = ms" "c_Name m = rgi_RoleName info" "c_Env m = es"
        "c_VolumeMounts m = ms @ GitSyncVolumeMounts (git_sync_spec ?gss)" by (simp_all add: b(4,7))
    have "env_ok es" using env_built [OF auth b(6)] built(1) by (metis outcome.inject)
    obtain msx vsx where v: "getVolumeMounts L b = Ok (base_mounts L @ msx)"
      "getVolumes L b = Ok (base_volumes (sb_Name b) @ vsx @ GitSyncVolumes (sb_GitSyncResources b))"
      "volumes_ok (base_volumes (sb_Name b) @ vsx @ GitSyncVolumes (sb_GitSyncResources b))"
      "mounts_backed (base_volumes (sb_Name b) @ vsx @ GitSyncVolumes (sb_GitSyncResources b)) (base_mounts L @ msx)"
      by (rule volumes_built [OF auth b(1)])
    define vs where "vs = pod_Volumes ?pod"
    have vs: "vs = base_volumes (sb_Name b) @ vsx @ GitSyncVolumes (git_sync_spec ?gss)"
      using built(3) v(2) b(7) by (simp add: vs_def)
    then have vols: "volumes_ok vs" "mounts_backed vs ms" using v built(2) b(7) by auto
    have sub: "set (map vol_Name (GitSyncVolumes (git_sync_spec ?gss))) \<subseteq> set (map vol_Name vs)"
      unfolding vs by auto
    note git = git_sync_containers_ok [of ?gss]
    have "list_all (\<lambda>c. mounts_backed vs (c_VolumeMounts c) \<and> env_ok (c_Env c)) (pod_InitContainers ?pod @ pod_Containers ?pod)"
      using pod pm vols \<open>env_ok es\<close> git mounts_backed_mono [OF _ sub] by (auto simp: list_all_iff)
    moreover have "distinct (map c_Name (pod_InitContainers ?pod @ pod_Containers ?pod))"
      if "rgi_RoleName info \<noteq> ''prepare'' \<and> \<not> HasPrefix (rgi_RoleName info) (gitSyncContainerNamePrefix @ ''-'')"
      using pod pm git_sync_names_distinct [of "rgi_RoleName info" "length ?gss"] that by (simp add: git_sync_container_names)
    moreover have "list_all (\<lambda>c. mount_paths_ok (c_VolumeMounts c)) (pod_InitContainers ?pod @ pod_Containers ?pod)"
      if "layout_laws L \<and> plain_auth auth"
    proof -
      have "plain_auth (sb_Authentication b)" using that b(5) by simp
      note paths = pod_mount_paths_ok [OF _ auth this built(2)]
      have "mount_paths_ok ms" "mount_paths_ok (c_VolumeMounts m)"
        using that paths [of 0] paths [of "length ?gss"] by (simp_all add: pm(6) git_sync_spec_def)
      then show ?thesis using pm(3) git_sync_mounts_single [of ?gss] by (simp add: pod)
    qed
    ultimately show ?thesis using vols by (simp add: vs_def)
  qed
qed

theorem statefulset_pod_wellformed_witness:
  "\<exists>st. StatefulSet_Build kubedoop plain_containers plain_sts (demo_builder demo_cluster_config None) = Ok (ObjStatefulSet st) \<and>
     volumes_ok (pod_Volumes (sts_Pod st)) \<and> list_all (\<lambda>c. env_ok (c_Env c) \<and> mount_paths_ok (c_VolumeMounts c)) (pod_Containers (sts_Pod st)) \<and>
     distinct (map c_Name (pod_Containers (sts_Pod st)))"
proof -
  have role: "rgi_RoleName (demo_info ''default'') = ''node''" by (simp add: demo_info_def rgi_RoleName_def)
  obtain st where st: "StatefulSet_Build kubedoop plain_containers plain_sts (demo_builder demo_cluster_config None) = Ok (ObjStatefulSet st)"
    by (rule statefulset_built [OF plain_containers_laws plain_sts_laws, of "demo_builder demo_cluster_config None" kubedoop demo_cluster_config])
      (simp_all add: role_group_builderD [OF demo_builder] role_group_builderD(8) [OF demo_builder plain_sts_laws])
  show ?thesis
    using st statefulset_pod_wellformed [OF plain_containers_laws plain_sts_laws demo_builder usable_None st] kubedoop_layout
    by (auto simp: role gitSyncContainerNamePrefix_def list_all_iff)
qed

text \<open>
  The environment variables a template reads: the names in \<^verbatim>\<open>{{ getenv "NAME" }}\<close>.
\<close>

fun getenv_refs :: "string \<Rightarrow> string list" where
  "getenv_refs [] = []"
| \<open>getenv_refs (c # cs) =
     (if HasPrefix (c # cs) ''{{ getenv "'' then takeWhile (\<lambda>x. x \<noteq> CHR 0x22) (drop 10 cs) # getenv_refs cs
      else getenv_refs cs)\<close>

definition cluster_template_refs :: "bool \<Rightarrow> bool \<Rightarrow> string list" where
  "cluster_template_refs zk enableTls =
     concat (map (\<lambda>kv. getenv_refs (snd kv)) (cluster_properties zk enableTls)) @ getenv_refs (clusterProviderBlock zk)"

lemma getenv_refs_port: "getenv_refs (Format32 (getPort ''protocol'')) = []"
  by (simp add: getPort_def GetPort_def Ports_def Format32_def Itoa_def show_nat.simps digit_def)

lemma getenv_refs_skip: "CHR ''{'' \<notin> set s \<Longrightarrow> getenv_refs (s @ t) = getenv_refs t"
  by (induction s) auto

lemma getenv_refs_plain: "CHR ''{'' \<notin> set s \<Longrightarrow> getenv_refs s = []"
  using getenv_refs_skip [of s "[]"] by simp

lemma getenv_refs_one:
  assumes "CHR 0x22 \<notin> set v" "CHR ''{'' \<notin> set v"
  shows \<open>getenv_refs (''{{ getenv "'' @ v @ ''" }}'' @ t) = v # getenv_refs t\<close>
proof -
  have \<open>getenv_refs (v @ ''" }}'' @ t) = getenv_refs t\<close>
    using assms(2) by (simp add: getenv_refs_skip)
  moreover have \<open>takeWhile (\<lambda>x. x \<noteq> CHR 0x22) (v @ ''" }}'' @ t) = v\<close>
    using assms(1) by (induction v) auto
  ultimately show ?thesis by simp
qed

lemma getenv_refs_templates:
  assumes "CHR ''{'' \<notin> set s" "CHR ''{'' \<notin> set s'" "CHR ''{'' \<notin> set s''"
    and "CHR 0x22 \<notin> set v" "CHR ''{'' \<notin> set v" "CHR 0x22 \<notin> set w" "CHR ''{'' \<notin> set w"
  shows \<open>getenv_refs (s @ (''{{ getenv "'' @ v @ ''" }}'') @ s') = [v]\<close>
    and \<open>getenv_refs (s @ (''{{ getenv "'' @ v @ ''" }}'') @ s' @ (''{{ getenv "'' @ w @ ''" }}'') @ s'') = [v, w]\<close>
  unfolding append_assoc getenv_refs_skip [OF assms(1)] getenv_refs_one [OF assms(4,5)] getenv_refs_skip [OF assms(2)]
    getenv_refs_one [OF assms(6,7)]
  by (simp_all add: getenv_refs_plain assms)

lemma block_refs:
  "getenv_refs (clusterProviderBlock True) = [''ZOOKEEPER_HOSTS'', ''ZOOKEEPER_CHROOT'']"
  "getenv_refs (clusterProviderBlock False) = [''STACKLET_NAME'']"
proof -
  let ?p = "\<lambda>n. ''<property name='' @ [CHR 0x22] @ n @ [CHR 0x22] @ ''>''"
  let ?g = \<open>\<lambda>v. ''{{ getenv "'' @ v @ ''" }}''\<close>
  let ?zpre = "lines_nl [tabs 1 ''<cluster-provider>'', tabs 2 ''<id>zk-provider</id>'',
           tabs 2 ''<class>org.apache.nifi.controller.state.providers.zookeeper.ZooKeeperStateProvider</class>'', tabs 2 (?p ''Connect String'')]"
  let ?zmid = "''</property>'' @ lines_nl [tabs 2 (?p ''Root Node'')]"
  let ?zpost = \<open>''</property>'' @ lines_nl [tabs 2 ''<property name="Session Timeout">15 seconds</property>'',
           tabs 2 ''<property name="Access Control">Open</property>'', tabs 1 ''</cluster-provider>'']\<close>
  have z: "clusterProviderBlock True = ?zpre @ ?g ''ZOOKEEPER_HOSTS'' @ ?zmid @ ?g ''ZOOKEEPER_CHROOT'' @ ?zpost"
    by (simp add: clusterProviderBlock_def lines_nl_def tabs_def)
  show "getenv_refs (clusterProviderBlock True) = [''ZOOKEEPER_HOSTS'', ''ZOOKEEPER_CHROOT'']"
    unfolding z by (rule getenv_refs_templates(2)) (simp_all add: lines_nl_def tabs_def nl_def)
  let ?kpre = "lines_nl [tabs 1 ''<cluster-provider>'', tabs 2 ''<id>kubernetes-provider</id>'',
           tabs 2 ''<class>org.apache.nifi.kubernetes.state.provider.KubernetesConfigMapStateProvider</class>'', tabs 2 (?p ''ConfigMap Name Prefix'')]"
  let ?kpost = "''</property>'' @ lines_nl [tabs 1 ''</cluster-provider>'']"
  have k: "clusterProviderBlock False = ?kpre @ ?g ''STACKLET_NAME'' @ ?kpost"
    by (simp add: clusterProviderBlock_def lines_nl_def tabs_def)
  show "getenv_refs (clusterProviderBlock False) = [''STACKLET_NAME'']"
    unfolding k by (rule getenv_refs_templates(1) [of _ _ "[]" _ "[]"]) (simp_all add: lines_nl_def tabs_def nl_def)
qed

lemma cluster_template_refs_eq:
  "cluster_template_refs True tls = [''NODE_ADDRESS'', ''ZOOKEEPER_HOSTS'', ''ZOOKEEPER_CHROOT'', ''ZOOKEEPER_HOSTS'', ''ZOOKEEPER_CHROOT'']"
  "cluster_template_refs False tls = [''NODE_ADDRESS'', ''STACKLET_NAME'', ''STACKLET_NAME'']"
  by (simp_all add: cluster_template_refs_def cluster_properties_def block_refs getenv_refs_port)

lemma prepare_script_split:
  "prepare_script L b =
     (nl @ ''cp '' @ path_join [KubedoopConfigDirMount L, ''*''] @ '' '' @ NifiConfigDir L @ nl @ nl)
     @ ''export NODE_ADDRESS='' @ [CHR 0x22] @ node_address L (sb_Name b)
     @ [CHR 0x22] @ (nl @ (case sb_Authentication b of None \<Rightarrow> [] | Some auth \<Rightarrow> Auth_GetInitArgs L auth) @ nl @ nl)
     @ gomplate_line L ''nifi.properties'' @ gomplate_line L ''login-identity-providers.xml'' @ gomplate_line L ''state-management.xml''"
  by (simp add: prepare_script_def Let_def)

lemma no_login_file:
  assumes "configmap_laws C" "c = NewConfigReconciler L C (Some cc) im info cfg auth" "ConfigMap_Build L P C g c = Ok (ObjConfigMap cm)"
    and "Authentication cc = None"
  shows "cm_Data cm ''login-identity-providers.xml'' = None"
  by (rule config_map_data [OF assms(1-3)]) (use assms(4) in \<open>auto simp: config_items_map\<close>)

text \<open>
  C33: Every environment variable that the cluster section of \<^verbatim>\<open>nifi.properties\<close> and the cluster
  state provider read through a template is defined in the container that renders them, except
  \<^verbatim>\<open>NODE_ADDRESS\<close>, which the prepare script exports before the first \<^verbatim>\<open>gomplate\<close> call; the
  ZooKeeper variables are defined exactly when the templates read them.
\<close>

theorem cluster_templates_defined:
  assumes "getContainerEnv b = Ok es" "sb_ClusterConfig b = Some cc"
  shows "set (cluster_template_refs (useZooKeeperStateProvider cc) (Tls cc \<noteq> None)) \<subseteq> set (map env_Name es) \<union> {''NODE_ADDRESS''} \<and>
    (useZooKeeperStateProvider cc \<longrightarrow> {''ZOOKEEPER_HOSTS'', ''ZOOKEEPER_CHROOT''} \<subseteq> set (map env_Name (base_env (sb_ClusterName b) cc))) \<and>
    (\<not> useZooKeeperStateProvider cc \<longrightarrow> {''ZOOKEEPER_HOSTS'', ''ZOOKEEPER_CHROOT''} \<inter> set (map env_Name (base_env (sb_ClusterName b) cc)) = {}) \<and>
    (\<exists>pre post. prepare_script L b = pre @ ''export NODE_ADDRESS='' @ [CHR 0x22] @ node_address L (sb_Name b) @ post \<and>
       (\<exists>mid. post = [CHR 0x22] @ mid @ gomplate_line L ''nifi.properties'' @ gomplate_line L ''login-identity-providers.xml'' @ gomplate_line L ''state-management.xml''))"
proof (intro conjI)
  from assms obtain rest where es: "es = base_env (sb_ClusterName b) cc @ rest"
    by (auto simp: getContainerEnv_def Let_def outcome_simps split: option.splits)
  show "set (cluster_template_refs (useZooKeeperStateProvider cc) (Tls cc \<noteq> None)) \<subseteq> set (map env_Name es) \<union> {''NODE_ADDRESS''}"
    unfolding es map_append base_env_names by (cases "useZooKeeperStateProvider cc") (simp_all add: cluster_template_refs_eq)
  show "useZooKeeperStateProvider cc \<longrightarrow> {''ZOOKEEPER_HOSTS'', ''ZOOKEEPER_CHROOT''} \<subseteq> set (map env_Name (base_env (sb_ClusterName b) cc))"
    unfolding base_env_names by simp
  show "\<not> useZooKeeperStateProvider cc \<longrightarrow> {''ZOOKEEPER_HOSTS'', ''ZOOKEEPER_CHROOT''} \<inter> set (map env_Name (base_env (sb_ClusterName b) cc)) = {}"
    unfolding base_env_names by simp
  show "\<exists>pre post. prepare_script L b = pre @ ''export NODE_ADDRESS='' @ [CHR 0x22] @ node_address L (sb_Name b) @ post \<and>
       (\<exists>mid. post = [CHR 0x22] @ mid @ gomplate_line L ''nifi.properties'' @ gomplate_line L ''login-identity-providers.xml'' @ gomplate_line L ''state-management.xml'')"
    by (rule exI, rule exI, rule conjI [OF prepare_script_split], rule exI, rule refl)
qed

theorem cluster_templates_defined_witness:
  "set (cluster_template_refs True False) \<subseteq> set (map env_Name (base_env ''demo'' demo_cluster_config)) \<union> {''NODE_ADDRESS''}"
proof -
  let ?b = "demo_builder demo_cluster_config None"
  note b = role_group_builderD [OF demo_builder [of demo_cluster_config None]]
  have es: "getContainerEnv ?b = Ok (base_env ''demo'' demo_cluster_config)"
    by (simp add: getContainerEnv_def b demo_info_def rgi_ClusterName_def)
  have "useZooKeeperStateProvider demo_cluster_config" "Tls demo_cluster_config = None"
    by (simp_all add: useZooKeeperStateProvider_def demo_cluster_config_def)
  with cluster_templates_defined [OF es b(6), of kubedoop] show ?thesis by simp
qed

text \<open>
  The prepare script always renders \<^verbatim>\<open>login-identity-providers.xml\<close> from the mounted config
  map, under \<^verbatim>\<open>bash -e\<close>; without authentication the config map has no such file.
\<close>

theorem prepare_reads_missing_file:
  assumes "configmap_laws C" "c = NewConfigReconciler L C (Some cc) im info cfg auth" "ConfigMap_Build L P C g c = Ok (ObjConfigMap cm)"
    and "Authentication cc = None"
  shows "cm_Data cm ''login-identity-providers.xml'' = None \<and>
    (\<exists>pre post. prepare_script L b = pre @ gomplate_line L ''login-identity-providers.xml'' @ post)"
proof
  show "cm_Data cm ''login-identity-providers.xml'' = None"
    using assms(4) by (rule no_login_file [OF assms(1-3)])
  show "\<exists>pre post. prepare_script L b = pre @ gomplate_line L ''login-identity-providers.xml'' @ post"
    unfolding prepare_script_split append_assoc by (metis append_assoc)
qed

theorem prepare_reads_missing_file_witness:
  "\<exists>cm. ConfigMap_Build kubedoop plain_props plain_configmaps static_class (demo_config_builder demo_cluster_config None) = Ok (ObjConfigMap cm) \<and>
     cm_Data cm ''login-identity-providers.xml'' = None"
proof -
  obtain obj where obj: "ConfigMap_Build kubedoop plain_props plain_configmaps static_class (demo_config_builder demo_cluster_config None) = Ok obj"
    using demo_config_map_ok by (auto simp: outcome_simps)
  then obtain cm where "obj = ObjConfigMap cm"
    by (rule config_map_data [OF plain_configmaps_laws demo_config_builder_def])
  with obj prepare_reads_missing_file [OF plain_configmaps_laws demo_config_builder_def _ demo_cluster_config_auth] show ?thesis
    by blast
qed

subsection \<open>Files the configuration refers to\<close>

definition sensitive_key_file :: "operator_go \<Rightarrow> string" where
  "sensitive_key_file L = path_join [KubedoopRoot L, ''sensitiveproperty'', ''nifiSensitivePropsKey'']"

definition keystore_file :: "operator_go \<Rightarrow> string" where
  "keystore_file L = path_join [NifiServerTlsDir L, ''keystore.p12'']"

fun mounts_admin_file :: "authenticator \<Rightarrow> bool" where
  "mounts_admin_file (OidcAuth a) = (oa_config a \<noteq> None)"
| "mounts_admin_file (LdapAuth a) = False"
| "mounts_admin_file (StaticAuth a) = (sp_UserCredentialsSecret (sa_provider a) \<noteq> None)"

lemma mounts_admin_fileD:
  assumes "mounts_admin_file x"
  shows "complete_auth L x" "GetVolumeMounts L x = Ok [admin_mount L]"
  using assms by (cases x; simp add: oidc_GetVolumeMounts_def static_GetVolumeMounts_def)+

lemma own_dir_not_prefix:
  "own_dir d \<Longrightarrow> \<not> prefix d [''sensitiveproperty'', x]" "own_dir d \<Longrightarrow> \<not> prefix d [''nifi'', ''server-tls'', x]"
  by (cases d; auto simp: own_dir_def)+

lemma key_files_below_root:
  assumes "KubedoopRoot L = abs_path r" "r \<noteq> []" "list_all valid_comp r"
  shows "sensitive_key_file L = abs_path (r @ [''sensitiveproperty'', ''nifiSensitivePropsKey''])"
    "keystore_file L = abs_path (r @ [''nifi'', ''server-tls'', ''keystore.p12''])"
proof -
  have v: "list_all valid_comp [''sensitiveproperty'', ''nifiSensitivePropsKey'']" "list_all valid_comp [''nifi'']"
    "list_all valid_comp [''server-tls'']" "list_all valid_comp [''keystore.p12'']"
    by (simp_all add: valid_comp_def slash_def)
  show "sensitive_key_file L = abs_path (r @ [''sensitiveproperty'', ''nifiSensitivePropsKey''])"
    unfolding sensitive_key_file_def assms(1) by (rule path_join_abs [OF assms(2,3) v(1)])
  have "NifiServerTlsDir L = abs_path ((r @ [''nifi'']) @ [''server-tls''])"
    unfolding NifiServerTlsDir_def NifiRoot_def assms(1) path_join_abs [OF assms(2,3) v(2)] by (rule path_join_abs) (use assms v in auto)
  then have "keystore_file L = abs_path (((r @ [''nifi'']) @ [''server-tls'']) @ [''keystore.p12''])"
    unfolding keystore_file_def by (simp only:) (rule path_join_abs, use assms v in auto)
  then show "keystore_file L = abs_path (r @ [''nifi'', ''server-tls'', ''keystore.p12''])" by (simp only: append_assoc append.simps)
qed

text \<open>
  C40: Two files the configuration names are on no volume of the NiFi container. The property
  \<^verbatim>\<open>nifi.sensitive.props.key\<close> reads a file below \<^verbatim>\<open>sensitiveproperty\<close> in operator-go's root and, with
  TLS, \<^verbatim>\<open>nifi.security.keystore\<close> is a file below \<^verbatim>\<open>nifi/server-tls\<close>; without pod overrides no mount
  of the container covers either, for no authentication as for each of the three kinds (with an ordinary
  name as the secret class of LDAP), whatever the git-sync entries are.
\<close>

theorem key_files_not_mounted:
  assumes "container_laws B" "statefulset_laws S contents patch" "layout_laws L" "role_group_builder L S info cc auth None b"
    and "usable_auth L auth" "plain_auth auth" "StatefulSet_Build L B S b = Ok (ObjStatefulSet st)"
  shows "\<not> mounted (c_VolumeMounts (hd (pod_Containers (sts_Pod st)))) (sensitive_key_file L) \<and>
    \<not> mounted (c_VolumeMounts (hd (pod_Containers (sts_Pod st)))) (keystore_file L) \<and>
    (''nifi.sensitive.props.key'', ''${file:UTF-8:'' @ sensitive_key_file L @ ''}'') \<in> set (nifi_properties L c cc) \<and>
    (Tls cc \<noteq> None \<longrightarrow> (''nifi.security.keystore'', keystore_file L) \<in> set (nifi_properties L c cc))"
proof -
  note b = role_group_builderD [OF assms(4)]
  have auth: "usable_auth L (sb_Authentication b)" "plain_auth (sb_Authentication b)" using assms(5,6) by (simp_all add: b(5))
  obtain ms where ms: "getVolumeMounts L b = Ok ms"
    "c_VolumeMounts (hd (pod_Containers (sts_Pod st))) = ms @ map git_sync_mount [0..<length (CustomComponentsGitSync cc)]"
    by (rule statefulset_built [OF assms(1,2) b(8) [OF assms(2)] auth(1) b(1)])
      (use assms(7) in \<open>auto simp: b git_sync_spec_def\<close>)
  let ?is = "[0..<length (CustomComponentsGitSync cc)]"
  have v: "list_all valid_comp [''sensitiveproperty'', ''nifiSensitivePropsKey'']" "list_all valid_comp [''nifi'', ''server-tls'', ''keystore.p12'']"
    by (simp_all add: valid_comp_def slash_def)
  have "\<not> mounted (ms @ map git_sync_mount ?is) (sensitive_key_file L)"
    using not_mounted [OF assms(3) auth ms(1) v(1) _ _ own_dir_not_prefix(1), of ?is] key_files_below_root(1) [of L] by auto
  moreover have "\<not> mounted (ms @ map git_sync_mount ?is) (keystore_file L)"
    using not_mounted [OF assms(3) auth ms(1) v(2) _ _ own_dir_not_prefix(2), of ?is] key_files_below_root(2) [of L] by auto
  moreover have "(''nifi.sensitive.props.key'', ''${file:UTF-8:'' @ sensitive_key_file L @ ''}'') \<in> set (nifi_properties L c cc)"
    by (simp add: nifi_properties_def Let_def sensitive_properties_def sensitive_key_file_def)
  moreover have "(''nifi.security.keystore'', keystore_file L) \<in> set (nifi_properties L c cc)" if "Tls cc \<noteq> None"
    using that by (simp add: nifi_properties_def Let_def tls_properties_def keystore_file_def)
  ultimately show ?thesis unfolding ms(2) by blast
qed

definition static_auth :: Authentication where
  "static_auth = \<lparr>Authenticators = [(AuthenticatorStatic, [StaticAuth \<lparr>sa_clusterName = ''demo'',
     sa_provider = \<lparr>sp_UserCredentialsSecret = Some ''creds''\<rparr>\<rparr>])]\<rparr>"

lemma usable_static_auth [simp]: "usable_auth L (Some static_auth)"
  by (simp add: usable_auth_def static_auth_def)

theorem key_files_not_mounted_witness:
  "\<exists>st. StatefulSet_Build kubedoop plain_containers plain_sts (demo_builder demo_cluster_config (Some static_auth)) = Ok (ObjStatefulSet st) \<and>
     \<not> mounted (c_VolumeMounts (hd (pod_Containers (sts_Pod st)))) (sensitive_key_file kubedoop)"
proof -
  note b = demo_builder [of demo_cluster_config "Some static_auth"]
  obtain st where st: "StatefulSet_Build kubedoop plain_containers plain_sts (demo_builder demo_cluster_config (Some static_auth)) = Ok (ObjStatefulSet st)"
    by (rule statefulset_built [OF plain_containers_laws plain_sts_laws, of "demo_builder demo_cluster_config (Some static_auth)" kubedoop demo_cluster_config])
      (simp_all add: role_group_builderD [OF b] role_group_builderD(8) [OF b plain_sts_laws])
  have "plain_auth (Some static_auth)" by (simp add: plain_auth_def static_auth_def)
  from key_files_not_mounted [OF plain_containers_laws plain_sts_laws kubedoop_layout b usable_static_auth this st,
      of "demo_config_builder demo_cluster_config None"] st
  show ?thesis by blast
qed

end
