(* ===== verification/NodeRole.thy ===== *)
theory NodeRole
  imports NodeStatefulSet
begin

section \<open>NodeRole: registering the resources of the role groups\<close>

text \<open>
  \<^verbatim>\<open>internal/controller/node/role.go\<close>. A registered reconciler is a value of
  \<open>node_resource\<close>: the config map, stateful set, service or admin secret reconciler of a role
  group. \<^verbatim>\<open>RegisterResources\<close> is the loop over the role group map, in the order of one
  traversal, that appends the resources of every group to those of the receiver.
\<close>

datatype ('c, 's, 'v) node_resource =
    ConfigRes "'c NifiConfigMapBuilder"
  | StatefulSetRes "'s StatefulSetReconciler"
  | ServiceRes "'v ServiceBuilder"
  | AdminSecretRes AdminSecretReconciler

record ('c, 's, 'v) NodeReconciler =
  nr_ClusterStopped :: bool
  nr_RoleInfo :: RoleInfo
  nr_Spec :: "NodesSpec option"
  nr_ClusterConfig :: "ClusterConfigSpec option"
  nr_Image :: Image
  nr_Resources :: "('c, 's, 'v) node_resource list"

definition node_NewReconciler ::
    "bool \<Rightarrow> ClusterConfigSpec option \<Rightarrow> RoleInfo \<Rightarrow> Image \<Rightarrow> NodesSpec option \<Rightarrow> ('c, 's, 'v) NodeReconciler" where
  "node_NewReconciler clusterStopped clusterConfig roleInfo img spec =
     \<lparr>nr_ClusterStopped = clusterStopped, nr_RoleInfo = roleInfo, nr_Spec = spec,
      nr_ClusterConfig = clusterConfig, nr_Image = img, nr_Resources = []\<rparr>"

definition getAuthentrication ::
    "class_lookup \<Rightarrow> ('c, 's, 'v) NodeReconciler \<Rightarrow> Authentication option outcome" where
  "getAuthentrication getClass r =
     (case nr_ClusterConfig r of
        None \<Rightarrow> Ok None
      | Some cc \<Rightarrow>
          (case Authentication cc of
             None \<Rightarrow> Ok None
           | Some auths \<Rightarrow>
               bind_o (wrap_err ''failed to create authentication''
                 (NewAuthentication getClass (ci_ClusterName (ri_ClusterInfo (nr_RoleInfo r))) auths)) (\<lambda>auth.
                 Ok (Some auth))))"

definition headless_options :: "operator_go \<Rightarrow> RoleGroupInfo \<Rightarrow> ServiceBuilderOptions" where
  "headless_options L info =
     \<lparr>so_Options = role_group_options L info, so_ListenerClass = ExternalUnstable L, so_Headless = True, so_MatchingLabels = []\<rparr>"

text \<open>The loop over the keys of \<^verbatim>\<open>auth.Authenticators\<close>, which dereferences \<^verbatim>\<open>auth\<close>.\<close>

definition admin_secret_resources ::
    "operator_go \<Rightarrow> string \<Rightarrow> RoleGroupInfo \<Rightarrow> Authentication option \<Rightarrow> ('c, 's, 'v) node_resource list outcome" where
  "admin_secret_resources L clusterName info auth =
     bind_o (deref auth) (\<lambda>a.
       Ok (concat (map (\<lambda>key. if key = AuthenticatorTypeLDAP
                           then [AdminSecretRes (NewAdminSecretReconciler clusterName (role_group_options L info))] else [])
                   (map fst (Authenticators a)))))"

definition RegisterResourceWithRoleGroup ::
    "operator_go \<Rightarrow> 'c configmap_pkg \<Rightarrow> 's statefulset_pkg \<Rightarrow> 'v service_pkg \<Rightarrow> class_lookup \<Rightarrow> ('c, 's, 'v) NodeReconciler
      \<Rightarrow> int32 option \<Rightarrow> RoleGroupInfo \<Rightarrow> OverridesSpec option \<Rightarrow> ConfigSpec option
      \<Rightarrow> ('c, 's, 'v) node_resource list outcome" where
  "RegisterResourceWithRoleGroup L C S V getClass r replicas info overrides roleGroupConfig =
     bind_o (wrap_err ''failed to get authentication'' (getAuthentrication getClass r)) (\<lambda>auth.
     let configmapReconciler = NewConfigReconciler L C (nr_ClusterConfig r) (Some (nr_Image r)) info roleGroupConfig auth in
     bind_o (NewStatefulSetReconciler L S info (nr_ClusterConfig r) Ports (nr_Image r) replicas (nr_ClusterStopped r)
               auth overrides roleGroupConfig) (\<lambda>stsReconciler.
     let serviceReconciler = NewServiceReconciler V (GetFullName L info) Ports (headless_options L info);
         reconcilers = [ConfigRes configmapReconciler, StatefulSetRes stsReconciler, ServiceRes serviceReconciler]
     in bind_o (admin_secret_resources L (ci_ClusterName (ri_ClusterInfo (nr_RoleInfo r))) info auth) (\<lambda>admin.
          Ok (reconcilers @ admin))))"

text \<open>One pass of the loop of \<^verbatim>\<open>RegisterResources\<close>.\<close>

definition register_role_group ::
    "operator_go \<Rightarrow> 'c configmap_pkg \<Rightarrow> 's statefulset_pkg \<Rightarrow> 'v service_pkg \<Rightarrow> class_lookup \<Rightarrow> ('c, 's, 'v) NodeReconciler
      \<Rightarrow> NodesSpec \<Rightarrow> string \<times> RoleGroupSpec \<Rightarrow> ('c, 's, 'v) node_resource list outcome" where
  "register_role_group L C S V getClass r spec entry =
     (let name = fst entry; rg = snd entry in
      bind_o (MergeConfig L (nodes_Config spec) (rg_Config rg)) (\<lambda>mergedConfig.
      bind_o (MergeOverrides L (nodes_OverridesSpec spec) (rg_OverridesSpec rg)) (\<lambda>overrides.
      let info = \<lparr>rgi_RoleInfo = nr_RoleInfo r, rgi_RoleGroupName = name\<rparr> in
      RegisterResourceWithRoleGroup L C S V getClass r (rg_Replicas rg) info overrides mergedConfig)))"

definition add_role_group ::
    "operator_go \<Rightarrow> 'c configmap_pkg \<Rightarrow> 's statefulset_pkg \<Rightarrow> 'v service_pkg \<Rightarrow> class_lookup \<Rightarrow> NodesSpec
      \<Rightarrow> ('c, 's, 'v) NodeReconciler \<Rightarrow> string \<times> RoleGroupSpec \<Rightarrow> ('c, 's, 'v) NodeReconciler outcome" where
  "add_role_group L C S V getClass spec r entry =
     bind_o (register_role_group L C S V getClass r spec entry) (\<lambda>reconcilers.
       Ok (r\<lparr>nr_Resources := nr_Resources r @ reconcilers\<rparr>))"

definition RegisterResources ::
    "operator_go \<Rightarrow> 'c configmap_pkg \<Rightarrow> 's statefulset_pkg \<Rightarrow> 'v service_pkg \<Rightarrow> class_lookup \<Rightarrow> ('c, 's, 'v) NodeReconciler
      \<Rightarrow> ('c, 's, 'v) NodeReconciler outcome" where
  "RegisterResources L C S V getClass r =
     bind_o (deref (nr_Spec r)) (\<lambda>spec. fold_o (add_role_group L C S V getClass spec) r (RoleGroups spec))"

subsection \<open>The loop over the role groups\<close>

text \<open>Registering a group reads everything but the list of resources of the receiver.\<close>

lemma getAuthentrication_frame [simp]: "getAuthentrication g (r\<lparr>nr_Resources := xs\<rparr>) = getAuthentrication g r"
  by (simp add: getAuthentrication_def split: option.split)

lemma register_role_group_frame [simp]:
  "register_role_group L C S V g (r\<lparr>nr_Resources := xs\<rparr>) spec e = register_role_group L C S V g r spec e"
  by (simp add: register_role_group_def RegisterResourceWithRoleGroup_def)

lemma register_fold:
  "fold_o (add_role_group L C S V g spec) r es = Ok r' \<longleftrightarrow>
     (\<exists>bss. list_all2 (\<lambda>e bs. register_role_group L C S V g r spec e = Ok bs) es bss \<and>
        r' = r\<lparr>nr_Resources := nr_Resources r @ concat bss\<rparr>)"
proof (induction es arbitrary: r)
  case (Cons e es)
  let ?R = "list_all2 (\<lambda>e bs. register_role_group L C S V g r spec e = Ok bs)"
  have "fold_o (add_role_group L C S V g spec) r (e # es) = Ok r' \<longleftrightarrow>
      (\<exists>bs. register_role_group L C S V g r spec e = Ok bs \<and>
        (\<exists>bss. ?R es bss \<and> r' = r\<lparr>nr_Resources := nr_Resources r @ bs @ concat bss\<rparr>))"
    by (auto simp: add_role_group_def outcome_simps Cons.IH)
  also have "\<dots> \<longleftrightarrow> (\<exists>bss. ?R (e # es) bss \<and> r' = r\<lparr>nr_Resources := nr_Resources r @ concat bss\<rparr>)"
    unfolding list_all2_Cons1 by fastforce
  finally show ?case .
qed auto

lemma register_group_OkD:
  assumes "RegisterResourceWithRoleGroup L C S V g r reps info ov cfg = Ok res"
  obtains cc a s where "nr_ClusterConfig r = Some cc" "getAuthentrication g r = Ok (Some a)"
    "NewStatefulSetReconciler L S info (Some cc) Ports (nr_Image r) reps (nr_ClusterStopped r) (Some a) ov cfg = Ok s"
    "res = [ConfigRes (NewConfigReconciler L C (Some cc) (Some (nr_Image r)) info cfg (Some a)), StatefulSetRes s,
       ServiceRes (NewServiceReconciler V (GetFullName L info) Ports (headless_options L info))]
     @ concat (map (\<lambda>key. if key = AuthenticatorTypeLDAP
         then [AdminSecretRes (NewAdminSecretReconciler (ci_ClusterName (ri_ClusterInfo (nr_RoleInfo r))) (role_group_options L info))] else [])
         (map fst (Authenticators a)))"
proof -
  from assms obtain a where a: "getAuthentrication g r = Ok (Some a)"
    by (auto simp: RegisterResourceWithRoleGroup_def admin_secret_resources_def outcome_simps Let_def)
  then obtain cc where cc: "nr_ClusterConfig r = Some cc"
    by (auto simp: getAuthentrication_def split: option.splits)
  with a assms show thesis
    by (auto simp: RegisterResourceWithRoleGroup_def admin_secret_resources_def outcome_simps Let_def intro: that)
qed

lemma getAuthentrication_SomeD:
  assumes "getAuthentrication g r = Ok (Some a)" "nr_ClusterConfig r = Some cc"
  obtains auths where "Authentication cc = Some auths"
    "NewAuthentication g (ci_ClusterName (ri_ClusterInfo (nr_RoleInfo r))) auths = Ok a"
  using assms by (auto simp: getAuthentrication_def outcome_simps split: option.splits intro: that)

text \<open>The admin secret is registered exactly for LDAP.\<close>

lemma register_group_admin:
  assumes "RegisterResourceWithRoleGroup L C S V g r reps info ov cfg = Ok res"
    and "getAuthentrication g r = Ok (Some a)" "Authenticators a = [(t, [x])]"
  shows "drop 3 res = (if t = AuthenticatorTypeLDAP
     then [AdminSecretRes (NewAdminSecretReconciler (ci_ClusterName (ri_ClusterInfo (nr_RoleInfo r))) (role_group_options L info))] else [])"
  using assms(1) by (rule register_group_OkD) (use assms(2,3) in auto)

text \<open>
  When a role group is registered: both merges succeed and an authentication is configured and
  resolved. The loop needs that of every role group, and of none when there are none.
\<close>

definition group_merges :: "operator_go \<Rightarrow> NodesSpec \<Rightarrow> string \<times> RoleGroupSpec \<Rightarrow> bool" where
  "group_merges L nodes e \<longleftrightarrow>
     is_ok (MergeConfig L (nodes_Config nodes) (rg_Config (snd e))) \<and>
     is_ok (MergeOverrides L (nodes_OverridesSpec nodes) (rg_OverridesSpec (snd e)))"

lemma register_group_ok_iff:
  "is_ok (RegisterResourceWithRoleGroup L C S V g r reps info ov cfg) \<longleftrightarrow> (\<exists>a. getAuthentrication g r = Ok (Some a))"
proof
  assume "is_ok (RegisterResourceWithRoleGroup L C S V g r reps info ov cfg)"
  then show "\<exists>a. getAuthentrication g r = Ok (Some a)" unfolding is_ok_iff by (metis register_group_OkD)
next
  assume "\<exists>a. getAuthentrication g r = Ok (Some a)"
  then obtain a where a: "getAuthentrication g r = Ok (Some a)" ..
  then obtain cc where "nr_ClusterConfig r = Some cc"
    by (auto simp: getAuthentrication_def split: option.splits)
  with a show "is_ok (RegisterResourceWithRoleGroup L C S V g r reps info ov cfg)"
    by (simp add: RegisterResourceWithRoleGroup_def new_statefulset admin_secret_resources_def Let_def)
qed

lemma register_group_ok:
  "getAuthentrication g r = Ok (Some a) \<Longrightarrow> is_ok (RegisterResourceWithRoleGroup L C S V g r reps info ov cfg)"
  by (simp add: register_group_ok_iff)

lemma register_role_group_ok_iff:
  "is_ok (register_role_group L C S V g r spec e) \<longleftrightarrow>
     group_merges L spec e \<and> (\<exists>a. getAuthentrication g r = Ok (Some a))"
  unfolding register_role_group_def Let_def group_merges_def
  by (cases "MergeConfig L (nodes_Config spec) (rg_Config (snd e))";
      cases "MergeOverrides L (nodes_OverridesSpec spec) (rg_OverridesSpec (snd e))") (simp_all add: register_group_ok_iff)

lemma register_loop_ok_iff:
  "is_ok (fold_o (add_role_group L C S V g spec) r es) \<longleftrightarrow> (\<forall>e \<in> set es. is_ok (register_role_group L C S V g r spec e))"
proof (induction es arbitrary: r)
  case (Cons e es)
  then show ?case by (cases "register_role_group L C S V g r spec e") (simp_all add: add_role_group_def)
qed simp

lemma register_ok_iff:
  "is_ok (RegisterResources L C S V g r) \<longleftrightarrow>
     (\<exists>spec. nr_Spec r = Some spec \<and> (\<forall>e \<in> set (RoleGroups spec). group_merges L spec e) \<and>
        (RoleGroups spec \<noteq> [] \<longrightarrow> (\<exists>a. getAuthentrication g r = Ok (Some a))))"
proof (cases "nr_Spec r")
  case (Some spec)
  have "(\<forall>e \<in> set (RoleGroups spec). p) \<longleftrightarrow> (RoleGroups spec \<noteq> [] \<longrightarrow> p)" for p by (cases "RoleGroups spec") auto
  then show ?thesis
    by (simp add: Some RegisterResources_def register_loop_ok_iff register_role_group_ok_iff ball_conj_distrib)
qed (simp add: RegisterResources_def)

lemma role_statefulsets:
  assumes "RegisterResources L C S V g r = Ok r'" "nr_Resources r = []" "StatefulSetRes s \<in> set (nr_Resources r')"
  shows "sb_ClusterName (sr_Builder s) = ci_ClusterName (ri_ClusterInfo (nr_RoleInfo r))"
proof -
  from assms(1) obtain spec bss where bss: "list_all2 (\<lambda>e bs. register_role_group L C S V g r spec e = Ok bs) (RoleGroups spec) bss"
    "r' = r\<lparr>nr_Resources := nr_Resources r @ concat bss\<rparr>"
    by (auto simp: RegisterResources_def bind_o_Ok_iff register_fold)
  with assms(2,3) obtain bs where "bs \<in> set bss" "StatefulSetRes s \<in> set bs" by auto
  have "\<exists>e. register_role_group L C S V g r spec e = Ok bs"
    using bss(1) \<open>bs \<in> set bss\<close> by (induction rule: list_all2_induct) auto
  then obtain e where "register_role_group L C S V g r spec e = Ok bs" ..
  then obtain reps ov cfg info where "RegisterResourceWithRoleGroup L C S V g r reps info ov cfg = Ok bs" and info: "rgi_RoleInfo info = nr_RoleInfo r"
    by (auto simp: register_role_group_def bind_o_Ok_iff Let_def)
  then show ?thesis
    by - (erule register_group_OkD, use \<open>StatefulSetRes s \<in> set bs\<close> info in \<open>auto simp: new_statefulset rgi_ClusterName_def split: if_splits\<close>)
qed

subsection \<open>Properties of the registered resources\<close>

lemma extend_ok: "complete_auth L x \<Longrightarrow> is_ok (ExtendNifiProperties P x)"
  by (cases x) (auto simp: oidc_ExtendNifiProperties_def ldap_ExtendNifiProperties_def static_ExtendNifiProperties_def outcome_simps)

lemma property_set_ok:
  assumes "ncb_ClusterConfig b = Some cc" "Authentication cc = Some auths"
    and "NewAuthentication g (ncb_ClusterName b) auths = Ok a" "usable_auth L (Some a)"
  shows "is_ok (nifi_property_set L P g b)"
proof -
  from assms(4) obtain t x where x: "Authenticators a = [(t, [x])]" "complete_auth L x" by (auto simp: usable_auth_def)
  from extend_ok [OF x(2), of P] obtain ap where "Auth_ExtendNifiProperties P a = Ok ap"
    by (auto simp: auth_is_single [OF x(1)] outcome_simps)
  with assms(1-3) show ?thesis
    by (cases ap) (simp_all add: nifi_property_set_def Let_def)
qed

lemma service_built:
  assumes "service_laws V"
  obtains sv where "Service_Build V (NewServiceReconciler V n Ports (headless_options L info)) = Ok (ObjService sv)"
    "meta_Name (svc_Meta sv) = n" "svc_Ports sv = Ports" "svc_ClusterIP sv = ClusterIPNone" "svc_PublishNotReadyAddresses sv"
proof -
  let ?opt = "headless_options L info" and ?s = "SvcGetObject V (NewServiceBuilder V n Ports (headless_options L info))"
  have "meta_Name (svc_Meta ?s) = n" "svc_Ports ?s = Ports" "so_Headless ?opt \<longrightarrow> svc_ClusterIP ?s = ClusterIPNone"
    using assms unfolding service_laws_def Let_def by blast+
  then show thesis
    using that [of "?s\<lparr>svc_PublishNotReadyAddresses := True\<rparr>"]
    by (simp add: Service_Build_def NewServiceReconciler_def node_NewServiceBuilder_def headless_options_def)
qed

lemma config_map_built:
  assumes "configmap_laws C" and b: "b = NewConfigReconciler L C (Some cc) im info cfg (Some a)"
    and cfg: "cfg = Some c" "cfg_RoleGroupConfigSpec c \<noteq> None"
    and "Authentication cc = Some auths" "NewAuthentication g (rgi_ClusterName info) auths = Ok a" "usable_auth L (Some a)"
    and "\<And>p. is_ok (PropMarshal P p)"
  obtains cm where "ConfigMap_Build L P C g b = Ok (ObjConfigMap cm)" "meta_Name (cm_Meta cm) = GetFullName L info"
proof -
  have f: "ncb_ClusterConfig b = Some cc" "ncb_Config b = Some c" "ncb_ClusterName b = rgi_ClusterName info" "ncb_Authentication b = Some a"
    by (simp_all add: b cfg NewConfigReconciler_def NewNifiConfigBuilder_def)
  have "is_ok (nifi_property_set L P g b)"
    using assms(5-7) by (intro property_set_ok [OF f(1)]) (simp_all add: f)
  then have props: "is_ok (getNifiProperties L P g b)"
    using assms(8) by (auto simp: getNifiProperties_def outcome_simps)
  have login: "is_ok (Auth_GetLoginIdentiryProvider L a)"
    using assms(7) by (rule usable_authE) auto
  from cfg(2) obtain rgc where "cfg_RoleGroupConfigSpec c = Some rgc" by blast
  from config_map_build_ok [OF f(1,2) this props, of C] login f(4) obtain obj where obj: "ConfigMap_Build L P C g b = Ok obj"
    by (auto simp: is_ok_iff)
  then obtain cm where "obj = ObjConfigMap cm" "meta_Name (cm_Meta cm) = GetFullName L info"
    by (rule config_map_data [OF assms(1) b])
  with that obj show thesis by simp
qed

lemma config_volume:
  "getVolumes L b = Ok vs \<Longrightarrow> \<lparr>vol_Name = NifiConfigVolumeName, vol_Source = ConfigMapSource (sb_Name b)\<rparr> \<in> set vs"
  by (cases "sb_Authentication b") (auto simp: getVolumes_def base_volumes_def bind_o_Ok_iff)

text \<open>The mount of the configuration volume.\<close>

definition config_mount :: "operator_go \<Rightarrow> VolumeMount" where
  "config_mount L = \<lparr>vm_Name = NifiConfigVolumeName, vm_MountPath = KubedoopConfigDirMount L, vm_SubPath = [], vm_ReadOnly = True\<rparr>"

lemma config_mounted: "getVolumeMounts L b = Ok ms \<Longrightarrow> config_mount L \<in> set ms"
  by (cases "sb_Authentication b") (auto simp: getVolumeMounts_def base_mounts_def config_mount_def bind_o_Ok_iff)

text \<open>
  C3: The three objects of a role group fit together. When registration succeeds, the
  authentication is usable and the role group has a configuration, the builders of the config map and
  the service succeed, and that of the stateful set succeeds up to the overrides: it returns what
  applying them to the operator's own stateful set returns, and with no overrides that stateful set.
  In it, the config map is the source of the configuration volume, which the prepare and the NiFi
  container mount at the directory the prepare script copies from; the service is headless,
  publishes the addresses of pods that are not ready, has all declared ports, and is the one
  whose name the prepare container puts into \<^verbatim>\<open>NODE_ADDRESS\<close>.
\<close>

theorem role_group_objects_consistent:
  assumes laws: "configmap_laws C" "container_laws B" "statefulset_laws S contents patch" "service_laws V" "\<And>p. is_ok (PropMarshal P p)"
    and reg: "RegisterResourceWithRoleGroup L C S V g r reps info ov (Some c) = Ok res" "rgi_RoleInfo info = nr_RoleInfo r"
    and cfg: "cfg_RoleGroupConfigSpec c \<noteq> None"
    and auth: "\<And>a. getAuthentrication g r = Ok a \<Longrightarrow> usable_auth L a"
  shows "\<exists>cb sr sb rest cm st sv. res = [ConfigRes cb, StatefulSetRes sr, ServiceRes sb] @ rest \<and>
    ConfigMap_Build L P C g cb = Ok (ObjConfigMap cm) \<and>
    StatefulSet_Build L B S (sr_Builder sr) =
      bind_o (apply_overrides patch ov st) (\<lambda>st'. Ok (ObjStatefulSet (run_as (NifiServiceAccountName (rgi_ClusterName info)) st'))) \<and>
    Service_Build V sb = Ok (ObjService sv) \<and>
    config_mount L \<in> set (c_VolumeMounts (hd (pod_InitContainers (sts_Pod st)))) \<and>
    config_mount L \<in> set (c_VolumeMounts (hd (pod_Containers (sts_Pod st)))) \<and>
    \<lparr>vol_Name = NifiConfigVolumeName, vol_Source = ConfigMapSource (meta_Name (cm_Meta cm))\<rparr> \<in> set (pod_Volumes (sts_Pod st)) \<and>
    svc_ClusterIP sv = ClusterIPNone \<and> svc_PublishNotReadyAddresses sv \<and> svc_Ports sv = Ports \<and>
    (\<exists>pre post. c_Args (hd (pod_InitContainers (sts_Pod st))) =
       [IndentTab4Spaces L (nl @ ''cp '' @ path_join [KubedoopConfigDirMount L, ''*''] @ '' '' @ NifiConfigDir L @ nl @ pre @ ''export NODE_ADDRESS='' @ [CHR 0x22] @ node_address L (meta_Name (svc_Meta sv)) @ [CHR 0x22] @ post)])"
  using reg(1)
proof (rule register_group_OkD)
  fix cc a s
  let ?cb = "NewConfigReconciler L C (Some cc) (Some (nr_Image r)) info (Some c) (Some a)"
  let ?sb = "NewServiceReconciler V (GetFullName L info) Ports (headless_options L info)"
  assume cc: "nr_ClusterConfig r = Some cc" and a: "getAuthentrication g r = Ok (Some a)"
    and s: "NewStatefulSetReconciler L S info (Some cc) Ports (nr_Image r) reps (nr_ClusterStopped r) (Some a) ov (Some c) = Ok s"
    and res: "res = [ConfigRes ?cb, StatefulSetRes s, ServiceRes ?sb]
     @ concat (map (\<lambda>key. if key = AuthenticatorTypeLDAP
         then [AdminSecretRes (NewAdminSecretReconciler (ci_ClusterName (ri_ClusterInfo (nr_RoleInfo r))) (role_group_options L info))] else [])
         (map fst (Authenticators a)))"
  from a cc obtain auths where auths: "Authentication cc = Some auths" "NewAuthentication g (rgi_ClusterName info) auths = Ok a"
    by (rule getAuthentrication_SomeD) (simp add: rgi_ClusterName_def reg(2))
  have u: "usable_auth L (Some a)" using auth [OF a] .
  obtain cm where cm: "ConfigMap_Build L P C g ?cb = Ok (ObjConfigMap cm)" "meta_Name (cm_Meta cm) = GetFullName L info"
    by (rule config_map_built [OF laws(1) refl refl cfg auths u laws(5)])
  obtain sv where sv: "Service_Build V ?sb = Ok (ObjService sv)" "meta_Name (svc_Meta sv) = GetFullName L info" "svc_Ports sv = Ports"
    "svc_ClusterIP sv = ClusterIPNone" "svc_PublishNotReadyAddresses sv"
    by (rule service_built [OF laws(4)])
  note b = role_group_builderD [OF role_group_builderI [OF s]]
  have "usable_auth L (sb_Authentication (sr_Builder s))" using u b(5) by simp
  then obtain st p ms where st: "StatefulSet_Build L B S (sr_Builder s) =
      bind_o (apply_overrides patch ov st) (\<lambda>st'. Ok (ObjStatefulSet (run_as (NifiServiceAccountName (rgi_ClusterName info)) st')))"
    "hd (pod_InitContainers (sts_Pod st)) = p" "getVolumes L (sr_Builder s) = Ok (pod_Volumes (sts_Pod st))"
    "c_Args p = [getPrepareContainerArgs L (sr_Builder s)]" "getVolumeMounts L (sr_Builder s) = Ok ms" "c_VolumeMounts p = ms"
    "set ms \<subseteq> set (c_VolumeMounts (hd (pod_Containers (sts_Pod st))))"
    by (rule statefulset_base_built [OF laws(2,3) b(8) [OF laws(3)] _ b(1)]) (simp add: b(3))
  have "\<exists>pre post. prepare_script L (sr_Builder s) = nl @ ''cp '' @ path_join [KubedoopConfigDirMount L, ''*''] @ '' '' @ NifiConfigDir L @ nl @ pre
      @ ''export NODE_ADDRESS='' @ [CHR 0x22] @ node_address L (GetFullName L info) @ [CHR 0x22] @ post"
    unfolding prepare_script_split b(2) append_assoc by blast
  then have script: "\<exists>pre post. c_Args (hd (pod_InitContainers (sts_Pod st))) =
      [IndentTab4Spaces L (nl @ ''cp '' @ path_join [KubedoopConfigDirMount L, ''*''] @ '' '' @ NifiConfigDir L @ nl @ pre
         @ ''export NODE_ADDRESS='' @ [CHR 0x22] @ node_address L (meta_Name (svc_Meta sv)) @ [CHR 0x22] @ post)]"
    unfolding st(2,4) getPrepareContainerArgs_def sv(2) by metis
  have mnt: "config_mount L \<in> set (c_VolumeMounts (hd (pod_InitContainers (sts_Pod st))))"
    "config_mount L \<in> set (c_VolumeMounts (hd (pod_Containers (sts_Pod st))))"
    using config_mounted [OF st(5)] st(2,6,7) by auto
  have vol: "\<lparr>vol_Name = NifiConfigVolumeName, vol_Source = ConfigMapSource (meta_Name (cm_Meta cm))\<rparr> \<in> set (pod_Volumes (sts_Pod st))"
    using config_volume [OF st(3)] cm(2) b(2) by simp
  show ?thesis
    by (rule exI [of _ ?cb], rule exI [of _ s], rule exI [of _ ?sb], rule exI, rule exI [of _ cm], rule exI [of _ st], rule exI [of _ sv])
      (use res cm(1) st(1) sv script vol mnt in blast)
qed

definition auth_cluster_config :: "AuthenticationSpec list option \<Rightarrow> ClusterConfigSpec" where
  "auth_cluster_config auths = demo_cluster_config\<lparr>Authentication := auths\<rparr>"

definition demo_nodes :: "(string, RoleGroupSpec) go_map \<Rightarrow> NodesSpec" where
  "demo_nodes rgs = \<lparr>RoleGroups = rgs, RoleConfig = None, nodes_Config = Some demo_config, nodes_OverridesSpec = None, nodes_JVMArgumentOverrides = None\<rparr>"

definition demo_group :: "int32 option \<Rightarrow> RoleGroupSpec" where
  "demo_group n = \<lparr>rg_Replicas = n, rg_Config = None, rg_OverridesSpec = None, rg_JVMArgumentOverrides = None\<rparr>"

definition demo_role :: "ClusterConfigSpec \<Rightarrow> (ConfigMap, plain_builder, Service) NodeReconciler" where
  "demo_role cc = node_NewReconciler False (Some cc) (rgi_RoleInfo (demo_info ''default'')) demo_image
     (Some (demo_nodes [(''default'', demo_group (Some 1))]))"

lemma demo_role_fields [simp]:
  "nr_ClusterConfig (demo_role cc) = Some cc" "nr_RoleInfo (demo_role cc) = rgi_RoleInfo (demo_info ''default'')"
  "nr_Resources (demo_role cc) = []" "nr_Spec (demo_role cc) = Some (demo_nodes [(''default'', demo_group (Some 1))])"
  by (simp_all add: demo_role_def node_NewReconciler_def)

lemma demo_cluster_name [simp]: "ci_ClusterName (ri_ClusterInfo (rgi_RoleInfo (demo_info rg))) = ''demo''"
  by (simp add: demo_info_def)

lemma static_role_auth: "getAuthentrication static_class (demo_role (auth_cluster_config (Some [users_spec]))) = Ok (Some static_auth)"
  by (simp add: getAuthentrication_def auth_cluster_config_def static_authentication static_auth_def)

theorem role_group_objects_consistent_witness:
  "\<exists>res. RegisterResourceWithRoleGroup kubedoop plain_configmaps plain_sts plain_services static_class
      (demo_role (auth_cluster_config (Some [users_spec]))) (Some 1) (demo_info ''default'') None (Some demo_config) = Ok res \<and>
     (\<exists>sb sv rest. res = take 2 res @ [ServiceRes sb] @ rest \<and> Service_Build plain_services sb = Ok (ObjService sv) \<and> svc_PublishNotReadyAddresses sv)"
proof -
  let ?r = "demo_role (auth_cluster_config (Some [users_spec]))"
  obtain res where res: "RegisterResourceWithRoleGroup kubedoop plain_configmaps plain_sts plain_services static_class ?r
      (Some 1) (demo_info ''default'') None (Some demo_config) = Ok res"
    using register_group_ok [OF static_role_auth, of kubedoop plain_configmaps plain_sts plain_services "Some 1" "demo_info ''default''" None "Some demo_config"]
    unfolding is_ok_iff by blast
  have m: "is_ok (PropMarshal plain_props p)" for p by (simp add: plain_props_def)
  have c: "cfg_RoleGroupConfigSpec demo_config \<noteq> None" by (simp add: demo_config_def)
  have u: "usable_auth kubedoop a" if "getAuthentrication static_class ?r = Ok a" for a
    using that static_role_auth usable_static_auth by auto
  from role_group_objects_consistent [OF plain_configmaps_laws plain_containers_laws plain_sts_laws plain_services_laws m res _ c u]
  obtain cb sr sb rest sv where "res = [ConfigRes cb, StatefulSetRes sr, ServiceRes sb] @ rest"
    "Service_Build plain_services sb = Ok (ObjService sv)" "svc_PublishNotReadyAddresses sv" by auto
  with res show ?thesis by auto
qed

text \<open>
  C21: On success the role's reconciler holds, for every role group in the order the map is
  traversed, exactly the resources registered for that group, each group with its own name; and
  an error of one group stops the loop with that error.
\<close>

theorem role_resources_per_group:
  assumes "nr_Spec r = Some spec" "nr_Resources r = []"
  shows "(RegisterResources L C S V g r = Ok r' \<longleftrightarrow>
     (\<exists>bss. list_all2 (\<lambda>e bs. register_role_group L C S V g r spec e = Ok bs) (RoleGroups spec) bss \<and>
        r' = r\<lparr>nr_Resources := concat bss\<rparr>)) \<and>
    (RoleGroups spec = pre @ e # post \<longrightarrow> list_all (\<lambda>e. is_ok (register_role_group L C S V g r spec e)) pre \<longrightarrow>
       register_role_group L C S V g r spec e = Err err \<longrightarrow> RegisterResources L C S V g r = Err err)"
proof (intro conjI impI)
  show "RegisterResources L C S V g r = Ok r' \<longleftrightarrow>
     (\<exists>bss. list_all2 (\<lambda>e bs. register_role_group L C S V g r spec e = Ok bs) (RoleGroups spec) bss \<and>
        r' = r\<lparr>nr_Resources := concat bss\<rparr>)"
    using assms by (simp add: RegisterResources_def register_fold)
  assume split: "RoleGroups spec = pre @ e # post" and pre: "list_all (\<lambda>e. is_ok (register_role_group L C S V g r spec e)) pre"
    and err: "register_role_group L C S V g r spec e = Err err"
  from pre obtain bss where "list_all2 (\<lambda>e bs. register_role_group L C S V g r spec e = Ok bs) pre bss"
    by (induction pre) (auto simp: is_ok_iff list_all2_Cons1)
  then obtain r'' where "fold_o (add_role_group L C S V g spec) r pre = Ok r''" "r'' = r\<lparr>nr_Resources := nr_Resources r @ concat bss\<rparr>"
    using register_fold by blast
  with err show "RegisterResources L C S V g r = Err err"
    by (simp add: RegisterResources_def assms(1) split fold_o_append add_role_group_def)
qed

theorem role_resources_per_group_witness:
  "\<exists>r' b. RegisterResources kubedoop plain_configmaps plain_sts plain_services static_class
      (demo_role (auth_cluster_config (Some [users_spec]))) = Ok r' \<and> nr_Resources r' = b \<and> b \<noteq> []"
proof -
  let ?r = "demo_role (auth_cluster_config (Some [users_spec]))"
  let ?e = "(''default'', demo_group (Some 1))" and ?spec = "demo_nodes [(''default'', demo_group (Some 1))]"
  have "is_ok (register_role_group kubedoop plain_configmaps plain_sts plain_services static_class ?r ?spec ?e)"
    using register_group_ok [OF static_role_auth] by (simp add: register_role_group_def Let_def kubedoop_def)
  then obtain b where b: "register_role_group kubedoop plain_configmaps plain_sts plain_services static_class ?r ?spec ?e = Ok b"
    by (auto simp: is_ok_iff)
  then have "b \<noteq> []"
    by (auto simp: register_role_group_def Let_def outcome_simps elim!: register_group_OkD)
  have "\<exists>bss. list_all2 (\<lambda>e bs. register_role_group kubedoop plain_configmaps plain_sts plain_services static_class ?r ?spec e = Ok bs)
      (RoleGroups ?spec) bss \<and> ?r\<lparr>nr_Resources := b\<rparr> = ?r\<lparr>nr_Resources := concat bss\<rparr>"
    using b by (intro exI [of _ "[b]"]) (simp add: demo_nodes_def)
  with role_resources_per_group [OF demo_role_fields(4,3), of kubedoop plain_configmaps plain_sts plain_services static_class
      "auth_cluster_config (Some [users_spec])" "?r\<lparr>nr_Resources := b\<rparr>" "[]" ?e "[]" NotFound]
  have "RegisterResources kubedoop plain_configmaps plain_sts plain_services static_class ?r = Ok (?r\<lparr>nr_Resources := b\<rparr>)"
    by blast
  with \<open>b \<noteq> []\<close> show ?thesis by simp
qed

text \<open>
  C37: A cluster without the optional \<^verbatim>\<open>authentication\<close> section cannot be reconciled:
  \<^verbatim>\<open>getAuthentrication\<close> returns a nil pointer for it, and after building the reconcilers of a
  role group the registration ranges over \<^verbatim>\<open>auth.Authenticators\<close>, which panics for the first
  role group.
\<close>

theorem no_authentication_panics:
  assumes "nr_ClusterConfig r = Some cc" "Authentication cc = None" "nr_Spec r = Some spec" "RoleGroups spec \<noteq> []"
    and "\<And>x y. is_ok (MergeConfig L x y)" "\<And>x y. is_ok (MergeOverrides L x y)"
  shows "RegisterResources L C S V g r = Panic"
proof -
  obtain e es where rgs: "RoleGroups spec = e # es" using assms(4) by (cases "RoleGroups spec") auto
  have none: "getAuthentrication g r = Ok None" using assms(1,2) by (simp add: getAuthentrication_def)
  obtain mc where mc: "MergeConfig L (nodes_Config spec) (rg_Config (snd e)) = Ok mc" using assms(5) unfolding is_ok_iff by blast
  obtain mo where mo: "MergeOverrides L (nodes_OverridesSpec spec) (rg_OverridesSpec (snd e)) = Ok mo" using assms(6) unfolding is_ok_iff by blast
  have "register_role_group L C S V g r spec e = Panic"
    by (simp add: register_role_group_def Let_def mc mo RegisterResourceWithRoleGroup_def none assms(1) new_statefulset admin_secret_resources_def)
  then show ?thesis by (simp add: RegisterResources_def assms(3) rgs add_role_group_def)
qed

theorem no_authentication_panics_witness:
  "RegisterResources kubedoop plain_configmaps plain_sts plain_services static_class (demo_role demo_cluster_config) = Panic"
  by (rule no_authentication_panics [OF demo_role_fields(1) _ demo_role_fields(4)]) (simp_all add: demo_nodes_def, simp_all add: kubedoop_def)


definition oidc_class :: class_lookup where
  "oidc_class c = Ok (Some \<lparr>ap_OIDC = Some demo_oidc, ap_LDAP = None, ap_Static = None\<rparr>)"

definition oidc_spec :: AuthenticationSpec where
  "oidc_spec = \<lparr>AuthenticationClass = ''keycloak'', Oidc = Some \<lparr>oidc_ClientCredentialsSecret = ''client'', oidc_ExtraScopes = []\<rparr>\<rparr>"


end
