(* ===== verification/ReportingTask.thy ===== *)
theory ReportingTask
  imports NodeRole
begin

section \<open>ReportingTask: the job and service of the Prometheus reporting task\<close>

text \<open>
  \<^verbatim>\<open>internal/controller/reporting_task/\<close>: \<^verbatim>\<open>service.go\<close> and \<^verbatim>\<open>job.go\<close>. The role groups are
  a map, given in the order of one traversal; the selector sorts them by name before it picks a
  pod.
\<close>

subsection \<open>service.go\<close>

definition ReportingTaskContainerName :: string where
  "ReportingTaskContainerName = ''reporting-task''"

definition ReportingTaskServiceName :: "string \<Rightarrow> string" where
  "ReportingTaskServiceName clusterName = clusterName @ ''-'' @ ReportingTaskContainerName"

definition ReportingTaskFQDNServiceName :: "string \<Rightarrow> string \<Rightarrow> string" where
  "ReportingTaskFQDNServiceName clusterName namespace =
     ReportingTaskServiceName clusterName @ ''.'' @ namespace @ ''.svc.cluster.local''"

text \<open>\<^verbatim>\<open>*entry.rg.Replicas > 0\<close> compares a signed \<^verbatim>\<open>int32\<close>.\<close>

definition has_replicas :: "RoleGroupSpec \<Rightarrow> bool" where
  "has_replicas rg \<longleftrightarrow> (case rg_Replicas rg of None \<Rightarrow> False | Some n \<Rightarrow> 0 < sint n)"

text \<open>The loop over the sorted entries; \<^verbatim>\<open>break\<close> is the branch that returns.\<close>

fun select_role_group :: "string \<Rightarrow> (string \<times> RoleGroupSpec) list \<Rightarrow> string" where
  "select_role_group selectorRoleGroup [] = selectorRoleGroup"
| "select_role_group selectorRoleGroup ((name, rg) # entries) =
     (let selectorRoleGroup = (if selectorRoleGroup = [] then name else selectorRoleGroup)
      in if has_replicas rg then name else select_role_group selectorRoleGroup entries)"

definition getReportingTaskServiceSelectorPod :: "string \<Rightarrow> NodesSpec option \<Rightarrow> string outcome" where
  "getReportingTaskServiceSelectorPod clusterName nodes =
     bind_o (deref nodes) (\<lambda>nodes.
     let roleName = ''node'';
         sorted = sort_key fst (RoleGroups nodes);
         selectorRoleGroup = select_role_group [] sorted
     in if selectorRoleGroup = [] then Err (Errorf ''no role groups defined for reporting task service'')
        else Ok (clusterName @ ''-'' @ roleName @ ''-'' @ selectorRoleGroup @ ''-0''))"

definition reporting_service_options ::
    "operator_go \<Rightarrow> string \<Rightarrow> string \<Rightarrow> Options \<Rightarrow> ServiceBuilderOptions" where
  "reporting_service_options L clusterName selectorPod opts =
     \<lparr>so_Options = opts, so_ListenerClass = [], so_Headless = False,
      so_MatchingLabels =
        [(LabelKubernetesInstance L, clusterName),
         (LabelKubernetesManagedBy L, KubedoopDomain L),
         (LabelKubernetesComponent L, ''node''),
         (''statefulset.kubernetes.io/pod-name'', selectorPod)]\<rparr>"

definition NewReportingTaskServiceBuilder ::
    "operator_go \<Rightarrow> 'v service_pkg \<Rightarrow> string \<Rightarrow> NodesSpec option \<Rightarrow> int32 \<Rightarrow> Options \<Rightarrow> 'v outcome" where
  "NewReportingTaskServiceBuilder L V clusterName nodes httpsPort opts =
     bind_o (getReportingTaskServiceSelectorPod clusterName nodes) (\<lambda>selectorPod.
     let ports = [\<lparr>port_Name = ''https'', port_ContainerPort = httpsPort\<rparr>];
         serviceName = ReportingTaskServiceName clusterName
     in Ok (NewServiceBuilder V serviceName ports (reporting_service_options L clusterName selectorPod opts)))"

definition ReportingTaskService_Build :: "'v service_pkg \<Rightarrow> 'v \<Rightarrow> Object outcome" where
  "ReportingTaskService_Build V b = Ok (ObjService (SvcGetObject V b))"

definition NewReportingTaskServiceReconciler ::
    "operator_go \<Rightarrow> 'v service_pkg \<Rightarrow> string \<Rightarrow> NodesSpec option \<Rightarrow> int32 \<Rightarrow> Options \<Rightarrow> 'v outcome" where
  "NewReportingTaskServiceReconciler L V clusterName nodes httpsPort opts =
     NewReportingTaskServiceBuilder L V clusterName nodes httpsPort opts"

subsection \<open>job.go\<close>

definition ReportingTaskCertVolumeName :: string where
  "ReportingTaskCertVolumeName = ''tls''"

definition ReportingTaskCertVolumeMount :: string where
  "ReportingTaskCertVolumeMount = ''/kubedoop/cert''"

definition ReportingTaskScriptPath :: string where
  "ReportingTaskScriptPath = ''/kubedoop/python/create_nifi_reporting_task.py''"

record ReportingTaskJobBuilder =
  rtb_ObjectMeta :: ObjectMeta
  rtb_Image :: Image
  rtb_ClusterName :: string
  rtb_Namespace :: string
  rtb_HttpsPort :: int32
  rtb_MetricsPort :: int32
  rtb_Authentication :: "Authentication option"
  rtb_TlsEnabled :: bool
  rtb_TlsSecretClass :: string

definition reporting_job_name :: "string \<Rightarrow> Image \<Rightarrow> string" where
  "reporting_job_name clusterName img =
     clusterName @ ''-create-reporting-task-'' @ ReplaceAll1 (im_ProductVersion img) (CHR ''.'') ''-''"

definition NewReportingTaskJobBuilder ::
    "operator_go \<Rightarrow> string \<Rightarrow> Image \<Rightarrow> int32 \<Rightarrow> int32 \<Rightarrow> Authentication option \<Rightarrow> bool \<Rightarrow> string \<Rightarrow> Options
      \<Rightarrow> ReportingTaskJobBuilder" where
  "NewReportingTaskJobBuilder L clusterName img httpsPort metricsPort authentication tlsEnabled tlsSecretClass options =
     \<lparr>rtb_ObjectMeta = NewObjectMeta L (reporting_job_name clusterName img) options,
      rtb_Image = img,
      rtb_ClusterName = clusterName,
      rtb_Namespace = GetOwnerNamespace L,
      rtb_HttpsPort = httpsPort,
      rtb_MetricsPort = metricsPort,
      rtb_Authentication = authentication,
      rtb_TlsEnabled = tlsEnabled,
      rtb_TlsSecretClass = tlsSecretClass\<rparr>"

definition getAdminPasswordFile :: "operator_go \<Rightarrow> string" where
  "getAdminPasswordFile L = path_join [path_join [KubedoopRoot L, ''users''], NifiAdminUsername]"

definition nifiConnectURL :: "ReportingTaskJobBuilder \<Rightarrow> string" where
  "nifiConnectURL b =
     (let fqdn = ReportingTaskFQDNServiceName (rtb_ClusterName b) (rtb_Namespace b) in
      if rtb_TlsEnabled b
      then ''https://'' @ fqdn @ '':'' @ Format32 (rtb_HttpsPort b) @ ''/nifi-api''
      else ''http://'' @ fqdn @ '':'' @ Format32 (rtb_HttpsPort b) @ ''/nifi-api'')"

definition buildVolumeMounts :: "operator_go \<Rightarrow> ReportingTaskJobBuilder \<Rightarrow> VolumeMount list outcome" where
  "buildVolumeMounts L b =
     (let volumeMounts =
        (if rtb_TlsEnabled b \<and> rtb_TlsSecretClass b \<noteq> []
         then [\<lparr>vm_Name = ReportingTaskCertVolumeName, vm_MountPath = ReportingTaskCertVolumeMount, vm_SubPath = [], vm_ReadOnly = False\<rparr>]
         else [])
      in case rtb_Authentication b of
           None \<Rightarrow> Ok volumeMounts
         | Some auth \<Rightarrow> bind_o (Auth_GetVolumeMounts L auth) (\<lambda>ms. Ok (volumeMounts @ ms)))"

definition buildVolumes :: "operator_go \<Rightarrow> ReportingTaskJobBuilder \<Rightarrow> Volume list outcome" where
  "buildVolumes L b =
     (let volumes =
        (if rtb_TlsEnabled b \<and> rtb_TlsSecretClass b \<noteq> []
         then [SecretOperatorVolume L ReportingTaskCertVolumeName (rtb_TlsSecretClass b) None] else [])
      in case rtb_Authentication b of
           None \<Rightarrow> Ok volumes
         | Some auth \<Rightarrow> bind_o (Auth_GetVolumes L auth) (\<lambda>vs. Ok (volumes @ vs)))"

definition reporting_task_args :: "operator_go \<Rightarrow> ReportingTaskJobBuilder \<Rightarrow> string list" where
  \<open>reporting_task_args L b =
     [ReportingTaskScriptPath, ''-n '' @ nifiConnectURL b, ''-u '' @ NifiAdminUsername]
     @ (if rtb_Authentication b \<noteq> None then [''-p "$(cat '' @ getAdminPasswordFile L @ '')"''] else [])
     @ [''-v '' @ im_ProductVersion (rtb_Image b), ''-m '' @ Format32 (rtb_MetricsPort b)]
     @ (if rtb_TlsEnabled b \<and> rtb_TlsSecretClass b \<noteq> []
        then [''-c '' @ path_join [ReportingTaskCertVolumeMount, ''ca.crt'']] else [])\<close>

definition buildContainer :: "operator_go \<Rightarrow> ReportingTaskJobBuilder \<Rightarrow> string \<Rightarrow> Container outcome" where
  "buildContainer L b imageTag =
     bind_o (buildVolumeMounts L b) (\<lambda>volumeMounts.
       Ok \<lparr>c_Name = ReportingTaskContainerName,
           c_Image = imageTag,
           c_ImagePullPolicy = PullUnset,
           c_Command = [''sh'', ''-c''],
           c_Args = [Join (reporting_task_args L b) '' ''],
           c_Env = [],
           c_VolumeMounts = volumeMounts,
           c_Ports = [],
           c_Resources =
             \<lparr>res_Requests = [(''cpu'', ''100m''), (''memory'', ''512Mi'')],
              res_Limits = [(''cpu'', ''400m''), (''memory'', ''512Mi'')]\<rparr>,
           c_LivenessProbe = None,
           c_StartupProbe = None,
           c_SecurityContext = None\<rparr>)"

definition ReportingTaskJob_Build :: "operator_go \<Rightarrow> ReportingTaskJobBuilder \<Rightarrow> Object outcome" where
  "ReportingTaskJob_Build L b =
     bind_o (wrap_err ''failed to get image with tag'' (GetImageWithTag L (rtb_Image b))) (\<lambda>imageTag.
     bind_o (buildContainer L b imageTag) (\<lambda>container.
     bind_o (buildVolumes L b) (\<lambda>volumes.
       Ok (ObjJob
         \<lparr>job_Meta = rtb_ObjectMeta b,
          job_BackoffLimit = 100,
          job_TTLSecondsAfterFinished = 120,
          job_TemplateLabels = meta_Labels (rtb_ObjectMeta b),
          job_Pod =
            \<lparr>pod_InitContainers = [],
             pod_Containers = [container],
             pod_Volumes = volumes,
             pod_ServiceAccountName = [],
             pod_RestartPolicy = ''OnFailure'',
             pod_ImagePullSecrets = (if im_PullSecretName (rtb_Image b) \<noteq> [] then [im_PullSecretName (rtb_Image b)] else []),
             pod_RunAsUser = Some 1000,
             pod_RunAsGroup = Some 0,
             pod_FSGroup = Some 1000\<rparr>\<rparr>))))"

definition NewReportingTaskJobReconciler ::
    "operator_go \<Rightarrow> string \<Rightarrow> Image \<Rightarrow> int32 \<Rightarrow> int32 \<Rightarrow> Authentication option \<Rightarrow> bool \<Rightarrow> string \<Rightarrow> Options
      \<Rightarrow> ReportingTaskJobBuilder" where
  "NewReportingTaskJobReconciler L clusterName img httpsPort metricsPort authentication tlsEnabled tlsSecretClass options =
     NewReportingTaskJobBuilder L clusterName img httpsPort metricsPort authentication tlsEnabled tlsSecretClass options"

subsection \<open>Properties of the pod selector\<close>

interpretation selector: map_traversal
  "\<lambda>m. getReportingTaskServiceSelectorPod clusterName (Some (nodes\<lparr>RoleGroups := m\<rparr>))" for clusterName nodes
  by unfold_locales (simp add: getReportingTaskServiceSelectorPod_def Let_def sort_key_perm_eq)

text \<open>
  The pod that the service selects does not depend on the order in which the map of role
  groups is traversed.
\<close>

theorem selector_pod_stable:
  assumes "distinct (map fst m)" "mset m = mset m'"
  shows "getReportingTaskServiceSelectorPod cn (Some (nodes\<lparr>RoleGroups := m\<rparr>)) =
    getReportingTaskServiceSelectorPod cn (Some (nodes\<lparr>RoleGroups := m'\<rparr>))"
  using assms by (rule selector.visiting_order)

definition two_groups :: "(string, RoleGroupSpec) go_map" where
  "two_groups = [(''b'', demo_group (Some 3)), (''a'', demo_group (Some 0))]"

theorem selector_pod_stable_witness:
  "getReportingTaskServiceSelectorPod ''demo'' (Some ((demo_nodes [])\<lparr>RoleGroups := two_groups\<rparr>)) =
   getReportingTaskServiceSelectorPod ''demo'' (Some ((demo_nodes [])\<lparr>RoleGroups := rev two_groups\<rparr>))"
  by (rule selector_pod_stable) (simp_all add: two_groups_def)

lemma select_role_group_with:
  assumes "\<forall>e \<in> set es. fst e \<noteq> []"
  shows "select_role_group s es =
    (case filter (\<lambda>e. has_replicas (snd e)) es of
       e # _ \<Rightarrow> fst e
     | [] \<Rightarrow> if s = [] then (case es of [] \<Rightarrow> [] | e # _ \<Rightarrow> fst e) else s)"
  using assms by (induction s es rule: select_role_group.induct) (auto simp: Let_def split: list.splits)

lemma select_role_group_nonempty:
  "\<forall>e \<in> set es. fst e \<noteq> [] \<Longrightarrow> es \<noteq> [] \<or> s \<noteq> [] \<Longrightarrow> select_role_group s es \<noteq> []"
  by (induction s es rule: select_role_group.induct) (auto simp: Let_def)

lemma sorted_head_least: "sorted (map f (x # xs)) \<Longrightarrow> y \<in> set (x # xs) \<Longrightarrow> f x \<le> f y"
  by auto

lemma select_role_group_least:
  assumes "\<forall>e \<in> set es. fst e \<noteq> []" "es \<noteq> []" "sorted (map fst es)"
  shows "\<exists>(n, rg) \<in> set es. select_role_group [] es = n \<and>
    ((\<exists>e \<in> set es. has_replicas (snd e)) \<longrightarrow> has_replicas rg) \<and>
    (\<forall>e \<in> set es. has_replicas (snd e) = has_replicas rg \<longrightarrow> n \<le> fst e)"
proof (cases "filter (\<lambda>e. has_replicas (snd e)) es")
  case Nil
  then have none: "\<not> has_replicas (snd e)" if "e \<in> set es" for e
    using that by (auto simp: filter_empty_conv)
  obtain x xs where x: "es = x # xs" using assms(2) by (cases es) auto
  have "fst x \<le> fst e" if "e \<in> set es" for e
    using that assms(3) unfolding x by (auto dest: sorted_head_least)
  moreover have "select_role_group [] es = fst x"
    using assms(1) Nil x by (subst select_role_group_with) auto
  moreover have "x \<in> set es" by (simp add: x)
  ultimately show ?thesis using none by (intro bexI [of _ x]) auto
next
  case (Cons x xs)
  then have "x \<in> set (filter (\<lambda>e. has_replicas (snd e)) es)" by simp
  then have x: "x \<in> set es" "has_replicas (snd x)" by auto
  have "sorted (map fst (filter (\<lambda>e. has_replicas (snd e)) es))" by (rule sorted_filter) (rule assms(3))
  moreover have "e \<in> set (filter (\<lambda>e. has_replicas (snd e)) es)" if "e \<in> set es" "has_replicas (snd e)" for e
    using that by simp
  ultimately have "fst x \<le> fst e" if "e \<in> set es" "has_replicas (snd e)" for e
    using that sorted_head_least [of fst x xs e] unfolding Cons by blast
  moreover have "select_role_group [] es = fst x"
    using assms(1) Cons by (subst select_role_group_with) auto
  ultimately show ?thesis using x by (intro bexI [of _ x]) auto
qed

text \<open>
  The loop takes the empty string for ``nothing selected yet''. In sorted order the group with
  the empty name comes first: with replicas it ends the loop with the empty string, and without
  replicas it leaves no trace.
\<close>

lemma select_role_group_empty_name:
  "sorted (map fst es) \<Longrightarrow> select_role_group [] es =
    (if \<exists>e \<in> set es. fst e = [] \<and> has_replicas (snd e) then []
     else select_role_group [] (filter (\<lambda>e. fst e \<noteq> []) es))"
proof (induction es)
  case (Cons e es)
  show ?case
  proof (cases "fst e = []")
    case True
    then show ?thesis using Cons by (cases e) auto
  next
    case False
    then have "\<forall>x \<in> set (e # es). fst x \<noteq> []" using Cons.prems by fastforce
    moreover then have "filter (\<lambda>e. fst e \<noteq> []) (e # es) = e # es" by (subst filter_True) auto
    ultimately show ?thesis by (metis (mono_tags, lifting))
  qed
qed simp

lemma selected_iff:
  "select_role_group [] (sort_key fst m) \<noteq> [] \<longleftrightarrow>
     (\<exists>e \<in> set m. fst e \<noteq> []) \<and> (\<forall>e \<in> set m. fst e = [] \<longrightarrow> \<not> has_replicas (snd e))"
proof -
  let ?named = "filter (\<lambda>e. fst e \<noteq> []) (sort_key fst m)"
  have "select_role_group [] ?named \<noteq> [] \<longleftrightarrow> ?named \<noteq> []"
    using select_role_group_nonempty [of ?named "[]"] by auto
  moreover have "?named \<noteq> [] \<longleftrightarrow> (\<exists>e \<in> set m. fst e \<noteq> [])" by (simp add: filter_empty_conv)
  ultimately show ?thesis using select_role_group_empty_name [of "sort_key fst m"] by auto
qed

lemma selector_pod_ok_iff:
  "is_ok (getReportingTaskServiceSelectorPod cn (Some nodes)) \<longleftrightarrow>
     (\<exists>e \<in> set (RoleGroups nodes). fst e \<noteq> []) \<and>
     (\<forall>e \<in> set (RoleGroups nodes). fst e = [] \<longrightarrow> \<not> has_replicas (snd e))"
  by (simp add: getReportingTaskServiceSelectorPod_def Let_def selected_iff [symmetric])

text \<open>
  C10: For every map of role groups, the selector returns the error ``no role groups defined''
  exactly when the map is empty, when its only key is the empty string, or when the group named
  by the empty string has replicas (the empty string doubles as the mark for ``nothing
  selected''). In every other case the selected pod is pod 0 of the stateful set of a role
  group of the map: of the named groups with a positive number of replicas the one with the
  smallest name, and of all named groups when no group has replicas.
\<close>

theorem selector_pod_choice:
  assumes "full_name_law L" "ri_RoleName ri = ''node''" "ci_ClusterName (ri_ClusterInfo ri) = cn"
  shows "(getReportingTaskServiceSelectorPod cn (Some nodes) = Err (Errorf ''no role groups defined for reporting task service'')
      \<longleftrightarrow> (\<forall>e \<in> set (RoleGroups nodes). fst e = []) \<or> (\<exists>e \<in> set (RoleGroups nodes). fst e = [] \<and> has_replicas (snd e))) \<and>
    ((\<exists>e \<in> set (RoleGroups nodes). fst e \<noteq> []) \<and> (\<forall>e \<in> set (RoleGroups nodes). fst e = [] \<longrightarrow> \<not> has_replicas (snd e)) \<longrightarrow>
     (\<exists>(n, rg) \<in> set (RoleGroups nodes).
       n \<noteq> [] \<and>
       getReportingTaskServiceSelectorPod cn (Some nodes) = Ok (GetFullName L \<lparr>rgi_RoleInfo = ri, rgi_RoleGroupName = n\<rparr> @ ''-0'') \<and>
       ((\<exists>e \<in> set (RoleGroups nodes). has_replicas (snd e)) \<longrightarrow> has_replicas rg) \<and>
       (\<forall>e \<in> set (RoleGroups nodes). fst e \<noteq> [] \<and> has_replicas (snd e) = has_replicas rg \<longrightarrow> n \<le> fst e)))"
proof -
  let ?m = "RoleGroups nodes"
  let ?s = "sort_key fst ?m"
  let ?named = "filter (\<lambda>e. fst e \<noteq> []) ?s"
  have sel: "select_role_group [] ?s =
      (if \<exists>e \<in> set ?m. fst e = [] \<and> has_replicas (snd e) then [] else select_role_group [] ?named)"
    using select_role_group_empty_name [of ?s] by simp
  have pod: "getReportingTaskServiceSelectorPod cn (Some nodes) =
      (if select_role_group [] ?s = [] then Err (Errorf ''no role groups defined for reporting task service'')
       else Ok (GetFullName L \<lparr>rgi_RoleInfo = ri, rgi_RoleGroupName = select_role_group [] ?s\<rparr> @ ''-0''))"
    using assms by (simp add: getReportingTaskServiceSelectorPod_def Let_def full_name_law_def rgi_ClusterName_def rgi_RoleName_def)
  have named: "set ?named = {e \<in> set ?m. fst e \<noteq> []}" by auto
  have least: "\<exists>(n, rg) \<in> set ?named. select_role_group [] ?named = n \<and>
      ((\<exists>e \<in> set ?named. has_replicas (snd e)) \<longrightarrow> has_replicas rg) \<and>
      (\<forall>e \<in> set ?named. has_replicas (snd e) = has_replicas rg \<longrightarrow> n \<le> fst e)"
    if "\<exists>e \<in> set ?m. fst e \<noteq> []"
    using that by (intro select_role_group_least) (auto simp: sorted_filter filter_empty_conv)
  show ?thesis (is "?iff \<and> (?good \<longrightarrow> ?choice)")
  proof (intro conjI impI)
    show ?iff unfolding pod using selected_iff [of ?m] by auto
    assume good: ?good
    then have "select_role_group [] ?s = select_role_group [] ?named" using sel by auto
    moreover have "(\<exists>e \<in> set ?named. has_replicas (snd e)) \<longleftrightarrow> (\<exists>e \<in> set ?m. has_replicas (snd e))"
      using good unfolding named by blast
    moreover obtain n rg where "(n, rg) \<in> set ?named" "select_role_group [] ?named = n"
      "(\<exists>e \<in> set ?named. has_replicas (snd e)) \<longrightarrow> has_replicas rg"
      "\<forall>e \<in> set ?named. has_replicas (snd e) = has_replicas rg \<longrightarrow> n \<le> fst e"
      using least good by blast
    ultimately show ?choice
      using pod unfolding named by (intro bexI [of _ "(n, rg)"]) (simp_all, metis prod.collapse)
  qed
qed

theorem selector_pod_choice_witness:
  "getReportingTaskServiceSelectorPod ''demo'' (Some (demo_nodes two_groups)) = Ok ''demo-node-b-0'' \<and>
   getReportingTaskServiceSelectorPod ''demo'' (Some (demo_nodes [([], demo_group (Some 1))])) =
     Err (Errorf ''no role groups defined for reporting task service'')"
proof -
  have "ri_RoleName (rgi_RoleInfo (demo_info [])) = ''node''" by (simp add: demo_info_def)
  note choice = selector_pod_choice [OF kubedoop_full_name this demo_cluster_name]
  have "getReportingTaskServiceSelectorPod ''demo'' (Some (demo_nodes two_groups)) =
       Ok (GetFullName kubedoop \<lparr>rgi_RoleInfo = rgi_RoleInfo (demo_info []), rgi_RoleGroupName = ''b''\<rparr> @ ''-0'')"
    using choice [of "demo_nodes two_groups"]
    by (auto simp: two_groups_def demo_nodes_def has_replicas_def demo_group_def)
  moreover have "getReportingTaskServiceSelectorPod ''demo'' (Some (demo_nodes [([], demo_group (Some 1))])) =
     Err (Errorf ''no role groups defined for reporting task service'')"
    using choice [of "demo_nodes [([], demo_group (Some 1))]"] by (simp add: demo_nodes_def)
  ultimately show ?thesis
    by (simp add: kubedoop_def demo_info_def rgi_ClusterName_def rgi_RoleName_def)
qed

subsection \<open>Properties of the job\<close>

lemma auth_volume_not_tls:
  assumes "complete_auth L x" "GetVolumes L x = Ok vs"
  shows "''tls'' \<notin> set (map vol_Name vs)"
proof (cases x)
  case (LdapAuth a)
  have "''tls'' \<noteq> c @ ''-bind-credentials''" for c by (auto dest: arg_cong [where f = length])
  with LdapAuth assms show ?thesis
    by (auto simp: ldap_GetVolumes_def getBindCredentialsVolumeName_def volume_laws_def outcome_simps)
qed (use assms in \<open>auto simp: oidc_GetVolumes_def static_GetVolumes_def admin_volume_def NifiAdminUsername_def\<close>)

lemma job_built:
  assumes "GetImageWithTag L (rtb_Image b) = Ok tag" "buildVolumes L b = Ok vs" "buildVolumeMounts L b = Ok ms"
  obtains j c where "ReportingTaskJob_Build L b = Ok (ObjJob j)" "pod_Containers (job_Pod j) = [c]" "c_Image c = tag"
    "c_Args c = [Join (reporting_task_args L b) '' '']" "pod_RestartPolicy (job_Pod j) = ''OnFailure''"
    "pod_Volumes (job_Pod j) = vs" "c_VolumeMounts c = ms"
    "pod_ImagePullSecrets (job_Pod j) = (if im_PullSecretName (rtb_Image b) \<noteq> [] then [im_PullSecretName (rtb_Image b)] else [])"
  using assms that by (simp add: ReportingTaskJob_Build_def buildContainer_def)

text \<open>
  C34: For every usable authentication and an image with a tag the job is built, restarts on
  failure, and its pod is well formed: the TLS volume and the volumes of the authenticator have
  distinct names and every mount names one of them. The TLS mount and the \<^verbatim>\<open>-c\<close> argument that
  reads it come together.
\<close>

theorem reporting_job_wellformed:
  assumes "usable_auth L (rtb_Authentication b)" "volume_laws L" "GetImageWithTag L (rtb_Image b) = Ok tag"
  shows "\<exists>j c. ReportingTaskJob_Build L b = Ok (ObjJob j) \<and> pod_Containers (job_Pod j) = [c] \<and>
    c_Image c = tag \<and> c_Args c = [Join (reporting_task_args L b) '' ''] \<and> pod_RestartPolicy (job_Pod j) = ''OnFailure'' \<and>
    volumes_ok (pod_Volumes (job_Pod j)) \<and> mounts_backed (pod_Volumes (job_Pod j)) (c_VolumeMounts c) \<and>
    (''tls'' \<in> set (map vm_Name (c_VolumeMounts c)) \<longleftrightarrow>
       ''-c '' @ path_join [ReportingTaskCertVolumeMount, ''ca.crt''] \<in> set (reporting_task_args L b))"
proof -
  let ?tls = "rtb_TlsEnabled b \<and> rtb_TlsSecretClass b \<noteq> []"
  let ?tv = "if ?tls then [SecretOperatorVolume L ReportingTaskCertVolumeName (rtb_TlsSecretClass b) None] else []"
  let ?tm = "if ?tls then [\<lparr>vm_Name = ReportingTaskCertVolumeName, vm_MountPath = ReportingTaskCertVolumeMount, vm_SubPath = [], vm_ReadOnly = False\<rparr>] else []"
  obtain vs ms where vm: "buildVolumes L b = Ok (?tv @ vs)" "buildVolumeMounts L b = Ok (?tm @ ms)"
    "volumes_ok vs" "mounts_backed vs ms" "''tls'' \<notin> set (map vol_Name vs)"
    using assms(1)
  proof (cases rule: usable_authE)
    case 1
    then show ?thesis by (intro that [of "[]" "[]"]) (simp_all add: buildVolumes_def buildVolumeMounts_def Let_def volumes_ok_def)
  next
    case (2 a x es vs ms)
    then show ?thesis
      using auth_volume_not_tls [OF 2(2,4)] anyauth.vols_distinct [OF 2(2,4)] anyauth.backed [OF 2(2,4,5)]
      by (intro that [of vs ms]) (simp_all add: buildVolumes_def buildVolumeMounts_def Let_def)
  qed
  have "volumes_ok (?tv @ vs)" "mounts_backed (?tv @ vs) (?tm @ ms)"
    using vm(3-5) assms(2) by (auto simp: volumes_ok_def mounts_backed_def volume_laws_def ReportingTaskCertVolumeName_def)
  moreover have "''tls'' \<in> set (map vm_Name (?tm @ ms)) \<longleftrightarrow> ?tls"
    using vm(4,5) by (auto simp: mounts_backed_def ReportingTaskCertVolumeName_def)
  moreover have "''-c '' @ path_join [ReportingTaskCertVolumeMount, ''ca.crt''] \<in> set (reporting_task_args L b) \<longleftrightarrow> ?tls"
    by (simp add: reporting_task_args_def ReportingTaskScriptPath_def)
  moreover obtain j c where "ReportingTaskJob_Build L b = Ok (ObjJob j)" "pod_Containers (job_Pod j) = [c]" "c_Image c = tag"
    "c_Args c = [Join (reporting_task_args L b) '' '']" "pod_RestartPolicy (job_Pod j) = ''OnFailure''"
    "pod_Volumes (job_Pod j) = ?tv @ vs" "c_VolumeMounts c = ?tm @ ms"
    by (rule job_built [OF assms(3) vm(1,2)])
  ultimately show ?thesis by metis
qed

definition demo_job :: "Authentication option \<Rightarrow> ReportingTaskJobBuilder" where
  "demo_job auth = NewReportingTaskJobReconciler kubedoop ''demo'' demo_image 9443 8081 auth True ''tls-class'' no_options"

theorem reporting_job_wellformed_witness:
  "\<exists>j. ReportingTaskJob_Build kubedoop (demo_job (Some static_auth)) = Ok (ObjJob j) \<and> volumes_ok (pod_Volumes (job_Pod j))"
proof -
  have "rtb_Authentication (demo_job (Some static_auth)) = Some static_auth"
    by (simp add: demo_job_def NewReportingTaskJobReconciler_def NewReportingTaskJobBuilder_def)
  then have u: "usable_auth kubedoop (rtb_Authentication (demo_job (Some static_auth)))" by simp
  obtain tag where tag: "GetImageWithTag kubedoop (rtb_Image (demo_job (Some static_auth))) = Ok tag"
    by (simp add: kubedoop_def)
  from reporting_job_wellformed [OF u kubedoop_volume_laws tag] show ?thesis by blast
qed

lemma admin_file_below:
  assumes "clean_abs (KubedoopRoot L)"
  shows "covers (UserMountDir L) (getAdminPasswordFile L)"
proof -
  from assms obtain cs where cs: "cs \<noteq> []" "list_all valid_comp cs" "KubedoopRoot L = abs_path cs" by (rule clean_absE)
  have v: "list_all valid_comp [''users'']" "list_all valid_comp [''admin'']" by (simp_all add: valid_comp_def slash_def)
  have dir: "path_join [KubedoopRoot L, ''users''] = abs_path (cs @ [''users''])"
    unfolding cs(3) by (rule path_join_abs [OF cs(1,2) v(1)])
  have pwf: "getAdminPasswordFile L = abs_path ((cs @ [''users'']) @ [''admin''])"
    unfolding getAdminPasswordFile_def dir NifiAdminUsername_def by (rule path_join_abs) (use cs v in auto)
  show ?thesis
    unfolding UserMountDir_def dir pwf by (subst covers_abs_path) (use cs v in auto)
qed

text \<open>
  The job reads the admin password from a file. With static or OIDC authentication the file
  lies below the mount of the authenticator; with LDAP, whose only mount is the directory of the
  bind credentials, no mount of the job covers it, so the argument \<^verbatim>\<open>-p\<close> is empty.
\<close>

theorem admin_password_file_mounted:
  assumes "paths_ok L" "Authenticators a = [(t, [x])]" "rtb_Authentication b = Some a" "buildVolumeMounts L b = Ok ms"
  shows "(mounts_admin_file x \<longrightarrow> mounted ms (getAdminPasswordFile L)) \<and>
    (\<forall>l cred. x = LdapAuth l \<longrightarrow> lp_BindCredentials (la_provider l) = Some cred \<longrightarrow> valid_comp (cred_SecretClass cred) \<longrightarrow>
       L = kubedoop \<longrightarrow> \<not> mounted ms (getAdminPasswordFile L) \<and>
       ''-p '' @ [CHR 0x22] @ ''$(cat '' @ getAdminPasswordFile L @ '')'' @ [CHR 0x22] \<in> set (reporting_task_args L b))"
proof (intro conjI impI allI)
  have ms: "\<exists>tm vs. GetVolumeMounts L x = Ok vs \<and> ms = tm @ vs \<and> set (map vm_MountPath tm) \<subseteq> {ReportingTaskCertVolumeMount}"
    using assms(3,4) by (auto simp: buildVolumeMounts_def Let_def bind_o_Ok_iff auth_is_single [OF assms(2)] split: if_splits)
  have root: "clean_abs (KubedoopRoot L)" using assms(1) by (simp add: paths_ok_def)
  show "mounted ms (getAdminPasswordFile L)" if "mounts_admin_file x"
    using ms mounts_admin_fileD(2) [OF that, of L] admin_file_below [OF root]
    by (auto simp: mounted_def admin_mount_def)
  fix l cred
  assume l: "x = LdapAuth l" "lp_BindCredentials (la_provider l) = Some cred" "valid_comp (cred_SecretClass cred)" "L = kubedoop"
  have dir: "getBindCredentialsMountDir kubedoop l = Ok (abs_path ([''kubedoop'', ''secret''] @ [cred_SecretClass cred]))"
    unfolding getBindCredentialsMountDir_def l(2) kubedoop_dirs deref.simps bind_o.simps outcome.inject
    by (rule path_join_abs) (use l(3) in \<open>simp_all add: valid_comp_def slash_def\<close>)
  have pwf: "getAdminPasswordFile kubedoop = abs_path [''kubedoop'', ''users'', ''admin'']"
    by (simp add: getAdminPasswordFile_def NifiAdminUsername_def kubedoop_def path_join_def join_elem_def Clean_def slash_def clean_elem_def)
  have cert: "ReportingTaskCertVolumeMount = abs_path [''kubedoop'', ''cert'']"
    by (simp add: ReportingTaskCertVolumeMount_def slash_def)
  have "\<not> covers (abs_path ([''kubedoop'', ''secret''] @ [cred_SecretClass cred])) (getAdminPasswordFile kubedoop)"
    "\<not> covers ReportingTaskCertVolumeMount (getAdminPasswordFile kubedoop)"
    unfolding pwf cert by (subst covers_abs_path; use l(3) in \<open>simp add: valid_comp_def slash_def\<close>)+
  then show "\<not> mounted ms (getAdminPasswordFile L)"
    using ms l dir
    by (fastforce simp: mounted_def ldap_GetVolumeMounts_def getBindCredentialsVolumeName_def simp del: abs_path_simps)
  show "''-p '' @ [CHR 0x22] @ ''$(cat '' @ getAdminPasswordFile L @ '')'' @ [CHR 0x22] \<in> set (reporting_task_args L b)"
    using assms(3) by (simp add: reporting_task_args_def)
qed

theorem admin_password_file_mounted_witness:
  "\<exists>ms. buildVolumeMounts kubedoop (demo_job (Some static_auth)) = Ok ms \<and> mounted ms (getAdminPasswordFile kubedoop)"
proof -
  let ?x = "StaticAuth \<lparr>sa_clusterName = ''demo'', sa_provider = \<lparr>sp_UserCredentialsSecret = Some ''creds''\<rparr>\<rparr>"
  have a: "Authenticators static_auth = [(AuthenticatorStatic, [?x])]" by (simp add: static_auth_def)
  have b: "rtb_Authentication (demo_job (Some static_auth)) = Some static_auth"
    by (simp add: demo_job_def NewReportingTaskJobReconciler_def NewReportingTaskJobBuilder_def)
  obtain ms where ms: "buildVolumeMounts kubedoop (demo_job (Some static_auth)) = Ok ms"
    by (simp add: buildVolumeMounts_def b auth_is_single [OF a] Let_def)
  from admin_password_file_mounted [OF kubedoop_paths_ok a b ms] ms show ?thesis by simp
qed

end
