(* ===== verification/Cluster.thy ===== *)
theory Cluster
  imports ReportingTask
begin

section \<open>Cluster: the resources of a NiFi cluster\<close>

text \<open>
  \<^verbatim>\<open>internal/controller/cluster/cluster.go\<close>. The reconciler's state is its list of registered
  resources. The generic builders for service accounts, roles and role bindings only store what
  the source passes to them, so the resource constructors list those arguments. The argument
  \<open>buildVersion\<close> is \<^verbatim>\<open>version.BuildVersion\<close>, which the linker sets.
\<close>

datatype ('c, 's, 'v) cluster_resource =
    ServiceAccountRes string Options
  | RoleRes string Options "PolicyRule list"
  | RoleBindingRes string Options "string list" string bool
  | NodeRes "('c, 's, 'v) NodeReconciler"
  | SensitiveKeyRes SensitiveKeyReconciler
  | ReportingServiceRes 'v
  | ReportingJobRes ReportingTaskJobBuilder

record ('c, 's, 'v) ClusterReconciler =
  cr_ClusterInfo :: ClusterInfo
  cr_ClusterOperation :: "ClusterOperationSpec option"
  cr_Spec :: NifiClusterSpec
  cr_ClusterConfig :: "ClusterConfigSpec option"
  cr_Resources :: "('c, 's, 'v) cluster_resource list"

definition cluster_NewReconciler :: "ClusterInfo \<Rightarrow> NifiClusterSpec \<Rightarrow> ('c, 's, 'v) ClusterReconciler" where
  "cluster_NewReconciler clusterInfo spec =
     \<lparr>cr_ClusterInfo = clusterInfo, cr_ClusterOperation = ClusterOperation spec, cr_Spec = spec,
      cr_ClusterConfig = ClusterConfig spec, cr_Resources = []\<rparr>"

definition AddResource ::
    "('c, 's, 'v) cluster_resource \<Rightarrow> ('c, 's, 'v) ClusterReconciler \<Rightarrow> ('c, 's, 'v) ClusterReconciler" where
  "AddResource x r = r\<lparr>cr_Resources := cr_Resources r @ [x]\<rparr>"

definition GetImage :: "operator_go \<Rightarrow> string \<Rightarrow> ('c, 's, 'v) ClusterReconciler \<Rightarrow> Image outcome" where
  "GetImage L buildVersion r =
     bind_o (deref (spec_Image (cr_Spec r))) (\<lambda>spec.
     let productVersion = (if img_ProductVersion spec \<noteq> [] then img_ProductVersion spec else DefaultProductVersion) in
     bind_o (deref (img_PullPolicy spec)) (\<lambda>pullPolicy.
     let img = NewImage L DefaultProductName buildVersion productVersion
           \<lparr>io_Custom = img_Custom spec, io_Repo = img_Repo spec, io_PullPolicy = pullPolicy, io_PullSecretName = []\<rparr>
     in Ok (if img_KubedoopVersion spec \<noteq> [] then img\<lparr>im_KubedoopVersion := img_KubedoopVersion spec\<rparr> else img)))"

definition cluster_options :: "operator_go \<Rightarrow> ('c, 's, 'v) ClusterReconciler \<Rightarrow> Options" where
  "cluster_options L r =
     no_options\<lparr>o_ClusterName := ci_ClusterName (cr_ClusterInfo r), o_Labels := ClusterLabels L (cr_ClusterInfo r),
       o_Annotations := ClusterAnnotations L (cr_ClusterInfo r)\<rparr>"

definition rbac_verbs :: "string list" where
  "rbac_verbs = [''get'', ''list'', ''watch'', ''create'', ''update'', ''patch'', ''delete'']"

definition rbac_rules :: "PolicyRule list" where
  "rbac_rules =
     [\<lparr>rule_APIGroups = [''coordination.k8s.io''], rule_Resources = [''leases''], rule_Verbs = rbac_verbs\<rparr>,
      \<lparr>rule_APIGroups = [''''], rule_Resources = [''configmaps''], rule_Verbs = rbac_verbs\<rparr>]"

definition registerRBACResources ::
    "operator_go \<Rightarrow> ('c, 's, 'v) ClusterReconciler \<Rightarrow> ('c, 's, 'v) ClusterReconciler outcome" where
  "registerRBACResources L r =
     (let clusterName = ci_ClusterName (cr_ClusterInfo r);
          saName = NifiServiceAccountName clusterName;
          roleName = clusterName @ ''-nifi'';
          roleBindingName = clusterName @ ''-nifi'';
          options = cluster_options L r;
          r = AddResource (ServiceAccountRes saName options) r;
          r = AddResource (RoleRes roleName options rbac_rules) r;
          r = AddResource (RoleBindingRes roleBindingName options [saName] roleName False) r
      in Ok r)"

definition getAuthentication ::
    "class_lookup \<Rightarrow> ('c, 's, 'v) ClusterReconciler \<Rightarrow> Authentication option outcome" where
  "getAuthentication getClass r =
     (case cr_ClusterConfig r of
        None \<Rightarrow> Ok None
      | Some cc \<Rightarrow>
          (case Authentication cc of
             None \<Rightarrow> Ok None
           | Some auths \<Rightarrow>
               bind_o (wrap_err ''failed to create authentication''
                 (NewAuthentication getClass (ci_ClusterName (cr_ClusterInfo r)) auths)) (\<lambda>auth. Ok (Some auth))))"

definition sensitiveKeyReconciler ::
    "operator_go \<Rightarrow> ('c, 's, 'v) ClusterReconciler \<Rightarrow> SensitiveKeyReconciler outcome" where
  "sensitiveKeyReconciler L r =
     bind_o (deref (cr_ClusterConfig r)) (\<lambda>cc.
     bind_o (deref (SensitiveProperties cc)) (\<lambda>sensitiveConfig.
       Ok (NewSensitiveKeyReconciler (KeySecret sensitiveConfig) (AutoGenerate sensitiveConfig) (cluster_options L r))))"

definition registerReportingTaskResources ::
    "operator_go \<Rightarrow> 'v service_pkg \<Rightarrow> string \<Rightarrow> class_lookup \<Rightarrow> ('c, 's, 'v) ClusterReconciler
      \<Rightarrow> ('c, 's, 'v) ClusterReconciler outcome" where
  "registerReportingTaskResources L V buildVersion getClass r =
     bind_o (deref (cr_ClusterConfig r)) (\<lambda>cc.
     if (case CreateReportingTaskJob cc of None \<Rightarrow> True | Some j \<Rightarrow> \<not> Enable j) then Ok r
     else
       let clusterName = ci_ClusterName (cr_ClusterInfo r) in
       bind_o (GetImage L buildVersion r) (\<lambda>img.
       if \<not> HasPrefix (im_ProductVersion img) ''1.'' then Ok r
       else
         bind_o (wrap_err ''failed to get authentication for reporting task'' (getAuthentication getClass r)) (\<lambda>auth.
         let tlsEnabled = Tls cc \<noteq> None;
             tlsSecretClass = (case Tls cc of None \<Rightarrow> [] | Some t \<Rightarrow> ServerSecretClass t);
             webPort = (if tlsEnabled then GetPort ''https'' else GetPort ''http'');
             metricsPort = 8081;
             options = cluster_options L r
         in bind_o (wrap_err ''failed to create reporting task service reconciler''
                 (NewReportingTaskServiceReconciler L V clusterName (Nodes (cr_Spec r)) webPort options)) (\<lambda>svcReconciler.
            let r = AddResource (ReportingServiceRes svcReconciler) r;
                jobReconciler = NewReportingTaskJobReconciler L clusterName img webPort metricsPort auth tlsEnabled tlsSecretClass options
            in Ok (AddResource (ReportingJobRes jobReconciler) r)))))"

definition cluster_RegisterResources ::
    "operator_go \<Rightarrow> 'c configmap_pkg \<Rightarrow> 's statefulset_pkg \<Rightarrow> 'v service_pkg \<Rightarrow> string \<Rightarrow> class_lookup
      \<Rightarrow> ('c, 's, 'v) ClusterReconciler \<Rightarrow> ('c, 's, 'v) ClusterReconciler outcome" where
  "cluster_RegisterResources L C S V buildVersion getClass r =
     bind_o (registerRBACResources L r) (\<lambda>r.
     bind_o (GetImage L buildVersion r) (\<lambda>img.
     let node = node_NewReconciler (IsStopped L (cr_ClusterOperation r)) (cr_ClusterConfig r)
           \<lparr>ri_ClusterInfo = cr_ClusterInfo r, ri_RoleName = ''node''\<rparr> img (Nodes (cr_Spec r))
     in bind_o (RegisterResources L C S V getClass node) (\<lambda>node.
        let r = AddResource (NodeRes node) r in
        bind_o (sensitiveKeyReconciler L r) (\<lambda>key.
        let r = AddResource (SensitiveKeyRes key) r in
        registerReportingTaskResources L V buildVersion getClass r))))"

subsection \<open>Evaluating the registration\<close>

lemma AddResource_fields [simp]:
  "cr_ClusterInfo (AddResource x r) = cr_ClusterInfo r" "cr_ClusterOperation (AddResource x r) = cr_ClusterOperation r"
  "cr_Spec (AddResource x r) = cr_Spec r" "cr_ClusterConfig (AddResource x r) = cr_ClusterConfig r"
  "cr_Resources (AddResource x r) = cr_Resources r @ [x]"
  by (simp_all add: AddResource_def)

lemma AddResource_reads [simp]:
  "GetImage L bv (AddResource x r) = GetImage L bv r" "cluster_options L (AddResource x r) = cluster_options L r"
  "getAuthentication g (AddResource x r) = getAuthentication g r" "sensitiveKeyReconciler L (AddResource x r) = sensitiveKeyReconciler L r"
  by (simp_all add: GetImage_def cluster_options_def getAuthentication_def sensitiveKeyReconciler_def split: option.split)

definition rbac_resources :: "operator_go \<Rightarrow> ('c, 's, 'v) ClusterReconciler \<Rightarrow> ('c, 's, 'v) cluster_resource list" where
  "rbac_resources L r =
     (let n = ci_ClusterName (cr_ClusterInfo r) in
      [ServiceAccountRes (NifiServiceAccountName n) (cluster_options L r),
       RoleRes (n @ ''-nifi'') (cluster_options L r) rbac_rules,
       RoleBindingRes (n @ ''-nifi'') (cluster_options L r) [NifiServiceAccountName n] (n @ ''-nifi'') False])"

definition reporting_enabled :: "ClusterConfigSpec \<Rightarrow> Image \<Rightarrow> bool" where
  "reporting_enabled cc img \<longleftrightarrow>
     (case CreateReportingTaskJob cc of None \<Rightarrow> False | Some j \<Rightarrow> Enable j) \<and> HasPrefix (im_ProductVersion img) ''1.''"

definition reporting_job ::
    "operator_go \<Rightarrow> ('c, 's, 'v) ClusterReconciler \<Rightarrow> ClusterConfigSpec \<Rightarrow> Image \<Rightarrow> Authentication option \<Rightarrow> ReportingTaskJobBuilder" where
  "reporting_job L r cc img auth =
     NewReportingTaskJobReconciler L (ci_ClusterName (cr_ClusterInfo r)) img
       (if Tls cc \<noteq> None then GetPort ''https'' else GetPort ''http'') 8081 auth (Tls cc \<noteq> None)
       (case Tls cc of None \<Rightarrow> [] | Some t \<Rightarrow> ServerSecretClass t) (cluster_options L r)"

definition role_of :: "operator_go \<Rightarrow> ('c, 's, 'v) ClusterReconciler \<Rightarrow> Image \<Rightarrow> ('c, 's, 'v) NodeReconciler" where
  "role_of L r img = node_NewReconciler (IsStopped L (cr_ClusterOperation r)) (cr_ClusterConfig r)
     \<lparr>ri_ClusterInfo = cr_ClusterInfo r, ri_RoleName = ''node''\<rparr> img (Nodes (cr_Spec r))"

lemma registerRBACResources_eq:
  "registerRBACResources L r = Ok (r\<lparr>cr_Resources := cr_Resources r @ rbac_resources L r\<rparr>)"
  by (simp add: registerRBACResources_def rbac_resources_def Let_def AddResource_def)

lemma resources_update_reads [simp]:
  "GetImage L bv (r\<lparr>cr_Resources := xs\<rparr>) = GetImage L bv r" "cluster_options L (r\<lparr>cr_Resources := xs\<rparr>) = cluster_options L r"
  "getAuthentication g (r\<lparr>cr_Resources := xs\<rparr>) = getAuthentication g r"
  "sensitiveKeyReconciler L (r\<lparr>cr_Resources := xs\<rparr>) = sensitiveKeyReconciler L r"
  by (simp_all add: GetImage_def cluster_options_def getAuthentication_def sensitiveKeyReconciler_def split: option.split)

lemma reporting_skipped:
  assumes "cr_ClusterConfig r = Some cc" "GetImage L bv r = Ok img" "\<not> reporting_enabled cc img"
  shows "registerReportingTaskResources L V bv g r = Ok r"
  using assms by (auto simp: registerReportingTaskResources_def reporting_enabled_def Let_def split: option.splits)

lemma reporting_registered:
  assumes "cr_ClusterConfig r = Some cc" "GetImage L bv r = Ok img" "reporting_enabled cc img"
  shows "registerReportingTaskResources L V bv g r =
    bind_o (wrap_err ''failed to get authentication for reporting task'' (getAuthentication g r)) (\<lambda>auth.
    bind_o (wrap_err ''failed to create reporting task service reconciler''
      (NewReportingTaskServiceReconciler L V (ci_ClusterName (cr_ClusterInfo r)) (Nodes (cr_Spec r))
        (if Tls cc \<noteq> None then GetPort ''https'' else GetPort ''http'') (cluster_options L r))) (\<lambda>svc.
      Ok (r\<lparr>cr_Resources := cr_Resources r @ [ReportingServiceRes svc, ReportingJobRes (reporting_job L r cc img auth)]\<rparr>)))"
  using assms
  by (auto simp: registerReportingTaskResources_def reporting_enabled_def reporting_job_def Let_def AddResource_def
      split: option.splits)

text \<open>The receiver after the role and the sensitive key have been added.\<close>

definition after_key :: "operator_go \<Rightarrow> ('c, 's, 'v) ClusterReconciler \<Rightarrow> ('c, 's, 'v) NodeReconciler \<Rightarrow> SensitiveKeyReconciler
    \<Rightarrow> ('c, 's, 'v) ClusterReconciler" where
  "after_key L r node key = r\<lparr>cr_Resources := cr_Resources r @ rbac_resources L r @ [NodeRes node, SensitiveKeyRes key]\<rparr>"

lemma cluster_register_eq:
  "cluster_RegisterResources L C S V bv g r =
     bind_o (GetImage L bv r) (\<lambda>img.
     bind_o (RegisterResources L C S V g (role_of L r img)) (\<lambda>node.
     bind_o (sensitiveKeyReconciler L r) (\<lambda>key.
       registerReportingTaskResources L V bv g (after_key L r node key))))"
  by (simp add: cluster_RegisterResources_def registerRBACResources_eq role_of_def Let_def AddResource_def after_key_def)

lemma after_key_reads [simp]:
  "cr_ClusterConfig (after_key L r node key) = cr_ClusterConfig r" "GetImage L bv (after_key L r node key) = GetImage L bv r"
  "getAuthentication g (after_key L r node key) = getAuthentication g r" "cr_ClusterInfo (after_key L r node key) = cr_ClusterInfo r"
  "cr_Spec (after_key L r node key) = cr_Spec r" "cluster_options L (after_key L r node key) = cluster_options L r"
  "reporting_job L (after_key L r node key) = reporting_job L r"
  by (simp_all add: after_key_def reporting_job_def fun_eq_iff)

lemma cluster_register_OkD:
  assumes "cluster_RegisterResources L C S V bv g r = Ok r'" "cr_Resources r = []"
  obtains cc img node key rep where "cr_ClusterConfig r = Some cc" "GetImage L bv r = Ok img"
    "RegisterResources L C S V g (role_of L r img) = Ok node" "sensitiveKeyReconciler L r = Ok key"
    "cr_Resources r' = rbac_resources L r @ [NodeRes node, SensitiveKeyRes key] @ rep"
    "\<not> reporting_enabled cc img \<Longrightarrow> rep = []"
    "reporting_enabled cc img \<Longrightarrow> \<exists>auth svc. getAuthentication g r = Ok auth \<and>
       NewReportingTaskServiceReconciler L V (ci_ClusterName (cr_ClusterInfo r)) (Nodes (cr_Spec r))
         (if Tls cc \<noteq> None then GetPort ''https'' else GetPort ''http'') (cluster_options L r) = Ok svc \<and>
       rep = [ReportingServiceRes svc, ReportingJobRes (reporting_job L r cc img auth)]"
proof -
  from assms(1) obtain img node key where p: "GetImage L bv r = Ok img" "RegisterResources L C S V g (role_of L r img) = Ok node"
    "sensitiveKeyReconciler L r = Ok key" "registerReportingTaskResources L V bv g (after_key L r node key) = Ok r'"
    by (auto simp: cluster_register_eq bind_o_Ok_iff)
  from p(3) obtain cc where cc: "cr_ClusterConfig r = Some cc"
    by (auto simp: sensitiveKeyReconciler_def outcome_simps)
  let ?a = "after_key L r node key"
  have a: "cr_ClusterConfig ?a = Some cc" "GetImage L bv ?a = Ok img" using cc p(1) by simp_all
  have base: "cr_Resources ?a = rbac_resources L r @ [NodeRes node, SensitiveKeyRes key]"
    using assms(2) by (simp add: after_key_def)
  show thesis
  proof (cases "reporting_enabled cc img")
    case False
    with p(4) reporting_skipped [OF a] base show ?thesis by (intro that [OF cc p(1-3), of "[]"]) simp_all
  next
    case True
    with p(4) obtain auth svc where "getAuthentication g r = Ok auth"
      "NewReportingTaskServiceReconciler L V (ci_ClusterName (cr_ClusterInfo r)) (Nodes (cr_Spec r))
         (if Tls cc \<noteq> None then GetPort ''https'' else GetPort ''http'') (cluster_options L r) = Ok svc"
      "r' = ?a\<lparr>cr_Resources := cr_Resources ?a @ [ReportingServiceRes svc, ReportingJobRes (reporting_job L r cc img auth)]\<rparr>"
      unfolding reporting_registered [OF a True] by (auto simp: bind_o_Ok_iff wrap_err_Ok_iff)
    with True base show ?thesis
      by (intro that [OF cc p(1-3), of "[ReportingServiceRes svc, ReportingJobRes (reporting_job L r cc img auth)]"]) simp_all
  qed
qed

subsection \<open>Properties of the cluster's resources\<close>

lemma new_cluster [simp]:
  "cr_Resources (cluster_NewReconciler ci spec) = []" "cr_ClusterConfig (cluster_NewReconciler ci spec) = ClusterConfig spec"
  "cr_ClusterInfo (cluster_NewReconciler ci spec) = ci" "cr_Spec (cluster_NewReconciler ci spec) = spec"
  "cr_ClusterOperation (cluster_NewReconciler ci spec) = ClusterOperation spec"
  by (simp_all add: cluster_NewReconciler_def)

lemma image_ok_iff: "is_ok (GetImage L bv r) \<longleftrightarrow> (\<exists>i. spec_Image (cr_Spec r) = Some i \<and> img_PullPolicy i \<noteq> None)"
  by (cases "spec_Image (cr_Spec r)") (auto simp: GetImage_def Let_def outcome_simps)

lemma image_version:
  assumes "image_laws L" "spec_Image (cr_Spec r) = Some i" "GetImage L bv r = Ok img"
  shows "im_ProductVersion img = (if img_ProductVersion i \<noteq> [] then img_ProductVersion i else DefaultProductVersion)"
  using assms by (auto simp: GetImage_def Let_def outcome_simps image_laws_def split: if_splits)

lemma key_ok_iff: "is_ok (sensitiveKeyReconciler L r) \<longleftrightarrow> (\<exists>cc. cr_ClusterConfig r = Some cc \<and> SensitiveProperties cc \<noteq> None)"
  by (auto simp: sensitiveKeyReconciler_def outcome_simps)

lemma reporting_ok_iff:
  assumes "cr_ClusterConfig r = Some cc" "GetImage L bv r = Ok img"
  shows "is_ok (registerReportingTaskResources L V bv g r) \<longleftrightarrow>
    (reporting_enabled cc img \<longrightarrow> is_ok (getAuthentication g r) \<and>
       is_ok (getReportingTaskServiceSelectorPod (ci_ClusterName (cr_ClusterInfo r)) (Nodes (cr_Spec r))))"
proof (cases "reporting_enabled cc img")
  case True
  show ?thesis
    unfolding reporting_registered [OF assms True] NewReportingTaskServiceReconciler_def NewReportingTaskServiceBuilder_def
    by (cases "getAuthentication g r"; cases "getReportingTaskServiceSelectorPod (ci_ClusterName (cr_ClusterInfo r)) (Nodes (cr_Spec r))")
      (simp_all add: True Let_def)
qed (simp add: reporting_skipped [OF assms])

lemma getAuthentication_Some:
  "(\<exists>a. getAuthentication g r = Ok (Some a)) \<longleftrightarrow>
     (\<exists>cc auths a. cr_ClusterConfig r = Some cc \<and> Authentication cc = Some auths \<and>
        NewAuthentication g (ci_ClusterName (cr_ClusterInfo r)) auths = Ok a)"
  by (auto simp: getAuthentication_def outcome_simps split: option.splits)

text \<open>The role resolves the authentication once more, with the same result.\<close>

lemma role_of_reads [simp]:
  "getAuthentrication g (role_of L r img) = getAuthentication g r" "nr_Spec (role_of L r img) = Nodes (cr_Spec r)"
  by (simp_all add: role_of_def node_NewReconciler_def getAuthentrication_def getAuthentication_def split: option.split)

lemma cluster_ok_iff:
  "is_ok (cluster_RegisterResources L C S V bv g r) \<longleftrightarrow>
     (\<exists>img cc. GetImage L bv r = Ok img \<and> cr_ClusterConfig r = Some cc \<and> SensitiveProperties cc \<noteq> None \<and>
        is_ok (RegisterResources L C S V g (role_of L r img)) \<and>
        (reporting_enabled cc img \<longrightarrow> is_ok (getAuthentication g r) \<and>
           is_ok (getReportingTaskServiceSelectorPod (ci_ClusterName (cr_ClusterInfo r)) (Nodes (cr_Spec r)))))"
proof (cases "is_ok (GetImage L bv r) \<and> is_ok (sensitiveKeyReconciler L r)")
  case True
  then obtain img key cc where p: "GetImage L bv r = Ok img" "sensitiveKeyReconciler L r = Ok key" "cr_ClusterConfig r = Some cc"
    "SensitiveProperties cc \<noteq> None"
    using key_ok_iff [of L r] unfolding is_ok_iff by blast
  show ?thesis
    unfolding cluster_register_eq p(1,2)
    by (cases "RegisterResources L C S V g (role_of L r img)")
      (use p reporting_ok_iff [of "after_key L r node key" cc L bv img for node] in simp_all)
next
  case False
  have "\<not> is_ok (cluster_RegisterResources L C S V bv g r)"
    using False unfolding cluster_register_eq is_ok_iff bind_o_Ok_iff by blast
  then show ?thesis using False key_ok_iff [of L r] by auto
qed

text \<open>
  C35: When a cluster can be registered: exactly when its specification has a cluster configuration
  with sensitive properties, an image with a pull policy and a nodes section, the merges of every
  role group succeed, an authentication is configured and resolved if there is any role group, and,
  if the reporting task is enabled for a 1.x version, some role group has a name and none named by
  the empty string has replicas. Every other specification, one with an absent optional section
  included, ends in an error or a nil dereference before anything is applied.
\<close>

theorem registration_succeeds_iff:
  fixes C :: "'c configmap_pkg" and S :: "'s statefulset_pkg" and V :: "'v service_pkg"
  assumes "image_laws L"
  shows "is_ok (cluster_RegisterResources L C S V bv g (cluster_NewReconciler ci spec)) \<longleftrightarrow>
    (\<exists>cc i nodes. ClusterConfig spec = Some cc \<and> SensitiveProperties cc \<noteq> None \<and>
       spec_Image spec = Some i \<and> img_PullPolicy i \<noteq> None \<and> Nodes spec = Some nodes \<and>
       (\<forall>e \<in> set (RoleGroups nodes). group_merges L nodes e) \<and>
       (RoleGroups nodes \<noteq> [] \<longrightarrow> (\<exists>auths a. Authentication cc = Some auths \<and> NewAuthentication g (ci_ClusterName ci) auths = Ok a)) \<and>
       ((\<exists>job. CreateReportingTaskJob cc = Some job \<and> Enable job) \<and> HasPrefix (img_ProductVersion i) ''1.'' \<longrightarrow>
          (\<exists>e \<in> set (RoleGroups nodes). fst e \<noteq> []) \<and>
          (\<forall>e \<in> set (RoleGroups nodes). fst e = [] \<longrightarrow> \<not> has_replicas (snd e))))"
    (is "is_ok ?reg \<longleftrightarrow> (\<exists>cc i nodes. ?spec cc i nodes)")
proof -
  let ?r = "cluster_NewReconciler ci spec :: ('c, 's, 'v) ClusterReconciler"
  have auth: "(\<exists>a. getAuthentication g ?r = Ok (Some a)) \<longleftrightarrow>
      (\<exists>auths a. Authentication cc = Some auths \<and> NewAuthentication g (ci_ClusterName ci) auths = Ok a)"
    if "ClusterConfig spec = Some cc" for cc
    using that by (simp add: getAuthentication_Some)
  have enabled: "reporting_enabled cc img \<longleftrightarrow>
      (\<exists>job. CreateReportingTaskJob cc = Some job \<and> Enable job) \<and> HasPrefix (img_ProductVersion i) ''1.''"
    if "GetImage L bv ?r = Ok img" "spec_Image spec = Some i" for cc img i
    using image_version [OF assms, of ?r i bv img] that
    by (auto simp: reporting_enabled_def DefaultProductVersion_def split: option.splits)
  show ?thesis
  proof
    assume "is_ok ?reg"
    then obtain img cc where c: "GetImage L bv ?r = Ok img" "ClusterConfig spec = Some cc" "SensitiveProperties cc \<noteq> None"
      "is_ok (RegisterResources L C S V g (role_of L ?r img))"
      "reporting_enabled cc img \<longrightarrow> is_ok (getReportingTaskServiceSelectorPod (ci_ClusterName ci) (Nodes spec))"
      unfolding cluster_ok_iff by auto
    from c(1) image_ok_iff [of L bv ?r] obtain i where i: "spec_Image spec = Some i" "img_PullPolicy i \<noteq> None" by auto
    from c(4) obtain nodes where n: "Nodes spec = Some nodes" "\<forall>e \<in> set (RoleGroups nodes). group_merges L nodes e"
      "RoleGroups nodes \<noteq> [] \<longrightarrow> (\<exists>a. getAuthentication g ?r = Ok (Some a))"
      unfolding register_ok_iff by auto
    have "?spec cc i nodes"
      using c(2,3,5) i n auth [OF c(2)] enabled [OF c(1) i(1), of cc] selector_pod_ok_iff [of "ci_ClusterName ci" nodes] by simp
    then show "\<exists>cc i nodes. ?spec cc i nodes" by blast
  next
    assume "\<exists>cc i nodes. ?spec cc i nodes"
    then obtain cc i nodes where s: "?spec cc i nodes" by blast
    with image_ok_iff [of L bv ?r] obtain img where img: "GetImage L bv ?r = Ok img" by (auto simp: is_ok_iff)
    have "is_ok (RegisterResources L C S V g (role_of L ?r img))" using s auth [of cc] unfolding register_ok_iff by simp
    moreover have "is_ok (getAuthentication g ?r) \<and> is_ok (getReportingTaskServiceSelectorPod (ci_ClusterName ci) (Nodes spec))"
      if "reporting_enabled cc img"
    proof
      have named: "\<exists>e \<in> set (RoleGroups nodes). fst e \<noteq> []" "\<forall>e \<in> set (RoleGroups nodes). fst e = [] \<longrightarrow> \<not> has_replicas (snd e)"
        using that s enabled [OF img, of i cc] by auto
      then have "RoleGroups nodes \<noteq> []" by auto
      then show "is_ok (getAuthentication g ?r)" using s auth [of cc] by (auto simp: is_ok_iff)
      show "is_ok (getReportingTaskServiceSelectorPod (ci_ClusterName ci) (Nodes spec))"
        using s named by (simp add: selector_pod_ok_iff)
    qed
    ultimately show "is_ok ?reg" using s img unfolding cluster_ok_iff by auto
  qed
qed

text \<open>For a valid specification the registration succeeds.\<close>

lemma cluster_registration_succeeds:
  fixes C :: "'c configmap_pkg" and S :: "'s statefulset_pkg" and V :: "'v service_pkg"
  assumes "ClusterConfig spec = Some cc" "spec_Image spec = Some i" "img_PullPolicy i \<noteq> None" "SensitiveProperties cc \<noteq> None"
    and "Nodes spec = Some nodes" "RoleGroups nodes \<noteq> []" "\<forall>e \<in> set (RoleGroups nodes). fst e \<noteq> []"
    and "Authentication cc = Some auths" "NewAuthentication g (ci_ClusterName ci) auths = Ok a"
    and "\<forall>e \<in> set (RoleGroups nodes). group_merges L nodes e"
  shows "is_ok (cluster_RegisterResources L C S V bv g (cluster_NewReconciler ci spec))"
proof -
  let ?r = "cluster_NewReconciler ci spec :: ('c, 's, 'v) ClusterReconciler"
  have auth: "getAuthentication g ?r = Ok (Some a)" using assms(1,8,9) by (simp add: getAuthentication_def)
  obtain img where img: "GetImage L bv ?r = Ok img" using assms(2,3) image_ok_iff [of L bv ?r] by (auto simp: is_ok_iff)
  have "is_ok (RegisterResources L C S V g (role_of L ?r img))" using assms(5,10) auth unfolding register_ok_iff by simp
  moreover have "is_ok (getReportingTaskServiceSelectorPod (ci_ClusterName ci) (Nodes spec))"
    using assms(5-7) by (cases "RoleGroups nodes") (auto simp: selector_pod_ok_iff)
  ultimately show ?thesis using assms(1,4) auth img unfolding cluster_ok_iff by auto
qed

definition demo_spec :: "ClusterConfigSpec \<Rightarrow> string \<Rightarrow> NifiClusterSpec" where
  "demo_spec cc v =
     \<lparr>ClusterConfig = Some cc, ClusterOperation = None,
      spec_Image = Some \<lparr>img_Custom = [], img_Repo = ''quay.io'', img_KubedoopVersion = [], img_ProductVersion = v,
        img_PullPolicy = Some PullIfNotPresent, img_PullSecretName = ''regcred''\<rparr>,
      Nodes = Some (demo_nodes two_groups)\<rparr>"

definition full_config :: "TlsSpec option \<Rightarrow> ClusterConfigSpec" where
  "full_config tls = (auth_cluster_config (Some [users_spec]))\<lparr>Tls := tls,
     CreateReportingTaskJob := Some \<lparr>Enable = True, PodOverrides = None\<rparr>,
     SensitiveProperties := Some \<lparr>Algorithm = ''NIFI_PBKDF2_AES_GCM_256'', AutoGenerate = True, KeySecret = ''key''\<rparr>\<rparr>"

definition demo_cluster_info :: ClusterInfo where
  "demo_cluster_info = ri_ClusterInfo (rgi_RoleInfo (demo_info ''default''))"

lemma full_config_fields [simp]:
  "Authentication (full_config tls) = Some [users_spec]" "Tls (full_config tls) = tls"
  "SensitiveProperties (full_config tls) = Some \<lparr>Algorithm = ''NIFI_PBKDF2_AES_GCM_256'', AutoGenerate = True, KeySecret = ''key''\<rparr>"
  "CreateReportingTaskJob (full_config tls) = Some \<lparr>Enable = True, PodOverrides = None\<rparr>"
  by (simp_all add: full_config_def auth_cluster_config_def)

lemma kubedoop_merge [simp]: "is_ok (MergeConfig kubedoop x y)" "is_ok (MergeOverrides kubedoop u v)"
  by (simp_all add: kubedoop_def)

lemma kubedoop_group_merges [simp]: "group_merges kubedoop nodes e"
  by (simp add: group_merges_def)

lemma demo_registers:
  "is_ok (cluster_RegisterResources kubedoop plain_configmaps plain_sts plain_services ''0.0.0-dev'' static_class
     (cluster_NewReconciler demo_cluster_info (demo_spec (full_config tls) v)))"
  by (rule cluster_registration_succeeds [OF _ _ _ _ _ _ _ full_config_fields(1) static_authentication])
    (simp add: demo_spec_def demo_nodes_def two_groups_def)+

definition demo_group_unnamed :: NifiClusterSpec where
  "demo_group_unnamed = (demo_spec (full_config None) ''1.28.1'')\<lparr>Nodes := Some (demo_nodes [([], demo_group (Some 1))])\<rparr>"

theorem registration_succeeds_iff_witness:
  "is_ok (cluster_RegisterResources kubedoop plain_configmaps plain_sts plain_services ''0.0.0-dev'' static_class
     (cluster_NewReconciler demo_cluster_info (demo_spec (full_config None) ''1.28.1''))) \<and>
   \<not> is_ok (cluster_RegisterResources kubedoop plain_configmaps plain_sts plain_services ''0.0.0-dev'' static_class
     (cluster_NewReconciler demo_cluster_info demo_group_unnamed))"
  unfolding registration_succeeds_iff [OF kubedoop_image_laws]
  by (simp add: demo_group_unnamed_def demo_spec_def demo_nodes_def two_groups_def static_authentication has_replicas_def demo_group_def)

text \<open>
  C6: What is registered. After the three RBAC resources come the node role, the sensitive key
  reconciler for the configured secret and, exactly when the job is enabled and the product
  version is 1.x, the service and the job of the reporting task. The job talks to the HTTPS
  port with TLS and to the HTTP port without, the service has that port, and the metrics port
  is the one the NiFi container declares.
\<close>

theorem cluster_resources:
  fixes C :: "'c configmap_pkg" and S :: "'s statefulset_pkg" and V :: "'v service_pkg"
  assumes "cluster_RegisterResources L C S V bv g (cluster_NewReconciler ci spec) = Ok r'"
  shows "\<exists>cc sp img node key rep. ClusterConfig spec = Some cc \<and> SensitiveProperties cc = Some sp \<and>
    GetImage L bv (cluster_NewReconciler ci spec :: ('c, 's, 'v) ClusterReconciler) = Ok img \<and>
    cr_Resources r' = rbac_resources L (cluster_NewReconciler ci spec) @ [NodeRes node, SensitiveKeyRes key] @ rep \<and>
    skb_Name (skr_Builder key) = KeySecret sp \<and> autoGenerated key = AutoGenerate sp \<and>
    (\<not> reporting_enabled cc img \<longrightarrow> rep = []) \<and>
    (reporting_enabled cc img \<longrightarrow> (\<exists>svc job. rep = [ReportingServiceRes svc, ReportingJobRes job] \<and>
       rtb_HttpsPort job = (if Tls cc = None then 8088 else 9443) \<and> rtb_MetricsPort job = GetPort ''metrics'' \<and>
       rtb_TlsEnabled job = (Tls cc \<noteq> None) \<and>
       (service_laws V \<longrightarrow> svc_Ports (SvcGetObject V svc) = [\<lparr>port_Name = ''https'', port_ContainerPort = rtb_HttpsPort job\<rparr>] \<and>
          meta_Name (svc_Meta (SvcGetObject V svc)) = ReportingTaskServiceName (rtb_ClusterName job))))"
proof (rule cluster_register_OkD [OF assms new_cluster(1)])
  let ?r = "cluster_NewReconciler ci spec :: ('c, 's, 'v) ClusterReconciler"
  fix cc img node key rep
  assume cc: "cr_ClusterConfig ?r = Some cc" and img: "GetImage L bv ?r = Ok img" and key: "sensitiveKeyReconciler L ?r = Ok key"
    and res: "cr_Resources r' = rbac_resources L ?r @ [NodeRes node, SensitiveKeyRes key] @ rep"
    and off: "\<not> reporting_enabled cc img \<Longrightarrow> rep = []"
    and on: "reporting_enabled cc img \<Longrightarrow> \<exists>auth svc. getAuthentication g ?r = Ok auth \<and>
       NewReportingTaskServiceReconciler L V (ci_ClusterName (cr_ClusterInfo ?r)) (Nodes (cr_Spec ?r))
         (if Tls cc \<noteq> None then GetPort ''https'' else GetPort ''http'') (cluster_options L ?r) = Ok svc \<and>
       rep = [ReportingServiceRes svc, ReportingJobRes (reporting_job L ?r cc img auth)]"
  from key cc obtain sp where sp: "SensitiveProperties cc = Some sp"
    "key = NewSensitiveKeyReconciler (KeySecret sp) (AutoGenerate sp) (cluster_options L ?r)"
    by (auto simp: sensitiveKeyReconciler_def outcome_simps)
  have ports: "GetPort ''https'' = 9443" "GetPort ''http'' = 8088" "GetPort ''metrics'' = 8081"
    by (simp_all add: GetPort_def Ports_def)
  have "\<exists>svc job. rep = [ReportingServiceRes svc, ReportingJobRes job] \<and>
       rtb_HttpsPort job = (if Tls cc = None then 8088 else 9443) \<and> rtb_MetricsPort job = GetPort ''metrics'' \<and>
       rtb_TlsEnabled job = (Tls cc \<noteq> None) \<and>
       (service_laws V \<longrightarrow> svc_Ports (SvcGetObject V svc) = [\<lparr>port_Name = ''https'', port_ContainerPort = rtb_HttpsPort job\<rparr>] \<and>
          meta_Name (svc_Meta (SvcGetObject V svc)) = ReportingTaskServiceName (rtb_ClusterName job))"
    if "reporting_enabled cc img"
    using on [OF that]
    by (auto simp: reporting_job_def NewReportingTaskJobReconciler_def NewReportingTaskJobBuilder_def ports bind_o_Ok_iff Let_def
        NewReportingTaskServiceReconciler_def NewReportingTaskServiceBuilder_def service_laws_def)
  with cc img res off sp show ?thesis
    by (intro exI [of _ cc] exI [of _ sp] exI [of _ img] exI [of _ node] exI [of _ key] exI [of _ rep])
      (simp add: NewSensitiveKeyReconciler_def NewSensitiveKeyBuilder_def)
qed

theorem cluster_resources_witness:
  "\<exists>r' node key svc job. cluster_RegisterResources kubedoop plain_configmaps plain_sts plain_services ''0.0.0-dev'' static_class
     (cluster_NewReconciler demo_cluster_info (demo_spec (full_config None) ''1.28.1'')) = Ok r' \<and>
     drop 3 (cr_Resources r') = [NodeRes node, SensitiveKeyRes key, ReportingServiceRes svc, ReportingJobRes job] \<and> rtb_HttpsPort job = 8088"
proof -
  let ?r = "cluster_NewReconciler demo_cluster_info (demo_spec (full_config None) ''1.28.1'') :: (ConfigMap, plain_builder, Service) ClusterReconciler"
  obtain r' where r': "cluster_RegisterResources kubedoop plain_configmaps plain_sts plain_services ''0.0.0-dev'' static_class ?r = Ok r'"
    using demo_registers by (auto simp: is_ok_iff)
  from cluster_resources [OF r'] obtain cc img node key rep where
    "ClusterConfig (demo_spec (full_config None) ''1.28.1'') = Some cc" and img: "GetImage kubedoop ''0.0.0-dev'' ?r = Ok img"
    and res: "cr_Resources r' = rbac_resources kubedoop ?r @ [NodeRes node, SensitiveKeyRes key] @ rep"
    and on: "reporting_enabled cc img \<longrightarrow> (\<exists>svc job. rep = [ReportingServiceRes svc, ReportingJobRes job] \<and>
       rtb_HttpsPort job = (if Tls cc = None then 8088 else 9443))"
    by blast
  then have cc: "cc = full_config None" by (simp add: demo_spec_def)
  have "reporting_enabled cc img"
    using img by (auto simp: cc reporting_enabled_def GetImage_def demo_spec_def kubedoop_def Let_def)
  with on obtain svc job where "rep = [ReportingServiceRes svc, ReportingJobRes job]" "rtb_HttpsPort job = 8088"
    by (auto simp: cc)
  with r' res show ?thesis by (simp add: rbac_resources_def Let_def)
qed

lemma registered_resources:
  assumes "cluster_RegisterResources L C S V bv g r = Ok r'" "cr_Resources r = []"
  shows "set (rbac_resources L r) \<subseteq> set (cr_Resources r')"
    and "NodeRes node \<in> set (cr_Resources r') \<Longrightarrow> \<exists>img. RegisterResources L C S V g (role_of L r img) = Ok node"
  by (rule cluster_register_OkD [OF assms]; force simp: rbac_resources_def Let_def)+

definition permits :: "PolicyRule list \<Rightarrow> string \<Rightarrow> string \<Rightarrow> string \<Rightarrow> bool" where
  "permits rules grp res verb \<longleftrightarrow>
     list_ex (\<lambda>ru. grp \<in> set (rule_APIGroups ru) \<and> res \<in> set (rule_Resources ru) \<and> verb \<in> set (rule_Verbs ru)) rules"

text \<open>
  C13: The RBAC resources cover the pods. The role binding gives the role to the service account
  that is created, the role permits every operation on leases and config maps that the
  Kubernetes-native leader election and state provider use, and whatever the library's builders
  and the pod overrides do, the pod template of every registered stateful set that is built runs
  under that service account.
\<close>

theorem rbac_covers_pods:
  assumes "cluster_RegisterResources L C S V bv g (cluster_NewReconciler ci spec) = Ok r'"
  shows "\<exists>sa role opt name rules. {ServiceAccountRes sa opt, RoleRes role opt rules, RoleBindingRes name opt [sa] role False} \<subseteq> set (cr_Resources r') \<and>
    list_all (\<lambda>verb. permits rules ''coordination.k8s.io'' ''leases'' verb \<and> permits rules [] ''configmaps'' verb)
      [''get'', ''list'', ''watch'', ''create'', ''update'', ''patch'', ''delete''] \<and>
    (\<forall>node s B st. NodeRes node \<in> set (cr_Resources r') \<longrightarrow> StatefulSetRes s \<in> set (nr_Resources node) \<longrightarrow>
       StatefulSet_Build L B S (sr_Builder s) = Ok (ObjStatefulSet st) \<longrightarrow> pod_ServiceAccountName (sts_Pod st) = sa)"
proof -
  let ?n = "ci_ClusterName ci"
  let ?opt = "no_options\<lparr>o_ClusterName := ?n, o_Labels := ClusterLabels L ci, o_Annotations := ClusterAnnotations L ci\<rparr>"
  have "{ServiceAccountRes (NifiServiceAccountName ?n) ?opt, RoleRes (?n @ ''-nifi'') ?opt rbac_rules,
      RoleBindingRes (?n @ ''-nifi'') ?opt [NifiServiceAccountName ?n] (?n @ ''-nifi'') False} \<subseteq> set (cr_Resources r')"
    using registered_resources(1) [OF assms new_cluster(1)] by (simp add: rbac_resources_def Let_def cluster_options_def)
  moreover have "list_all (\<lambda>verb. permits rbac_rules ''coordination.k8s.io'' ''leases'' verb \<and> permits rbac_rules [] ''configmaps'' verb)
      [''get'', ''list'', ''watch'', ''create'', ''update'', ''patch'', ''delete'']"
    by (simp add: permits_def rbac_rules_def rbac_verbs_def)
  moreover have "pod_ServiceAccountName (sts_Pod st) = NifiServiceAccountName ?n"
    if "NodeRes node \<in> set (cr_Resources r')" "StatefulSetRes s \<in> set (nr_Resources node)"
      "StatefulSet_Build L B S (sr_Builder s) = Ok (ObjStatefulSet st)" for node s B st
  proof -
    from registered_resources(2) [OF assms new_cluster(1) that(1)] obtain img where
      "RegisterResources L C S V g (role_of L (cluster_NewReconciler ci spec) img) = Ok node" ..
    from role_statefulsets [OF this _ that(2)] statefulset_account [OF that(3)] show ?thesis
      by (simp add: role_of_def node_NewReconciler_def)
  qed
  ultimately show ?thesis by blast
qed

theorem rbac_covers_pods_witness:
  "\<exists>r' sa opt. cluster_RegisterResources kubedoop plain_configmaps plain_sts plain_services ''0.0.0-dev'' static_class
     (cluster_NewReconciler demo_cluster_info (demo_spec (full_config None) ''2.4.0'')) = Ok r' \<and>
     ServiceAccountRes sa opt \<in> set (cr_Resources r')"
proof -
  obtain r' where r': "cluster_RegisterResources kubedoop plain_configmaps plain_sts plain_services ''0.0.0-dev'' static_class
     (cluster_NewReconciler demo_cluster_info (demo_spec (full_config None) ''2.4.0'')) = Ok r'"
    using demo_registers [of None "''2.4.0''"] unfolding is_ok_iff by blast
  from rbac_covers_pods [OF r'] r' show ?thesis by blast
qed

text \<open>
  NiFi accepts the job's requests only with TLS. The host that \<^verbatim>\<open>nifi.web.proxy.host\<close> admits
  always carries the HTTPS port, while the URL of the job carries the HTTP port when TLS is off:
  the URL names the admitted host and port exactly when TLS is configured.
\<close>

theorem proxy_host_admits_job_iff_tls:
  assumes "reporting_enabled cc img" "ncb_ClusterName b = ci_ClusterName (cr_ClusterInfo r)" "ncb_Image b = Some img"
  shows "\<exists>h. (''nifi.web.proxy.host'', h) \<in> set (nifi_properties L b cc) \<and>
    ((\<exists>scheme. nifiConnectURL (reporting_job L r cc img auth) = scheme @ ''://'' @ h @ ''/nifi-api'' \<and>
        scheme \<in> {''http'', ''https''}) \<longleftrightarrow> Tls cc \<noteq> None)"
proof -
  let ?h = "reportingTaskFQDN L (ci_ClusterName (cr_ClusterInfo r))" and ?job = "reporting_job L r cc img auth"
  let ?f = "ReportingTaskFQDNServiceName (ci_ClusterName (cr_ClusterInfo r)) (GetOwnerNamespace L)"
  have h: "?h = ?f @ '':'' @ Format32 9443"
    by (simp add: reportingTaskFQDN_def ReportingTaskFQDNServiceName_def ReportingTaskServiceName_def ReportingTaskContainerName_def
        getPort_def GetPort_def Ports_def)
  have url: "nifiConnectURL ?job = (if Tls cc \<noteq> None then ''https'' else ''http'') @ ''://'' @ ?f @ '':'' @
      Format32 (if Tls cc \<noteq> None then 9443 else 8088) @ ''/nifi-api''"
    by (simp add: nifiConnectURL_def reporting_job_def NewReportingTaskJobReconciler_def NewReportingTaskJobBuilder_def Let_def
        GetPort_def Ports_def)
  have "proxy_enabled (ncb_Image b) cc" using assms(1,3) by (auto simp: proxy_enabled_def reporting_enabled_def)
  then have "(''nifi.web.proxy.host'', ?h) \<in> set (nifi_properties L b cc)"
    by (simp add: nifi_properties_def Let_def proxy_properties_def assms(2))
  moreover have "(\<exists>scheme. nifiConnectURL ?job = scheme @ ''://'' @ ?h @ ''/nifi-api'' \<and> scheme \<in> {''http'', ''https''}) \<longleftrightarrow> Tls cc \<noteq> None"
    unfolding url h by (cases "Tls cc") auto
  ultimately show ?thesis by blast
qed

definition v1_image :: Image where
  "v1_image = demo_image\<lparr>im_ProductVersion := ''1.28.1''\<rparr>"

definition v1_config_builder :: "ConfigMap NifiConfigMapBuilder" where
  "v1_config_builder = (demo_config_builder (full_config None) None)\<lparr>ncb_Image := Some v1_image\<rparr>"

definition v1_cluster :: "(ConfigMap, plain_builder, Service) ClusterReconciler" where
  "v1_cluster = cluster_NewReconciler demo_cluster_info (demo_spec (full_config None) ''1.28.1'')"

theorem proxy_host_admits_job_iff_tls_witness:
  "\<exists>h. (''nifi.web.proxy.host'', h) \<in> set (nifi_properties kubedoop v1_config_builder (full_config None)) \<and>
     nifiConnectURL (reporting_job kubedoop v1_cluster (full_config None) v1_image None) \<noteq> ''http'' @ ''://'' @ h @ ''/nifi-api''"
proof -
  have 1: "reporting_enabled (full_config None) v1_image" by (simp add: reporting_enabled_def v1_image_def)
  have 2: "ncb_ClusterName v1_config_builder = ci_ClusterName (cr_ClusterInfo v1_cluster)"
    by (simp add: v1_config_builder_def v1_cluster_def demo_config_builder_def NewConfigReconciler_def NewNifiConfigBuilder_def
        demo_cluster_info_def rgi_ClusterName_def)
  have 3: "ncb_Image v1_config_builder = Some v1_image" by (simp add: v1_config_builder_def)
  obtain h where h: "(''nifi.web.proxy.host'', h) \<in> set (nifi_properties kubedoop v1_config_builder (full_config None))"
    "(\<exists>scheme. nifiConnectURL (reporting_job kubedoop v1_cluster (full_config None) v1_image None) = scheme @ ''://'' @ h @ ''/nifi-api'' \<and>
        scheme \<in> {''http'', ''https''}) \<longleftrightarrow> Tls (full_config None) \<noteq> None"
    using proxy_host_admits_job_iff_tls [OF 1 2 3, of kubedoop None] by blast
  have "Tls (full_config None) = None" by simp
  with h show ?thesis by blast
qed

text \<open>
  The image. The product version is the one of the specification or the default, a given
  kubedoop version overrides the operator's own, and an absent image or pull policy is a nil
  dereference. The pull secret of the specification is never passed on: the image has none, so
  the job, which would add it to its pod, has no pull secret either.
\<close>

theorem image_from_spec:
  assumes "image_laws L"
  shows "(GetImage L bv r = Panic \<longleftrightarrow> (\<forall>i. spec_Image (cr_Spec r) = Some i \<longrightarrow> img_PullPolicy i = None)) \<and>
    (\<forall>img. GetImage L bv r = Ok img \<longrightarrow>
       (\<exists>i. spec_Image (cr_Spec r) = Some i \<and>
         im_ProductVersion img = (if img_ProductVersion i = [] then ''2.4.0'' else img_ProductVersion i) \<and>
         (img_KubedoopVersion i \<noteq> [] \<longrightarrow> im_KubedoopVersion img = img_KubedoopVersion i)) \<and>
       im_PullSecretName img = [] \<and>
       (\<forall>auth cc j. ReportingTaskJob_Build L (reporting_job L r cc img auth) = Ok (ObjJob j) \<longrightarrow> pod_ImagePullSecrets (job_Pod j) = []))"
proof (intro conjI allI impI)
  show "GetImage L bv r = Panic \<longleftrightarrow> (\<forall>i. spec_Image (cr_Spec r) = Some i \<longrightarrow> img_PullPolicy i = None)"
    by (cases "spec_Image (cr_Spec r)") (auto simp: GetImage_def Let_def outcome_simps)
  fix img
  assume img: "GetImage L bv r = Ok img"
  then obtain i pp where i: "spec_Image (cr_Spec r) = Some i" "img_PullPolicy i = Some pp"
    by (auto simp: GetImage_def Let_def outcome_simps)
  show "\<exists>i. spec_Image (cr_Spec r) = Some i \<and>
         im_ProductVersion img = (if img_ProductVersion i = [] then ''2.4.0'' else img_ProductVersion i) \<and>
         (img_KubedoopVersion i \<noteq> [] \<longrightarrow> im_KubedoopVersion img = img_KubedoopVersion i)"
    using img i assms by (intro exI [of _ i]) (auto simp: GetImage_def Let_def image_laws_def DefaultProductVersion_def)
  show pull: "im_PullSecretName img = []"
    using img i assms by (auto simp: GetImage_def Let_def image_laws_def)
  fix auth cc j
  assume "ReportingTaskJob_Build L (reporting_job L r cc img auth) = Ok (ObjJob j)"
  then show "pod_ImagePullSecrets (job_Pod j) = []"
    using pull by (auto simp: ReportingTaskJob_Build_def bind_o_Ok_iff reporting_job_def NewReportingTaskJobReconciler_def NewReportingTaskJobBuilder_def)
qed

theorem image_from_spec_witness:
  "\<exists>img. GetImage kubedoop ''0.0.0-dev'' (cluster_NewReconciler demo_cluster_info (demo_spec (full_config None) []) :: (ConfigMap, plain_builder, Service) ClusterReconciler) = Ok img \<and>
     im_ProductVersion img = ''2.4.0'' \<and> im_PullSecretName img = []"
proof -
  let ?r = "cluster_NewReconciler demo_cluster_info (demo_spec (full_config None) []) :: (ConfigMap, plain_builder, Service) ClusterReconciler"
  obtain img where img: "GetImage kubedoop ''0.0.0-dev'' ?r = Ok img"
    by (simp add: GetImage_def demo_spec_def Let_def)
  have "img_ProductVersion i = []" if "spec_Image (cr_Spec ?r) = Some i" for i
    using that by (auto simp: demo_spec_def)
  with image_from_spec [OF kubedoop_image_laws, of "''0.0.0-dev''" ?r] img show ?thesis by auto
qed

end
