(* ===== verification/Controller.thy ===== *)
theory Controller
  imports Cluster
begin

section \<open>Controller: one reconciliation of a NifiCluster\<close>

text \<open>
  \<^verbatim>\<open>internal/controller/nificluster_controller.go\<close>. The API server's \<^verbatim>\<open>Get\<close> and the library's
  \<^verbatim>\<open>Run\<close> are parameters: \<open>getCluster\<close> reads the resource, \<open>run\<close> reconciles the registered
  resources and changes the world. Fetching and registering only read the world.
\<close>

record CtrlRequest =
  req_Name :: string
  req_Namespace :: string

definition cluster_info :: "NifiCluster \<Rightarrow> ClusterInfo" where
  "cluster_info instance =
     \<lparr>ci_GVK = \<lparr>gvk_Group = fst GroupVersion, gvk_Version = snd GroupVersion, gvk_Kind = ''NifiCluster''\<rparr>,
      ci_ClusterName = nc_Name instance\<rparr>"

definition Reconcile ::
    "operator_go \<Rightarrow> 'c configmap_pkg \<Rightarrow> 's statefulset_pkg \<Rightarrow> 'v service_pkg \<Rightarrow> string \<Rightarrow> ('w \<Rightarrow> class_lookup)
      \<Rightarrow> ('w \<Rightarrow> string \<Rightarrow> string \<Rightarrow> NifiCluster outcome)
      \<Rightarrow> (('c, 's, 'v) ClusterReconciler \<Rightarrow> 'w \<Rightarrow> CtrlResult outcome \<times> 'w)
      \<Rightarrow> CtrlRequest \<Rightarrow> 'w \<Rightarrow> CtrlResult outcome \<times> 'w" where
  "Reconcile L C S V buildVersion getClass getCluster run req w =
     (case getCluster w (req_Namespace req) (req_Name req) of
        Err e \<Rightarrow> if \<not> not_ignored e then (Ok empty_result, w) else (Err e, w)
      | Panic \<Rightarrow> (Panic, w)
      | Ok instance \<Rightarrow>
          (case cluster_RegisterResources L C S V buildVersion (getClass w)
                  (cluster_NewReconciler (cluster_info instance) (nc_Spec instance)) of
             Err e \<Rightarrow> (Err e, w)
           | Panic \<Rightarrow> (Panic, w)
           | Ok reconciler \<Rightarrow> run reconciler w))"

subsection \<open>The permissions of the operator\<close>

text \<open>
  The \<^verbatim>\<open>kubebuilder:rbac\<close> markers of the controller, from which its cluster role is generated
  (\<^verbatim>\<open>groups=core\<close> is the empty API group), and the API group and resource of each registered
  reconciler's object.
\<close>

definition rbac_marker :: "string \<Rightarrow> string \<Rightarrow> string list \<Rightarrow> PolicyRule" where
  "rbac_marker grp res verbs = \<lparr>rule_APIGroups = [grp], rule_Resources = [res], rule_Verbs = verbs\<rparr>"

definition operator_rules :: "PolicyRule list" where
  "operator_rules =
     (let all = [''get'', ''list'', ''watch'', ''create'', ''update'', ''patch'', ''delete''] in
      [rbac_marker ''nifi.kubedoop.dev'' ''nificlusters'' all,
       rbac_marker ''nifi.kubedoop.dev'' ''nificlusters/status'' [''get'', ''update'', ''patch''],
       rbac_marker ''nifi.kubedoop.dev'' ''nificlusters/finalizers'' [''update''],
       rbac_marker [] ''serviceaccounts'' all,
       rbac_marker [] ''configmaps'' all,
       rbac_marker [] ''secrets'' all,
       rbac_marker [] ''services'' all,
       rbac_marker ''authentication.kubedoop.dev'' ''authenticationclasses'' [''get'', ''list'', ''watch''],
       rbac_marker ''apps'' ''statefulsets'' all,
       rbac_marker ''batch'' ''jobs'' all,
       rbac_marker ''coordination.k8s.io'' ''leases'' all,
       rbac_marker ''policy'' ''poddisruptionbudgets'' all,
       rbac_marker ''rbac.authorization.k8s.io'' ''roles'' all,
       rbac_marker ''rbac.authorization.k8s.io'' ''rolebindings'' all])"

primrec node_object_type :: "('c, 's, 'v) node_resource \<Rightarrow> string \<times> string" where
  "node_object_type (ConfigRes b) = ([], ''configmaps'')"
| "node_object_type (StatefulSetRes s) = (''apps'', ''statefulsets'')"
| "node_object_type (ServiceRes b) = ([], ''services'')"
| "node_object_type (AdminSecretRes s) = ([], ''secrets'')"

primrec object_types :: "('c, 's, 'v) cluster_resource \<Rightarrow> (string \<times> string) list" where
  "object_types (ServiceAccountRes n opt) = [([], ''serviceaccounts'')]"
| "object_types (RoleRes n opt rules) = [(''rbac.authorization.k8s.io'', ''roles'')]"
| "object_types (RoleBindingRes n opt subjects roleRef isCluster) = [(''rbac.authorization.k8s.io'', ''rolebindings'')]"
| "object_types (NodeRes node) = map node_object_type (nr_Resources node)"
| "object_types (SensitiveKeyRes key) = [([], ''secrets'')]"
| "object_types (ReportingServiceRes svc) = [([], ''services'')]"
| "object_types (ReportingJobRes job) = [(''batch'', ''jobs'')]"

text \<open>The permissions a list of rules grants: API group, resource and verb.\<close>

definition granted :: "PolicyRule list \<Rightarrow> (string \<times> string \<times> string) list" where
  "granted rules =
     concat (map (\<lambda>ru. List.product (rule_APIGroups ru) (List.product (rule_Resources ru) (rule_Verbs ru))) rules)"

lemma permits_granted: "permits rules grp res verb \<longleftrightarrow> (grp, res, verb) \<in> set (granted rules)"
  by (auto simp: permits_def granted_def list_ex_iff)

lemma operator_permits:
  "verb \<in> set rbac_verbs \<Longrightarrow> k \<in> set (object_types c) \<Longrightarrow> permits operator_rules (fst k) (snd k) verb"
proof (induction c)
  case (NodeRes node)
  then obtain res where "res \<in> set (nr_Resources node)" "k = node_object_type res" by auto
  with NodeRes.prems(1) show ?case
    by (cases res) (simp_all add: permits_def operator_rules_def rbac_marker_def rbac_verbs_def Let_def)
qed (simp_all add: permits_def operator_rules_def rbac_marker_def rbac_verbs_def Let_def)

lemma registered_roles:
  assumes "cluster_RegisterResources L C S V bv g (cluster_NewReconciler ci spec) = Ok r" "RoleRes n opt rules \<in> set (cr_Resources r)"
  shows "rules = rbac_rules"
proof (rule cluster_register_OkD [OF assms(1) new_cluster(1)])
  fix cc img node key rep
  let ?r = "cluster_NewReconciler ci spec"
  assume res: "cr_Resources r = rbac_resources L ?r @ [NodeRes node, SensitiveKeyRes key] @ rep"
    and rep: "\<not> reporting_enabled cc img \<Longrightarrow> rep = []"
      "reporting_enabled cc img \<Longrightarrow> \<exists>auth svc. getAuthentication g ?r = Ok auth \<and>
         NewReportingTaskServiceReconciler L V (ci_ClusterName (cr_ClusterInfo ?r)) (Nodes (cr_Spec ?r))
           (if Tls cc \<noteq> None then GetPort ''https'' else GetPort ''http'') (cluster_options L ?r) = Ok svc \<and>
         rep = [ReportingServiceRes svc, ReportingJobRes (reporting_job L ?r cc img auth)]"
  from rep have "RoleRes n opt rules \<notin> set rep" by (cases "reporting_enabled cc img") auto
  with assms(2) res show ?thesis by (auto simp: rbac_resources_def Let_def)
qed

text \<open>
  C18: The permissions the operator asks for are enough for its work: it may read the clusters and
  the authentication classes (with the list and watch of a cached client), create, update and
  delete every object that a registered resource of a cluster stands for, and it holds itself
  every permission of every role it creates, without which the API server refuses the role.
\<close>

theorem operator_permissions_suffice:
  assumes "cluster_RegisterResources L C S V bv g (cluster_NewReconciler ci spec) = Ok r"
  shows "(\<forall>verb \<in> {''get'', ''list'', ''watch''}. permits operator_rules (fst GroupVersion) ''nificlusters'' verb \<and>
      permits operator_rules ''authentication.kubedoop.dev'' ''authenticationclasses'' verb) \<and>
    (\<forall>c \<in> set (cr_Resources r). \<forall>k \<in> set (object_types c). \<forall>verb \<in> set rbac_verbs. permits operator_rules (fst k) (snd k) verb) \<and>
    (\<forall>n opt rules. RoleRes n opt rules \<in> set (cr_Resources r) \<longrightarrow> set (granted rules) \<subseteq> set (granted operator_rules))"
proof (intro conjI)
  show "\<forall>verb \<in> {''get'', ''list'', ''watch''}. permits operator_rules (fst GroupVersion) ''nificlusters'' verb \<and>
      permits operator_rules ''authentication.kubedoop.dev'' ''authenticationclasses'' verb"
    by (simp add: permits_def operator_rules_def rbac_marker_def GroupVersion_def Let_def)
  show "\<forall>c \<in> set (cr_Resources r). \<forall>k \<in> set (object_types c). \<forall>verb \<in> set rbac_verbs. permits operator_rules (fst k) (snd k) verb"
    by (blast intro: operator_permits)
  have "set (granted rbac_rules) \<subseteq> set (granted operator_rules)"
    by (auto simp: permits_granted [symmetric] granted_def rbac_rules_def permits_def operator_rules_def rbac_marker_def rbac_verbs_def Let_def)
  with registered_roles [OF assms]
  show "\<forall>n opt rules. RoleRes n opt rules \<in> set (cr_Resources r) \<longrightarrow> set (granted rules) \<subseteq> set (granted operator_rules)"
    by blast
qed

theorem operator_permissions_suffice_witness:
  "\<exists>r. cluster_RegisterResources kubedoop plain_configmaps plain_sts plain_services ''0.0.0-dev'' static_class
     (cluster_NewReconciler demo_cluster_info (demo_spec (full_config None) ''2.4.0'')) = Ok r \<and>
     list_all (\<lambda>c. list_all (\<lambda>k. permits operator_rules (fst k) (snd k) ''create'') (object_types c)) (cr_Resources r)"
proof -
  obtain r where r: "cluster_RegisterResources kubedoop plain_configmaps plain_sts plain_services ''0.0.0-dev'' static_class
     (cluster_NewReconciler demo_cluster_info (demo_spec (full_config None) ''2.4.0'')) = Ok r"
    using demo_registers [of None "''2.4.0''"] unfolding is_ok_iff by blast
  have "''create'' \<in> set rbac_verbs" by (simp add: rbac_verbs_def)
  with operator_permissions_suffice [OF r] r show ?thesis unfolding list_all_iff by blast
qed

end
