(* ===== verification/Stability.thy ===== *)
theory Stability
  imports Cluster
begin

section \<open>Stability: the order of the role groups does not matter\<close>

text \<open>
  The role groups of a specification are a Go map (\<^verbatim>\<open>NodesSpec.RoleGroups\<close>), and \<^verbatim>\<open>RegisterResources\<close> of
  \<^verbatim>\<open>controller/node/role.go\<close> ranges over it in an order that differs between reconciliations. Here the
  registration of a whole cluster is shown not to depend on that order: it succeeds for every order or
  for none, and what it registers is the same up to the order of the resources of the node role.
\<close>

subsection \<open>The node role\<close>

lemma mset_concat_perm: "mset xs = mset ys \<Longrightarrow> mset (concat (map f xs)) = mset (concat (map f ys))"
proof -
  assume "mset xs = mset ys"
  then have "mset (map (\<lambda>x. mset (f x)) xs) = mset (map (\<lambda>x. mset (f x)) ys)" by simp
  then have "sum_mset (mset (map (\<lambda>x. mset (f x)) xs)) = sum_mset (mset (map (\<lambda>x. mset (f x)) ys))" by (rule arg_cong)
  then show ?thesis unfolding sum_mset_sum_list by (simp add: mset_concat comp_def)
qed

lemma getAuthentrication_groups: "getAuthentrication g (r\<lparr>nr_Spec := s\<rparr>) = getAuthentrication g r"
  by (simp add: getAuthentrication_def split: option.split)

lemma register_role_group_groups:
  "register_role_group L C S V g (r\<lparr>nr_Spec := s\<rparr>) (spec\<lparr>RoleGroups := gs\<rparr>) e = register_role_group L C S V g r spec e"
  by (simp add: register_role_group_def RegisterResourceWithRoleGroup_def getAuthentrication_groups)

primrec ok_list :: "'a list outcome \<Rightarrow> 'a list" where
  "ok_list (Ok xs) = xs"
| "ok_list (Err e) = []"
| "ok_list Panic = []"

lemma list_all2_Ok_map: "list_all2 (\<lambda>e bs. f e = Ok bs) es bss \<longleftrightarrow> (\<forall>e \<in> set es. is_ok (f e)) \<and> bss = map (\<lambda>e. ok_list (f e)) es"
  by (induction es arbitrary: bss) (auto simp: list_all2_Cons1 is_ok_iff)

lemma role_visiting_order:
  assumes "RegisterResources L C S V g r = Ok node" "nr_Spec r = Some spec" "nr_Resources r = []" "mset gs = mset (RoleGroups spec)"
  shows "\<exists>node'. RegisterResources L C S V g (r\<lparr>nr_Spec := Some (spec\<lparr>RoleGroups := gs\<rparr>)\<rparr>) = Ok node' \<and>
    nr_RoleInfo node' = nr_RoleInfo node \<and> mset (nr_Resources node') = mset (nr_Resources node)"
proof -
  let ?f = "register_role_group L C S V g r spec"
  from assms(1-3) have ok: "\<forall>e \<in> set (RoleGroups spec). is_ok (?f e)" and node: "node = r\<lparr>nr_Resources := concat (map (\<lambda>e. ok_list (?f e)) (RoleGroups spec))\<rparr>"
    by (auto simp: RegisterResources_def register_fold list_all2_Ok_map)
  from ok have "\<forall>e \<in> set gs. is_ok (?f e)" using mset_eq_setD [OF assms(4)] by simp
  then show ?thesis
    using mset_concat_perm [OF assms(4), of "\<lambda>e. ok_list (?f e)"] assms(3)
    by (auto simp: RegisterResources_def register_fold list_all2_Ok_map register_role_group_groups node)
qed

subsection \<open>The cluster\<close>

text \<open>Two registered resources that differ at most in the order of the resources of the node role.\<close>

definition same_resource :: "('c, 's, 'v) cluster_resource \<Rightarrow> ('c, 's, 'v) cluster_resource \<Rightarrow> bool" where
  "same_resource x y \<longleftrightarrow> x = y \<or>
     (\<exists>a b. x = NodeRes a \<and> y = NodeRes b \<and> nr_RoleInfo a = nr_RoleInfo b \<and> mset (nr_Resources a) = mset (nr_Resources b))"

abbreviation visited_as :: "NifiClusterSpec \<Rightarrow> NodesSpec \<Rightarrow> (string, RoleGroupSpec) go_map \<Rightarrow> NifiClusterSpec" where
  "visited_as spec nodes gs \<equiv> spec\<lparr>Nodes := Some (nodes\<lparr>RoleGroups := gs\<rparr>)\<rparr>"

lemma nodes_update_reads:
  fixes r :: "('c, 's, 'v) ClusterReconciler" and x :: "NodesSpec option"
  defines "r' \<equiv> r\<lparr>cr_Spec := (cr_Spec r)\<lparr>Nodes := x\<rparr>\<rparr>"
  shows "GetImage L bv r' = GetImage L bv r" "sensitiveKeyReconciler L r' = sensitiveKeyReconciler L r"
    "getAuthentication g r' = getAuthentication g r" "cluster_options L r' = cluster_options L r"
    "rbac_resources L r' = rbac_resources L r" "reporting_job L r' = reporting_job L r"
    "role_of L r' img = (role_of L r img)\<lparr>nr_Spec := x\<rparr>"
  by (simp_all add: r'_def GetImage_def sensitiveKeyReconciler_def getAuthentication_def cluster_options_def rbac_resources_def reporting_job_def
      role_of_def node_NewReconciler_def fun_eq_iff Let_def split: option.split)

lemma new_cluster_nodes:
  "cluster_NewReconciler ci (spec\<lparr>Nodes := x\<rparr>) =
     (cluster_NewReconciler ci spec)\<lparr>cr_Spec := (cr_Spec (cluster_NewReconciler ci spec))\<lparr>Nodes := x\<rparr>\<rparr>"
  by (simp add: cluster_NewReconciler_def)

text \<open>
  C7: The order in which a reconciliation visits the map of role groups does not matter: if the resources
  of a cluster are registered for one order they are for every order, in the same sequence and with equal
  contents, up to the order of the resources within the node role. In particular the RBAC objects, the
  sensitive key reconciler, the reporting job and the pod selected for it are the same, so that
  the random order of this map causes no change to the cluster between two reconciliations.
\<close>

theorem registration_visiting_order:
  fixes C :: "'c configmap_pkg" and S :: "'s statefulset_pkg" and V :: "'v service_pkg"
  assumes "Nodes spec = Some nodes" "distinct (map fst (RoleGroups nodes))" "mset gs = mset (RoleGroups nodes)"
    and "cluster_RegisterResources L C S V bv g (cluster_NewReconciler ci spec) = Ok r"
  shows "\<exists>r'. cluster_RegisterResources L C S V bv g (cluster_NewReconciler ci (visited_as spec nodes gs)) = Ok r' \<and>
    list_all2 same_resource (cr_Resources r) (cr_Resources r')"
proof -
  let ?r = "cluster_NewReconciler ci spec :: ('c, 's, 'v) ClusterReconciler"
    and ?r' = "cluster_NewReconciler ci (visited_as spec nodes gs) :: ('c, 's, 'v) ClusterReconciler"
  note visited_as_reads = nodes_update_reads [where r = ?r and x = "Some (nodes\<lparr>RoleGroups := gs\<rparr>)", folded new_cluster_nodes]
  from assms(4) new_cluster(1) show ?thesis
  proof (rule cluster_register_OkD)
    fix cc img node key rep
    assume cc: "cr_ClusterConfig ?r = Some cc" and img: "GetImage L bv ?r = Ok img" and key: "sensitiveKeyReconciler L ?r = Ok key"
      and node: "RegisterResources L C S V g (role_of L ?r img) = Ok node"
      and res: "cr_Resources r = rbac_resources L ?r @ [NodeRes node, SensitiveKeyRes key] @ rep"
      and off: "\<not> reporting_enabled cc img \<Longrightarrow> rep = []"
      and on: "reporting_enabled cc img \<Longrightarrow> \<exists>auth svc. getAuthentication g ?r = Ok auth \<and>
        NewReportingTaskServiceReconciler L V (ci_ClusterName (cr_ClusterInfo ?r)) (Nodes (cr_Spec ?r))
          (if Tls cc \<noteq> None then GetPort ''https'' else GetPort ''http'') (cluster_options L ?r) = Ok svc \<and>
        rep = [ReportingServiceRes svc, ReportingJobRes (reporting_job L ?r cc img auth)]"
    have "nr_Spec (role_of L ?r img) = Some nodes" "nr_Resources (role_of L ?r img) = []"
      using assms(1) by (simp_all add: role_of_def node_NewReconciler_def)
    from role_visiting_order [OF node this assms(3)] obtain node' where
      node': "RegisterResources L C S V g (role_of L ?r' img) = Ok node'"
        "nr_RoleInfo node' = nr_RoleInfo node" "mset (nr_Resources node') = mset (nr_Resources node)"
      unfolding visited_as_reads by blast
    let ?a = "after_key L ?r' node' key"
    have a: "cr_ClusterConfig ?a = Some cc" "GetImage L bv ?a = Ok img" using cc img by (simp_all add: visited_as_reads)
    have sel: "NewReportingTaskServiceReconciler L V n (Some (nodes\<lparr>RoleGroups := gs\<rparr>)) p opts = NewReportingTaskServiceReconciler L V n (Some nodes) p opts" for n p opts
      using selector.visiting_order [of "RoleGroups nodes" gs n nodes] assms(2,3)
      by (simp add: NewReportingTaskServiceReconciler_def NewReportingTaskServiceBuilder_def)
    have "registerReportingTaskResources L V bv g ?a = Ok (?a\<lparr>cr_Resources := cr_Resources ?a @ rep\<rparr>)"
    proof (cases "reporting_enabled cc img")
      case True
      with on reporting_registered [OF a True, of V g] show ?thesis
        using assms(1) by (auto simp: visited_as_reads sel)
    next
      case False
      with off reporting_skipped [OF a False] show ?thesis by simp
    qed
    then have "cluster_RegisterResources L C S V bv g ?r' = Ok (?a\<lparr>cr_Resources := cr_Resources ?a @ rep\<rparr>)"
      using img key node'(1) by (simp add: cluster_register_eq visited_as_reads)
    moreover have "list_all2 same_resource (cr_Resources r) (cr_Resources ?a @ rep)"
      using node'(2,3) unfolding res after_key_def
      by (simp add: visited_as_reads list_all2_append list_all2_refl same_resource_def)
    ultimately show ?thesis by (metis ClusterReconciler.select_convs(5) ClusterReconciler.surjective ClusterReconciler.update_convs(5))
  qed
qed

theorem registration_visiting_order_witness:
  "\<exists>r r'. cluster_RegisterResources kubedoop plain_configmaps plain_sts plain_services ''0.0.0-dev'' static_class
       (cluster_NewReconciler demo_cluster_info (demo_spec (full_config None) ''1.28.1'')) = Ok r \<and>
     cluster_RegisterResources kubedoop plain_configmaps plain_sts plain_services ''0.0.0-dev'' static_class
       (cluster_NewReconciler demo_cluster_info
         ((demo_spec (full_config None) ''1.28.1'')\<lparr>Nodes := Some ((demo_nodes two_groups)\<lparr>RoleGroups := rev two_groups\<rparr>)\<rparr>)) = Ok r' \<and>
     list_all2 same_resource (cr_Resources r) (cr_Resources r')"
proof -
  obtain r where r: "cluster_RegisterResources kubedoop plain_configmaps plain_sts plain_services ''0.0.0-dev'' static_class
       (cluster_NewReconciler demo_cluster_info (demo_spec (full_config None) ''1.28.1'')) = Ok r"
    using demo_registers [of None "''1.28.1''"] unfolding is_ok_iff by blast
  have nodes: "Nodes (demo_spec (full_config None) ''1.28.1'') = Some (demo_nodes two_groups)" by (simp add: demo_spec_def)
  have groups: "distinct (map fst (RoleGroups (demo_nodes two_groups)))" "mset (rev two_groups) = mset (RoleGroups (demo_nodes two_groups))"
    by (simp_all add: demo_nodes_def two_groups_def)
  from registration_visiting_order [OF nodes groups r] r show ?thesis by blast
qed

end
