(* ===== verification/DeepCopy.thy ===== *)
theory DeepCopy
  imports Api "HOL-Library.State_Monad"
begin

section \<open>DeepCopy: the generated copies share no memory\<close>

text \<open>
  \<^verbatim>\<open>api/v1alpha1/zz_generated.deepcopy.go\<close>. The controller works on copies of objects that a
  cache shares, so a copy must have the value of the original and no pointer, slice or map in
  common with it. Here the types of the resource are given as they lie in memory: a non-nil
  pointer, slice or map carries the address of what it points to, and a copy runs in a state
  monad over the next free address, which \<^verbatim>\<open>new\<close> and \<^verbatim>\<open>make\<close> advance. A struct assignment
  \<^verbatim>\<open>*out = *in\<close> shares every address; the calls after it replace the shared parts.
  \<open>addrs\<close> lists the addresses a value reaches, \<open>erase\<close> forgets them (a value up to aliasing,
  with nil kept apart from empty). The structs of other modules are values of a type variable
  with the copy function as a parameter.
\<close>

subsection \<open>Memory\<close>

type_synonym addr = nat
type_synonym 'a ptr = "(addr \<times> 'a) option"
type_synonym 'a slice = "'a list ptr"
type_synonym 'a copying = "(addr, 'a) state"

definition new :: "addr copying" where
  "new = State (\<lambda>n. (n, Suc n))"

text \<open>\<^verbatim>\<open>if in.F != nil { *out = new(T); (*in).DeepCopyInto(*out) }\<close>\<close>

definition copy_ptr :: "('a \<Rightarrow> 'a copying) \<Rightarrow> 'a ptr \<Rightarrow> 'a ptr copying" where
  "copy_ptr c p =
     (case p of
        None \<Rightarrow> State_Monad.return None
      | Some (a, v) \<Rightarrow> do { a' \<leftarrow> new; v' \<leftarrow> c v; State_Monad.return (Some (a', v')) })"

text \<open>\<^verbatim>\<open>*out = make([]T, len(*in)); for i := range *in { (*in)[i].DeepCopyInto(&(*out)[i]) }\<close>\<close>

definition copy_slice :: "('a \<Rightarrow> 'a copying) \<Rightarrow> 'a slice \<Rightarrow> 'a slice copying" where
  "copy_slice c = copy_ptr (traverse_list c)"

text \<open>\<^verbatim>\<open>*out = make(map[K]V, len(*in)); for key, val := range *in { (*out)[key] = copy of val }\<close>\<close>

definition copy_entry :: "('v \<Rightarrow> 'v copying) \<Rightarrow> 'k \<times> 'v \<Rightarrow> ('k \<times> 'v) copying" where
  "copy_entry c e = do { v \<leftarrow> c (snd e); State_Monad.return (fst e, v) }"

definition copy_map :: "('v \<Rightarrow> 'v copying) \<Rightarrow> ('k, 'v) go_map ptr \<Rightarrow> ('k, 'v) go_map ptr copying" where
  "copy_map c = copy_ptr (traverse_list (copy_entry c))"

definition addrs_ptr :: "('a \<Rightarrow> addr list) \<Rightarrow> 'a ptr \<Rightarrow> addr list" where
  "addrs_ptr A p = (case p of None \<Rightarrow> [] | Some (a, v) \<Rightarrow> a # A v)"

definition addrs_list :: "('a \<Rightarrow> addr list) \<Rightarrow> 'a list \<Rightarrow> addr list" where
  "addrs_list A xs = concat (map A xs)"

definition erase_ptr :: "('a \<Rightarrow> 'b) \<Rightarrow> 'a ptr \<Rightarrow> 'b ptr" where
  "erase_ptr E p = map_option (\<lambda>(a, v). (0, E v)) p"

definition no_addrs :: "'a \<Rightarrow> addr list" where
  "no_addrs x = []"

subsection \<open>The contract of a copy\<close>

text \<open>The addresses \<open>as\<close> are distinct and were allocated between the states \<open>n\<close> and \<open>n'\<close>.\<close>

definition allocated :: "addr \<Rightarrow> addr \<Rightarrow> addr list \<Rightarrow> bool" where
  "allocated n n' as \<longleftrightarrow> n \<le> n' \<and> set as \<subseteq> {n..<n'} \<and> distinct as"

lemma allocated_append:
  "allocated n m as \<Longrightarrow> allocated m k bs \<Longrightarrow> allocated n k (as @ bs)"
  by (fastforce simp: allocated_def)

locale deep_copy =
  fixes copy :: "'a \<Rightarrow> 'a copying"
    and addrs :: "'a \<Rightarrow> addr list"
    and erase :: "'a \<Rightarrow> 'b"
  assumes fresh: "run_state (copy x) n = (y, n') \<Longrightarrow> allocated n n' (addrs y)"
    and same: "run_state (copy x) n = (y, n') \<Longrightarrow> erase y = erase x"
begin

text \<open>A copy of something allocated earlier has no address in common with it.\<close>

lemma isolated:
  assumes "run_state (copy x) n = (y, n')" "\<forall>a \<in> set as. a < n"
  shows "set (addrs y) \<inter> set as = {}"
  using fresh [OF assms(1)] assms(2) by (force simp: allocated_def)

text \<open>Two copies of the same value, one after the other, have no address in common either.\<close>

lemma copies_apart:
  assumes "run_state (copy x) n = (y, m)" "run_state (copy x) m = (z, k)"
  shows "set (addrs y) \<inter> set (addrs z) = {}"
  using fresh [OF assms(1)] fresh [OF assms(2)] by (force simp: allocated_def)

end

text \<open>
  A computation that has allocated \<open>as\<close> since the state \<open>n\<close> ends in a value with exactly the
  allocated addresses and the erasure \<open>v\<close>; the rules follow the calls of a struct's copy.
\<close>

definition copies_from :: "addr \<Rightarrow> addr list \<Rightarrow> 'a copying \<Rightarrow> ('a \<Rightarrow> addr list) \<Rightarrow> ('a \<Rightarrow> 'b) \<Rightarrow> 'b \<Rightarrow> bool" where
  "copies_from n as c A E v \<longleftrightarrow>
     (\<forall>m y n'. allocated n m as \<longrightarrow> run_state c m = (y, n') \<longrightarrow> allocated n n' (A y) \<and> E y = v)"

lemma copies_bind:
  assumes "deep_copy c A' E'" "\<And>y. E' y = E' x \<Longrightarrow> copies_from n (as @ A' y) (f y) A E v"
  shows "copies_from n as (State_Monad.bind (c x) f) A E v"
  unfolding copies_from_def
proof (intro allI impI)
  fix m z k
  assume as: "allocated n m as" and run: "run_state (State_Monad.bind (c x) f) m = (z, k)"
  obtain y l where y: "run_state (c x) m = (y, l)" by fastforce
  then have "allocated n l (as @ A' y)" "E' y = E' x"
    using deep_copy.fresh [OF assms(1) y] deep_copy.same [OF assms(1) y] allocated_append [OF as] by auto
  moreover have "run_state (f y) l = (z, k)" using run y by simp
  ultimately show "allocated n k (A z) \<and> E z = v"
    using assms(2) by (auto simp: copies_from_def)
qed

lemma copies_new:
  assumes "\<And>a. copies_from n (as @ [a]) (f a) A E v"
  shows "copies_from n as (State_Monad.bind new f) A E v"
proof -
  have "allocated n (Suc m) (as @ [m])" if "allocated n m as" for m
    using that by (auto simp: allocated_def)
  then show ?thesis using assms unfolding copies_from_def new_def by (simp, blast)
qed

lemma copies_return: "A y = as \<Longrightarrow> E y = v \<Longrightarrow> copies_from n as (State_Monad.return y) A E v"
  by (simp add: copies_from_def)

lemma deep_copyI: "(\<And>x n. copies_from n [] (c x) A E (E x)) \<Longrightarrow> deep_copy c A E"
  by unfold_locales (fastforce simp: copies_from_def allocated_def)+

lemma deep_copy_flat: "deep_copy State_Monad.return no_addrs id"
  by (rule deep_copyI, rule copies_return) (simp_all add: no_addrs_def)

lemma deep_copy_ptr:
  assumes "deep_copy c A E"
  shows "deep_copy (copy_ptr c) (addrs_ptr A) (erase_ptr E)"
proof (rule deep_copyI)
  fix p n
  show "copies_from n [] (copy_ptr c p) (addrs_ptr A) (erase_ptr E) (erase_ptr E p)"
  proof (cases p)
    case (Some q)
    obtain a v where q: "q = (a, v)" by fastforce
    show ?thesis
      unfolding copy_ptr_def Some q option.case prod.case
      by (rule copies_new, rule copies_bind [OF assms], rule copies_return) (simp_all add: addrs_ptr_def erase_ptr_def)
  qed (simp add: copy_ptr_def addrs_ptr_def copies_return)
qed

lemma copies_traverse:
  assumes "deep_copy c A E"
  shows "copies_from n [] (traverse_list c xs) (addrs_list A) (map E) (map E xs)"
proof (induction xs arbitrary: n)
  case (Cons x xs)
  have tail: "copies_from n' as (traverse_list c xs) (\<lambda>ys. as @ addrs_list A ys) (map E) (map E xs)" for n' as
    unfolding copies_from_def
  proof (intro allI impI)
    fix m y k
    assume "allocated n' m as" "run_state (traverse_list c xs) m = (y, k)"
    moreover have "allocated m m []" by (simp add: allocated_def)
    ultimately show "allocated n' k (as @ addrs_list A y) \<and> map E y = map E xs"
      using Cons.IH [of m] allocated_append unfolding copies_from_def by blast
  qed
  show ?case
    unfolding copies_from_def
  proof (intro allI impI)
    fix m ys k
    assume n: "allocated n m []" and run: "run_state (traverse_list c (x # xs)) m = (ys, k)"
    obtain y l where y: "run_state (c x) m = (y, l)" by fastforce
    obtain zs j where zs: "run_state (traverse_list c xs) l = (zs, j)" by fastforce
    have ys: "ys = y # zs" "k = j" using run y zs by simp_all
    have "allocated n l (A y)" using deep_copy.fresh [OF assms y] allocated_append [OF n] by simp
    with tail [of n "A y"] zs have "allocated n j (A y @ addrs_list A zs)" "map E zs = map E xs"
      unfolding copies_from_def by blast+
    then show "allocated n k (addrs_list A ys) \<and> map E ys = map E (x # xs)"
      using deep_copy.same [OF assms y] by (simp add: ys addrs_list_def)
  qed
qed (simp add: copies_return addrs_list_def)

lemma deep_copy_slice:
  "deep_copy c A E \<Longrightarrow> deep_copy (copy_slice c) (addrs_ptr (addrs_list A)) (erase_ptr (map E))"
  unfolding copy_slice_def by (rule deep_copy_ptr, rule deep_copyI, rule copies_traverse)

lemma deep_copy_entry:
  assumes "deep_copy c A E"
  shows "deep_copy (copy_entry c) (\<lambda>e. A (snd e)) (map_prod id E)"
  unfolding copy_entry_def
  by (rule deep_copyI, rule copies_bind [OF assms], rule copies_return) (simp_all add: map_prod_def split_beta)

lemma deep_copy_map:
  "deep_copy c A E \<Longrightarrow>
   deep_copy (copy_map c) (addrs_ptr (addrs_list (\<lambda>e. A (snd e)))) (erase_ptr (map (map_prod id E)))"
  unfolding copy_map_def by (rule deep_copy_ptr, rule deep_copyI, rule copies_traverse, rule deep_copy_entry)

subsection \<open>The structs in memory\<close>

text \<open>The copy functions of the structs that other modules declare, by the name of the type.\<close>

record 'x deepcopy_pkg =
  lib_DeepCopyInto :: "string \<Rightarrow> 'x \<Rightarrow> 'x copying"
  lib_addrs :: "'x \<Rightarrow> addr list"
  lib_erase :: "'x \<Rightarrow> 'x"

definition deepcopy_laws :: "'x deepcopy_pkg \<Rightarrow> bool" where
  "deepcopy_laws D \<longleftrightarrow> (\<forall>t. deep_copy (lib_DeepCopyInto D t) (lib_addrs D) (lib_erase D))"

lemma deep_copy_lib: "deepcopy_laws D \<Longrightarrow> deep_copy (lib_DeepCopyInto D t) (lib_addrs D) (lib_erase D)"
  by (simp add: deepcopy_laws_def)

record 'x AuthenticationSpec_m =
  m_AuthenticationClass :: string
  m_Oidc :: "'x ptr"

record 'x CreateReportingTaskJobSpec_m =
  m_Enable :: bool
  m_PodOverrides :: "'x ptr"

record GitSyncSpec_m =
  m_Repo :: string
  m_Branch :: string
  m_CredentialsSecret :: string
  m_Depth :: int32
  m_GitFolder :: string
  m_GitSyncConfig :: "(string, string) go_map ptr"
  m_Wait :: string

record 'x ClusterConfigSpec_m =
  m_Authentication :: "'x AuthenticationSpec_m slice"
  m_CreateReportingTaskJob :: "'x CreateReportingTaskJobSpec_m ptr"
  m_ExtraVolumes :: "'x ptr"
  m_SensitiveProperties :: "SensitivePropertiesSpec ptr"
  m_CustomComponentsGitSync :: "GitSyncSpec_m slice"
  m_Tls :: "TlsSpec ptr"
  m_ListenerClass :: string
  m_VectorAggregatorConfigMapName :: string
  m_ZookeeperConfigMapName :: "string ptr"

record 'x ConfigSpec_m =
  m_RoleGroupConfigSpec :: "'x ptr"

record ImageSpec_m =
  m_Custom :: string
  m_ImageRepo :: string
  m_KubedoopVersion :: string
  m_ProductVersion :: string
  m_PullPolicy :: "PullPolicy ptr"
  m_PullSecretName :: string

record JVMArgumentOverridesSpec_m =
  m_Add :: "string slice"
  m_Remove :: "string slice"
  m_RemoveRegex :: "string slice"

record 'x RoleGroupSpec_m =
  m_Replicas :: "int32 ptr"
  m_Config :: "'x ConfigSpec_m ptr"
  m_OverridesSpec :: "'x ptr"
  m_JVMArgumentOverrides :: "JVMArgumentOverridesSpec_m ptr"

record 'x NodesSpec_m =
  m_RoleGroups :: "(string, 'x RoleGroupSpec_m) go_map ptr"
  m_RoleConfig :: "'x ptr"
  m_NodesConfig :: "'x ConfigSpec_m ptr"
  m_NodesOverridesSpec :: "'x ptr"
  m_NodesJVMArgumentOverrides :: "JVMArgumentOverridesSpec_m ptr"

record 'x NifiClusterSpec_m =
  m_ClusterConfig :: "'x ClusterConfigSpec_m ptr"
  m_ClusterOperation :: "ClusterOperationSpec ptr"
  m_Image :: "ImageSpec_m ptr"
  m_Nodes :: "'x NodesSpec_m ptr"

record 'x NifiClusterStatus_m =
  m_Conditions :: "'x slice"

text \<open>\<^verbatim>\<open>metav1.TypeMeta\<close> is two strings.\<close>

record TypeMeta =
  tm_Kind :: string
  tm_APIVersion :: string

record 'x NifiCluster_m =
  m_TypeMeta :: TypeMeta
  m_ObjectMeta :: 'x
  m_Spec :: "'x NifiClusterSpec_m"
  m_Status :: "'x NifiClusterStatus_m"

record 'x NifiClusterList_m =
  m_ListTypeMeta :: TypeMeta
  m_ListMeta :: 'x
  m_Items :: "'x NifiCluster_m slice"

subsection \<open>DeepCopyInto and DeepCopy\<close>

definition AuthenticationSpec_DeepCopyInto :: "'x deepcopy_pkg \<Rightarrow> 'x AuthenticationSpec_m \<Rightarrow> 'x AuthenticationSpec_m copying" where
  "AuthenticationSpec_DeepCopyInto D inn =
     do { oidc \<leftarrow> copy_ptr (lib_DeepCopyInto D ''OidcSpec'') (m_Oidc inn);
          State_Monad.return (inn\<lparr>m_Oidc := oidc\<rparr>) }"

definition AuthenticationSpec_DeepCopy :: "'x deepcopy_pkg \<Rightarrow> 'x AuthenticationSpec_m ptr \<Rightarrow> 'x AuthenticationSpec_m ptr copying" where
  "AuthenticationSpec_DeepCopy D inn = copy_ptr (AuthenticationSpec_DeepCopyInto D) inn"

definition CreateReportingTaskJobSpec_DeepCopyInto :: "'x deepcopy_pkg \<Rightarrow> 'x CreateReportingTaskJobSpec_m \<Rightarrow> 'x CreateReportingTaskJobSpec_m copying" where
  "CreateReportingTaskJobSpec_DeepCopyInto D inn =
     do { podOverrides \<leftarrow> copy_ptr (lib_DeepCopyInto D ''RawExtension'') (m_PodOverrides inn);
          State_Monad.return (inn\<lparr>m_PodOverrides := podOverrides\<rparr>) }"

definition CreateReportingTaskJobSpec_DeepCopy :: "'x deepcopy_pkg \<Rightarrow> 'x CreateReportingTaskJobSpec_m ptr \<Rightarrow> 'x CreateReportingTaskJobSpec_m ptr copying" where
  "CreateReportingTaskJobSpec_DeepCopy D inn = copy_ptr (CreateReportingTaskJobSpec_DeepCopyInto D) inn"

definition GitSyncSpec_DeepCopyInto :: "GitSyncSpec_m \<Rightarrow> GitSyncSpec_m copying" where
  "GitSyncSpec_DeepCopyInto inn =
     do { gitSyncConfig \<leftarrow> copy_map State_Monad.return (m_GitSyncConfig inn);
          State_Monad.return (inn\<lparr>m_GitSyncConfig := gitSyncConfig\<rparr>) }"

definition GitSyncSpec_DeepCopy :: "GitSyncSpec_m ptr \<Rightarrow> GitSyncSpec_m ptr copying" where
  "GitSyncSpec_DeepCopy inn = copy_ptr GitSyncSpec_DeepCopyInto inn"

definition ClusterConfigSpec_DeepCopyInto :: "'x deepcopy_pkg \<Rightarrow> 'x ClusterConfigSpec_m \<Rightarrow> 'x ClusterConfigSpec_m copying" where
  "ClusterConfigSpec_DeepCopyInto D inn =
     do { auths \<leftarrow> copy_slice (AuthenticationSpec_DeepCopyInto D) (m_Authentication inn);
          job \<leftarrow> copy_ptr (CreateReportingTaskJobSpec_DeepCopyInto D) (m_CreateReportingTaskJob inn);
          volumes \<leftarrow> copy_ptr (lib_DeepCopyInto D ''RawExtension'') (m_ExtraVolumes inn);
          sensitive \<leftarrow> copy_ptr State_Monad.return (m_SensitiveProperties inn);
          gitSyncs \<leftarrow> copy_slice GitSyncSpec_DeepCopyInto (m_CustomComponentsGitSync inn);
          tls \<leftarrow> copy_ptr State_Monad.return (m_Tls inn);
          zookeeper \<leftarrow> copy_ptr State_Monad.return (m_ZookeeperConfigMapName inn);
          State_Monad.return (inn\<lparr>m_Authentication := auths, m_CreateReportingTaskJob := job, m_ExtraVolumes := volumes, m_SensitiveProperties := sensitive, m_CustomComponentsGitSync := gitSyncs, m_Tls := tls, m_ZookeeperConfigMapName := zookeeper\<rparr>) }"

definition ClusterConfigSpec_DeepCopy :: "'x deepcopy_pkg \<Rightarrow> 'x ClusterConfigSpec_m ptr \<Rightarrow> 'x ClusterConfigSpec_m ptr copying" where
  "ClusterConfigSpec_DeepCopy D inn = copy_ptr (ClusterConfigSpec_DeepCopyInto D) inn"

definition ConfigSpec_DeepCopyInto :: "'x deepcopy_pkg \<Rightarrow> 'x ConfigSpec_m \<Rightarrow> 'x ConfigSpec_m copying" where
  "ConfigSpec_DeepCopyInto D inn =
     do { config \<leftarrow> copy_ptr (lib_DeepCopyInto D ''RoleGroupConfigSpec'') (m_RoleGroupConfigSpec inn);
          State_Monad.return (inn\<lparr>m_RoleGroupConfigSpec := config\<rparr>) }"

definition ConfigSpec_DeepCopy :: "'x deepcopy_pkg \<Rightarrow> 'x ConfigSpec_m ptr \<Rightarrow> 'x ConfigSpec_m ptr copying" where
  "ConfigSpec_DeepCopy D inn = copy_ptr (ConfigSpec_DeepCopyInto D) inn"

definition ImageSpec_DeepCopyInto :: "ImageSpec_m \<Rightarrow> ImageSpec_m copying" where
  "ImageSpec_DeepCopyInto inn =
     do { pullPolicy \<leftarrow> copy_ptr State_Monad.return (m_PullPolicy inn);
          State_Monad.return (inn\<lparr>m_PullPolicy := pullPolicy\<rparr>) }"

definition ImageSpec_DeepCopy :: "ImageSpec_m ptr \<Rightarrow> ImageSpec_m ptr copying" where
  "ImageSpec_DeepCopy inn = copy_ptr ImageSpec_DeepCopyInto inn"

definition JVMArgumentOverridesSpec_DeepCopyInto :: "JVMArgumentOverridesSpec_m \<Rightarrow> JVMArgumentOverridesSpec_m copying" where
  "JVMArgumentOverridesSpec_DeepCopyInto inn =
     do { add \<leftarrow> copy_ptr State_Monad.return (m_Add inn);
          remove \<leftarrow> copy_ptr State_Monad.return (m_Remove inn);
          removeRegex \<leftarrow> copy_ptr State_Monad.return (m_RemoveRegex inn);
          State_Monad.return (inn\<lparr>m_Add := add, m_Remove := remove, m_RemoveRegex := removeRegex\<rparr>) }"

definition JVMArgumentOverridesSpec_DeepCopy :: "JVMArgumentOverridesSpec_m ptr \<Rightarrow> JVMArgumentOverridesSpec_m ptr copying" where
  "JVMArgumentOverridesSpec_DeepCopy inn = copy_ptr JVMArgumentOverridesSpec_DeepCopyInto inn"

definition RoleGroupSpec_DeepCopyInto :: "'x deepcopy_pkg \<Rightarrow> 'x RoleGroupSpec_m \<Rightarrow> 'x RoleGroupSpec_m copying" where
  "RoleGroupSpec_DeepCopyInto D inn =
     do { replicas \<leftarrow> copy_ptr State_Monad.return (m_Replicas inn);
          config \<leftarrow> copy_ptr (ConfigSpec_DeepCopyInto D) (m_Config inn);
          overrides \<leftarrow> copy_ptr (lib_DeepCopyInto D ''OverridesSpec'') (m_OverridesSpec inn);
          jvm \<leftarrow> copy_ptr JVMArgumentOverridesSpec_DeepCopyInto (m_JVMArgumentOverrides inn);
          State_Monad.return (inn\<lparr>m_Replicas := replicas, m_Config := config, m_OverridesSpec := overrides, m_JVMArgumentOverrides := jvm\<rparr>) }"

definition RoleGroupSpec_DeepCopy :: "'x deepcopy_pkg \<Rightarrow> 'x RoleGroupSpec_m ptr \<Rightarrow> 'x RoleGroupSpec_m ptr copying" where
  "RoleGroupSpec_DeepCopy D inn = copy_ptr (RoleGroupSpec_DeepCopyInto D) inn"

text \<open>\<^verbatim>\<open>*val.DeepCopy()\<close>: the struct that a temporary copy of the map value points to.\<close>

definition RoleGroupSpec_value :: "'x deepcopy_pkg \<Rightarrow> 'x RoleGroupSpec_m \<Rightarrow> 'x RoleGroupSpec_m copying" where
  "RoleGroupSpec_value D val = do { tmp \<leftarrow> new; RoleGroupSpec_DeepCopyInto D val }"

definition NodesSpec_DeepCopyInto :: "'x deepcopy_pkg \<Rightarrow> 'x NodesSpec_m \<Rightarrow> 'x NodesSpec_m copying" where
  "NodesSpec_DeepCopyInto D inn =
     do { roleGroups \<leftarrow> copy_map (RoleGroupSpec_value D) (m_RoleGroups inn);
          roleConfig \<leftarrow> copy_ptr (lib_DeepCopyInto D ''RoleConfigSpec'') (m_RoleConfig inn);
          config \<leftarrow> copy_ptr (ConfigSpec_DeepCopyInto D) (m_NodesConfig inn);
          overrides \<leftarrow> copy_ptr (lib_DeepCopyInto D ''OverridesSpec'') (m_NodesOverridesSpec inn);
          jvm \<leftarrow> copy_ptr JVMArgumentOverridesSpec_DeepCopyInto (m_NodesJVMArgumentOverrides inn);
          State_Monad.return (inn\<lparr>m_RoleGroups := roleGroups, m_RoleConfig := roleConfig, m_NodesConfig := config, m_NodesOverridesSpec := overrides, m_NodesJVMArgumentOverrides := jvm\<rparr>) }"

definition NodesSpec_DeepCopy :: "'x deepcopy_pkg \<Rightarrow> 'x NodesSpec_m ptr \<Rightarrow> 'x NodesSpec_m ptr copying" where
  "NodesSpec_DeepCopy D inn = copy_ptr (NodesSpec_DeepCopyInto D) inn"

definition NifiClusterSpec_DeepCopyInto :: "'x deepcopy_pkg \<Rightarrow> 'x NifiClusterSpec_m \<Rightarrow> 'x NifiClusterSpec_m copying" where
  "NifiClusterSpec_DeepCopyInto D inn =
     do { clusterConfig \<leftarrow> copy_ptr (ClusterConfigSpec_DeepCopyInto D) (m_ClusterConfig inn);
          operation \<leftarrow> copy_ptr State_Monad.return (m_ClusterOperation inn);
          img \<leftarrow> copy_ptr ImageSpec_DeepCopyInto (m_Image inn);
          nodes \<leftarrow> copy_ptr (NodesSpec_DeepCopyInto D) (m_Nodes inn);
          State_Monad.return (inn\<lparr>m_ClusterConfig := clusterConfig, m_ClusterOperation := operation, m_Image := img, m_Nodes := nodes\<rparr>) }"

definition NifiClusterSpec_DeepCopy :: "'x deepcopy_pkg \<Rightarrow> 'x NifiClusterSpec_m ptr \<Rightarrow> 'x NifiClusterSpec_m ptr copying" where
  "NifiClusterSpec_DeepCopy D inn = copy_ptr (NifiClusterSpec_DeepCopyInto D) inn"

definition NifiClusterStatus_DeepCopyInto :: "'x deepcopy_pkg \<Rightarrow> 'x NifiClusterStatus_m \<Rightarrow> 'x NifiClusterStatus_m copying" where
  "NifiClusterStatus_DeepCopyInto D inn =
     do { conditions \<leftarrow> copy_slice (lib_DeepCopyInto D ''Condition'') (m_Conditions inn);
          State_Monad.return (inn\<lparr>m_Conditions := conditions\<rparr>) }"

definition NifiClusterStatus_DeepCopy :: "'x deepcopy_pkg \<Rightarrow> 'x NifiClusterStatus_m ptr \<Rightarrow> 'x NifiClusterStatus_m ptr copying" where
  "NifiClusterStatus_DeepCopy D inn = copy_ptr (NifiClusterStatus_DeepCopyInto D) inn"

definition NifiCluster_DeepCopyInto :: "'x deepcopy_pkg \<Rightarrow> 'x NifiCluster_m \<Rightarrow> 'x NifiCluster_m copying" where
  "NifiCluster_DeepCopyInto D inn =
     do { objectMeta \<leftarrow> lib_DeepCopyInto D ''ObjectMeta'' (m_ObjectMeta inn);
          spec \<leftarrow> NifiClusterSpec_DeepCopyInto D (m_Spec inn);
          status \<leftarrow> NifiClusterStatus_DeepCopyInto D (m_Status inn);
          State_Monad.return (inn\<lparr>m_TypeMeta := m_TypeMeta inn, m_ObjectMeta := objectMeta, m_Spec := spec, m_Status := status\<rparr>) }"

definition NifiCluster_DeepCopy :: "'x deepcopy_pkg \<Rightarrow> 'x NifiCluster_m ptr \<Rightarrow> 'x NifiCluster_m ptr copying" where
  "NifiCluster_DeepCopy D inn = copy_ptr (NifiCluster_DeepCopyInto D) inn"

definition NifiCluster_DeepCopyObject :: "'x deepcopy_pkg \<Rightarrow> 'x NifiCluster_m ptr \<Rightarrow> 'x NifiCluster_m ptr copying" where
  "NifiCluster_DeepCopyObject D inn =
     do { c \<leftarrow> NifiCluster_DeepCopy D inn; State_Monad.return (if c \<noteq> None then c else None) }"

definition NifiClusterList_DeepCopyInto :: "'x deepcopy_pkg \<Rightarrow> 'x NifiClusterList_m \<Rightarrow> 'x NifiClusterList_m copying" where
  "NifiClusterList_DeepCopyInto D inn =
     do { listMeta \<leftarrow> lib_DeepCopyInto D ''ListMeta'' (m_ListMeta inn);
          items \<leftarrow> copy_slice (NifiCluster_DeepCopyInto D) (m_Items inn);
          State_Monad.return (inn\<lparr>m_ListTypeMeta := m_ListTypeMeta inn, m_ListMeta := listMeta, m_Items := items\<rparr>) }"

definition NifiClusterList_DeepCopy :: "'x deepcopy_pkg \<Rightarrow> 'x NifiClusterList_m ptr \<Rightarrow> 'x NifiClusterList_m ptr copying" where
  "NifiClusterList_DeepCopy D inn = copy_ptr (NifiClusterList_DeepCopyInto D) inn"

definition NifiClusterList_DeepCopyObject :: "'x deepcopy_pkg \<Rightarrow> 'x NifiClusterList_m ptr \<Rightarrow> 'x NifiClusterList_m ptr copying" where
  "NifiClusterList_DeepCopyObject D inn =
     do { c \<leftarrow> NifiClusterList_DeepCopy D inn; State_Monad.return (if c \<noteq> None then c else None) }"

definition SensitivePropertiesSpec_DeepCopyInto :: "SensitivePropertiesSpec \<Rightarrow> SensitivePropertiesSpec copying" where
  "SensitivePropertiesSpec_DeepCopyInto inn = State_Monad.return inn"

definition SensitivePropertiesSpec_DeepCopy :: "SensitivePropertiesSpec ptr \<Rightarrow> SensitivePropertiesSpec ptr copying" where
  "SensitivePropertiesSpec_DeepCopy inn = copy_ptr SensitivePropertiesSpec_DeepCopyInto inn"

definition TlsSpec_DeepCopyInto :: "TlsSpec \<Rightarrow> TlsSpec copying" where
  "TlsSpec_DeepCopyInto inn = State_Monad.return inn"

definition TlsSpec_DeepCopy :: "TlsSpec ptr \<Rightarrow> TlsSpec ptr copying" where
  "TlsSpec_DeepCopy inn = copy_ptr TlsSpec_DeepCopyInto inn"

subsection \<open>Addresses and erasure of the structs\<close>

definition AuthenticationSpec_addrs :: "'x deepcopy_pkg \<Rightarrow> 'x AuthenticationSpec_m \<Rightarrow> addr list" where
  "AuthenticationSpec_addrs D x =
     addrs_ptr (lib_addrs D) (m_Oidc x)"

definition AuthenticationSpec_erase :: "'x deepcopy_pkg \<Rightarrow> 'x AuthenticationSpec_m \<Rightarrow> 'x AuthenticationSpec_m" where
  "AuthenticationSpec_erase D x =
     x\<lparr>m_Oidc := erase_ptr (lib_erase D) (m_Oidc x)\<rparr>"

definition CreateReportingTaskJobSpec_addrs :: "'x deepcopy_pkg \<Rightarrow> 'x CreateReportingTaskJobSpec_m \<Rightarrow> addr list" where
  "CreateReportingTaskJobSpec_addrs D x =
     addrs_ptr (lib_addrs D) (m_PodOverrides x)"

definition CreateReportingTaskJobSpec_erase :: "'x deepcopy_pkg \<Rightarrow> 'x CreateReportingTaskJobSpec_m \<Rightarrow> 'x CreateReportingTaskJobSpec_m" where
  "CreateReportingTaskJobSpec_erase D x =
     x\<lparr>m_PodOverrides := erase_ptr (lib_erase D) (m_PodOverrides x)\<rparr>"

definition GitSyncSpec_addrs :: "GitSyncSpec_m \<Rightarrow> addr list" where
  "GitSyncSpec_addrs x =
     addrs_ptr (addrs_list (\<lambda>e. no_addrs (snd e))) (m_GitSyncConfig x)"

definition GitSyncSpec_erase :: "GitSyncSpec_m \<Rightarrow> GitSyncSpec_m" where
  "GitSyncSpec_erase x =
     x\<lparr>m_GitSyncConfig := erase_ptr (map (map_prod id id)) (m_GitSyncConfig x)\<rparr>"

definition ClusterConfigSpec_addrs :: "'x deepcopy_pkg \<Rightarrow> 'x ClusterConfigSpec_m \<Rightarrow> addr list" where
  "ClusterConfigSpec_addrs D x =
     addrs_ptr (addrs_list (AuthenticationSpec_addrs D)) (m_Authentication x)
     @ addrs_ptr (CreateReportingTaskJobSpec_addrs D) (m_CreateReportingTaskJob x)
     @ addrs_ptr (lib_addrs D) (m_ExtraVolumes x)
     @ addrs_ptr no_addrs (m_SensitiveProperties x)
     @ addrs_ptr (addrs_list GitSyncSpec_addrs) (m_CustomComponentsGitSync x)
     @ addrs_ptr no_addrs (m_Tls x)
     @ addrs_ptr no_addrs (m_ZookeeperConfigMapName x)"

definition ClusterConfigSpec_erase :: "'x deepcopy_pkg \<Rightarrow> 'x ClusterConfigSpec_m \<Rightarrow> 'x ClusterConfigSpec_m" where
  "ClusterConfigSpec_erase D x =
     x\<lparr>m_Authentication := erase_ptr (map (AuthenticationSpec_erase D)) (m_Authentication x),
       m_CreateReportingTaskJob := erase_ptr (CreateReportingTaskJobSpec_erase D) (m_CreateReportingTaskJob x),
       m_ExtraVolumes := erase_ptr (lib_erase D) (m_ExtraVolumes x),
       m_SensitiveProperties := erase_ptr id (m_SensitiveProperties x),
       m_CustomComponentsGitSync := erase_ptr (map GitSyncSpec_erase) (m_CustomComponentsGitSync x),
       m_Tls := erase_ptr id (m_Tls x),
       m_ZookeeperConfigMapName := erase_ptr id (m_ZookeeperConfigMapName x)\<rparr>"

definition ConfigSpec_addrs :: "'x deepcopy_pkg \<Rightarrow> 'x ConfigSpec_m \<Rightarrow> addr list" where
  "ConfigSpec_addrs D x =
     addrs_ptr (lib_addrs D) (m_RoleGroupConfigSpec x)"

definition ConfigSpec_erase :: "'x deepcopy_pkg \<Rightarrow> 'x ConfigSpec_m \<Rightarrow> 'x ConfigSpec_m" where
  "ConfigSpec_erase D x =
     x\<lparr>m_RoleGroupConfigSpec := erase_ptr (lib_erase D) (m_RoleGroupConfigSpec x)\<rparr>"

definition ImageSpec_addrs :: "ImageSpec_m \<Rightarrow> addr list" where
  "ImageSpec_addrs x =
     addrs_ptr no_addrs (m_PullPolicy x)"

definition ImageSpec_erase :: "ImageSpec_m \<Rightarrow> ImageSpec_m" where
  "ImageSpec_erase x =
     x\<lparr>m_PullPolicy := erase_ptr id (m_PullPolicy x)\<rparr>"

definition JVMArgumentOverridesSpec_addrs :: "JVMArgumentOverridesSpec_m \<Rightarrow> addr list" where
  "JVMArgumentOverridesSpec_addrs x =
     addrs_ptr no_addrs (m_Add x)
     @ addrs_ptr no_addrs (m_Remove x)
     @ addrs_ptr no_addrs (m_RemoveRegex x)"

definition JVMArgumentOverridesSpec_erase :: "JVMArgumentOverridesSpec_m \<Rightarrow> JVMArgumentOverridesSpec_m" where
  "JVMArgumentOverridesSpec_erase x =
     x\<lparr>m_Add := erase_ptr id (m_Add x),
       m_Remove := erase_ptr id (m_Remove x),
       m_RemoveRegex := erase_ptr id (m_RemoveRegex x)\<rparr>"

definition RoleGroupSpec_addrs :: "'x deepcopy_pkg \<Rightarrow> 'x RoleGroupSpec_m \<Rightarrow> addr list" where
  "RoleGroupSpec_addrs D x =
     addrs_ptr no_addrs (m_Replicas x)
     @ addrs_ptr (ConfigSpec_addrs D) (m_Config x)
     @ addrs_ptr (lib_addrs D) (m_OverridesSpec x)
     @ addrs_ptr JVMArgumentOverridesSpec_addrs (m_JVMArgumentOverrides x)"

definition RoleGroupSpec_erase :: "'x deepcopy_pkg \<Rightarrow> 'x RoleGroupSpec_m \<Rightarrow> 'x RoleGroupSpec_m" where
  "RoleGroupSpec_erase D x =
     x\<lparr>m_Replicas := erase_ptr id (m_Replicas x),
       m_Config := erase_ptr (ConfigSpec_erase D) (m_Config x),
       m_OverridesSpec := erase_ptr (lib_erase D) (m_OverridesSpec x),
       m_JVMArgumentOverrides := erase_ptr JVMArgumentOverridesSpec_erase (m_JVMArgumentOverrides x)\<rparr>"

definition NodesSpec_addrs :: "'x deepcopy_pkg \<Rightarrow> 'x NodesSpec_m \<Rightarrow> addr list" where
  "NodesSpec_addrs D x =
     addrs_ptr (addrs_list (\<lambda>e. (RoleGroupSpec_addrs D) (snd e))) (m_RoleGroups x)
     @ addrs_ptr (lib_addrs D) (m_RoleConfig x)
     @ addrs_ptr (ConfigSpec_addrs D) (m_NodesConfig x)
     @ addrs_ptr (lib_addrs D) (m_NodesOverridesSpec x)
     @ addrs_ptr JVMArgumentOverridesSpec_addrs (m_NodesJVMArgumentOverrides x)"

definition NodesSpec_erase :: "'x deepcopy_pkg \<Rightarrow> 'x NodesSpec_m \<Rightarrow> 'x NodesSpec_m" where
  "NodesSpec_erase D x =
     x\<lparr>m_RoleGroups := erase_ptr (map (map_prod id (RoleGroupSpec_erase D))) (m_RoleGroups x),
       m_RoleConfig := erase_ptr (lib_erase D) (m_RoleConfig x),
       m_NodesConfig := erase_ptr (ConfigSpec_erase D) (m_NodesConfig x),
       m_NodesOverridesSpec := erase_ptr (lib_erase D) (m_NodesOverridesSpec x),
       m_NodesJVMArgumentOverrides := erase_ptr JVMArgumentOverridesSpec_erase (m_NodesJVMArgumentOverrides x)\<rparr>"

definition NifiClusterSpec_addrs :: "'x deepcopy_pkg \<Rightarrow> 'x NifiClusterSpec_m \<Rightarrow> addr list" where
  "NifiClusterSpec_addrs D x =
     addrs_ptr (ClusterConfigSpec_addrs D) (m_ClusterConfig x)
     @ addrs_ptr no_addrs (m_ClusterOperation x)
     @ addrs_ptr ImageSpec_addrs (m_Image x)
     @ addrs_ptr (NodesSpec_addrs D) (m_Nodes x)"

definition NifiClusterSpec_erase :: "'x deepcopy_pkg \<Rightarrow> 'x NifiClusterSpec_m \<Rightarrow> 'x NifiClusterSpec_m" where
  "NifiClusterSpec_erase D x =
     x\<lparr>m_ClusterConfig := erase_ptr (ClusterConfigSpec_erase D) (m_ClusterConfig x),
       m_ClusterOperation := erase_ptr id (m_ClusterOperation x),
       m_Image := erase_ptr ImageSpec_erase (m_Image x),
       m_Nodes := erase_ptr (NodesSpec_erase D) (m_Nodes x)\<rparr>"

definition NifiClusterStatus_addrs :: "'x deepcopy_pkg \<Rightarrow> 'x NifiClusterStatus_m \<Rightarrow> addr list" where
  "NifiClusterStatus_addrs D x =
     addrs_ptr (addrs_list (lib_addrs D)) (m_Conditions x)"

definition NifiClusterStatus_erase :: "'x deepcopy_pkg \<Rightarrow> 'x NifiClusterStatus_m \<Rightarrow> 'x NifiClusterStatus_m" where
  "NifiClusterStatus_erase D x =
     x\<lparr>m_Conditions := erase_ptr (map (lib_erase D)) (m_Conditions x)\<rparr>"

definition NifiCluster_addrs :: "'x deepcopy_pkg \<Rightarrow> 'x NifiCluster_m \<Rightarrow> addr list" where
  "NifiCluster_addrs D x =
     lib_addrs D (m_ObjectMeta x)
     @ NifiClusterSpec_addrs D (m_Spec x)
     @ NifiClusterStatus_addrs D (m_Status x)"

definition NifiCluster_erase :: "'x deepcopy_pkg \<Rightarrow> 'x NifiCluster_m \<Rightarrow> 'x NifiCluster_m" where
  "NifiCluster_erase D x =
     x\<lparr>m_ObjectMeta := lib_erase D (m_ObjectMeta x),
       m_Spec := NifiClusterSpec_erase D (m_Spec x),
       m_Status := NifiClusterStatus_erase D (m_Status x)\<rparr>"

definition NifiClusterList_addrs :: "'x deepcopy_pkg \<Rightarrow> 'x NifiClusterList_m \<Rightarrow> addr list" where
  "NifiClusterList_addrs D x =
     lib_addrs D (m_ListMeta x)
     @ addrs_ptr (addrs_list (NifiCluster_addrs D)) (m_Items x)"

definition NifiClusterList_erase :: "'x deepcopy_pkg \<Rightarrow> 'x NifiClusterList_m \<Rightarrow> 'x NifiClusterList_m" where
  "NifiClusterList_erase D x =
     x\<lparr>m_ListMeta := lib_erase D (m_ListMeta x),
       m_Items := erase_ptr (map (NifiCluster_erase D)) (m_Items x)\<rparr>"

subsection \<open>Every struct fulfils the contract\<close>

lemma deep_copy_AuthenticationSpec:
  assumes "deepcopy_laws D"
  shows "deep_copy (AuthenticationSpec_DeepCopyInto D) (AuthenticationSpec_addrs D) (AuthenticationSpec_erase D)"
  by (rule deep_copyI, unfold AuthenticationSpec_DeepCopyInto_def, rule copies_bind [OF deep_copy_ptr [OF deep_copy_lib [OF assms]]], rule copies_return)
    (simp_all add: AuthenticationSpec_addrs_def AuthenticationSpec_erase_def)

lemma deep_copy_CreateReportingTaskJobSpec:
  assumes "deepcopy_laws D"
  shows "deep_copy (CreateReportingTaskJobSpec_DeepCopyInto D) (CreateReportingTaskJobSpec_addrs D) (CreateReportingTaskJobSpec_erase D)"
  by (rule deep_copyI, unfold CreateReportingTaskJobSpec_DeepCopyInto_def, rule copies_bind [OF deep_copy_ptr [OF deep_copy_lib [OF assms]]], rule copies_return)
    (simp_all add: CreateReportingTaskJobSpec_addrs_def CreateReportingTaskJobSpec_erase_def)

lemma deep_copy_GitSyncSpec:
  "deep_copy GitSyncSpec_DeepCopyInto GitSyncSpec_addrs GitSyncSpec_erase"
  by (rule deep_copyI, unfold GitSyncSpec_DeepCopyInto_def, rule copies_bind [OF deep_copy_map [OF deep_copy_flat]], rule copies_return)
    (simp_all add: GitSyncSpec_addrs_def GitSyncSpec_erase_def)

lemma deep_copy_ClusterConfigSpec:
  assumes "deepcopy_laws D"
  shows "deep_copy (ClusterConfigSpec_DeepCopyInto D) (ClusterConfigSpec_addrs D) (ClusterConfigSpec_erase D)"
  by (rule deep_copyI, unfold ClusterConfigSpec_DeepCopyInto_def, rule copies_bind [OF deep_copy_slice [OF deep_copy_AuthenticationSpec [OF assms]]],
      rule copies_bind [OF deep_copy_ptr [OF deep_copy_CreateReportingTaskJobSpec [OF assms]]],
      rule copies_bind [OF deep_copy_ptr [OF deep_copy_lib [OF assms]]],
      rule copies_bind [OF deep_copy_ptr [OF deep_copy_flat]],
      rule copies_bind [OF deep_copy_slice [OF deep_copy_GitSyncSpec]],
      rule copies_bind [OF deep_copy_ptr [OF deep_copy_flat]],
      rule copies_bind [OF deep_copy_ptr [OF deep_copy_flat]], rule copies_return)
    (simp_all add: ClusterConfigSpec_addrs_def ClusterConfigSpec_erase_def)

lemma deep_copy_ConfigSpec:
  assumes "deepcopy_laws D"
  shows "deep_copy (ConfigSpec_DeepCopyInto D) (ConfigSpec_addrs D) (ConfigSpec_erase D)"
  by (rule deep_copyI, unfold ConfigSpec_DeepCopyInto_def, rule copies_bind [OF deep_copy_ptr [OF deep_copy_lib [OF assms]]], rule copies_return)
    (simp_all add: ConfigSpec_addrs_def ConfigSpec_erase_def)

lemma deep_copy_ImageSpec:
  "deep_copy ImageSpec_DeepCopyInto ImageSpec_addrs ImageSpec_erase"
  by (rule deep_copyI, unfold ImageSpec_DeepCopyInto_def, rule copies_bind [OF deep_copy_ptr [OF deep_copy_flat]], rule copies_return)
    (simp_all add: ImageSpec_addrs_def ImageSpec_erase_def)

lemma deep_copy_JVMArgumentOverridesSpec:
  "deep_copy JVMArgumentOverridesSpec_DeepCopyInto JVMArgumentOverridesSpec_addrs JVMArgumentOverridesSpec_erase"
  by (rule deep_copyI, unfold JVMArgumentOverridesSpec_DeepCopyInto_def, rule copies_bind [OF deep_copy_ptr [OF deep_copy_flat]],
      rule copies_bind [OF deep_copy_ptr [OF deep_copy_flat]],
      rule copies_bind [OF deep_copy_ptr [OF deep_copy_flat]], rule copies_return)
    (simp_all add: JVMArgumentOverridesSpec_addrs_def JVMArgumentOverridesSpec_erase_def)

lemma deep_copy_RoleGroupSpec:
  assumes "deepcopy_laws D"
  shows "deep_copy (RoleGroupSpec_DeepCopyInto D) (RoleGroupSpec_addrs D) (RoleGroupSpec_erase D)"
  by (rule deep_copyI, unfold RoleGroupSpec_DeepCopyInto_def, rule copies_bind [OF deep_copy_ptr [OF deep_copy_flat]],
      rule copies_bind [OF deep_copy_ptr [OF deep_copy_ConfigSpec [OF assms]]],
      rule copies_bind [OF deep_copy_ptr [OF deep_copy_lib [OF assms]]],
      rule copies_bind [OF deep_copy_ptr [OF deep_copy_JVMArgumentOverridesSpec]], rule copies_return)
    (simp_all add: RoleGroupSpec_addrs_def RoleGroupSpec_erase_def)

lemma deep_copy_RoleGroupSpec_value:
  assumes "deepcopy_laws D"
  shows "deep_copy (RoleGroupSpec_value D) (RoleGroupSpec_addrs D) (RoleGroupSpec_erase D)"
proof (rule deep_copyI)
  fix val n
  show "copies_from n [] (RoleGroupSpec_value D val) (RoleGroupSpec_addrs D) (RoleGroupSpec_erase D) (RoleGroupSpec_erase D val)"
    using deep_copy.fresh [OF deep_copy_RoleGroupSpec [OF assms]] deep_copy.same [OF deep_copy_RoleGroupSpec [OF assms]]
    unfolding copies_from_def RoleGroupSpec_value_def new_def by (fastforce simp: allocated_def)
qed

lemma deep_copy_NodesSpec:
  assumes "deepcopy_laws D"
  shows "deep_copy (NodesSpec_DeepCopyInto D) (NodesSpec_addrs D) (NodesSpec_erase D)"
  by (rule deep_copyI, unfold NodesSpec_DeepCopyInto_def, rule copies_bind [OF deep_copy_map [OF deep_copy_RoleGroupSpec_value [OF assms]]],
      rule copies_bind [OF deep_copy_ptr [OF deep_copy_lib [OF assms]]],
      rule copies_bind [OF deep_copy_ptr [OF deep_copy_ConfigSpec [OF assms]]],
      rule copies_bind [OF deep_copy_ptr [OF deep_copy_lib [OF assms]]],
      rule copies_bind [OF deep_copy_ptr [OF deep_copy_JVMArgumentOverridesSpec]], rule copies_return)
    (simp_all add: NodesSpec_addrs_def NodesSpec_erase_def)

lemma deep_copy_NifiClusterSpec:
  assumes "deepcopy_laws D"
  shows "deep_copy (NifiClusterSpec_DeepCopyInto D) (NifiClusterSpec_addrs D) (NifiClusterSpec_erase D)"
  by (rule deep_copyI, unfold NifiClusterSpec_DeepCopyInto_def, rule copies_bind [OF deep_copy_ptr [OF deep_copy_ClusterConfigSpec [OF assms]]],
      rule copies_bind [OF deep_copy_ptr [OF deep_copy_flat]],
      rule copies_bind [OF deep_copy_ptr [OF deep_copy_ImageSpec]],
      rule copies_bind [OF deep_copy_ptr [OF deep_copy_NodesSpec [OF assms]]], rule copies_return)
    (simp_all add: NifiClusterSpec_addrs_def NifiClusterSpec_erase_def)

lemma deep_copy_NifiClusterStatus:
  assumes "deepcopy_laws D"
  shows "deep_copy (NifiClusterStatus_DeepCopyInto D) (NifiClusterStatus_addrs D) (NifiClusterStatus_erase D)"
  by (rule deep_copyI, unfold NifiClusterStatus_DeepCopyInto_def, rule copies_bind [OF deep_copy_slice [OF deep_copy_lib [OF assms]]], rule copies_return)
    (simp_all add: NifiClusterStatus_addrs_def NifiClusterStatus_erase_def)

lemma deep_copy_NifiCluster:
  assumes "deepcopy_laws D"
  shows "deep_copy (NifiCluster_DeepCopyInto D) (NifiCluster_addrs D) (NifiCluster_erase D)"
  by (rule deep_copyI, unfold NifiCluster_DeepCopyInto_def, rule copies_bind [OF deep_copy_lib [OF assms]],
      rule copies_bind [OF deep_copy_NifiClusterSpec [OF assms]],
      rule copies_bind [OF deep_copy_NifiClusterStatus [OF assms]], rule copies_return)
    (simp_all add: NifiCluster_addrs_def NifiCluster_erase_def)

lemma deep_copy_NifiClusterList:
  assumes "deepcopy_laws D"
  shows "deep_copy (NifiClusterList_DeepCopyInto D) (NifiClusterList_addrs D) (NifiClusterList_erase D)"
  by (rule deep_copyI, unfold NifiClusterList_DeepCopyInto_def, rule copies_bind [OF deep_copy_lib [OF assms]],
      rule copies_bind [OF deep_copy_slice [OF deep_copy_NifiCluster [OF assms]]], rule copies_return)
    (simp_all add: NifiClusterList_addrs_def NifiClusterList_erase_def)

interpretation gitsync_copy: deep_copy GitSyncSpec_DeepCopyInto GitSyncSpec_addrs GitSyncSpec_erase
  by (rule deep_copy_GitSyncSpec)

interpretation image_copy: deep_copy ImageSpec_DeepCopyInto ImageSpec_addrs ImageSpec_erase
  by (rule deep_copy_ImageSpec)

interpretation jvm_copy: deep_copy JVMArgumentOverridesSpec_DeepCopyInto JVMArgumentOverridesSpec_addrs JVMArgumentOverridesSpec_erase
  by (rule deep_copy_JVMArgumentOverridesSpec)

interpretation sensitive_copy: deep_copy SensitivePropertiesSpec_DeepCopyInto no_addrs id
  using deep_copy_flat by (simp add: SensitivePropertiesSpec_DeepCopyInto_def [abs_def])

interpretation tls_copy: deep_copy TlsSpec_DeepCopyInto no_addrs id
  using deep_copy_flat by (simp add: TlsSpec_DeepCopyInto_def [abs_def])

subsection \<open>Properties of the copies\<close>

lemma copy_object_isolated:
  assumes "deep_copy c A E" "run_state (copy_ptr c (Some (a, x))) n = (q, n')" "\<forall>d \<in> set (a # A x). d < n"
  shows "\<exists>b y. q = Some (b, y) \<and> E y = E x \<and> distinct (b # A y) \<and> set (b # A y) \<inter> set (a # A x) = {}"
proof -
  note ptr = deep_copy_ptr [OF assms(1)]
  from deep_copy.same [OF ptr assms(2)] obtain b y where q: "q = Some (b, y)" "E y = E x"
    by (cases q) (auto simp: erase_ptr_def)
  have "distinct (b # A y)"
    using deep_copy.fresh [OF ptr assms(2)] q by (simp add: allocated_def addrs_ptr_def)
  moreover have "set (b # A y) \<inter> set (a # A x) = {}"
    using deep_copy.isolated [OF ptr assms(2,3)] q by (simp add: addrs_ptr_def)
  ultimately show ?thesis using q by blast
qed

lemma nil_or_copy: "(if c \<noteq> None then c else None) = c"
  by (cases c) simp_all

lemma copy_object_run:
  "NifiCluster_DeepCopyObject D p = copy_ptr (NifiCluster_DeepCopyInto D) p"
  "NifiClusterList_DeepCopyObject D l = copy_ptr (NifiClusterList_DeepCopyInto D) l"
  unfolding NifiCluster_DeepCopyObject_def NifiCluster_DeepCopy_def NifiClusterList_DeepCopyObject_def
    NifiClusterList_DeepCopy_def nil_or_copy by (rule State_Monad.bind_right_identity)+

text \<open>
  C14: A copy of a \<^verbatim>\<open>NifiCluster\<close> is isolated from the original: it has the same value in every
  field, down to the nil-ness of every pointer, slice and map, no address occurs in it twice,
  and none of its addresses is one of the original's, so that no write to one of the two objects
  is seen through the other.
\<close>

theorem cluster_copy_isolated:
  assumes "deepcopy_laws D" "run_state (NifiCluster_DeepCopyObject D (Some (a, x))) n = (q, n')"
    and "\<forall>d \<in> set (a # NifiCluster_addrs D x). d < n"
  shows "\<exists>b y. q = Some (b, y) \<and> NifiCluster_erase D y = NifiCluster_erase D x \<and> distinct (b # NifiCluster_addrs D y) \<and>
    set (b # NifiCluster_addrs D y) \<inter> set (a # NifiCluster_addrs D x) = {}"
  using copy_object_isolated [OF deep_copy_NifiCluster [OF assms(1)]] assms(2,3) unfolding copy_object_run by blast

text \<open>A library whose structs are one pointer to a string each.\<close>

definition string_objects :: "string ptr deepcopy_pkg" where
  "string_objects =
     \<lparr>lib_DeepCopyInto = (\<lambda>t. copy_ptr State_Monad.return), lib_addrs = addrs_ptr no_addrs, lib_erase = erase_ptr id\<rparr>"

lemma string_objects_laws: "deepcopy_laws string_objects"
  by (simp add: deepcopy_laws_def string_objects_def deep_copy_ptr deep_copy_flat)

definition small_nodes :: "string ptr NodesSpec_m" where
  "small_nodes =
     \<lparr>m_RoleGroups = Some (2, [(''default'', \<lparr>m_Replicas = Some (3, 1), m_Config = None, m_OverridesSpec = None,
        m_JVMArgumentOverrides = Some (4, \<lparr>m_Add = Some (5, [''-Xmx1g'']), m_Remove = None, m_RemoveRegex = None\<rparr>)\<rparr>)]),
      m_RoleConfig = None, m_NodesConfig = Some (6, \<lparr>m_RoleGroupConfigSpec = Some (7, Some (8, ''30s''))\<rparr>),
      m_NodesOverridesSpec = None, m_NodesJVMArgumentOverrides = None\<rparr>"

definition small_cluster :: "string ptr NifiCluster_m" where
  "small_cluster =
     \<lparr>m_TypeMeta = \<lparr>tm_Kind = ''NifiCluster'', tm_APIVersion = ''nifi.kubedoop.dev/v1alpha1''\<rparr>, m_ObjectMeta = Some (0, ''simple''),
      m_Spec = \<lparr>m_ClusterConfig = None, m_ClusterOperation = None, m_Image = None, m_Nodes = Some (1, small_nodes)\<rparr>,
      m_Status = \<lparr>m_Conditions = None\<rparr>\<rparr>"

lemmas addrs_defs = NifiClusterList_addrs_def NifiCluster_addrs_def NifiClusterSpec_addrs_def NifiClusterStatus_addrs_def
  NodesSpec_addrs_def RoleGroupSpec_addrs_def ConfigSpec_addrs_def JVMArgumentOverridesSpec_addrs_def
  ImageSpec_addrs_def addrs_ptr_def addrs_list_def no_addrs_def

lemma small_addrs: "NifiCluster_addrs string_objects small_cluster = [0, 1, 2, 3, 4, 5, 6, 7, 8]"
  by (simp add: addrs_defs small_cluster_def small_nodes_def string_objects_def)

theorem cluster_copy_isolated_witness:
  "\<exists>b y. fst (run_state (NifiCluster_DeepCopyObject string_objects (Some (9, small_cluster))) 10) = Some (b, y) \<and>
     NifiCluster_erase string_objects y = NifiCluster_erase string_objects small_cluster \<and>
     set (b # NifiCluster_addrs string_objects y) \<inter> {0..9} = {}"
proof -
  obtain q n' where run: "run_state (NifiCluster_DeepCopyObject string_objects (Some (9, small_cluster))) 10 = (q, n')"
    by fastforce
  have "set (9 # NifiCluster_addrs string_objects small_cluster) = {0..9}"
    unfolding small_addrs by (simp add: atLeastAtMost_upt upt_rec set_eq_iff) auto
  moreover have "\<forall>d \<in> set (9 # NifiCluster_addrs string_objects small_cluster). d < 10"
    unfolding small_addrs by simp
  ultimately show ?thesis
    using cluster_copy_isolated [OF string_objects_laws run] run by simp blast
qed

text \<open>
  A copy of a list of clusters copies every item: there are as many items in the same order,
  the value is the same and no item of the copy shares memory with the original list or with
  another item.
\<close>

theorem list_copy_isolated:
  assumes "deepcopy_laws D" "run_state (NifiClusterList_DeepCopyObject D (Some (a, x))) n = (q, n')"
    and "\<forall>d \<in> set (a # NifiClusterList_addrs D x). d < n" "m_Items x = Some (i, xs)"
  shows "\<exists>b y j ys. q = Some (b, y) \<and> m_Items y = Some (j, ys) \<and>
    map (NifiCluster_erase D) ys = map (NifiCluster_erase D) xs \<and>
    distinct (b # j # concat (map (NifiCluster_addrs D) ys)) \<and>
    set (b # j # concat (map (NifiCluster_addrs D) ys)) \<inter> set (a # i # concat (map (NifiCluster_addrs D) xs)) = {}"
proof -
  from assms(2) have "run_state (copy_ptr (NifiClusterList_DeepCopyInto D) (Some (a, x))) n = (q, n')"
    unfolding copy_object_run .
  from copy_object_isolated [OF deep_copy_NifiClusterList [OF assms(1)] this assms(3)] obtain b y where
    y: "q = Some (b, y)" "NifiClusterList_erase D y = NifiClusterList_erase D x" "distinct (b # NifiClusterList_addrs D y)"
      "set (b # NifiClusterList_addrs D y) \<inter> set (a # NifiClusterList_addrs D x) = {}"
    by blast
  from arg_cong [OF y(2), of m_Items] assms(4) obtain j ys where
    ys: "m_Items y = Some (j, ys)" "map (NifiCluster_erase D) ys = map (NifiCluster_erase D) xs"
    by (auto simp: NifiClusterList_erase_def erase_ptr_def)
  have addrs: "NifiClusterList_addrs D y = lib_addrs D (m_ListMeta y) @ j # concat (map (NifiCluster_addrs D) ys)"
    "NifiClusterList_addrs D x = lib_addrs D (m_ListMeta x) @ i # concat (map (NifiCluster_addrs D) xs)"
    using ys(1) assms(4) by (simp_all add: NifiClusterList_addrs_def addrs_ptr_def addrs_list_def)
  have "distinct (b # j # concat (map (NifiCluster_addrs D) ys))"
    using y(3) unfolding addrs by simp
  moreover have "set (b # j # concat (map (NifiCluster_addrs D) ys)) \<inter> set (a # i # concat (map (NifiCluster_addrs D) xs)) = {}"
    using y(4) unfolding addrs by auto
  ultimately show ?thesis using y(1) ys by blast
qed

definition small_list :: "string ptr NifiClusterList_m" where
  "small_list =
     \<lparr>m_ListTypeMeta = \<lparr>tm_Kind = ''NifiClusterList'', tm_APIVersion = ''nifi.kubedoop.dev/v1alpha1''\<rparr>, m_ListMeta = None,
      m_Items = Some (10, [small_cluster, small_cluster])\<rparr>"

theorem list_copy_isolated_witness:
  "\<exists>b y j ys. fst (run_state (NifiClusterList_DeepCopyObject string_objects (Some (9, small_list))) 11) = Some (b, y) \<and>
     m_Items y = Some (j, ys) \<and> length ys = 2 \<and> distinct (b # j # concat (map (NifiCluster_addrs string_objects) ys))"
proof -
  obtain q n' where run: "run_state (NifiClusterList_DeepCopyObject string_objects (Some (9, small_list))) 11 = (q, n')"
    by fastforce
  have "NifiClusterList_addrs string_objects small_list =
      10 # NifiCluster_addrs string_objects small_cluster @ NifiCluster_addrs string_objects small_cluster"
    by (simp add: NifiClusterList_addrs_def small_list_def string_objects_def addrs_ptr_def addrs_list_def)
  then have "\<forall>d \<in> set (9 # NifiClusterList_addrs string_objects small_list). d < 11"
    by (simp add: small_addrs)
  moreover have "m_Items small_list = Some (10, [small_cluster, small_cluster])" by (simp add: small_list_def)
  ultimately obtain b y j ys where "q = Some (b, y)" "m_Items y = Some (j, ys)"
    "map (NifiCluster_erase string_objects) ys = map (NifiCluster_erase string_objects) [small_cluster, small_cluster]"
    "distinct (b # j # concat (map (NifiCluster_addrs string_objects) ys))"
    using list_copy_isolated [OF string_objects_laws run] by blast
  moreover from this(3) have "length ys = 2" by (auto dest: arg_cong [of _ _ length])
  ultimately show ?thesis using run by auto
qed

end
