(* ===== verification/CopyValue.thy ===== *)
theory CopyValue
  imports DeepCopy
begin

section \<open>CopyValue: the value of an object in memory\<close>

text \<open>
  The controllers' theories speak of the records of theory \<open>Api\<close>, where a pointer is an option and
  memory does not occur; theory \<open>DeepCopy\<close> gives the same structs as they lie in memory. Here is the
  abstraction from the second to the first, struct by struct. It does not depend on addresses, so that
  a controller cannot tell a copy from the original.
\<close>

subsection \<open>The abstraction\<close>

text \<open>The values of the structs of other modules; they too do not depend on addresses.\<close>

record 'x lib_values =
  lv_Oidc :: "'x \<Rightarrow> OidcSpec"
  lv_Raw :: "'x \<Rightarrow> RawExtension"
  lv_RoleGroupConfig :: "'x \<Rightarrow> RoleGroupConfigSpec"
  lv_Overrides :: "'x \<Rightarrow> OverridesSpec"
  lv_RoleConfig :: "'x \<Rightarrow> RoleConfigSpec"
  lv_Name :: "'x \<Rightarrow> string"
  lv_Namespace :: "'x \<Rightarrow> string"

definition values_laws :: "'x deepcopy_pkg \<Rightarrow> 'x lib_values \<Rightarrow> bool" where
  "values_laws D Q \<longleftrightarrow>
     (\<forall>x. lv_Oidc Q (lib_erase D x) = lv_Oidc Q x \<and> lv_Raw Q (lib_erase D x) = lv_Raw Q x \<and>
        lv_RoleGroupConfig Q (lib_erase D x) = lv_RoleGroupConfig Q x \<and> lv_Overrides Q (lib_erase D x) = lv_Overrides Q x \<and>
        lv_RoleConfig Q (lib_erase D x) = lv_RoleConfig Q x \<and> lv_Name Q (lib_erase D x) = lv_Name Q x \<and>
        lv_Namespace Q (lib_erase D x) = lv_Namespace Q x)"

definition pointee :: "('a \<Rightarrow> 'b) \<Rightarrow> 'a ptr \<Rightarrow> 'b option" where
  "pointee f p = map_option (\<lambda>q. f (snd q)) p"

definition elements :: "('a \<Rightarrow> 'b) \<Rightarrow> 'a list ptr \<Rightarrow> 'b list" where
  "elements f p = (case p of None \<Rightarrow> [] | Some q \<Rightarrow> map f (snd q))"

definition AuthenticationSpec_of :: "'x lib_values \<Rightarrow> 'x AuthenticationSpec_m \<Rightarrow> AuthenticationSpec" where
  "AuthenticationSpec_of Q x = \<lparr>AuthenticationClass = m_AuthenticationClass x, Oidc = pointee (lv_Oidc Q) (m_Oidc x)\<rparr>"

definition CreateReportingTaskJobSpec_of :: "'x lib_values \<Rightarrow> 'x CreateReportingTaskJobSpec_m \<Rightarrow> CreateReportingTaskJobSpec" where
  "CreateReportingTaskJobSpec_of Q x = \<lparr>Enable = m_Enable x, PodOverrides = pointee (lv_Raw Q) (m_PodOverrides x)\<rparr>"

definition GitSyncSpec_of :: "GitSyncSpec_m \<Rightarrow> GitSyncSpec" where
  "GitSyncSpec_of x =
     \<lparr>Repo = m_Repo x, Branch = m_Branch x, CredentialsSecret = m_CredentialsSecret x, Depth = m_Depth x,
      GitFolder = m_GitFolder x, GitSyncConfig = elements id (m_GitSyncConfig x), Wait = m_Wait x\<rparr>"

definition ClusterConfigSpec_of :: "'x lib_values \<Rightarrow> 'x ClusterConfigSpec_m \<Rightarrow> ClusterConfigSpec" where
  "ClusterConfigSpec_of Q x =
     \<lparr>Authentication = pointee (map (AuthenticationSpec_of Q)) (m_Authentication x),
      CreateReportingTaskJob = pointee (CreateReportingTaskJobSpec_of Q) (m_CreateReportingTaskJob x),
      ExtraVolumes = pointee (lv_Raw Q) (m_ExtraVolumes x),
      SensitiveProperties = pointee id (m_SensitiveProperties x),
      CustomComponentsGitSync = elements GitSyncSpec_of (m_CustomComponentsGitSync x),
      Tls = pointee id (m_Tls x), ListenerClass = m_ListenerClass x,
      VectorAggregatorConfigMapName = m_VectorAggregatorConfigMapName x,
      ZookeeperConfigMapName = pointee id (m_ZookeeperConfigMapName x)\<rparr>"

definition ConfigSpec_of :: "'x lib_values \<Rightarrow> 'x ConfigSpec_m \<Rightarrow> ConfigSpec" where
  "ConfigSpec_of Q x = \<lparr>cfg_RoleGroupConfigSpec = pointee (lv_RoleGroupConfig Q) (m_RoleGroupConfigSpec x)\<rparr>"

definition ImageSpec_of :: "ImageSpec_m \<Rightarrow> ImageSpec" where
  "ImageSpec_of x =
     \<lparr>img_Custom = m_Custom x, img_Repo = m_ImageRepo x, img_KubedoopVersion = m_KubedoopVersion x,
      img_ProductVersion = m_ProductVersion x, img_PullPolicy = pointee id (m_PullPolicy x), img_PullSecretName = m_PullSecretName x\<rparr>"

definition JVMArgumentOverridesSpec_of :: "JVMArgumentOverridesSpec_m \<Rightarrow> JVMArgumentOverridesSpec" where
  "JVMArgumentOverridesSpec_of x =
     \<lparr>jvm_Add = elements id (m_Add x), jvm_Remove = elements id (m_Remove x), jvm_RemoveRegex = elements id (m_RemoveRegex x)\<rparr>"

definition RoleGroupSpec_of :: "'x lib_values \<Rightarrow> 'x RoleGroupSpec_m \<Rightarrow> RoleGroupSpec" where
  "RoleGroupSpec_of Q x =
     \<lparr>rg_Replicas = pointee id (m_Replicas x), rg_Config = pointee (ConfigSpec_of Q) (m_Config x),
      rg_OverridesSpec = pointee (lv_Overrides Q) (m_OverridesSpec x),
      rg_JVMArgumentOverrides = pointee JVMArgumentOverridesSpec_of (m_JVMArgumentOverrides x)\<rparr>"

definition NodesSpec_of :: "'x lib_values \<Rightarrow> 'x NodesSpec_m \<Rightarrow> NodesSpec" where
  "NodesSpec_of Q x =
     \<lparr>RoleGroups = elements (map_prod id (RoleGroupSpec_of Q)) (m_RoleGroups x),
      RoleConfig = pointee (lv_RoleConfig Q) (m_RoleConfig x), nodes_Config = pointee (ConfigSpec_of Q) (m_NodesConfig x),
      nodes_OverridesSpec = pointee (lv_Overrides Q) (m_NodesOverridesSpec x),
      nodes_JVMArgumentOverrides = pointee JVMArgumentOverridesSpec_of (m_NodesJVMArgumentOverrides x)\<rparr>"

definition NifiClusterSpec_of :: "'x lib_values \<Rightarrow> 'x NifiClusterSpec_m \<Rightarrow> NifiClusterSpec" where
  "NifiClusterSpec_of Q x =
     \<lparr>ClusterConfig = pointee (ClusterConfigSpec_of Q) (m_ClusterConfig x), ClusterOperation = pointee id (m_ClusterOperation x),
      spec_Image = pointee ImageSpec_of (m_Image x), Nodes = pointee (NodesSpec_of Q) (m_Nodes x)\<rparr>"

definition NifiCluster_of :: "'x lib_values \<Rightarrow> 'x NifiCluster_m \<Rightarrow> NifiCluster" where
  "NifiCluster_of Q x =
     \<lparr>nc_Name = lv_Name Q (m_ObjectMeta x), nc_Namespace = lv_Namespace Q (m_ObjectMeta x), nc_Spec = NifiClusterSpec_of Q (m_Spec x)\<rparr>"

subsection \<open>The value does not depend on addresses\<close>

named_theorems value_erase "the value of an erased struct"

lemma pointee_erase: "(\<And>v. f (E v) = f v) \<Longrightarrow> pointee f (erase_ptr E p) = pointee f p"
  by (cases p) (auto simp: pointee_def erase_ptr_def)

lemma elements_erase: "(\<And>v. f (E v) = f v) \<Longrightarrow> elements f (erase_ptr (map E) p) = elements f p"
  by (cases p) (auto simp: elements_def erase_ptr_def)

lemma flat_erase [value_erase]:
  "pointee f (erase_ptr id p) = pointee f p" "elements g (erase_ptr id s) = elements g s"
  by (cases p; simp add: pointee_def erase_ptr_def split_beta) (cases s; simp add: elements_def erase_ptr_def split_beta)

lemma lib_value_erase [value_erase]:
  assumes "values_laws D Q"
  shows "pointee (lv_Oidc Q) (erase_ptr (lib_erase D) p) = pointee (lv_Oidc Q) p"
    "pointee (lv_Raw Q) (erase_ptr (lib_erase D) p) = pointee (lv_Raw Q) p"
    "pointee (lv_RoleGroupConfig Q) (erase_ptr (lib_erase D) p) = pointee (lv_RoleGroupConfig Q) p"
    "pointee (lv_Overrides Q) (erase_ptr (lib_erase D) p) = pointee (lv_Overrides Q) p"
    "pointee (lv_RoleConfig Q) (erase_ptr (lib_erase D) p) = pointee (lv_RoleConfig Q) p"
  using assms by (simp_all add: pointee_erase values_laws_def)

lemma AuthenticationSpec_of_erase: "values_laws D Q \<Longrightarrow> AuthenticationSpec_of Q (AuthenticationSpec_erase D x) = AuthenticationSpec_of Q x"
  by (simp add: AuthenticationSpec_of_def AuthenticationSpec_erase_def value_erase)

lemma CreateReportingTaskJobSpec_of_erase:
  "values_laws D Q \<Longrightarrow> CreateReportingTaskJobSpec_of Q (CreateReportingTaskJobSpec_erase D x) = CreateReportingTaskJobSpec_of Q x"
  by (simp add: CreateReportingTaskJobSpec_of_def CreateReportingTaskJobSpec_erase_def value_erase)

lemma GitSyncSpec_of_erase: "GitSyncSpec_of (GitSyncSpec_erase x) = GitSyncSpec_of x"
  by (simp add: GitSyncSpec_of_def GitSyncSpec_erase_def elements_erase map_prod.id value_erase)

lemma ConfigSpec_of_erase: "values_laws D Q \<Longrightarrow> ConfigSpec_of Q (ConfigSpec_erase D x) = ConfigSpec_of Q x"
  by (simp add: ConfigSpec_of_def ConfigSpec_erase_def value_erase)

lemma ImageSpec_of_erase: "ImageSpec_of (ImageSpec_erase x) = ImageSpec_of x"
  by (simp add: ImageSpec_of_def ImageSpec_erase_def value_erase)

lemma JVMArgumentOverridesSpec_of_erase: "JVMArgumentOverridesSpec_of (JVMArgumentOverridesSpec_erase x) = JVMArgumentOverridesSpec_of x"
  by (simp add: JVMArgumentOverridesSpec_of_def JVMArgumentOverridesSpec_erase_def value_erase)

lemma ClusterConfigSpec_of_erase:
  assumes "values_laws D Q"
  shows "ClusterConfigSpec_of Q (ClusterConfigSpec_erase D x) = ClusterConfigSpec_of Q x"
proof -
  have "pointee (map (AuthenticationSpec_of Q)) (erase_ptr (map (AuthenticationSpec_erase D)) p) = pointee (map (AuthenticationSpec_of Q)) p" for p
    by (rule pointee_erase) (simp add: AuthenticationSpec_of_erase [OF assms])
  then show ?thesis
    using assms by (simp add: ClusterConfigSpec_of_def ClusterConfigSpec_erase_def value_erase GitSyncSpec_of_erase
        elements_erase pointee_erase CreateReportingTaskJobSpec_of_erase)
qed

lemma RoleGroupSpec_of_erase: "values_laws D Q \<Longrightarrow> RoleGroupSpec_of Q (RoleGroupSpec_erase D x) = RoleGroupSpec_of Q x"
  by (simp add: RoleGroupSpec_of_def RoleGroupSpec_erase_def value_erase pointee_erase ConfigSpec_of_erase JVMArgumentOverridesSpec_of_erase)

lemma NodesSpec_of_erase:
  assumes "values_laws D Q"
  shows "NodesSpec_of Q (NodesSpec_erase D x) = NodesSpec_of Q x"
proof -
  have "elements (map_prod id (RoleGroupSpec_of Q)) (erase_ptr (map (map_prod id (RoleGroupSpec_erase D))) p) =
      elements (map_prod id (RoleGroupSpec_of Q)) p" for p
    by (rule elements_erase) (auto simp: RoleGroupSpec_of_erase [OF assms])
  then show ?thesis
    using assms by (simp add: NodesSpec_of_def NodesSpec_erase_def value_erase pointee_erase ConfigSpec_of_erase JVMArgumentOverridesSpec_of_erase)
qed

lemma NifiCluster_of_erase:
  assumes "values_laws D Q"
  shows "NifiCluster_of Q (NifiCluster_erase D x) = NifiCluster_of Q x"
proof -
  have "NifiClusterSpec_of Q (NifiClusterSpec_erase D s) = NifiClusterSpec_of Q s" for s
    by (simp add: NifiClusterSpec_of_def NifiClusterSpec_erase_def value_erase pointee_erase ImageSpec_of_erase
        ClusterConfigSpec_of_erase [OF assms] NodesSpec_of_erase [OF assms])
  then show ?thesis
    using assms by (simp add: NifiCluster_of_def NifiCluster_erase_def values_laws_def)
qed

lemma copied_object_value:
  assumes "deep_copy c A E" "\<And>v. f (E v) = f v" "run_state (copy_ptr c p) n = (q, n')"
  shows "pointee f q = pointee f p"
proof -
  from deep_copy.same [OF deep_copy_ptr [OF assms(1)] assms(3)] have "erase_ptr E q = erase_ptr E p" .
  then show ?thesis using pointee_erase [of f E, OF assms(2)] by metis
qed

text \<open>
  C15: Deep copying refines the identity on the values the controllers reconcile: read as a record of
  the API types, the copy of a cluster is the original, whatever the addresses of the two, the copies
  of the clusters of a list are the originals in the same order, and nil is copied to nil.
\<close>

theorem copies_refine_identity:
  assumes "deepcopy_laws D" "values_laws D Q"
  shows "pointee (NifiCluster_of Q) (fst (run_state (NifiCluster_DeepCopyObject D p) n)) = pointee (NifiCluster_of Q) p \<and>
    pointee (\<lambda>l. elements (NifiCluster_of Q) (m_Items l)) (fst (run_state (NifiClusterList_DeepCopyObject D ls) n)) =
      pointee (\<lambda>l. elements (NifiCluster_of Q) (m_Items l)) ls"
proof
  show "pointee (NifiCluster_of Q) (fst (run_state (NifiCluster_DeepCopyObject D p) n)) = pointee (NifiCluster_of Q) p"
    unfolding copy_object_run
    by (rule copied_object_value [where f = "NifiCluster_of Q", OF deep_copy_NifiCluster [OF assms(1)] NifiCluster_of_erase [OF assms(2)]])
      (rule prod.collapse [symmetric])
  have "elements (NifiCluster_of Q) (m_Items (NifiClusterList_erase D l)) = elements (NifiCluster_of Q) (m_Items l)" for l
    by (simp add: NifiClusterList_erase_def elements_erase NifiCluster_of_erase [OF assms(2)])
  then show "pointee (\<lambda>l. elements (NifiCluster_of Q) (m_Items l)) (fst (run_state (NifiClusterList_DeepCopyObject D ls) n)) =
      pointee (\<lambda>l. elements (NifiCluster_of Q) (m_Items l)) ls"
    unfolding copy_object_run
    by (rule copied_object_value [OF deep_copy_NifiClusterList [OF assms(1)]]) (rule prod.collapse [symmetric])
qed

text \<open>
  The values of the one-string structs of \<open>string_objects\<close>: as object metadata, the string is the
  name, and as a role group config it is the shutdown timeout. The structs of opaque type have some
  fixed value.
\<close>

definition string_of :: "string ptr \<Rightarrow> string" where
  "string_of p = (case p of None \<Rightarrow> [] | Some q \<Rightarrow> snd q)"

definition string_values :: "string ptr lib_values" where
  "string_values =
     \<lparr>lv_Oidc = (\<lambda>p. \<lparr>oidc_ClientCredentialsSecret = string_of p, oidc_ExtraScopes = []\<rparr>), lv_Raw = (\<lambda>p. JStr (string_of p)),
      lv_RoleGroupConfig = (\<lambda>p. \<lparr>GracefulShutdownTimeout = string_of p\<rparr>), lv_Overrides = (\<lambda>p. undefined),
      lv_RoleConfig = (\<lambda>p. undefined), lv_Name = string_of, lv_Namespace = (\<lambda>p. ''default'')\<rparr>"

lemma string_values_laws: "values_laws string_objects string_values"
  by (simp add: values_laws_def string_objects_def string_values_def string_of_def erase_ptr_def split: option.splits)

theorem copies_refine_identity_witness:
  "map_option nc_Name (pointee (NifiCluster_of string_values)
     (fst (run_state (NifiCluster_DeepCopyObject string_objects (Some (9, small_cluster))) 10))) = Some ''simple'' \<and>
   map_option (map nc_Name) (pointee (\<lambda>l. elements (NifiCluster_of string_values) (m_Items l))
     (fst (run_state (NifiClusterList_DeepCopyObject string_objects (Some (9, small_list))) 10))) = Some [''simple'', ''simple'']"
proof -
  have "nc_Name (NifiCluster_of string_values small_cluster) = ''simple''"
    by (simp add: NifiCluster_of_def small_cluster_def string_values_def string_of_def)
  then have "map_option nc_Name (pointee (NifiCluster_of string_values) (Some (9, small_cluster))) = Some ''simple''"
    "map_option (map nc_Name) (pointee (\<lambda>l. elements (NifiCluster_of string_values) (m_Items l)) (Some (9, small_list))) = Some [''simple'', ''simple'']"
    by (simp_all add: pointee_def elements_def small_list_def)
  then show ?thesis
    using copies_refine_identity [OF string_objects_laws string_values_laws] by metis
qed

end
