(* ===== verification/GoSlice.thy ===== *)
theory GoSlice
  imports Prelude
begin

section \<open>GoSlice: slices that share a backing array\<close>

text \<open>
  A Go slice is a pointer to a backing array with a length and a capacity, and \<^verbatim>\<open>append\<close> writes
  into the array when the capacity allows, so two slices made by appending to the same slice
  may overwrite each other. The heap is the list of backing arrays; \<open>grow\<close> is the runtime's
  choice of a new capacity, of which the language only promises that the elements fit
  (\<open>grow_law\<close>). \<open>zero\<close> fills the unused part of a new array.
\<close>

record go_slice =
  sl_Array :: nat
  sl_Len :: nat
  sl_Cap :: nat

type_synonym 'a slice_heap = "'a list list"

definition nil_slice :: go_slice where
  "nil_slice = \<lparr>sl_Array = 0, sl_Len = 0, sl_Cap = 0\<rparr>"

definition slice_elems :: "'a slice_heap \<Rightarrow> go_slice \<Rightarrow> 'a list" where
  "slice_elems h s = (if sl_Len s = 0 then [] else take (sl_Len s) (h ! sl_Array s))"

definition slice_append :: "(nat \<Rightarrow> nat \<Rightarrow> nat) \<Rightarrow> 'a \<Rightarrow> 'a slice_heap \<Rightarrow> go_slice \<Rightarrow> 'a \<Rightarrow> 'a slice_heap \<times> go_slice" where
  "slice_append grow zero h s x =
     (let n = sl_Len s + 1 in
      if n \<le> sl_Cap s then (h[sl_Array s := (h ! sl_Array s)[sl_Len s := x]], s\<lparr>sl_Len := n\<rparr>)
      else
        let c = grow (sl_Cap s) n
        in (h @ [slice_elems h s @ x # replicate (c - n) zero], \<lparr>sl_Array = length h, sl_Len = n, sl_Cap = c\<rparr>))"

definition grow_law :: "(nat \<Rightarrow> nat \<Rightarrow> nat) \<Rightarrow> bool" where
  "grow_law grow \<longleftrightarrow> (\<forall>c n. n \<le> grow c n)"

subsection \<open>Slices and the lists they stand for\<close>

definition wf_slice :: "'a slice_heap \<Rightarrow> go_slice \<Rightarrow> bool" where
  "wf_slice h s \<longleftrightarrow> sl_Len s \<le> sl_Cap s \<and> (0 < sl_Cap s \<longrightarrow> sl_Array s < length h \<and> length (h ! sl_Array s) = sl_Cap s)"

lemma wf_nil_slice [simp]: "wf_slice h nil_slice" "slice_elems h nil_slice = []"
  by (simp_all add: wf_slice_def nil_slice_def slice_elems_def)

lemma length_slice_elems: "wf_slice h s \<Longrightarrow> length (slice_elems h s) = sl_Len s"
  by (auto simp: wf_slice_def slice_elems_def)

lemma slice_append_wf:
  assumes "wf_slice h s" "grow_law grow" "slice_append grow zero h s x = (h', t)"
  shows "wf_slice h' t" "slice_elems h' t = slice_elems h s @ [x]"
proof -
  have fit: "sl_Len s + 1 \<le> grow (sl_Cap s) (sl_Len s + 1)" using assms(2) by (simp add: grow_law_def)
  have len: "length (slice_elems h s) = sl_Len s" using assms(1) by (rule length_slice_elems)
  show "wf_slice h' t"
    using assms(1,3) fit len by (auto simp: slice_append_def Let_def wf_slice_def nth_append split: if_splits)
  show "slice_elems h' t = slice_elems h s @ [x]"
  proof (cases "sl_Len s + 1 \<le> sl_Cap s")
    case True
    with assms(1) have "sl_Array s < length h" "length (h ! sl_Array s) = sl_Cap s" by (simp_all add: wf_slice_def)
    with True assms(3) show ?thesis
      by (auto simp: slice_append_def slice_elems_def take_Suc_conv_app_nth)
  next
    case False
    with assms(3) len show ?thesis by (auto simp: slice_append_def Let_def slice_elems_def [of h'] nth_append)
  qed
qed

text \<open>
  Appending leaves every other slice as it is if it allocates, and if it writes in place then
  still every slice of another array and every slice not longer than the one appended to.
\<close>

lemma slice_append_frame:
  assumes "wf_slice h u" "slice_append grow zero h s x = (h', t)"
    and "sl_Len s = sl_Cap s \<or> sl_Array u \<noteq> sl_Array s \<or> sl_Len u \<le> sl_Len s"
  shows "slice_elems h' u = slice_elems h u" "wf_slice h' u"
proof -
  show "slice_elems h' u = slice_elems h u"
    using assms unfolding slice_append_def Let_def slice_elems_def
    by (cases "sl_Array u = sl_Array s") (auto simp: wf_slice_def nth_append take_update_cancel split: if_splits)
  show "wf_slice h' u"
    using assms(1,2) by (cases "sl_Array u = sl_Array s")
      (auto simp: slice_append_def Let_def wf_slice_def nth_append split: if_splits)
qed

text \<open>The hazard: with room in the shared array the second append overwrites the first.\<close>

lemma slice_append_clobbers:
  assumes "wf_slice h s" "sl_Len s < sl_Cap s"
    and "slice_append grow zero h s x = (h1, t)" "slice_append grow zero h1 s y = (h2, u)"
  shows "slice_elems h2 t = slice_elems h s @ [y]"
  using assms by (auto simp: slice_append_def slice_elems_def wf_slice_def take_Suc_conv_app_nth)

end
