(* ===== verification/Version.thy ===== *)
theory Version
  imports GoStd
begin

section \<open>Version: the build information that the operator prints\<close>

text \<open>
  \<^verbatim>\<open>internal/version/version.go\<close>. The linker sets the three variables, and the Go runtime gives
  its version, compiler and platform: they are arguments. \<^verbatim>\<open>json.Marshal\<close> of a struct of strings
  is written out with the escapes of \<^verbatim>\<open>encoding/json\<close>: control characters, the quote, the
  backslash, the HTML characters, invalid UTF-8 and the two line separators.
\<close>

record build_vars =
  bv_BuildVersion :: string
  bv_BuildTime :: string
  bv_GitCommit :: string

definition default_build_vars :: build_vars where
  "default_build_vars = \<lparr>bv_BuildVersion = ''0.0.0-dev'', bv_BuildTime = ''N/A'', bv_GitCommit = ''N/A''\<rparr>"

record go_runtime =
  rt_Version :: string
  rt_Compiler :: string
  rt_GOOS :: string
  rt_GOARCH :: string

record AppInfo =
  ai_Name :: string
  ai_AppVersion :: string
  ai_BuildTime :: string
  ai_GitCommit :: string
  ai_GoVersion :: string
  ai_Compiler :: string
  ai_Platform :: string

definition NewAppInfo :: "build_vars \<Rightarrow> go_runtime \<Rightarrow> string \<Rightarrow> AppInfo" where
  "NewAppInfo bv rt name =
     \<lparr>ai_Name = name, ai_AppVersion = bv_BuildVersion bv, ai_BuildTime = bv_BuildTime bv, ai_GitCommit = bv_GitCommit bv,
      ai_GoVersion = rt_Version rt, ai_Compiler = rt_Compiler rt, ai_Platform = rt_GOOS rt @ ''/'' @ rt_GOARCH rt\<rparr>"

subsection \<open>encoding/json\<close>

definition byte_of :: "char \<Rightarrow> nat" where
  "byte_of c = of_char c"

text \<open>The number of bytes of the rune a non-ASCII string starts with, 0 if it is not valid.\<close>

definition utf8_size :: "string \<Rightarrow> nat" where
  "utf8_size s =
     (let b = (\<lambda>i. if i < length s then byte_of (s ! i) else 0);
          cont = (\<lambda>i. 0x80 \<le> b i \<and> b i \<le> 0xBF)
      in if 0xC2 \<le> b 0 \<and> b 0 \<le> 0xDF \<and> cont 1 then 2
         else if (b 0 = 0xE0 \<and> 0xA0 \<le> b 1 \<and> b 1 \<le> 0xBF \<or> b 0 = 0xED \<and> 0x80 \<le> b 1 \<and> b 1 \<le> 0x9F
                  \<or> (0xE1 \<le> b 0 \<and> b 0 \<le> 0xEC \<or> b 0 = 0xEE \<or> b 0 = 0xEF) \<and> cont 1) \<and> cont 2 then 3
         else if (b 0 = 0xF0 \<and> 0x90 \<le> b 1 \<and> b 1 \<le> 0xBF \<or> b 0 = 0xF4 \<and> 0x80 \<le> b 1 \<and> b 1 \<le> 0x8F
                  \<or> (0xF1 \<le> b 0 \<and> b 0 \<le> 0xF3) \<and> cont 1) \<and> cont 2 \<and> cont 3 then 4
         else 0)"

definition hex_digit :: "nat \<Rightarrow> char" where
  "hex_digit n = ''0123456789abcdef'' ! (n mod 16)"

definition backslash :: char where
  "backslash = CHR 0x5C"

definition json_escape :: "char \<Rightarrow> string" where
  "json_escape c =
     (if c = backslash \<or> c = CHR 0x22 then [backslash, c]
      else if c = CHR 0x08 then [backslash, CHR ''b'']
      else if c = CHR 0x0C then [backslash, CHR ''f'']
      else if c = CHR 0x0A then [backslash, CHR ''n'']
      else if c = CHR 0x0D then [backslash, CHR ''r'']
      else if c = CHR 0x09 then [backslash, CHR ''t'']
      else if byte_of c < 0x20 \<or> c = CHR ''<'' \<or> c = CHR ''>'' \<or> c = CHR ''&''
      then [backslash, CHR ''u'', CHR ''0'', CHR ''0'', hex_digit (byte_of c div 16), hex_digit (byte_of c)]
      else [c])"

fun json_body :: "string \<Rightarrow> string" where
  "json_body [] = []"
| "json_body (c # cs) =
     (if byte_of c < 0x80 then json_escape c @ json_body cs
      else
        let n = utf8_size (c # cs) in
        if n = 0 then backslash # ''ufffd'' @ json_body cs
        else if take 3 (c # cs) = [CHR 0xE2, CHR 0x80, CHR 0xA8] then backslash # ''u2028'' @ json_body (drop (n - 1) cs)
        else if take 3 (c # cs) = [CHR 0xE2, CHR 0x80, CHR 0xA9] then backslash # ''u2029'' @ json_body (drop (n - 1) cs)
        else take n (c # cs) @ json_body (drop (n - 1) cs))"

definition json_string :: "string \<Rightarrow> string" where
  "json_string s = [CHR 0x22] @ json_body s @ [CHR 0x22]"

fun json_members :: "(string \<times> string) list \<Rightarrow> string" where
  "json_members [] = []"
| "json_members [(k, v)] = json_string k @ '':'' @ json_string v"
| "json_members ((k, v) # kv # kvs) = json_string k @ '':'' @ json_string v @ '','' @ json_members (kv # kvs)"

definition app_info_fields :: "AppInfo \<Rightarrow> (string \<times> string) list" where
  "app_info_fields a =
     [(''AppName'', ai_Name a), (''AppVersion'', ai_AppVersion a), (''BuildTime'', ai_BuildTime a),
      (''GitCommit'', ai_GitCommit a), (''GoVersion'', ai_GoVersion a), (''Compiler'', ai_Compiler a),
      (''Platform'', ai_Platform a)]"

text \<open>\<^verbatim>\<open>json.Marshal\<close> of a struct whose fields are all strings, which does not fail.\<close>

definition json_Marshal :: "(string \<times> string) list \<Rightarrow> string outcome" where
  "json_Marshal kvs = Ok (''{'' @ json_members kvs @ ''}'')"

definition AppInfo_String :: "AppInfo \<Rightarrow> string" where
  "AppInfo_String a =
     (case json_Marshal (app_info_fields a) of
        Ok data \<Rightarrow> data
      | _ \<Rightarrow> ''Error marshaling AppInfo'')"

subsection \<open>Reading the text back\<close>

definition hex_value :: "char \<Rightarrow> nat" where
  "hex_value c = (if byte_of c < 58 then byte_of c - 48 else byte_of c - 87)"

definition unescape :: "char \<Rightarrow> char option" where
  "unescape e = map_of [(backslash, backslash), (CHR 0x22, CHR 0x22), (CHR ''b'', CHR 0x08), (CHR ''f'', CHR 0x0C),
     (CHR ''n'', CHR 0x0A), (CHR ''r'', CHR 0x0D), (CHR ''t'', CHR 0x09)] e"

text \<open>A string up to its closing quote, and the rest of the input.\<close>

fun read_body :: "string \<Rightarrow> (string \<times> string) option" where
  "read_body [] = None"
| "read_body (c # cs) =
     (if c = CHR 0x22 then Some ([], cs)
      else if c = backslash then
        (case cs of
           e # ds \<Rightarrow>
             if e = CHR ''u'' then
               (case ds of
                  x # y # p # q # rest \<Rightarrow> map_option (apfst (Cons (char_of (16 * hex_value p + hex_value q)))) (read_body rest)
                | _ \<Rightarrow> None)
             else (case unescape e of None \<Rightarrow> None | Some d \<Rightarrow> map_option (apfst (Cons d)) (read_body ds))
         | [] \<Rightarrow> None)
      else map_option (apfst (Cons c)) (read_body cs))"

fun read_members :: "string \<Rightarrow> (string \<times> string) list option" where
  "read_members [] = None"
| "read_members (c # cs) =
     (if c \<noteq> CHR 0x22 then None
      else case read_body cs of
             Some (k, d # e # ds) \<Rightarrow>
               if d = CHR '':'' \<and> e = CHR 0x22 then
                 (case read_body ds of
                    Some (v, [f]) \<Rightarrow> if f = CHR ''}'' then Some [(k, v)] else None
                  | Some (v, f # rest) \<Rightarrow> if f = CHR '','' \<and> length rest < length cs then map_option (Cons (k, v)) (read_members rest) else None
                  | _ \<Rightarrow> None)
               else None
           | _ \<Rightarrow> None)"

definition ascii :: "string \<Rightarrow> bool" where
  "ascii s \<longleftrightarrow> (\<forall>c \<in> set s. byte_of c < 0x80)"

lemma hex_value_digit: "hex_value (hex_digit n) = n mod 16"
proof -
  have "\<forall>k \<in> set [0..<16]. hex_value (''0123456789abcdef'' ! k) = k"
    by (simp add: upt_rec hex_value_def byte_of_def)
  then show ?thesis by (simp add: hex_digit_def)
qed

lemma char_of_hex: "byte_of c < 256 \<Longrightarrow> char_of (16 * hex_value (hex_digit (byte_of c div 16)) + hex_value (hex_digit (byte_of c))) = c"
proof -
  assume "byte_of c < 256"
  then have "byte_of c div 16 mod 16 = byte_of c div 16" by simp
  then have "16 * (byte_of c div 16 mod 16) + byte_of c mod 16 = byte_of c" by simp
  then show ?thesis by (simp add: hex_value_digit) (simp add: byte_of_def)
qed

lemma read_escape:
  assumes "byte_of c < 0x80"
  shows "read_body (json_escape c @ xs) = map_option (apfst (Cons c)) (read_body xs)"
proof -
  consider "c \<in> set [backslash, CHR 0x22, CHR 0x08, CHR 0x0C, CHR 0x0A, CHR 0x0D, CHR 0x09]"
    | "c \<notin> set [backslash, CHR 0x22, CHR 0x08, CHR 0x0C, CHR 0x0A, CHR 0x0D, CHR 0x09]"
      "byte_of c < 0x20 \<or> c = CHR ''<'' \<or> c = CHR ''>'' \<or> c = CHR ''&''"
    | "c \<notin> set [backslash, CHR 0x22, CHR 0x08, CHR 0x0C, CHR 0x0A, CHR 0x0D, CHR 0x09]"
      "\<not> (byte_of c < 0x20 \<or> c = CHR ''<'' \<or> c = CHR ''>'' \<or> c = CHR ''&'')"
    by blast
  then show ?thesis
  proof cases
    case 1
    then show ?thesis by (auto simp: json_escape_def unescape_def backslash_def)
  next
    case 2
    then have "json_escape c = [backslash, CHR ''u'', CHR ''0'', CHR ''0'', hex_digit (byte_of c div 16), hex_digit (byte_of c)]"
      by (auto simp: json_escape_def)
    moreover have "char_of (16 * hex_value (hex_digit (byte_of c div 16)) + hex_value (hex_digit (byte_of c))) = c"
      using assms by (intro char_of_hex) simp
    ultimately show ?thesis by (simp add: backslash_def)
  next
    case 3
    then have "json_escape c = [c]" by (simp add: json_escape_def)
    with 3(1) show ?thesis by simp
  qed
qed

lemma read_json_body: "ascii s \<Longrightarrow> read_body (json_body s @ CHR 0x22 # rest) = Some (s, rest)"
  by (induction s) (simp_all add: ascii_def read_escape)

lemma read_json_members:
  assumes "kvs \<noteq> []" "\<forall>kv \<in> set kvs. ascii (fst kv) \<and> ascii (snd kv)"
  shows "read_members (json_members kvs @ ''}'') = Some kvs"
  using assms
proof (induction kvs rule: json_members.induct)
  case (2 k v)
  then show ?case by (simp add: json_string_def read_json_body)
next
  case (3 k v kv kvs)
  then have IH: "read_members (json_members (kv # kvs) @ ''}'') = Some (kv # kvs)" by simp
  have ne: "json_members (kv # kvs) @ ''}'' \<noteq> []" by simp
  then obtain d ds where ds: "json_members (kv # kvs) @ ''}'' = d # ds" by (cases "json_members (kv # kvs) @ ''}''") auto
  from 3 IH show ?case by (simp add: json_string_def read_json_body ds)
qed simp

text \<open>
  C31: What \<^verbatim>\<open>--version\<close> prints: a JSON object from which, for a name, build variables and runtime
  values in ASCII (with any quotes, backslashes, control or HTML characters in them), a reader gets
  the application's name under \<^verbatim>\<open>AppName\<close>, the build version under \<^verbatim>\<open>AppVersion\<close>, the build time and
  commit under \<^verbatim>\<open>BuildTime\<close> and \<^verbatim>\<open>GitCommit\<close>, the Go version and compiler under \<^verbatim>\<open>GoVersion\<close> and
  \<^verbatim>\<open>Compiler\<close>, and the operating system and architecture, joined by a slash, under \<^verbatim>\<open>Platform\<close>, in this order.
\<close>

theorem app_info_roundtrip:
  assumes "\<forall>s \<in> {name, bv_BuildVersion bv, bv_BuildTime bv, bv_GitCommit bv, rt_Version rt, rt_Compiler rt, rt_GOOS rt, rt_GOARCH rt}. ascii s"
  shows "\<exists>text. AppInfo_String (NewAppInfo bv rt name) = CHR 0x7B # text \<and>
    read_members text = Some
      [(''AppName'', name), (''AppVersion'', bv_BuildVersion bv), (''BuildTime'', bv_BuildTime bv), (''GitCommit'', bv_GitCommit bv),
       (''GoVersion'', rt_Version rt), (''Compiler'', rt_Compiler rt), (''Platform'', rt_GOOS rt @ ''/'' @ rt_GOARCH rt)]"
proof -
  let ?a = "NewAppInfo bv rt name"
  have "\<forall>kv \<in> set (app_info_fields ?a). ascii (fst kv) \<and> ascii (snd kv)"
    using assms by (auto simp: app_info_fields_def NewAppInfo_def ascii_def byte_of_def)
  then have "read_members (json_members (app_info_fields ?a) @ ''}'') = Some (app_info_fields ?a)"
    by (intro read_json_members) (simp_all add: app_info_fields_def)
  then show ?thesis by (simp add: AppInfo_String_def json_Marshal_def) (simp add: app_info_fields_def NewAppInfo_def)
qed

theorem app_info_roundtrip_witness:
  "\<exists>text. AppInfo_String (NewAppInfo default_build_vars \<lparr>rt_Version = ''go1.25'', rt_Compiler = ''gc'', rt_GOOS = ''linux'', rt_GOARCH = ''amd64''\<rparr> ''nifi-operator'')
       = CHR 0x7B # text \<and>
     read_members text = Some
      [(''AppName'', ''nifi-operator''), (''AppVersion'', ''0.0.0-dev''), (''BuildTime'', ''N/A''), (''GitCommit'', ''N/A''),
       (''GoVersion'', ''go1.25''), (''Compiler'', ''gc''), (''Platform'', ''linux/amd64'')]"
  using app_info_roundtrip [of "''nifi-operator''" default_build_vars "\<lparr>rt_Version = ''go1.25'', rt_Compiler = ''gc'', rt_GOOS = ''linux'', rt_GOARCH = ''amd64''\<rparr>"]
  by (simp add: default_build_vars_def ascii_def byte_of_def)

end
