(* ===== verification/Startup.thy ===== *)
theory Startup
  imports Api GoSlice Version
begin

section \<open>Startup: the command line and the wiring of the manager\<close>

text \<open>
  \<^verbatim>\<open>cmd/main.go\<close>. \<^verbatim>\<open>flag.Parse\<close> is modelled with the syntax of Go's \<^verbatim>\<open>flag\<close> package; the
  flags that imported libraries register (zap, kubeconfig) are the parameter \<open>F\<close>. What
  \<^verbatim>\<open>main\<close> asks of controller-runtime are \<open>action\<close>s in a trace; the parameter \<open>ok\<close> says
  which of them succeed, and a failed one ends the process with its exit code. The TLS options
  are slices of functions that share a backing array (theory \<open>GoSlice\<close>), read when the
  servers start.
\<close>

subsection \<open>Flags\<close>

record Flags =
  metricsAddr :: string
  metricsCertPath :: string
  metricsCertName :: string
  metricsCertKey :: string
  webhookCertPath :: string
  webhookCertName :: string
  webhookCertKey :: string
  enableLeaderElection :: bool
  probeAddr :: string
  secureMetrics :: bool
  enableHTTP2 :: bool
  showVersion :: bool

definition default_flags :: Flags where
  "default_flags =
     \<lparr>metricsAddr = ''0'', metricsCertPath = [], metricsCertName = ''tls.crt'', metricsCertKey = ''tls.key'',
      webhookCertPath = [], webhookCertName = ''tls.crt'', webhookCertKey = ''tls.key'',
      enableLeaderElection = False, probeAddr = '':8081'', secureMetrics = True, enableHTTP2 = False,
      showVersion = False\<rparr>"

datatype flag_kind = BoolFlag | ValueFlag

definition string_flags :: "(string \<times> (string \<Rightarrow> Flags \<Rightarrow> Flags)) list" where
  "string_flags =
     [(''metrics-bind-address'', \<lambda>v. metricsAddr_update (\<lambda>_. v)),
      (''health-probe-bind-address'', \<lambda>v. probeAddr_update (\<lambda>_. v)),
      (''webhook-cert-path'', \<lambda>v. webhookCertPath_update (\<lambda>_. v)),
      (''webhook-cert-name'', \<lambda>v. webhookCertName_update (\<lambda>_. v)),
      (''webhook-cert-key'', \<lambda>v. webhookCertKey_update (\<lambda>_. v)),
      (''metrics-cert-path'', \<lambda>v. metricsCertPath_update (\<lambda>_. v)),
      (''metrics-cert-name'', \<lambda>v. metricsCertName_update (\<lambda>_. v)),
      (''metrics-cert-key'', \<lambda>v. metricsCertKey_update (\<lambda>_. v))]"

definition bool_flags :: "(string \<times> (bool \<Rightarrow> Flags \<Rightarrow> Flags)) list" where
  "bool_flags =
     [(''leader-elect'', \<lambda>v. enableLeaderElection_update (\<lambda>_. v)),
      (''metrics-secure'', \<lambda>v. secureMetrics_update (\<lambda>_. v)),
      (''enable-http2'', \<lambda>v. enableHTTP2_update (\<lambda>_. v)),
      (''version'', \<lambda>v. showVersion_update (\<lambda>_. v))]"

text \<open>\<^verbatim>\<open>strconv.ParseBool\<close>\<close>

definition ParseBool :: "string \<Rightarrow> bool option" where
  "ParseBool s =
     (if s \<in> set [''1'', ''t'', ''T'', ''true'', ''TRUE'', ''True''] then Some True
      else if s \<in> set [''0'', ''f'', ''F'', ''false'', ''FALSE'', ''False''] then Some False
      else None)"

record 'z flag_lib =
  LibFlagKind :: "string \<Rightarrow> flag_kind option"
  LibFlagSet :: "string \<Rightarrow> string \<Rightarrow> 'z \<Rightarrow> 'z option"

definition lookup_flag :: "'z flag_lib \<Rightarrow> string \<Rightarrow> flag_kind option" where
  "lookup_flag F name =
     (if name \<in> fst ` set string_flags then Some ValueFlag
      else if name \<in> fst ` set bool_flags then Some BoolFlag
      else LibFlagKind F name)"

definition set_flag :: "'z flag_lib \<Rightarrow> string \<Rightarrow> string \<Rightarrow> Flags \<times> 'z \<Rightarrow> (Flags \<times> 'z) option" where
  "set_flag F name v st =
     (case map_of string_flags name of
        Some upd \<Rightarrow> Some (upd v (fst st), snd st)
      | None \<Rightarrow>
          (case map_of bool_flags name of
             Some upd \<Rightarrow> map_option (\<lambda>b. (upd b (fst st), snd st)) (ParseBool v)
           | None \<Rightarrow> map_option (Pair (fst st)) (LibFlagSet F name v (snd st))))"

datatype flag_error = BadSyntax string | NotDefined string | NeedsArgument string | InvalidValue string string

datatype 'z parse_result = Parsed "Flags \<times> 'z" "string list" | ParseError flag_error | HelpRequested

text \<open>The name and the value of an argument: the loop looks for \<^verbatim>\<open>=\<close> from index 1 on.\<close>

definition split_value :: "string \<Rightarrow> string \<times> string option" where
  "split_value s =
     (let name = hd s # takeWhile (\<lambda>c. c \<noteq> CHR ''='') (tl s);
          rest = dropWhile (\<lambda>c. c \<noteq> CHR ''='') (tl s)
      in if rest = [] then (s, None) else (name, Some (tl rest)))"

fun parse_flags :: "'z flag_lib \<Rightarrow> Flags \<times> 'z \<Rightarrow> string list \<Rightarrow> 'z parse_result" where
  "parse_flags F st [] = Parsed st []"
| "parse_flags F st (s # args) =
     (if length s < 2 \<or> hd s \<noteq> CHR ''-'' then Parsed st (s # args)
      else if s = ''--'' then Parsed st args
      else
        let name = (if s ! 1 = CHR ''-'' then drop 2 s else drop 1 s) in
        if name = [] \<or> hd name = CHR ''-'' \<or> hd name = CHR ''='' then ParseError (BadSyntax s)
        else
          let key = fst (split_value name); val = snd (split_value name) in
          case lookup_flag F key of
            None \<Rightarrow> if key = ''help'' \<or> key = ''h'' then HelpRequested else ParseError (NotDefined key)
          | Some BoolFlag \<Rightarrow>
              (case set_flag F key (case val of None \<Rightarrow> ''true'' | Some v \<Rightarrow> v) st of
                 None \<Rightarrow> ParseError (InvalidValue key (case val of None \<Rightarrow> ''true'' | Some v \<Rightarrow> v))
               | Some st' \<Rightarrow> parse_flags F st' args)
          | Some ValueFlag \<Rightarrow>
              (case val of
                 Some v \<Rightarrow>
                   (case set_flag F key v st of
                      None \<Rightarrow> ParseError (InvalidValue key v)
                    | Some st' \<Rightarrow> parse_flags F st' args)
               | None \<Rightarrow>
                   (case args of
                      [] \<Rightarrow> ParseError (NeedsArgument key)
                    | v # rest \<Rightarrow>
                        (case set_flag F key v st of
                           None \<Rightarrow> ParseError (InvalidValue key v)
                         | Some st' \<Rightarrow> parse_flags F st' rest))))"

declare parse_flags.simps(2) [simp del]

subsection \<open>main\<close>

datatype cert = MetricsCert | WebhookCert

text \<open>The functions in the TLS options; \<open>NilOption\<close> is the zero value of the function type, and calling it panics.\<close>

datatype tls_option = DisableHTTP2 | UseCertificate cert | NilOption

record tls_config =
  NextProtos :: "string list"
  GetCertificate :: "cert option"

fun apply_tls_option :: "tls_config \<Rightarrow> tls_option \<Rightarrow> tls_config outcome" where
  "apply_tls_option c DisableHTTP2 = Ok (c\<lparr>NextProtos := [''http/1.1'']\<rparr>)"
| "apply_tls_option c (UseCertificate w) = Ok (c\<lparr>GetCertificate := Some w\<rparr>)"
| "apply_tls_option c NilOption = Panic"

record metrics_options =
  mo_BindAddress :: string
  mo_SecureServing :: bool
  mo_TLSOpts :: go_slice
  mo_FilterProvider :: bool

record manager_options =
  mg_Metrics :: metrics_options
  mg_WebhookTLSOpts :: go_slice
  mg_HealthProbeBindAddress :: string
  mg_LeaderElection :: bool
  mg_LeaderElectionID :: string

text \<open>The controller that \<^verbatim>\<open>SetupWithManager\<close> builds: the kind it watches and its name.\<close>

record controller_builder =
  ctl_For :: "(string \<times> string) \<times> string"
  ctl_Named :: string

datatype action =
    AddToScheme string
  | AddKinds scheme_builder
  | PrintVersion string
  | NewCertWatcher cert string string
  | GetConfigOrDie
  | NewManager manager_options
  | Complete controller_builder
  | AddRunnable cert
  | AddHealthzCheck string
  | AddReadyzCheck string
  | StartManager

record startup =
  su_Trace :: "action list"
  su_Heap :: "tls_option slice_heap"

datatype 'a progress = Running 'a startup | Exited nat startup

primrec and_then :: "'a progress \<Rightarrow> ('a \<Rightarrow> startup \<Rightarrow> 'b progress) \<Rightarrow> 'b progress" where
  "and_then (Running x st) f = f x st"
| "and_then (Exited c st) f = Exited c st"

text \<open>An external call: it is recorded, and the process exits with \<open>code\<close> if it fails.\<close>

definition perform :: "(action \<Rightarrow> bool) \<Rightarrow> nat \<Rightarrow> action \<Rightarrow> startup \<Rightarrow> unit progress" where
  "perform ok code a st =
     (let st' = st\<lparr>su_Trace := su_Trace st @ [a]\<rparr> in if ok a then Running () st' else Exited code st')"

text \<open>\<^verbatim>\<open>utilruntime.Must\<close> panics, and a Go process that panics exits with 2.\<close>

definition init_schemes :: "(action \<Rightarrow> bool) \<Rightarrow> startup \<Rightarrow> unit progress" where
  "init_schemes ok st =
     and_then (perform ok 2 (AddToScheme ''clientgoscheme'') st) (\<lambda>_ st.
     and_then (perform ok 2 (AddToScheme ''authv1alpha1'') st) (\<lambda>_ st.
       perform ok 2 (AddKinds api_scheme) st))"

definition append_option :: "(nat \<Rightarrow> nat \<Rightarrow> nat) \<Rightarrow> startup \<Rightarrow> go_slice \<Rightarrow> tls_option \<Rightarrow> startup \<times> go_slice" where
  "append_option grow st s x =
     (let (h, t) = slice_append grow NilOption (su_Heap st) s x in (st\<lparr>su_Heap := h\<rparr>, t))"

text \<open>
  The certificate watcher of a server, for a non-empty path: the same statements for the webhook
  and the metrics server, each appending to \<^verbatim>\<open>tlsOpts\<close>.
\<close>

definition cert_watcher ::
    "(action \<Rightarrow> bool) \<Rightarrow> (nat \<Rightarrow> nat \<Rightarrow> nat) \<Rightarrow> cert \<Rightarrow> string \<Rightarrow> string \<Rightarrow> string \<Rightarrow> go_slice \<Rightarrow> startup
      \<Rightarrow> (bool \<times> go_slice) progress" where
  "cert_watcher ok grow w certPath certName certKey tlsOpts st =
     (if certPath \<noteq> [] then
        and_then (perform ok 1 (NewCertWatcher w (path_join [certPath, certName]) (path_join [certPath, certKey])) st) (\<lambda>_ st.
          let (st, opts) = append_option grow st tlsOpts (UseCertificate w) in Running (True, opts) st)
      else Running (False, tlsOpts) st)"

definition add_watcher :: "(action \<Rightarrow> bool) \<Rightarrow> bool \<Rightarrow> cert \<Rightarrow> startup \<Rightarrow> unit progress" where
  "add_watcher ok present w st = (if present then perform ok 1 (AddRunnable w) st else Running () st)"

definition nifi_controller :: controller_builder where
  "nifi_controller = \<lparr>ctl_For = (GroupVersion, ''NifiCluster''), ctl_Named = ''nificluster''\<rparr>"

definition SetupWithManager :: "(action \<Rightarrow> bool) \<Rightarrow> startup \<Rightarrow> unit progress" where
  "SetupWithManager ok st = perform ok 1 (Complete nifi_controller) st"

definition run_manager :: "(action \<Rightarrow> bool) \<Rightarrow> bool \<Rightarrow> bool \<Rightarrow> manager_options \<Rightarrow> startup \<Rightarrow> unit progress" where
  "run_manager ok metricsCertWatcher webhookCertWatcher options st =
     and_then (perform ok 1 GetConfigOrDie st) (\<lambda>_ st.
     and_then (perform ok 1 (NewManager options) st) (\<lambda>_ st.
     and_then (SetupWithManager ok st) (\<lambda>_ st.
     and_then (add_watcher ok metricsCertWatcher MetricsCert st) (\<lambda>_ st.
     and_then (add_watcher ok webhookCertWatcher WebhookCert st) (\<lambda>_ st.
     and_then (perform ok 1 (AddHealthzCheck ''healthz'') st) (\<lambda>_ st.
     and_then (perform ok 1 (AddReadyzCheck ''readyz'') st) (\<lambda>_ st.
     and_then (perform ok 1 StartManager st) (\<lambda>_ st.
       Exited 0 st))))))))"

text \<open>From the metrics server's options to the end of \<^verbatim>\<open>main\<close>.\<close>

definition serve_metrics ::
    "(action \<Rightarrow> bool) \<Rightarrow> (nat \<Rightarrow> nat \<Rightarrow> nat) \<Rightarrow> Flags \<Rightarrow> go_slice \<Rightarrow> bool \<Rightarrow> go_slice \<Rightarrow> startup \<Rightarrow> unit progress" where
  "serve_metrics ok grow fl tlsOpts webhookCertWatcher webhookTLSOpts st =
     (let metricsServerOptions =
            \<lparr>mo_BindAddress = metricsAddr fl, mo_SecureServing = secureMetrics fl, mo_TLSOpts = tlsOpts,
             mo_FilterProvider = secureMetrics fl\<rparr>
      in and_then (cert_watcher ok grow MetricsCert (metricsCertPath fl) (metricsCertName fl) (metricsCertKey fl)
             (mo_TLSOpts metricsServerOptions) st)
           (\<lambda>(metricsCertWatcher, metricsTLSOpts).
              run_manager ok metricsCertWatcher webhookCertWatcher
                \<lparr>mg_Metrics = metricsServerOptions\<lparr>mo_TLSOpts := metricsTLSOpts\<rparr>, mg_WebhookTLSOpts = webhookTLSOpts,
                 mg_HealthProbeBindAddress = probeAddr fl, mg_LeaderElection = enableLeaderElection fl,
                 mg_LeaderElectionID = ''e7c3517a.kubedoop.dev''\<rparr>))"

definition start_operator ::
    "build_vars \<Rightarrow> go_runtime \<Rightarrow> (action \<Rightarrow> bool) \<Rightarrow> (nat \<Rightarrow> nat \<Rightarrow> nat) \<Rightarrow> Flags \<Rightarrow> startup \<Rightarrow> unit progress" where
  "start_operator B R ok grow fl st =
     (if showVersion fl then and_then (perform ok 0 (PrintVersion (AppInfo_String (NewAppInfo B R ''nifi-operator''))) st) (\<lambda>_ st. Exited 0 st)
      else
        let (st, tlsOpts) =
              (if \<not> enableHTTP2 fl then append_option grow st nil_slice DisableHTTP2 else (st, nil_slice))
        in and_then (cert_watcher ok grow WebhookCert (webhookCertPath fl) (webhookCertName fl) (webhookCertKey fl) tlsOpts st)
             (\<lambda>(webhookCertWatcher, webhookTLSOpts). serve_metrics ok grow fl tlsOpts webhookCertWatcher webhookTLSOpts))"

text \<open>
  The process: package initialisation, the command line (\<^verbatim>\<open>flag.ExitOnError\<close> exits with 0 after
  printing the help text and with 2 on an error), and the rest of \<^verbatim>\<open>main\<close>.
\<close>

definition main_go ::
    "build_vars \<Rightarrow> go_runtime \<Rightarrow> (action \<Rightarrow> bool) \<Rightarrow> (nat \<Rightarrow> nat \<Rightarrow> nat) \<Rightarrow> 'z flag_lib \<Rightarrow> 'z \<Rightarrow> string list \<Rightarrow> unit progress" where
  "main_go B R ok grow F z args =
     and_then (init_schemes ok \<lparr>su_Trace = [], su_Heap = []\<rparr>) (\<lambda>_ st.
       case parse_flags F (default_flags, z) args of
         Parsed (fl, z') rest \<Rightarrow> start_operator B R ok grow fl st
       | ParseError e \<Rightarrow> Exited 2 st
       | HelpRequested \<Rightarrow> Exited 0 st)"

subsection \<open>Properties of the command line\<close>

text \<open>The arguments that set every flag.\<close>

definition show_bool :: "bool \<Rightarrow> string" where
  "show_bool b = (if b then ''true'' else ''false'')"

definition assignment :: "string \<times> string \<Rightarrow> string" where
  "assignment kv = ''--'' @ fst kv @ ''='' @ snd kv"

definition flag_values :: "Flags \<Rightarrow> (string \<times> string) list" where
  "flag_values fl =
     [(''metrics-bind-address'', metricsAddr fl), (''health-probe-bind-address'', probeAddr fl),
      (''webhook-cert-path'', webhookCertPath fl), (''webhook-cert-name'', webhookCertName fl),
      (''webhook-cert-key'', webhookCertKey fl), (''metrics-cert-path'', metricsCertPath fl),
      (''metrics-cert-name'', metricsCertName fl), (''metrics-cert-key'', metricsCertKey fl),
      (''leader-elect'', show_bool (enableLeaderElection fl)), (''metrics-secure'', show_bool (secureMetrics fl)),
      (''enable-http2'', show_bool (enableHTTP2 fl)), (''version'', show_bool (showVersion fl))]"

primrec set_flags :: "'z flag_lib \<Rightarrow> Flags \<times> 'z \<Rightarrow> (string \<times> string) list \<Rightarrow> (Flags \<times> 'z) option" where
  "set_flags F st [] = Some st"
| "set_flags F st (kv # kvs) =
     (case set_flag F (fst kv) (snd kv) st of None \<Rightarrow> None | Some st' \<Rightarrow> set_flags F st' kvs)"

lemma split_assignment: "k \<noteq> [] \<Longrightarrow> CHR ''='' \<notin> set k \<Longrightarrow> split_value (k @ CHR ''='' # v) = (k, Some v)"
  by (cases k) (auto simp: split_value_def takeWhile_append dropWhile_append)

definition assignable :: "'z flag_lib \<Rightarrow> string \<Rightarrow> bool" where
  "assignable F k \<longleftrightarrow> lookup_flag F k \<noteq> None \<and> k \<noteq> [] \<and> CHR ''='' \<notin> set k \<and> hd k \<noteq> CHR ''-''"

lemma parse_assignment:
  assumes "assignable F (fst kv)" "set_flag F (fst kv) (snd kv) st = Some st'"
  shows "parse_flags F st (assignment kv # args) = parse_flags F st' args"
proof -
  obtain k v where kv: "kv = (k, v)" by fastforce
  have k: "k \<noteq> []" "CHR ''='' \<notin> set k" "hd k \<noteq> CHR ''-''" and l: "lookup_flag F k \<noteq> None"
    using assms(1) by (simp_all add: assignable_def kv)
  then have "hd (k @ CHR ''='' # v) \<noteq> CHR ''-''" "hd (k @ CHR ''='' # v) \<noteq> CHR ''=''" by (cases k; auto)+
  moreover note split_assignment [OF k(1,2), of v] assms(2)
  moreover obtain kind where "lookup_flag F k = Some kind" using l by blast
  ultimately show ?thesis
    unfolding parse_flags.simps(2) Let_def assignment_def kv using k(1)
    by (cases kind) (simp_all add: parse_flags.simps(1))
qed

lemma parse_assignments:
  "list_all (\<lambda>kv. assignable F (fst kv)) kvs \<Longrightarrow> set_flags F st kvs = Some st' \<Longrightarrow>
   parse_flags F st (map assignment kvs @ args) = parse_flags F st' args"
  by (induction kvs arbitrary: st) (auto simp: parse_assignment split: option.splits)

lemma ParseBool_show [simp]: "ParseBool (show_bool b) = Some b"
  by (simp add: ParseBool_def show_bool_def)

lemma flag_values_assignable: "list_all (\<lambda>kv. assignable F (fst kv)) (flag_values fl)"
  by (simp add: flag_values_def assignable_def lookup_flag_def string_flags_def bool_flags_def)

lemma set_flag_values: "set_flags F (fl0, z) (flag_values fl) = Some (fl, z)"
  by (simp add: flag_values_def set_flag_def string_flags_def bool_flags_def)

text \<open>
  C28: Setting every flag on the command line sets every flag: whatever the flags were before,
  parsing the arguments \<^verbatim>\<open>--name=value\<close> written from a configuration gives that configuration,
  for arbitrary values (empty ones and ones with \<^verbatim>\<open>=\<close> or \<^verbatim>\<open>-\<close> in them included), and leaves the
  flags of the libraries and the arguments after \<^verbatim>\<open>--\<close> alone.
\<close>

theorem flags_roundtrip:
  "parse_flags F (fl0, z) (map assignment (flag_values fl) @ ''--'' # rest) = Parsed (fl, z) rest"
  unfolding parse_assignments [OF flag_values_assignable set_flag_values] by (simp add: parse_flags.simps)

subsection \<open>Performing a sequence of actions\<close>

text \<open>What of a plan is performed: everything up to and including the first action that fails.\<close>

fun attempt :: "(action \<Rightarrow> bool) \<Rightarrow> action list \<Rightarrow> action list" where
  "attempt ok [] = []"
| "attempt ok (a # as) = (if ok a then a # attempt ok as else [a])"

lemma attempt_all [simp]: "list_all ok as \<Longrightarrow> attempt ok as = as"
  by (induction as) simp_all

lemma attempt_append:
  "attempt ok (as @ bs) = (if list_all ok as then as @ attempt ok bs else attempt ok as)"
  by (induction as) simp_all

text \<open>
  \<open>p\<close> is what comes of performing \<open>plan\<close> after the trace \<open>tr\<close>: it runs on with a result in \<open>Q\<close>
  if every action succeeds and exits with a code other than 0 otherwise.
\<close>

definition performs ::
    "(action \<Rightarrow> bool) \<Rightarrow> action list \<Rightarrow> action list \<Rightarrow> ('a \<Rightarrow> tls_option slice_heap \<Rightarrow> bool) \<Rightarrow> 'a progress \<Rightarrow> bool" where
  "performs ok tr plan Q p \<longleftrightarrow>
     (if list_all ok plan then \<exists>x h. p = Running x \<lparr>su_Trace = tr @ plan, su_Heap = h\<rparr> \<and> Q x h
      else \<exists>c h. c \<noteq> 0 \<and> p = Exited c \<lparr>su_Trace = tr @ attempt ok plan, su_Heap = h\<rparr>)"

lemma performs_perform:
  "code \<noteq> 0 \<Longrightarrow> performs ok tr [a] (\<lambda>_ h'. h' = h) (perform ok code a \<lparr>su_Trace = tr, su_Heap = h\<rparr>)"
  by (auto simp: performs_def perform_def Let_def)

lemma performs_then:
  assumes "performs ok tr as Q p"
    and "\<And>x h. Q x h \<Longrightarrow> performs ok (tr @ as) bs R (f x \<lparr>su_Trace = tr @ as, su_Heap = h\<rparr>)"
  shows "performs ok tr (as @ bs) R (and_then p f)"
proof (cases "list_all ok as")
  case True
  with assms(1) obtain x h where "p = Running x \<lparr>su_Trace = tr @ as, su_Heap = h\<rparr>" "Q x h"
    by (auto simp: performs_def)
  then show ?thesis using assms(2) [of x h] True by (auto simp: performs_def attempt_append)
next
  case False
  with assms(1) obtain c h where "c \<noteq> 0" "p = Exited c \<lparr>su_Trace = tr @ attempt ok as, su_Heap = h\<rparr>"
    by (auto simp: performs_def)
  then show ?thesis using False by (auto simp: performs_def attempt_append)
qed

lemma performs_step:
  assumes "code \<noteq> 0" "performs ok (tr @ [a]) bs R (f () \<lparr>su_Trace = tr @ [a], su_Heap = h\<rparr>)"
  shows "performs ok tr (a # bs) R (and_then (perform ok code a \<lparr>su_Trace = tr, su_Heap = h\<rparr>) f)"
  using performs_then [OF performs_perform [OF assms(1), of ok tr a h], of bs R f] assms(2) by simp

lemma performs_nothing: "Q x h \<Longrightarrow> performs ok tr [] Q (Running x \<lparr>su_Trace = tr, su_Heap = h\<rparr>)"
  by (simp add: performs_def)

lemma performs_add_watcher:
  "performs ok tr (if b then [AddRunnable w] else []) (\<lambda>_ h'. h' = h) (add_watcher ok b w \<lparr>su_Trace = tr, su_Heap = h\<rparr>)"
  by (simp add: add_watcher_def performs_perform performs_nothing)

text \<open>The same for a computation that ends the process: with 0 exactly if every action succeeds.\<close>

definition finishes :: "(action \<Rightarrow> bool) \<Rightarrow> action list \<Rightarrow> action list \<Rightarrow> (tls_option slice_heap \<Rightarrow> bool) \<Rightarrow> unit progress \<Rightarrow> bool" where
  "finishes ok tr plan H p \<longleftrightarrow>
     (\<exists>c h. p = Exited c \<lparr>su_Trace = tr @ attempt ok plan, su_Heap = h\<rparr> \<and> (c = 0 \<longleftrightarrow> list_all ok plan) \<and> H h)"

lemma finishes_then:
  assumes "performs ok tr as Q p" "\<And>x h. Q x h \<Longrightarrow> finishes ok (tr @ as) bs H (f x \<lparr>su_Trace = tr @ as, su_Heap = h\<rparr>)"
  shows "finishes ok tr (as @ bs) (\<lambda>h. list_all ok as \<longrightarrow> H h) (and_then p f)"
proof (cases "list_all ok as")
  case True
  with assms(1) obtain x h where "p = Running x \<lparr>su_Trace = tr @ as, su_Heap = h\<rparr>" "Q x h"
    by (auto simp: performs_def)
  then show ?thesis using assms(2) [of x h] True by (auto simp: finishes_def attempt_append)
next
  case False
  with assms(1) show ?thesis by (auto simp: performs_def finishes_def attempt_append)
qed

lemma finishes_step:
  assumes "code \<noteq> 0" "finishes ok (tr @ [a]) bs H (f () \<lparr>su_Trace = tr @ [a], su_Heap = h\<rparr>)" "H h"
  shows "finishes ok tr (a # bs) H (and_then (perform ok code a \<lparr>su_Trace = tr, su_Heap = h\<rparr>) f)"
  using assms by (cases "ok a") (auto simp: finishes_def perform_def Let_def)

lemma finishes_add_watcher:
  assumes "finishes ok (tr @ (if b then [AddRunnable w] else [])) bs H (f () \<lparr>su_Trace = tr @ (if b then [AddRunnable w] else []), su_Heap = h\<rparr>)" "H h"
  shows "finishes ok tr ((if b then [AddRunnable w] else []) @ bs) H (and_then (add_watcher ok b w \<lparr>su_Trace = tr, su_Heap = h\<rparr>) f)"
  using assms by (auto simp: add_watcher_def intro: finishes_step)

definition manager_plan :: "bool \<Rightarrow> bool \<Rightarrow> manager_options \<Rightarrow> action list" where
  "manager_plan metricsCertWatcher webhookCertWatcher options =
     GetConfigOrDie # NewManager options # Complete nifi_controller
     # (if metricsCertWatcher then [AddRunnable MetricsCert] else [])
     @ (if webhookCertWatcher then [AddRunnable WebhookCert] else [])
     @ [AddHealthzCheck ''healthz'', AddReadyzCheck ''readyz'', StartManager]"

lemma run_manager_finishes:
  "finishes ok tr (manager_plan mw ww opts) (\<lambda>h'. h' = h) (run_manager ok mw ww opts \<lparr>su_Trace = tr, su_Heap = h\<rparr>)"
  unfolding run_manager_def SetupWithManager_def manager_plan_def
  by (rule finishes_step, simp, rule finishes_step, simp, rule finishes_step, simp,
      rule finishes_add_watcher, rule finishes_add_watcher, rule finishes_step, simp, rule finishes_step, simp,
      rule finishes_step, simp) (simp_all add: finishes_def)

subsection \<open>The TLS options, statement by statement\<close>

definition watcher_plan :: "cert \<Rightarrow> string \<Rightarrow> string \<Rightarrow> string \<Rightarrow> action list" where
  "watcher_plan w certPath certName certKey =
     (if certPath \<noteq> [] then [NewCertWatcher w (path_join [certPath, certName]) (path_join [certPath, certKey])] else [])"

definition base_options :: "(nat \<Rightarrow> nat \<Rightarrow> nat) \<Rightarrow> Flags \<Rightarrow> tls_option slice_heap \<times> go_slice" where
  "base_options grow fl =
     (if enableHTTP2 fl then ([], nil_slice) else slice_append grow NilOption [] nil_slice DisableHTTP2)"

definition with_certificate ::
    "(nat \<Rightarrow> nat \<Rightarrow> nat) \<Rightarrow> cert \<Rightarrow> string \<Rightarrow> tls_option slice_heap \<Rightarrow> go_slice \<Rightarrow> tls_option slice_heap \<times> go_slice" where
  "with_certificate grow w certPath h s = (if certPath = [] then (h, s) else slice_append grow NilOption h s (UseCertificate w))"

definition webhook_options :: "(nat \<Rightarrow> nat \<Rightarrow> nat) \<Rightarrow> Flags \<Rightarrow> tls_option slice_heap \<times> go_slice" where
  "webhook_options grow fl =
     with_certificate grow WebhookCert (webhookCertPath fl) (fst (base_options grow fl)) (snd (base_options grow fl))"

definition metrics_tls_options :: "(nat \<Rightarrow> nat \<Rightarrow> nat) \<Rightarrow> Flags \<Rightarrow> tls_option slice_heap \<times> go_slice" where
  "metrics_tls_options grow fl =
     with_certificate grow MetricsCert (metricsCertPath fl) (fst (webhook_options grow fl)) (snd (base_options grow fl))"

definition manager_config :: "(nat \<Rightarrow> nat \<Rightarrow> nat) \<Rightarrow> Flags \<Rightarrow> manager_options" where
  "manager_config grow fl =
     \<lparr>mg_Metrics = \<lparr>mo_BindAddress = metricsAddr fl, mo_SecureServing = secureMetrics fl,
        mo_TLSOpts = snd (metrics_tls_options grow fl), mo_FilterProvider = secureMetrics fl\<rparr>,
      mg_WebhookTLSOpts = snd (webhook_options grow fl), mg_HealthProbeBindAddress = probeAddr fl,
      mg_LeaderElection = enableLeaderElection fl, mg_LeaderElectionID = ''e7c3517a.kubedoop.dev''\<rparr>"

text \<open>Everything \<^verbatim>\<open>main\<close> asks of controller-runtime, in order.\<close>

definition startup_plan :: "(nat \<Rightarrow> nat \<Rightarrow> nat) \<Rightarrow> Flags \<Rightarrow> action list" where
  "startup_plan grow fl =
     watcher_plan WebhookCert (webhookCertPath fl) (webhookCertName fl) (webhookCertKey fl)
     @ watcher_plan MetricsCert (metricsCertPath fl) (metricsCertName fl) (metricsCertKey fl)
     @ manager_plan (metricsCertPath fl \<noteq> []) (webhookCertPath fl \<noteq> []) (manager_config grow fl)"

lemma performs_cert_watcher:
  "performs ok tr (watcher_plan w certPath certName certKey)
     (\<lambda>x h'. fst x = (certPath \<noteq> []) \<and> (h', snd x) = with_certificate grow w certPath h s)
     (cert_watcher ok grow w certPath certName certKey s \<lparr>su_Trace = tr, su_Heap = h\<rparr>)"
  by (auto simp: cert_watcher_def watcher_plan_def with_certificate_def performs_def perform_def Let_def
      append_option_def split: prod.split)

lemma finishes_mono: "finishes ok tr plan H p \<Longrightarrow> (\<And>h. H h \<Longrightarrow> H' h) \<Longrightarrow> finishes ok tr plan H' p"
  by (auto simp: finishes_def)

lemma attempt_subset: "set (attempt ok as) \<subseteq> set as"
  by (induction as) auto

lemma first_options:
  "(if \<not> enableHTTP2 fl then append_option grow \<lparr>su_Trace = tr, su_Heap = []\<rparr> nil_slice DisableHTTP2
    else (\<lparr>su_Trace = tr, su_Heap = []\<rparr>, nil_slice)) =
   (\<lparr>su_Trace = tr, su_Heap = fst (base_options grow fl)\<rparr>, snd (base_options grow fl))"
  by (simp add: append_option_def base_options_def split_beta)

lemma manager_reached:
  assumes "NewManager opts \<in> set (attempt ok (startup_plan grow fl))"
  shows "list_all ok (watcher_plan WebhookCert (webhookCertPath fl) (webhookCertName fl) (webhookCertKey fl))"
    "list_all ok (watcher_plan MetricsCert (metricsCertPath fl) (metricsCertName fl) (metricsCertKey fl))"
  using assms by (auto simp: startup_plan_def watcher_plan_def attempt_append split: if_splits)

lemma serve_metrics_finishes:
  fixes fl :: Flags and grow :: "nat \<Rightarrow> nat \<Rightarrow> nat"
  defines "met \<equiv> watcher_plan MetricsCert (metricsCertPath fl) (metricsCertName fl) (metricsCertKey fl)"
    and "mgr \<equiv> manager_plan (metricsCertPath fl \<noteq> []) (webhookCertPath fl \<noteq> []) (manager_config grow fl)"
  shows "finishes ok tr (met @ mgr) (\<lambda>h. list_all ok met \<longrightarrow> h = fst (metrics_tls_options grow fl))
    (serve_metrics ok grow fl (snd (base_options grow fl)) (webhookCertPath fl \<noteq> []) (snd (webhook_options grow fl))
       \<lparr>su_Trace = tr, su_Heap = fst (webhook_options grow fl)\<rparr>)"
  unfolding serve_metrics_def Let_def metrics_options.simps met_def
proof (rule finishes_then [OF performs_cert_watcher])
  fix y :: "bool \<times> go_slice" and k
  assume "fst y = (metricsCertPath fl \<noteq> []) \<and> (k, snd y) =
    with_certificate grow MetricsCert (metricsCertPath fl) (fst (webhook_options grow fl)) (snd (base_options grow fl))"
  then have y: "y = (metricsCertPath fl \<noteq> [], snd (metrics_tls_options grow fl))" and k: "k = fst (metrics_tls_options grow fl)"
    by (cases y; simp add: metrics_tls_options_def; metis fst_conv snd_conv)+
  let ?tr = "tr @ watcher_plan MetricsCert (metricsCertPath fl) (metricsCertName fl) (metricsCertKey fl)"
  show "finishes ok ?tr mgr (\<lambda>h. h = fst (metrics_tls_options grow fl))
      ((case y of (metricsCertWatcher, metricsTLSOpts) \<Rightarrow> run_manager ok metricsCertWatcher (webhookCertPath fl \<noteq> [])
          \<lparr>mg_Metrics = \<lparr>mo_BindAddress = metricsAddr fl, mo_SecureServing = secureMetrics fl, mo_TLSOpts = metricsTLSOpts,
             mo_FilterProvider = secureMetrics fl\<rparr>,
           mg_WebhookTLSOpts = snd (webhook_options grow fl), mg_HealthProbeBindAddress = probeAddr fl,
           mg_LeaderElection = enableLeaderElection fl, mg_LeaderElectionID = ''e7c3517a.kubedoop.dev''\<rparr>)
        \<lparr>su_Trace = ?tr, su_Heap = k\<rparr>)"
    using run_manager_finishes [of ok ?tr "metricsCertPath fl \<noteq> []" "webhookCertPath fl \<noteq> []" "manager_config grow fl" k]
    by (simp add: y k mgr_def manager_config_def)
qed

lemma start_operator_finishes:
  assumes "\<not> showVersion fl"
  shows "finishes ok tr (startup_plan grow fl)
     (\<lambda>h. NewManager (manager_config grow fl) \<in> set (attempt ok (startup_plan grow fl)) \<longrightarrow> h = fst (metrics_tls_options grow fl))
     (start_operator B R ok grow fl \<lparr>su_Trace = tr, su_Heap = []\<rparr>)"
proof (rule finishes_mono)
  let ?web = "watcher_plan WebhookCert (webhookCertPath fl) (webhookCertName fl) (webhookCertKey fl)"
  let ?met = "watcher_plan MetricsCert (metricsCertPath fl) (metricsCertName fl) (metricsCertKey fl)"
  show "finishes ok tr (startup_plan grow fl)
     (\<lambda>h. list_all ok ?web \<longrightarrow> list_all ok ?met \<longrightarrow> h = fst (metrics_tls_options grow fl))
     (start_operator B R ok grow fl \<lparr>su_Trace = tr, su_Heap = []\<rparr>)"
    unfolding start_operator_def if_not_P [OF assms] first_options Let_def prod.case startup_plan_def
  proof (rule finishes_then [OF performs_cert_watcher])
    fix x :: "bool \<times> go_slice" and h
    assume "fst x = (webhookCertPath fl \<noteq> []) \<and> (h, snd x) =
      with_certificate grow WebhookCert (webhookCertPath fl) (fst (base_options grow fl)) (snd (base_options grow fl))"
    then have x: "x = (webhookCertPath fl \<noteq> [], snd (webhook_options grow fl))" and h: "h = fst (webhook_options grow fl)"
      by (cases x; simp add: webhook_options_def; metis fst_conv snd_conv)+
    show "finishes ok (tr @ ?web) (?met @ manager_plan (metricsCertPath fl \<noteq> []) (webhookCertPath fl \<noteq> []) (manager_config grow fl))
      (\<lambda>h. list_all ok ?met \<longrightarrow> h = fst (metrics_tls_options grow fl))
      ((case x of (webhookCertWatcher, webhookTLSOpts) \<Rightarrow>
         serve_metrics ok grow fl (snd (base_options grow fl)) webhookCertWatcher webhookTLSOpts) \<lparr>su_Trace = tr @ ?web, su_Heap = h\<rparr>)"
      unfolding x prod.case h by (rule serve_metrics_finishes)
  qed
qed (blast dest: manager_reached)

subsection \<open>Properties of the startup\<close>

definition scheme_plan :: "action list" where
  "scheme_plan = [AddToScheme ''clientgoscheme'', AddToScheme ''authv1alpha1'', AddKinds api_scheme]"

lemma init_schemes_cases:
  "init_schemes ok \<lparr>su_Trace = [], su_Heap = []\<rparr> =
     (if list_all ok scheme_plan then Running () \<lparr>su_Trace = scheme_plan, su_Heap = []\<rparr>
      else Exited 2 \<lparr>su_Trace = attempt ok scheme_plan, su_Heap = []\<rparr>)"
  by (simp add: init_schemes_def perform_def scheme_plan_def Let_def)

lemma main_go_finishes:
  assumes "parse_flags F (default_flags, z) args = Parsed (fl, z') rest" "\<not> showVersion fl"
  shows "finishes ok [] (scheme_plan @ startup_plan grow fl)
     (\<lambda>h. NewManager (manager_config grow fl) \<in> set (attempt ok (scheme_plan @ startup_plan grow fl)) \<longrightarrow> h = fst (metrics_tls_options grow fl))
     (main_go B R ok grow F z args)"
proof (cases "list_all ok scheme_plan")
  case True
  have "NewManager opts \<notin> set scheme_plan" for opts by (simp add: scheme_plan_def)
  with True start_operator_finishes [OF assms(2), of ok scheme_plan grow] show ?thesis
    by (auto simp: main_go_def init_schemes_cases assms(1) finishes_def attempt_append)
next
  case False
  have "NewManager opts \<notin> set (attempt ok scheme_plan)" for opts
    using attempt_subset [of ok scheme_plan] by (auto simp: scheme_plan_def)
  with False show ?thesis
    by (auto simp: main_go_def init_schemes_cases finishes_def attempt_append)
qed

text \<open>
  With \<^verbatim>\<open>--version\<close> the process prints the build information and exits with 0 before it touches
  the cluster.
\<close>

lemma version_only:
  assumes "parse_flags F (default_flags, z) args = Parsed (fl, z') rest" "showVersion fl" "list_all ok scheme_plan"
  shows "\<exists>st. main_go B R ok grow F z args = Exited 0 st \<and>
    su_Trace st = scheme_plan @ [PrintVersion (AppInfo_String (NewAppInfo B R ''nifi-operator''))]"
  using assms by (simp add: main_go_def init_schemes_cases start_operator_def perform_def Let_def)

text \<open>The kind that the controller watches is in the scheme before the controller is built.\<close>

lemma controller_kind_known:
  assumes "attempt ok (scheme_plan @ startup_plan grow fl) = pre @ Complete c # post"
  shows "\<exists>b. AddKinds b \<in> set pre \<and> ok (AddKinds b) \<and> fst (ctl_For c) = sch_GroupVersion b \<and> snd (ctl_For c) \<in> set (sch_Kinds b)"
proof -
  have no: "Complete c \<notin> set scheme_plan" by (simp add: scheme_plan_def)
  have mem: "Complete c \<in> set (attempt ok (scheme_plan @ startup_plan grow fl))" by (simp add: assms)
  have all: "list_all ok scheme_plan"
    using mem no attempt_subset [of ok scheme_plan] by (auto simp: attempt_append split: if_splits)
  with assms have "scheme_plan @ attempt ok (startup_plan grow fl) = pre @ Complete c # post" by (simp add: attempt_append)
  then consider us where "pre = scheme_plan @ us" | us where "scheme_plan = pre @ Complete c # us"
    by (auto simp: append_eq_append_conv2 append_eq_Cons_conv)
  then obtain us where "pre = scheme_plan @ us"
  proof cases
    case (2 us)
    with no have "Complete c \<notin> set (pre @ Complete c # us)" by metis
    then show ?thesis by simp
  qed
  moreover have "c = nifi_controller"
    using mem attempt_subset [of ok "scheme_plan @ startup_plan grow fl"]
    by (auto simp: scheme_plan_def startup_plan_def watcher_plan_def manager_plan_def split: if_splits)
  ultimately show ?thesis
    using all by (intro exI [of _ api_scheme])
      (simp add: scheme_plan_def nifi_controller_def api_scheme_def Register_def SchemeBuilder_def)
qed

lemma manager_started_last:
  "StartManager \<in> set (attempt ok (startup_plan grow fl)) \<Longrightarrow> list_all ok (butlast (startup_plan grow fl))"
proof -
  let ?plan = "startup_plan grow fl"
  assume started: "StartManager \<in> set (attempt ok ?plan)"
  have "last ?plan = StartManager" "?plan \<noteq> []" "StartManager \<notin> set (butlast ?plan)"
    by (auto simp: startup_plan_def watcher_plan_def manager_plan_def)
  then obtain ps where ps: "?plan = ps @ [StartManager]" "StartManager \<notin> set ps"
    by (metis append_butlast_last_id)
  from started show ?thesis
    using attempt_subset [of ok ps] ps(2) unfolding ps(1) by (auto simp: attempt_append split: if_splits)
qed

text \<open>The exit code and the trace of a process, for every command line.\<close>

definition process_result ::
    "build_vars \<Rightarrow> go_runtime \<Rightarrow> (action \<Rightarrow> bool) \<Rightarrow> (nat \<Rightarrow> nat \<Rightarrow> nat) \<Rightarrow> 'z parse_result \<Rightarrow> nat \<Rightarrow> action list \<Rightarrow> bool" where
  "process_result B R ok grow parsed code trace \<longleftrightarrow>
     (if \<not> list_all ok scheme_plan then code = 2 \<and> trace = attempt ok scheme_plan
      else case parsed of
        ParseError e \<Rightarrow> code = 2 \<and> trace = scheme_plan
      | HelpRequested \<Rightarrow> code = 0 \<and> trace = scheme_plan
      | Parsed (fl, z) rest \<Rightarrow>
          if showVersion fl then code = 0 \<and> trace = scheme_plan @ [PrintVersion (AppInfo_String (NewAppInfo B R ''nifi-operator''))]
          else trace = scheme_plan @ attempt ok (startup_plan grow fl) \<and> (code = 0 \<longleftrightarrow> list_all ok (startup_plan grow fl)))"

lemma main_go_result:
  "\<exists>code st. main_go B R ok grow F z args = Exited code st \<and>
     process_result B R ok grow (parse_flags F (default_flags, z) args) code (su_Trace st)"
proof (cases "list_all ok scheme_plan")
  case False
  then show ?thesis by (simp add: main_go_def init_schemes_cases process_result_def)
next
  case True
  show ?thesis
  proof (cases "parse_flags F (default_flags, z) args")
    case (Parsed x rest)
    obtain fl z' where x: "x = (fl, z')" by fastforce
    show ?thesis
    proof (cases "showVersion fl")
      case True
      with version_only [OF Parsed [unfolded x] True \<open>list_all ok scheme_plan\<close>, of B R grow] show ?thesis
        using \<open>list_all ok scheme_plan\<close> by (auto simp: process_result_def Parsed x)
    next
      case False
      from main_go_finishes [OF Parsed [unfolded x] False, of ok grow B R] show ?thesis
        using \<open>list_all ok scheme_plan\<close> False by (auto simp: process_result_def Parsed x finishes_def attempt_append)
    qed
  qed (use True in \<open>simp_all add: main_go_def init_schemes_cases process_result_def\<close>)
qed

lemma completed_only_in_plan:
  assumes "process_result B R ok grow parsed code trace" "Complete c \<in> set trace"
  obtains fl where "trace = attempt ok (scheme_plan @ startup_plan grow fl)"
proof -
  have "Complete c \<notin> set scheme_plan" "Complete c \<notin> set (attempt ok scheme_plan)"
    using attempt_subset [of ok scheme_plan] by (auto simp: scheme_plan_def)
  with assms obtain fl where "list_all ok scheme_plan" "trace = scheme_plan @ attempt ok (startup_plan grow fl)"
    by (auto simp: process_result_def split: if_splits parse_result.splits)
  then show thesis by (intro that [of fl]) (simp add: attempt_append)
qed

text \<open>
  C17: What the process does on any command line (the run of the manager is one action). First
  the three schemes are registered, and if that fails the process exits with 2. A command line
  that cannot be parsed exits with 2, \<^verbatim>\<open>--help\<close> with 0, and \<^verbatim>\<open>--version\<close> prints the build
  information and exits with 0, all before anything else is done. Otherwise the process creates
  the configured certificate watchers, loads the configuration, creates the manager with the
  options of the command line, registers the controller, adds the watchers and the health and
  readiness checks and starts; it stops at the first action that fails, with exit code 0 exactly
  if none does, and the manager is started only when everything before succeeded. On every
  command line the kind the controller watches has been added to the scheme before the
  controller is built.
\<close>

theorem startup_order:
  "\<exists>code st. main_go B R ok grow F z args = Exited code st \<and>
    (\<not> list_all ok scheme_plan \<longrightarrow> code = 2 \<and> su_Trace st = attempt ok scheme_plan) \<and>
    (list_all ok scheme_plan \<longrightarrow>
      (case parse_flags F (default_flags, z) args of
         ParseError e \<Rightarrow> code = 2 \<and> su_Trace st = scheme_plan
       | HelpRequested \<Rightarrow> code = 0 \<and> su_Trace st = scheme_plan
       | Parsed (fl, z') rest \<Rightarrow>
           if showVersion fl then code = 0 \<and> su_Trace st = scheme_plan @ [PrintVersion (AppInfo_String (NewAppInfo B R ''nifi-operator''))]
           else su_Trace st = scheme_plan @ attempt ok (startup_plan grow fl) \<and> (code = 0 \<longleftrightarrow> list_all ok (startup_plan grow fl)) \<and>
             (StartManager \<in> set (attempt ok (startup_plan grow fl)) \<longrightarrow> list_all ok (butlast (startup_plan grow fl))))) \<and>
    (\<forall>c pre post. su_Trace st = pre @ Complete c # post \<longrightarrow>
       (\<exists>b. AddKinds b \<in> set pre \<and> ok (AddKinds b) \<and> fst (ctl_For c) = sch_GroupVersion b \<and> snd (ctl_For c) \<in> set (sch_Kinds b)))"
proof -
  obtain code st where run: "main_go B R ok grow F z args = Exited code st"
    and res: "process_result B R ok grow (parse_flags F (default_flags, z) args) code (su_Trace st)"
    using main_go_result [of B R ok grow F z args] by blast
  have "\<exists>b. AddKinds b \<in> set pre \<and> ok (AddKinds b) \<and> fst (ctl_For c) = sch_GroupVersion b \<and> snd (ctl_For c) \<in> set (sch_Kinds b)"
    if tr: "su_Trace st = pre @ Complete c # post" for c pre post
  proof -
    have "Complete c \<in> set (su_Trace st)" by (simp add: tr)
    with res obtain fl where "su_Trace st = attempt ok (scheme_plan @ startup_plan grow fl)" by (rule completed_only_in_plan)
    then show ?thesis using controller_kind_known [of ok grow fl pre c post] tr by simp
  qed
  then show ?thesis
    using run res manager_started_last [of ok grow]
    by (intro exI [of _ code] exI [of _ st]) (auto simp: process_result_def split: if_splits parse_result.splits)
qed

definition no_lib_flags :: "unit flag_lib" where
  "no_lib_flags = \<lparr>LibFlagKind = (\<lambda>_. None), LibFlagSet = (\<lambda>_ _ _. None)\<rparr>"

definition linux_runtime :: go_runtime where
  "linux_runtime = \<lparr>rt_Version = ''go1.24'', rt_Compiler = ''gc'', rt_GOOS = ''linux'', rt_GOARCH = ''amd64''\<rparr>"

definition demo_args :: "string list" where
  "demo_args = [''--leader-elect'', ''-webhook-cert-path'', ''/certs'', ''--metrics-cert-path=/metrics'']"

definition demo_flags :: Flags where
  "demo_flags = default_flags\<lparr>enableLeaderElection := True, webhookCertPath := ''/certs'', metricsCertPath := ''/metrics''\<rparr>"

lemma demo_parsed: "parse_flags no_lib_flags (default_flags, ()) demo_args = Parsed (demo_flags, ()) []"
  by (simp add: demo_args_def demo_flags_def parse_flags.simps split_value_def lookup_flag_def set_flag_def
      string_flags_def bool_flags_def ParseBool_def)

theorem startup_order_witness:
  "\<exists>code st. main_go default_build_vars linux_runtime (\<lambda>a. a \<noteq> AddRunnable WebhookCert) max no_lib_flags () demo_args = Exited code st \<and>
     code \<noteq> 0 \<and> StartManager \<notin> set (su_Trace st)"
proof -
  let ?ok = "\<lambda>a. a \<noteq> AddRunnable WebhookCert" and ?plan = "startup_plan max demo_flags"
  have "\<not> list_all ?ok (butlast ?plan)" "\<not> list_all ?ok ?plan" "list_all ?ok scheme_plan" "StartManager \<notin> set scheme_plan"
    by (simp_all add: startup_plan_def manager_plan_def demo_flags_def butlast_append scheme_plan_def)
  moreover have "\<not> showVersion demo_flags" by (simp add: demo_flags_def default_flags_def)
  ultimately show ?thesis
    using startup_order [of default_build_vars linux_runtime ?ok max no_lib_flags "()" demo_args] unfolding demo_parsed by auto
qed

text \<open>
  The slices of the two servers. The second append overwrites the first when the first append of
  all left room in the shared array.
\<close>

definition http2_options :: "Flags \<Rightarrow> tls_option list" where
  "http2_options fl = (if enableHTTP2 fl then [] else [DisableHTTP2])"

lemma base_options_slice:
  assumes "grow_law grow"
  shows "wf_slice (fst (base_options grow fl)) (snd (base_options grow fl))"
    "sl_Len (snd (base_options grow fl)) = sl_Cap (snd (base_options grow fl)) \<longleftrightarrow> enableHTTP2 fl \<or> grow 0 1 = 1"
    "slice_elems (fst (base_options grow fl)) (snd (base_options grow fl)) = http2_options fl"
proof -
  have "1 \<le> grow 0 1" using assms by (simp add: grow_law_def)
  then show "wf_slice (fst (base_options grow fl)) (snd (base_options grow fl))"
    "sl_Len (snd (base_options grow fl)) = sl_Cap (snd (base_options grow fl)) \<longleftrightarrow> enableHTTP2 fl \<or> grow 0 1 = 1"
    "slice_elems (fst (base_options grow fl)) (snd (base_options grow fl)) = http2_options fl"
    by (auto simp: base_options_def slice_append_def wf_slice_def nil_slice_def slice_elems_def http2_options_def Let_def)
qed

lemma with_certificate_slice:
  assumes "grow_law grow" "wf_slice h s" "with_certificate grow w p h s = (h', t)"
  shows "wf_slice h' t" "slice_elems h' t = slice_elems h s @ (if p = [] then [] else [UseCertificate w])"
    "wf_slice h u \<Longrightarrow> p = [] \<or> sl_Len s = sl_Cap s \<or> sl_Len u \<le> sl_Len s \<Longrightarrow> slice_elems h' u = slice_elems h u \<and> wf_slice h' u"
  using assms slice_append_wf [OF assms(2,1)] slice_append_frame [of h u grow _ s _ h' t]
  by (auto simp: with_certificate_def split: if_splits)

text \<open>Whether the metrics server's option overwrites the one of the webhook server.\<close>

definition overwritten :: "(nat \<Rightarrow> nat \<Rightarrow> nat) \<Rightarrow> Flags \<Rightarrow> bool" where
  "overwritten grow fl \<longleftrightarrow> \<not> enableHTTP2 fl \<and> metricsCertPath fl \<noteq> [] \<and> grow 0 1 \<noteq> 1"

lemma server_options:
  fixes fl :: Flags and grow :: "nat \<Rightarrow> nat \<Rightarrow> nat"
  assumes "grow_law grow"
  defines "h \<equiv> fst (metrics_tls_options grow fl)"
  shows "slice_elems h (snd (webhook_options grow fl)) = http2_options fl @
      (if webhookCertPath fl = [] then [] else [UseCertificate (if overwritten grow fl then MetricsCert else WebhookCert)])"
    "slice_elems h (snd (metrics_tls_options grow fl)) =
      http2_options fl @ (if metricsCertPath fl = [] then [] else [UseCertificate MetricsCert])"
proof -
  let ?hb = "fst (base_options grow fl)" and ?b = "snd (base_options grow fl)"
  let ?hw = "fst (webhook_options grow fl)" and ?w = "snd (webhook_options grow fl)"
  note base = base_options_slice [OF assms(1), of fl]
  have w: "with_certificate grow WebhookCert (webhookCertPath fl) ?hb ?b = (?hw, ?w)"
    by (simp add: webhook_options_def)
  have m: "with_certificate grow MetricsCert (metricsCertPath fl) ?hw ?b = (h, snd (metrics_tls_options grow fl))"
    by (simp add: metrics_tls_options_def h_def)
  note web = with_certificate_slice [OF assms(1) base(1) w]
  have kept: "slice_elems ?hw ?b = slice_elems ?hb ?b" "wf_slice ?hw ?b" using web(3) [OF base(1)] by auto
  note met = with_certificate_slice [OF assms(1) kept(2) m]
  show "slice_elems h (snd (metrics_tls_options grow fl)) =
      http2_options fl @ (if metricsCertPath fl = [] then [] else [UseCertificate MetricsCert])"
    using met(2) kept(1) base(3) by simp
  show "slice_elems h ?w = http2_options fl @
      (if webhookCertPath fl = [] then [] else [UseCertificate (if overwritten grow fl then MetricsCert else WebhookCert)])"
  proof (cases "webhookCertPath fl = [] \<or> \<not> overwritten grow fl")
    case True
    then have "metricsCertPath fl = [] \<or> sl_Len ?b = sl_Cap ?b \<or> sl_Len ?w \<le> sl_Len ?b"
      using base(2) by (auto simp: overwritten_def webhook_options_def with_certificate_def)
    from met(3) [OF web(1) this] show ?thesis using True web(2) base(3) by auto
  next
    case False
    then have "slice_append grow NilOption ?hb ?b (UseCertificate WebhookCert) = (?hw, ?w)"
      "slice_append grow NilOption ?hw ?b (UseCertificate MetricsCert) = (h, snd (metrics_tls_options grow fl))"
      using w m by (simp_all add: with_certificate_def overwritten_def)
    moreover have "sl_Len ?b \<le> sl_Cap ?b" using base(1) by (simp add: wf_slice_def)
    then have "sl_Len ?b < sl_Cap ?b" using False base(2) unfolding overwritten_def by linarith
    ultimately have "slice_elems h ?w = slice_elems ?hb ?b @ [UseCertificate MetricsCert]"
      using base(1) by (blast intro: slice_append_clobbers)
    with base(3) False show ?thesis by simp
  qed
qed

text \<open>
  C16: The TLS settings the servers start with, for every growth strategy of \<^verbatim>\<open>append\<close> that the
  language allows. With \<^verbatim>\<open>enable-http2\<close> off both servers speak HTTP/1.1 only; the metrics server
  serves the certificate of its own watcher exactly if a path is given for it, and its endpoint is
  protected by authentication exactly if it is secure; the webhook server serves the certificate of
  its own watcher if a path is given for it, except when HTTP/2 is off, a path is given for the
  metrics certificate too and the first append allocated room for more than one element: then the
  second append to the shared slice has replaced it and it serves the metrics certificate.
\<close>

theorem startup_tls:
  assumes "grow_law grow"
    and "parse_flags F (default_flags, z) args = Parsed (fl, z') rest" "\<not> showVersion fl"
    and "main_go B R ok grow F z args = Exited code st" "NewManager opts \<in> set (su_Trace st)"
  shows "\<exists>web met.
    fold_o apply_tls_option c (slice_elems (su_Heap st) (mg_WebhookTLSOpts opts)) = Ok web \<and>
    fold_o apply_tls_option c (slice_elems (su_Heap st) (mo_TLSOpts (mg_Metrics opts))) = Ok met \<and>
    NextProtos web = (if enableHTTP2 fl then NextProtos c else [''http/1.1'']) \<and> NextProtos met = NextProtos web \<and>
    GetCertificate web =
      (if webhookCertPath fl = [] then GetCertificate c
       else if \<not> enableHTTP2 fl \<and> metricsCertPath fl \<noteq> [] \<and> grow 0 1 \<noteq> 1 then Some MetricsCert
       else Some WebhookCert) \<and>
    GetCertificate met = (if metricsCertPath fl = [] then GetCertificate c else Some MetricsCert) \<and>
    mo_SecureServing (mg_Metrics opts) = secureMetrics fl \<and> mo_FilterProvider (mg_Metrics opts) = secureMetrics fl \<and>
    mg_LeaderElection opts = enableLeaderElection fl"
proof -
  let ?plan = "scheme_plan @ startup_plan grow fl"
  from main_go_finishes [OF assms(2,3), where B = B and R = R and ok = ok and grow = grow] assms(4) have
    st: "su_Trace st = attempt ok ?plan" "NewManager (manager_config grow fl) \<in> set (su_Trace st) \<longrightarrow> su_Heap st = fst (metrics_tls_options grow fl)"
    by (auto simp: finishes_def)
  have "opts = manager_config grow fl"
    using assms(5) attempt_subset [of ok ?plan] st(1)
    by (auto simp: scheme_plan_def startup_plan_def watcher_plan_def manager_plan_def split: if_splits)
  with st(2) assms(5) have opts: "opts = manager_config grow fl" and h: "su_Heap st = fst (metrics_tls_options grow fl)" by simp_all
  note slices = server_options [OF assms(1), of fl]
  show ?thesis
    unfolding h opts manager_config_def by (simp add: slices http2_options_def overwritten_def)
qed

definition exact_grow :: "nat \<Rightarrow> nat \<Rightarrow> nat" where
  "exact_grow c n = (if c = 0 then n else max n (2 * c))"

theorem startup_tls_witness:
  "\<exists>code st opts web.
     main_go default_build_vars linux_runtime (\<lambda>_. True) exact_grow no_lib_flags () demo_args = Exited code st \<and> NewManager opts \<in> set (su_Trace st) \<and>
     fold_o apply_tls_option \<lparr>NextProtos = [''h2''], GetCertificate = None\<rparr> (slice_elems (su_Heap st) (mg_WebhookTLSOpts opts)) = Ok web \<and>
     NextProtos web = [''http/1.1''] \<and> GetCertificate web = Some WebhookCert"
proof -
  have g: "grow_law exact_grow" "exact_grow 0 1 = 1" by (simp_all add: grow_law_def exact_grow_def)
  have v: "\<not> showVersion demo_flags" "\<not> enableHTTP2 demo_flags" "webhookCertPath demo_flags \<noteq> []"
    by (simp_all add: demo_flags_def default_flags_def)
  have "finishes (\<lambda>_. True) [] (scheme_plan @ startup_plan exact_grow demo_flags) (\<lambda>h. True) (main_go default_build_vars linux_runtime (\<lambda>_. True) exact_grow no_lib_flags () demo_args)"
    using main_go_finishes [OF demo_parsed v(1)] by (rule finishes_mono) simp
  then obtain code st where run: "main_go default_build_vars linux_runtime (\<lambda>_. True) exact_grow no_lib_flags () demo_args = Exited code st"
    "su_Trace st = scheme_plan @ startup_plan exact_grow demo_flags"
    by (auto simp: finishes_def list_all_iff)
  have "NewManager (manager_config exact_grow demo_flags) \<in> set (su_Trace st)"
    by (simp add: run(2) startup_plan_def manager_plan_def)
  from startup_tls [OF g(1) demo_parsed v(1) run(1) this, of "\<lparr>NextProtos = [''h2''], GetCertificate = None\<rparr>"] this run(1) v(2,3) g(2)
  show ?thesis by auto
qed

end
