(* ===== verification/ApiJson.thy ===== *)
theory ApiJson
  imports Api
begin

section \<open>ApiJson: the resource as a document\<close>

text \<open>
  How a \<^verbatim>\<open>NifiCluster\<close> document becomes the Go value the controllers work on. The decoders
  \<open>dec_T\<close> and encoders \<open>enc_T\<close> follow the \<^verbatim>\<open>json\<close> tags of the struct \<open>T\<close> in
  \<^verbatim>\<open>clusterconfig_types.go\<close>, \<^verbatim>\<open>image_types.go\<close> and \<^verbatim>\<open>nificluster_types.go\<close>; the predicates
  \<open>adm_T\<close> follow its \<^verbatim>\<open>kubebuilder\<close> markers, which make the schema of the resource: what the
  members of a document look like that the API server has stored, with the types checked, the
  required members present, the defaults filled in and the enumerations and minima enforced.
  The structs of operator-go that occur in the resource are decoded by the parameter \<open>K\<close>.
\<close>

subsection \<open>The structs of operator-go\<close>

text \<open>
  \<open>LibSchema K t\<close> is the part of the schema that comes from the library's type \<open>t\<close>. An embedded
  struct reads its members from the object around it. What is relied on: a document that fits the schema
  can be decoded, and the default of \<^verbatim>\<open>gracefulShutdownTimeout\<close> makes the embedded configuration
  non-nil; an OIDC section survives encoding and decoding.
\<close>

record lib_json =
  OverridesFrom :: "members \<Rightarrow> OverridesSpec option outcome"
  RoleGroupConfigFrom :: "members \<Rightarrow> RoleGroupConfigSpec option outcome"
  RoleConfigFrom :: "json \<Rightarrow> RoleConfigSpec outcome"
  ClusterOperationFrom :: "json \<Rightarrow> ClusterOperationSpec outcome"
  OidcFrom :: "json \<Rightarrow> OidcSpec outcome"
  OidcTo :: "OidcSpec \<Rightarrow> json"
  LibSchema :: "string \<Rightarrow> json \<Rightarrow> bool"

definition lib_json_laws :: "lib_json \<Rightarrow> bool" where
  "lib_json_laws K \<longleftrightarrow>
     (\<forall>ms. LibSchema K ''OverridesSpec'' (JObj ms) \<longrightarrow> is_ok (OverridesFrom K ms)) \<and>
     (\<forall>ms. LibSchema K ''RoleGroupConfigSpec'' (JObj ms) \<longrightarrow>
        (\<exists>s c. member ''gracefulShutdownTimeout'' ms = Some (JStr s) \<and> RoleGroupConfigFrom K ms = Ok (Some c) \<and>
           GracefulShutdownTimeout c = s)) \<and>
     (\<forall>j. LibSchema K ''RoleConfigSpec'' j \<longrightarrow> is_ok (RoleConfigFrom K j)) \<and>
     (\<forall>j. LibSchema K ''ClusterOperationSpec'' j \<longrightarrow> is_ok (ClusterOperationFrom K j)) \<and>
     (\<forall>j. LibSchema K ''OidcSpec'' j \<longrightarrow> is_ok (OidcFrom K j)) \<and>
     (\<forall>x. OidcTo K x \<noteq> JNull \<and> OidcFrom K (OidcTo K x) = Ok x)"

subsection \<open>Decoding\<close>

definition dec_GitSyncSpec :: "members \<Rightarrow> GitSyncSpec outcome" where
  "dec_GitSyncSpec ms =
     bind_o (field [] dec_string ''repo'' ms) (\<lambda>repo.
     bind_o (field [] dec_string ''branch'' ms) (\<lambda>branch.
     bind_o (field [] dec_string ''credentialsSecret'' ms) (\<lambda>credentialsSecret.
     bind_o (field 0 dec_int32 ''depth'' ms) (\<lambda>depth.
     bind_o (field [] dec_string ''gitFolder'' ms) (\<lambda>gitFolder.
     bind_o (field [] (dec_map [] dec_string) ''gitSyncConfig'' ms) (\<lambda>gitSyncConfig.
     bind_o (field [] dec_string ''wait'' ms) (\<lambda>wait.
       Ok \<lparr>Repo = repo, Branch = branch, CredentialsSecret = credentialsSecret, Depth = depth, GitFolder = gitFolder,
           GitSyncConfig = gitSyncConfig, Wait = wait\<rparr>)))))))"

definition zero_GitSyncSpec :: GitSyncSpec where
  "zero_GitSyncSpec =
     \<lparr>Repo = [], Branch = [], CredentialsSecret = [], Depth = 0, GitFolder = [], GitSyncConfig = [], Wait = []\<rparr>"

definition dec_AuthenticationSpec :: "lib_json \<Rightarrow> members \<Rightarrow> AuthenticationSpec outcome" where
  "dec_AuthenticationSpec K ms =
     bind_o (field [] dec_string ''authenticationClass'' ms) (\<lambda>authenticationClass.
     bind_o (ptr_field (OidcFrom K) ''oidc'' ms) (\<lambda>oidc.
       Ok \<lparr>AuthenticationClass = authenticationClass, Oidc = oidc\<rparr>))"

definition dec_CreateReportingTaskJobSpec :: "members \<Rightarrow> CreateReportingTaskJobSpec outcome" where
  "dec_CreateReportingTaskJobSpec ms =
     bind_o (field False dec_bool ''enable'' ms) (\<lambda>enable.
     bind_o (ptr_field Ok ''podOverrides'' ms) (\<lambda>podOverrides.
       Ok \<lparr>Enable = enable, PodOverrides = podOverrides\<rparr>))"

definition dec_SensitivePropertiesSpec :: "members \<Rightarrow> SensitivePropertiesSpec outcome" where
  "dec_SensitivePropertiesSpec ms =
     bind_o (field [] dec_string ''algorithm'' ms) (\<lambda>algorithm.
     bind_o (field False dec_bool ''autoGenerate'' ms) (\<lambda>autoGenerate.
     bind_o (field [] dec_string ''keySecret'' ms) (\<lambda>keySecret.
       Ok \<lparr>Algorithm = algorithm, AutoGenerate = autoGenerate, KeySecret = keySecret\<rparr>)))"

definition dec_TlsSpec :: "members \<Rightarrow> TlsSpec outcome" where
  "dec_TlsSpec ms =
     bind_o (field [] dec_string ''serverSecretClass'' ms) (\<lambda>serverSecretClass.
       Ok \<lparr>ServerSecretClass = serverSecretClass\<rparr>)"

definition dec_ClusterConfigSpec :: "lib_json \<Rightarrow> members \<Rightarrow> ClusterConfigSpec outcome" where
  "dec_ClusterConfigSpec K ms =
     bind_o (ptr_field (dec_array \<lparr>AuthenticationClass = [], Oidc = None\<rparr> (dec_struct (dec_AuthenticationSpec K))) ''authentication'' ms) (\<lambda>authentication.
     bind_o (ptr_field (dec_struct dec_CreateReportingTaskJobSpec) ''createReportingTaskJob'' ms) (\<lambda>createReportingTaskJob.
     bind_o (ptr_field Ok ''extraVolumes'' ms) (\<lambda>extraVolumes.
     bind_o (ptr_field (dec_struct dec_SensitivePropertiesSpec) ''sensitiveProperties'' ms) (\<lambda>sensitiveProperties.
     bind_o (field [] (dec_array zero_GitSyncSpec (dec_struct dec_GitSyncSpec)) ''customComponentsGitSync'' ms) (\<lambda>customComponentsGitSync.
     bind_o (ptr_field (dec_struct dec_TlsSpec) ''tls'' ms) (\<lambda>tls.
     bind_o (field [] dec_string ''listenerClass'' ms) (\<lambda>listenerClass.
     bind_o (field [] dec_string ''vectorAggregatorConfigMapName'' ms) (\<lambda>vectorAggregatorConfigMapName.
     bind_o (ptr_field dec_string ''zookeeperConfigMapName'' ms) (\<lambda>zookeeperConfigMapName.
       Ok \<lparr>Authentication = authentication, CreateReportingTaskJob = createReportingTaskJob, ExtraVolumes = extraVolumes,
           SensitiveProperties = sensitiveProperties, CustomComponentsGitSync = customComponentsGitSync, Tls = tls,
           ListenerClass = listenerClass, VectorAggregatorConfigMapName = vectorAggregatorConfigMapName,
           ZookeeperConfigMapName = zookeeperConfigMapName\<rparr>)))))))))"

definition dec_ImageSpec :: "members \<Rightarrow> ImageSpec outcome" where
  "dec_ImageSpec ms =
     bind_o (field [] dec_string ''custom'' ms) (\<lambda>custom.
     bind_o (field [] dec_string ''repo'' ms) (\<lambda>repo.
     bind_o (field [] dec_string ''kubedoopVersion'' ms) (\<lambda>kubedoopVersion.
     bind_o (field [] dec_string ''productVersion'' ms) (\<lambda>productVersion.
     bind_o (ptr_field dec_string ''pullPolicy'' ms) (\<lambda>pullPolicy.
     bind_o (field [] dec_string ''pullSecretName'' ms) (\<lambda>pullSecretName.
       Ok \<lparr>img_Custom = custom, img_Repo = repo, img_KubedoopVersion = kubedoopVersion, img_ProductVersion = productVersion,
           img_PullPolicy = pullPolicy, img_PullSecretName = pullSecretName\<rparr>))))))"

definition dec_JVMArgumentOverridesSpec :: "members \<Rightarrow> JVMArgumentOverridesSpec outcome" where
  "dec_JVMArgumentOverridesSpec ms =
     bind_o (field [] (dec_array [] dec_string) ''add'' ms) (\<lambda>add.
     bind_o (field [] (dec_array [] dec_string) ''remove'' ms) (\<lambda>remove.
     bind_o (field [] (dec_array [] dec_string) ''removeRegex'' ms) (\<lambda>removeRegex.
       Ok \<lparr>jvm_Add = add, jvm_Remove = remove, jvm_RemoveRegex = removeRegex\<rparr>)))"

definition dec_ConfigSpec :: "lib_json \<Rightarrow> members \<Rightarrow> ConfigSpec outcome" where
  "dec_ConfigSpec K ms = bind_o (RoleGroupConfigFrom K ms) (\<lambda>c. Ok \<lparr>cfg_RoleGroupConfigSpec = c\<rparr>)"

definition dec_RoleGroupSpec :: "lib_json \<Rightarrow> members \<Rightarrow> RoleGroupSpec outcome" where
  "dec_RoleGroupSpec K ms =
     bind_o (ptr_field dec_int32 ''replicas'' ms) (\<lambda>replicas.
     bind_o (ptr_field (dec_struct (dec_ConfigSpec K)) ''config'' ms) (\<lambda>config.
     bind_o (OverridesFrom K ms) (\<lambda>overrides.
     bind_o (ptr_field (dec_struct dec_JVMArgumentOverridesSpec) ''jvmArgumentOverrides'' ms) (\<lambda>jvm.
       Ok \<lparr>rg_Replicas = replicas, rg_Config = config, rg_OverridesSpec = overrides, rg_JVMArgumentOverrides = jvm\<rparr>))))"

definition zero_RoleGroupSpec :: RoleGroupSpec where
  "zero_RoleGroupSpec = \<lparr>rg_Replicas = None, rg_Config = None, rg_OverridesSpec = None, rg_JVMArgumentOverrides = None\<rparr>"

definition dec_NodesSpec :: "lib_json \<Rightarrow> members \<Rightarrow> NodesSpec outcome" where
  "dec_NodesSpec K ms =
     bind_o (field [] (dec_map zero_RoleGroupSpec (dec_struct (dec_RoleGroupSpec K))) ''roleGroups'' ms) (\<lambda>roleGroups.
     bind_o (ptr_field (RoleConfigFrom K) ''roleConfig'' ms) (\<lambda>roleConfig.
     bind_o (ptr_field (dec_struct (dec_ConfigSpec K)) ''config'' ms) (\<lambda>config.
     bind_o (OverridesFrom K ms) (\<lambda>overrides.
     bind_o (ptr_field (dec_struct dec_JVMArgumentOverridesSpec) ''jvmArgumentOverrides'' ms) (\<lambda>jvm.
       Ok \<lparr>RoleGroups = roleGroups, RoleConfig = roleConfig, nodes_Config = config, nodes_OverridesSpec = overrides,
           nodes_JVMArgumentOverrides = jvm\<rparr>)))))"

definition dec_NifiClusterSpec :: "lib_json \<Rightarrow> members \<Rightarrow> NifiClusterSpec outcome" where
  "dec_NifiClusterSpec K ms =
     bind_o (ptr_field (dec_struct (dec_ClusterConfigSpec K)) ''clusterConfig'' ms) (\<lambda>clusterConfig.
     bind_o (ptr_field (ClusterOperationFrom K) ''clusterOperation'' ms) (\<lambda>clusterOperation.
     bind_o (ptr_field (dec_struct dec_ImageSpec) ''image'' ms) (\<lambda>img.
     bind_o (ptr_field (dec_struct (dec_NodesSpec K)) ''nodes'' ms) (\<lambda>nodes.
       Ok \<lparr>ClusterConfig = clusterConfig, ClusterOperation = clusterOperation, spec_Image = img, Nodes = nodes\<rparr>))))"

subsection \<open>Encoding\<close>

definition enc_GitSyncSpec :: "GitSyncSpec \<Rightarrow> json" where
  "enc_GitSyncSpec gs =
     JObj ((''repo'', JStr (Repo gs)) #
       omit_string ''branch'' (Branch gs) @
       omit_string ''credentialsSecret'' (CredentialsSecret gs) @
       omitempty (Depth gs = 0) ''depth'' (enc_int32 (Depth gs)) @
       omit_string ''gitFolder'' (GitFolder gs) @
       omitempty (GitSyncConfig gs = []) ''gitSyncConfig'' (enc_map JStr (GitSyncConfig gs)) @
       omit_string ''wait'' (Wait gs))"

definition enc_AuthenticationSpec :: "lib_json \<Rightarrow> AuthenticationSpec \<Rightarrow> json" where
  "enc_AuthenticationSpec K a =
     JObj ((''authenticationClass'', JStr (AuthenticationClass a)) # omit_nil ''oidc'' (OidcTo K) (Oidc a))"

definition enc_CreateReportingTaskJobSpec :: "CreateReportingTaskJobSpec \<Rightarrow> json" where
  "enc_CreateReportingTaskJobSpec c =
     JObj (omitempty (\<not> Enable c) ''enable'' (JBool (Enable c)) @ omit_nil ''podOverrides'' (\<lambda>j. j) (PodOverrides c))"

definition enc_SensitivePropertiesSpec :: "SensitivePropertiesSpec \<Rightarrow> json" where
  "enc_SensitivePropertiesSpec sp =
     JObj (omit_string ''algorithm'' (Algorithm sp) @
       omitempty (\<not> AutoGenerate sp) ''autoGenerate'' (JBool (AutoGenerate sp)) @
       [(''keySecret'', JStr (KeySecret sp))])"

definition enc_TlsSpec :: "TlsSpec \<Rightarrow> json" where
  "enc_TlsSpec t = JObj [(''serverSecretClass'', JStr (ServerSecretClass t))]"

text \<open>\<^verbatim>\<open>sensitiveProperties\<close> and \<^verbatim>\<open>zookeeperConfigMapName\<close> are not tagged \<^verbatim>\<open>omitempty\<close>: nil is written as \<^verbatim>\<open>null\<close>.\<close>

definition enc_ptr :: "('a \<Rightarrow> json) \<Rightarrow> 'a option \<Rightarrow> json" where
  "enc_ptr enc p = (case p of None \<Rightarrow> JNull | Some x \<Rightarrow> enc x)"

definition enc_ClusterConfigSpec :: "lib_json \<Rightarrow> ClusterConfigSpec \<Rightarrow> json" where
  "enc_ClusterConfigSpec K cc =
     JObj (omit_list ''authentication'' (enc_AuthenticationSpec K) (case Authentication cc of None \<Rightarrow> [] | Some as \<Rightarrow> as) @
       omit_nil ''createReportingTaskJob'' enc_CreateReportingTaskJobSpec (CreateReportingTaskJob cc) @
       omit_nil ''extraVolumes'' (\<lambda>j. j) (ExtraVolumes cc) @
       (''sensitiveProperties'', enc_ptr enc_SensitivePropertiesSpec (SensitiveProperties cc)) #
       omit_list ''customComponentsGitSync'' enc_GitSyncSpec (CustomComponentsGitSync cc) @
       omit_nil ''tls'' enc_TlsSpec (Tls cc) @
       omit_string ''listenerClass'' (ListenerClass cc) @
       omit_string ''vectorAggregatorConfigMapName'' (VectorAggregatorConfigMapName cc) @
       [(''zookeeperConfigMapName'', enc_ptr JStr (ZookeeperConfigMapName cc))])"

definition enc_ImageSpec :: "ImageSpec \<Rightarrow> json" where
  "enc_ImageSpec i =
     JObj (omit_string ''custom'' (img_Custom i) @
       omit_string ''repo'' (img_Repo i) @
       omit_string ''kubedoopVersion'' (img_KubedoopVersion i) @
       omit_string ''productVersion'' (img_ProductVersion i) @
       omit_nil ''pullPolicy'' JStr (img_PullPolicy i) @
       omit_string ''pullSecretName'' (img_PullSecretName i))"

definition enc_JVMArgumentOverridesSpec :: "JVMArgumentOverridesSpec \<Rightarrow> json" where
  "enc_JVMArgumentOverridesSpec j =
     JObj (omit_list ''add'' JStr (jvm_Add j) @ omit_list ''remove'' JStr (jvm_Remove j) @
       omit_list ''removeRegex'' JStr (jvm_RemoveRegex j))"

text \<open>
  What one round of encoding and decoding makes of a configuration: a map is listed in key order,
  an empty list of authentications becomes nil, and a raw document \<^verbatim>\<open>null\<close> becomes absent.
\<close>

definition canon_raw :: "RawExtension option \<Rightarrow> RawExtension option" where
  "canon_raw r = (if r = Some JNull then None else r)"

definition canon_git_sync :: "GitSyncSpec \<Rightarrow> GitSyncSpec" where
  "canon_git_sync gs = gs\<lparr>GitSyncConfig := sort_key fst (GitSyncConfig gs)\<rparr>"

definition canon_config :: "ClusterConfigSpec \<Rightarrow> ClusterConfigSpec" where
  "canon_config cc = cc\<lparr>
     Authentication := (if Authentication cc = Some [] then None else Authentication cc),
     CreateReportingTaskJob := map_option (\<lambda>c. c\<lparr>PodOverrides := canon_raw (PodOverrides c)\<rparr>) (CreateReportingTaskJob cc),
     ExtraVolumes := canon_raw (ExtraVolumes cc),
     CustomComponentsGitSync := map canon_git_sync (CustomComponentsGitSync cc)\<rparr>"

subsection \<open>Round trips\<close>

lemmas decode_simps = field_def ptr_field_def member_simps omit_string_def omit_list_def

lemma dec_enc_map_string: "dec_map [] dec_string (enc_map JStr m) = Ok (sort_key fst m)"
  using dec_enc_map [of JStr dec_string "\<lambda>s. s" "[]" m] by simp

lemma enc_not_null [simp]: "enc_map e m \<noteq> JNull" "enc_int32 w \<noteq> JNull"
  by (simp_all add: enc_map_def enc_int32_def)

lemma git_sync_roundtrip: "dec_struct dec_GitSyncSpec (enc_GitSyncSpec gs) = Ok (canon_git_sync gs)"
  by (simp add: enc_GitSyncSpec_def dec_GitSyncSpec_def decode_simps dec_enc_map_string canon_git_sync_def)

lemma authentication_roundtrip:
  "lib_json_laws K \<Longrightarrow> dec_struct (dec_AuthenticationSpec K) (enc_AuthenticationSpec K a) = Ok a"
  by (cases "Oidc a") (simp_all add: enc_AuthenticationSpec_def dec_AuthenticationSpec_def decode_simps lib_json_laws_def)

lemma sensitive_roundtrip: "dec_struct dec_SensitivePropertiesSpec (enc_SensitivePropertiesSpec sp) = Ok sp"
  by (simp add: enc_SensitivePropertiesSpec_def dec_SensitivePropertiesSpec_def decode_simps)

lemma image_roundtrip: "dec_struct dec_ImageSpec (enc_ImageSpec i) = Ok i"
  by (cases "img_PullPolicy i") (simp_all add: enc_ImageSpec_def dec_ImageSpec_def decode_simps)

lemma jvm_roundtrip: "dec_struct dec_JVMArgumentOverridesSpec (enc_JVMArgumentOverridesSpec j) = Ok j"
  using dec_enc_array [of _ JStr dec_string "\<lambda>s. s" "[]"]
  by (simp add: enc_JVMArgumentOverridesSpec_def dec_JVMArgumentOverridesSpec_def decode_simps)

lemma reporting_job_roundtrip:
  "dec_struct dec_CreateReportingTaskJobSpec (enc_CreateReportingTaskJobSpec c) = Ok (c\<lparr>PodOverrides := canon_raw (PodOverrides c)\<rparr>)"
  by (cases "PodOverrides c")
    (simp_all add: enc_CreateReportingTaskJobSpec_def dec_CreateReportingTaskJobSpec_def decode_simps canon_raw_def omitempty_def)

lemma tls_roundtrip: "dec_struct dec_TlsSpec (enc_TlsSpec t) = Ok t"
  by (simp add: enc_TlsSpec_def dec_TlsSpec_def decode_simps)

lemma struct_not_null [simp]:
  "enc_GitSyncSpec gs \<noteq> JNull" "enc_AuthenticationSpec K a \<noteq> JNull" "enc_CreateReportingTaskJobSpec c \<noteq> JNull"
  "enc_SensitivePropertiesSpec sp \<noteq> JNull" "enc_TlsSpec t \<noteq> JNull"
  by (simp_all add: enc_GitSyncSpec_def enc_AuthenticationSpec_def enc_CreateReportingTaskJobSpec_def
      enc_SensitivePropertiesSpec_def enc_TlsSpec_def)

text \<open>The members of an encoded cluster configuration, field by field.\<close>

lemma config_members:
  fixes K cc
  defines "ms \<equiv> (case enc_ClusterConfigSpec K cc of JObj ms \<Rightarrow> ms | _ \<Rightarrow> [])"
  shows "enc_ClusterConfigSpec K cc = JObj ms"
    "member ''authentication'' ms = (case Authentication cc of None \<Rightarrow> None
       | Some as \<Rightarrow> if as = [] then None else Some (JArr (map (enc_AuthenticationSpec K) as)))"
    "member ''createReportingTaskJob'' ms = map_option enc_CreateReportingTaskJobSpec (CreateReportingTaskJob cc)"
    "member ''extraVolumes'' ms = canon_raw (ExtraVolumes cc)"
    "member ''sensitiveProperties'' ms = map_option enc_SensitivePropertiesSpec (SensitiveProperties cc)"
    "member ''customComponentsGitSync'' ms = (if CustomComponentsGitSync cc = [] then None
       else Some (JArr (map enc_GitSyncSpec (CustomComponentsGitSync cc))))"
    "member ''tls'' ms = map_option enc_TlsSpec (Tls cc)"
    "member ''listenerClass'' ms = (if ListenerClass cc = [] then None else Some (JStr (ListenerClass cc)))"
    "member ''vectorAggregatorConfigMapName'' ms =
       (if VectorAggregatorConfigMapName cc = [] then None else Some (JStr (VectorAggregatorConfigMapName cc)))"
    "member ''zookeeperConfigMapName'' ms = map_option JStr (ZookeeperConfigMapName cc)"
proof -
  have skip: "k \<noteq> k' \<Longrightarrow> member k (omit_nil k' enc p @ ns) = member k ns" for k k' enc ns and p :: "'x option"
    by (cases p) (simp_all add: omit_nil_def member_Cons)
  have hit: "(\<And>x. enc x \<noteq> JNull) \<Longrightarrow> member k ns = None \<Longrightarrow> member k (omit_nil k enc p @ ns) = map_option enc p" for k enc ns and p :: "'x option"
    by (cases p) (simp_all add: omit_nil_def member_Cons)
  have ptr: "(\<And>x. enc x \<noteq> JNull) \<Longrightarrow> (if enc_ptr enc p = JNull then None else Some (enc_ptr enc p)) = map_option enc p" for enc and p :: "'x option"
    by (cases p) (simp_all add: enc_ptr_def)
  have raw: "member k ns = None \<Longrightarrow> member k (omit_nil k (\<lambda>j. j) p @ ns) = canon_raw p" for k ns p
    by (cases p) (simp_all add: omit_nil_def member_Cons canon_raw_def)
  note eqs = ms_def enc_ClusterConfigSpec_def omit_list_def omit_string_def skip hit ptr raw member_skip member_hit member_last member_Cons member_Nil
  show "enc_ClusterConfigSpec K cc = JObj ms" by (simp add: ms_def enc_ClusterConfigSpec_def)
  show "member ''authentication'' ms = (case Authentication cc of None \<Rightarrow> None
       | Some as \<Rightarrow> if as = [] then None else Some (JArr (map (enc_AuthenticationSpec K) as)))"
    by (cases "Authentication cc") (simp_all add: eqs)
  show "member ''createReportingTaskJob'' ms = map_option enc_CreateReportingTaskJobSpec (CreateReportingTaskJob cc)"
    "member ''extraVolumes'' ms = canon_raw (ExtraVolumes cc)"
    "member ''sensitiveProperties'' ms = map_option enc_SensitivePropertiesSpec (SensitiveProperties cc)"
    "member ''customComponentsGitSync'' ms = (if CustomComponentsGitSync cc = [] then None
       else Some (JArr (map enc_GitSyncSpec (CustomComponentsGitSync cc))))"
    "member ''tls'' ms = map_option enc_TlsSpec (Tls cc)"
    "member ''listenerClass'' ms = (if ListenerClass cc = [] then None else Some (JStr (ListenerClass cc)))"
    "member ''vectorAggregatorConfigMapName'' ms =
       (if VectorAggregatorConfigMapName cc = [] then None else Some (JStr (VectorAggregatorConfigMapName cc)))"
    "member ''zookeeperConfigMapName'' ms = map_option JStr (ZookeeperConfigMapName cc)"
    by (simp_all add: eqs)
qed

text \<open>
  C29: The cluster configuration survives the JSON encoding of the Go client: decoding what was
  encoded gives the same configuration in every field, with maps listed in key order. Only two
  distinctions are lost: between an empty and an absent list of authentications, and between an
  absent raw document and a raw \<^verbatim>\<open>null\<close>.
\<close>

theorem cluster_config_roundtrip:
  assumes "lib_json_laws K"
  shows "dec_struct (dec_ClusterConfigSpec K) (enc_ClusterConfigSpec K cc) = Ok (canon_config cc)"
proof -
  define ms where "ms = (case enc_ClusterConfigSpec K cc of JObj ms \<Rightarrow> ms | _ \<Rightarrow> [])"
  note m = config_members [of K cc, folded ms_def]
  have arr: "dec_array z (dec_struct (dec_AuthenticationSpec K)) (JArr (map (enc_AuthenticationSpec K) as)) = Ok as" for z as
    using dec_enc_array [of as "enc_AuthenticationSpec K" "dec_struct (dec_AuthenticationSpec K)" "\<lambda>a. a" z]
    by (simp add: authentication_roundtrip [OF assms])
  have git: "dec_array z (dec_struct dec_GitSyncSpec) (JArr (map enc_GitSyncSpec gss)) = Ok (map canon_git_sync gss)" for z gss
    by (rule dec_enc_array) (simp_all add: git_sync_roundtrip)
  have ptr: "ptr_field dec k ms = Ok (map_option f p)" if "member k ms = map_option enc p" "\<And>x. dec (enc x) = Ok (f x)" for k enc dec f p
    using that by (cases p) (simp_all add: ptr_field_def)
  have fields: "ptr_field (dec_array z (dec_struct (dec_AuthenticationSpec K))) ''authentication'' ms = Ok (Authentication (canon_config cc))"
    "field [] (dec_array y (dec_struct dec_GitSyncSpec)) ''customComponentsGitSync'' ms = Ok (CustomComponentsGitSync (canon_config cc))"
    "ptr_field Ok ''extraVolumes'' ms = Ok (ExtraVolumes (canon_config cc))"
    "field [] dec_string ''listenerClass'' ms = Ok (ListenerClass cc)"
    "field [] dec_string ''vectorAggregatorConfigMapName'' ms = Ok (VectorAggregatorConfigMapName cc)" for z y
    by (simp_all add: ptr_field_def field_def m arr git canon_config_def del: dec_array.simps split: option.split)
  note ptrs = ptr [OF m(3), of "dec_struct dec_CreateReportingTaskJobSpec", OF reporting_job_roundtrip]
    ptr [OF m(5), of "dec_struct dec_SensitivePropertiesSpec" "\<lambda>x. x", OF sensitive_roundtrip]
    ptr [OF m(7), of "dec_struct dec_TlsSpec" "\<lambda>x. x", OF tls_roundtrip] ptr [OF m(10), of dec_string "\<lambda>x. x", OF dec_string.simps(1)]
  show ?thesis
    unfolding m(1) dec_struct.simps dec_ClusterConfigSpec_def by (simp add: fields ptrs option.map_ident) (simp add: canon_config_def)
qed

definition plain_json :: lib_json where
  "plain_json =
     \<lparr>OverridesFrom = (\<lambda>ms. Ok None),
      RoleGroupConfigFrom = (\<lambda>ms. bind_o (ptr_field dec_string ''gracefulShutdownTimeout'' ms) (\<lambda>p.
        Ok (map_option (\<lambda>s. \<lparr>GracefulShutdownTimeout = s\<rparr>) p))),
      RoleConfigFrom = (\<lambda>j. Err (TypeError ''RoleConfigSpec'')),
      ClusterOperationFrom = (\<lambda>j. Err (TypeError ''ClusterOperationSpec'')),
      OidcFrom = dec_struct (\<lambda>ms.
        bind_o (field [] dec_string ''clientCredentialsSecret'' ms) (\<lambda>secret.
        bind_o (field [] (dec_array [] dec_string) ''extraScopes'' ms) (\<lambda>scopes.
          Ok \<lparr>oidc_ClientCredentialsSecret = secret, oidc_ExtraScopes = scopes\<rparr>))),
      OidcTo = (\<lambda>x. JObj [(''clientCredentialsSecret'', JStr (oidc_ClientCredentialsSecret x)),
        (''extraScopes'', JArr (map JStr (oidc_ExtraScopes x)))]),
      LibSchema = (\<lambda>t j. t = ''OverridesSpec'' \<or> t = ''RoleGroupConfigSpec'' \<and>
        (case j of JObj ms \<Rightarrow> (case member ''gracefulShutdownTimeout'' ms of Some (JStr s) \<Rightarrow> True | _ \<Rightarrow> False) | _ \<Rightarrow> False))\<rparr>"

lemma plain_json_laws: "lib_json_laws plain_json"
proof -
  have scopes: "dec_array [] dec_string (JArr (map JStr xs)) = Ok xs" for xs
    using dec_enc_array [of xs JStr dec_string "\<lambda>s. s" "[]"] by simp
  have config: "\<exists>s c. member ''gracefulShutdownTimeout'' ms = Some (JStr s) \<and> RoleGroupConfigFrom plain_json ms = Ok (Some c) \<and>
      GracefulShutdownTimeout c = s" if "LibSchema plain_json ''RoleGroupConfigSpec'' (JObj ms)" for ms
    using that by (auto simp: plain_json_def ptr_field_def split: option.splits json.splits)
  show ?thesis
    unfolding lib_json_laws_def
    by (intro conjI allI impI config)
      (simp_all add: plain_json_def field_def member_simps scopes del: dec_array.simps)
qed

theorem cluster_config_roundtrip_witness:
  "dec_struct (dec_ClusterConfigSpec plain_json) (enc_ClusterConfigSpec plain_json
     \<lparr>Authentication = Some [\<lparr>AuthenticationClass = ''users'', Oidc = None\<rparr>], CreateReportingTaskJob = None, ExtraVolumes = None,
      SensitiveProperties = None, CustomComponentsGitSync = [], Tls = Some \<lparr>ServerSecretClass = ''tls''\<rparr>, ListenerClass = [],
      VectorAggregatorConfigMapName = [], ZookeeperConfigMapName = Some ''zk''\<rparr>) =
   Ok \<lparr>Authentication = Some [\<lparr>AuthenticationClass = ''users'', Oidc = None\<rparr>], CreateReportingTaskJob = None, ExtraVolumes = None,
      SensitiveProperties = None, CustomComponentsGitSync = [], Tls = Some \<lparr>ServerSecretClass = ''tls''\<rparr>, ListenerClass = [],
      VectorAggregatorConfigMapName = [], ZookeeperConfigMapName = Some ''zk''\<rparr>"
  by (subst cluster_config_roundtrip [OF plain_json_laws]) (simp add: canon_config_def canon_raw_def)

subsection \<open>Defaults and the encoding\<close>

text \<open>
  The \<^verbatim>\<open>kubebuilder:default\<close> markers of \<^verbatim>\<open>CreateReportingTaskJobSpec\<close>, and what a default does: the
  API server adds it when the member is missing.
\<close>

definition reporting_job_defaults :: members where
  "reporting_job_defaults = [(''enable'', JBool True), (''podOverrides'', JObj [])]"

definition fill_defaults :: "members \<Rightarrow> json \<Rightarrow> json" where
  "fill_defaults ds j = (case j of JObj ms \<Rightarrow> JObj (ms @ filter (\<lambda>d. member (fst d) ms = None) ds) | _ \<Rightarrow> j)"

text \<open>
  C38: A reporting task job cannot be switched off by a Go client: \<^verbatim>\<open>enable\<close> is a boolean tagged
  \<^verbatim>\<open>omitempty\<close> with the default true, so \<^verbatim>\<open>false\<close> is not written, and what the API server stores
  decodes to an enabled job whatever the client's value was.
\<close>

theorem disabled_job_enabled_again:
  "\<exists>c'. dec_struct dec_CreateReportingTaskJobSpec (fill_defaults reporting_job_defaults (enc_CreateReportingTaskJobSpec c)) = Ok c' \<and> Enable c'"
  by (cases "PodOverrides c")
    (auto simp: enc_CreateReportingTaskJobSpec_def fill_defaults_def reporting_job_defaults_def dec_CreateReportingTaskJobSpec_def
      omit_nil_def omitempty_def field_def ptr_field_def member_simps)

end
