(* ===== verification/Admission.thy ===== *)
theory Admission
  imports ApiJson
begin

section \<open>Admission: what the schema of the resource guarantees\<close>

text \<open>
  The predicates \<open>adm_T\<close> say what the members of a stored object of type \<open>T\<close> look like. They follow
  the Go types and the \<^verbatim>\<open>kubebuilder\<close> markers of \<^verbatim>\<open>clusterconfig_types.go\<close>, \<^verbatim>\<open>image_types.go\<close> and
  \<^verbatim>\<open>nificluster_types.go\<close>: \<open>req\<close> for a required member and for one with a default, \<open>opt\<close> for the
  others. The theorem is that an admitted document decodes, and to a value in which the pointers that
  the controllers follow without a check are not nil.
\<close>

subsection \<open>Schema combinators\<close>

definition req :: "string \<Rightarrow> (json \<Rightarrow> bool) \<Rightarrow> members \<Rightarrow> bool" where
  "req k P ms = (case member k ms of None \<Rightarrow> False | Some j \<Rightarrow> P j)"

definition opt :: "string \<Rightarrow> (json \<Rightarrow> bool) \<Rightarrow> members \<Rightarrow> bool" where
  "opt k P ms = (case member k ms of None \<Rightarrow> True | Some j \<Rightarrow> P j)"

fun is_string :: "json \<Rightarrow> bool" where
  "is_string (JStr s) = True"
| "is_string _ = False"

fun is_bool :: "json \<Rightarrow> bool" where
  "is_bool (JBool b) = True"
| "is_bool _ = False"

fun is_int32 :: "json \<Rightarrow> bool" where
  "is_int32 (JNum i) = in_int32 i"
| "is_int32 _ = False"

fun minimum :: "int \<Rightarrow> json \<Rightarrow> bool" where
  "minimum n (JNum i) = (n \<le> i)"
| "minimum n _ = False"

fun is_object :: "(members \<Rightarrow> bool) \<Rightarrow> json \<Rightarrow> bool" where
  "is_object P (JObj ms) = P ms"
| "is_object P _ = False"

fun array_of :: "(json \<Rightarrow> bool) \<Rightarrow> json \<Rightarrow> bool" where
  "array_of P (JArr js) = list_all P js"
| "array_of P _ = False"

fun map_to :: "(json \<Rightarrow> bool) \<Rightarrow> json \<Rightarrow> bool" where
  "map_to P (JObj ms) = list_all (\<lambda>e. P (snd e)) ms"
| "map_to P _ = False"

definition enum :: "string list \<Rightarrow> json \<Rightarrow> bool" where
  "enum vs j = list_ex (\<lambda>v. j = JStr v) vs"

subsection \<open>The schema\<close>

definition adm_GitSyncSpec :: "members \<Rightarrow> bool" where
  "adm_GitSyncSpec ms \<longleftrightarrow>
     req ''repo'' is_string ms \<and>
     req ''branch'' is_string ms \<and>
     opt ''credentialsSecret'' is_string ms \<and>
     req ''depth'' (\<lambda>j. is_int32 j \<and> minimum 0 j) ms \<and>
     req ''gitFolder'' is_string ms \<and>
     req ''gitSyncConfig'' (map_to is_string) ms \<and>
     req ''wait'' is_string ms"

definition adm_AuthenticationSpec :: "lib_json \<Rightarrow> members \<Rightarrow> bool" where
  "adm_AuthenticationSpec K ms \<longleftrightarrow>
     req ''authenticationClass'' is_string ms \<and> opt ''oidc'' (LibSchema K ''OidcSpec'') ms"

definition adm_CreateReportingTaskJobSpec :: "members \<Rightarrow> bool" where
  "adm_CreateReportingTaskJobSpec ms \<longleftrightarrow> req ''enable'' is_bool ms \<and> req ''podOverrides'' (is_object (\<lambda>_. True)) ms"

definition adm_SensitivePropertiesSpec :: "members \<Rightarrow> bool" where
  "adm_SensitivePropertiesSpec ms \<longleftrightarrow>
     req ''algorithm'' (enum [''NIFI_PBKDF2_AES_GCM_256'', ''NIFI_ARGON2_AES_GCM_256'']) ms \<and>
     opt ''autoGenerate'' is_bool ms \<and>
     req ''keySecret'' is_string ms"

definition adm_TlsSpec :: "members \<Rightarrow> bool" where
  "adm_TlsSpec ms \<longleftrightarrow> req ''serverSecretClass'' is_string ms"

definition adm_ClusterConfigSpec :: "lib_json \<Rightarrow> members \<Rightarrow> bool" where
  "adm_ClusterConfigSpec K ms \<longleftrightarrow>
     opt ''authentication'' (array_of (is_object (adm_AuthenticationSpec K))) ms \<and>
     req ''createReportingTaskJob'' (is_object adm_CreateReportingTaskJobSpec) ms \<and>
     req ''extraVolumes'' (is_object (\<lambda>_. True)) ms \<and>
     req ''sensitiveProperties'' (is_object adm_SensitivePropertiesSpec) ms \<and>
     req ''customComponentsGitSync'' (array_of (is_object adm_GitSyncSpec)) ms \<and>
     opt ''tls'' (is_object adm_TlsSpec) ms \<and>
     opt ''listenerClass'' is_string ms \<and>
     opt ''vectorAggregatorConfigMapName'' is_string ms \<and>
     opt ''zookeeperConfigMapName'' is_string ms"

definition adm_ImageSpec :: "members \<Rightarrow> bool" where
  "adm_ImageSpec ms \<longleftrightarrow>
     opt ''custom'' is_string ms \<and>
     req ''repo'' is_string ms \<and>
     opt ''kubedoopVersion'' is_string ms \<and>
     opt ''productVersion'' is_string ms \<and>
     req ''pullPolicy'' is_string ms \<and>
     opt ''pullSecretName'' is_string ms"

definition adm_JVMArgumentOverridesSpec :: "members \<Rightarrow> bool" where
  "adm_JVMArgumentOverridesSpec ms \<longleftrightarrow>
     opt ''add'' (array_of is_string) ms \<and> opt ''remove'' (array_of is_string) ms \<and> opt ''removeRegex'' (array_of is_string) ms"

definition adm_ConfigSpec :: "lib_json \<Rightarrow> members \<Rightarrow> bool" where
  "adm_ConfigSpec K ms \<longleftrightarrow> LibSchema K ''RoleGroupConfigSpec'' (JObj ms)"

definition adm_RoleGroupSpec :: "lib_json \<Rightarrow> members \<Rightarrow> bool" where
  "adm_RoleGroupSpec K ms \<longleftrightarrow>
     req ''replicas'' is_int32 ms \<and>
     req ''config'' (is_object (adm_ConfigSpec K)) ms \<and>
     LibSchema K ''OverridesSpec'' (JObj ms) \<and>
     opt ''jvmArgumentOverrides'' (is_object adm_JVMArgumentOverridesSpec) ms"

definition adm_NodesSpec :: "lib_json \<Rightarrow> members \<Rightarrow> bool" where
  "adm_NodesSpec K ms \<longleftrightarrow>
     opt ''roleGroups'' (map_to (is_object (adm_RoleGroupSpec K))) ms \<and>
     opt ''roleConfig'' (LibSchema K ''RoleConfigSpec'') ms \<and>
     opt ''config'' (is_object (adm_ConfigSpec K)) ms \<and>
     LibSchema K ''OverridesSpec'' (JObj ms) \<and>
     opt ''jvmArgumentOverrides'' (is_object adm_JVMArgumentOverridesSpec) ms"

definition adm_NifiClusterSpec :: "lib_json \<Rightarrow> members \<Rightarrow> bool" where
  "adm_NifiClusterSpec K ms \<longleftrightarrow>
     req ''clusterConfig'' (is_object (adm_ClusterConfigSpec K)) ms \<and>
     opt ''clusterOperation'' (LibSchema K ''ClusterOperationSpec'') ms \<and>
     req ''image'' (is_object adm_ImageSpec) ms \<and>
     req ''nodes'' (is_object (adm_NodesSpec K)) ms"

subsection \<open>Decoding what the schema admits\<close>

named_theorems decodes "decoders succeed on admitted values"

lemma dec_string_ok [decodes]: "is_string j \<Longrightarrow> is_ok (dec_string j)"
  by (cases j) simp_all

lemma dec_bool_ok [decodes]: "is_bool j \<Longrightarrow> is_ok (dec_bool j)"
  by (cases j) simp_all

lemma dec_int32_ok [decodes]: "is_int32 j \<Longrightarrow> is_ok (dec_int32 j)"
  by (cases j) simp_all

lemma dec_struct_ok: "is_object P j \<Longrightarrow> (\<And>ms. P ms \<Longrightarrow> is_ok (dec ms)) \<Longrightarrow> is_ok (dec_struct dec j)"
  by (cases j) simp_all

lemma dec_elem_ok: "is_ok (dec j) \<Longrightarrow> is_ok (dec_elem z dec j)"
  by (simp add: dec_elem_def)

lemma dec_array_ok: "array_of P j \<Longrightarrow> (\<And>x. P x \<Longrightarrow> is_ok (dec x)) \<Longrightarrow> is_ok (dec_array z dec j)"
  by (cases j) (auto simp: list_all_iff intro!: map_o_is_ok dec_elem_ok)

lemma dec_map_ok: "map_to P j \<Longrightarrow> (\<And>x. P x \<Longrightarrow> is_ok (dec x)) \<Longrightarrow> is_ok (dec_map z dec j)"
  by (cases j) (auto simp: list_all_iff dec_elem_def outcome_simps intro!: map_o_is_ok [unfolded is_ok_iff])

lemma field_opt: "opt k P ms \<Longrightarrow> (\<And>j. P j \<Longrightarrow> is_ok (dec j)) \<Longrightarrow> is_ok (field z dec k ms)"
  by (auto simp: opt_def field_def split: option.splits)

lemma ptr_field_opt: "opt k P ms \<Longrightarrow> (\<And>j. P j \<Longrightarrow> is_ok (dec j)) \<Longrightarrow> is_ok (ptr_field dec k ms)"
  by (auto simp: opt_def ptr_field_def outcome_simps split: option.splits)

lemma req_opt: "req k P ms \<Longrightarrow> opt k P ms"
  by (simp add: req_def opt_def split: option.splits)

lemma field_reqE:
  assumes "req k P ms" "\<And>j. P j \<Longrightarrow> is_ok (dec j)"
  obtains j x where "member k ms = Some j" "P j" "dec j = Ok x" "field z dec k ms = Ok x" "ptr_field dec k ms = Ok (Some x)"
  using assms by (fastforce simp: req_def field_def ptr_field_def is_ok_iff split: option.splits)

lemma req_conj [simp]: "req k (\<lambda>j. P j \<and> Q j) ms \<longleftrightarrow> req k P ms \<and> req k Q ms"
  by (auto simp: req_def split: option.splits)

lemma bind_ok: "is_ok m \<Longrightarrow> (\<And>x. is_ok (f x)) \<Longrightarrow> is_ok (bind_o m f)"
  by (cases m) simp_all

lemma enum_string: "enum vs j \<Longrightarrow> is_string j"
  by (induction vs) (auto simp: enum_def)

lemma opt_mono: "opt k P ms \<Longrightarrow> (\<And>j. P j \<Longrightarrow> Q j) \<Longrightarrow> opt k Q ms"
  by (auto simp: opt_def split: option.splits)

lemmas field_ok = field_opt [OF _ dec_string_ok] field_opt [OF _ dec_bool_ok] field_opt [OF _ dec_int32_ok]
  field_opt [OF _ dec_map_ok [OF _ dec_string_ok]] field_opt [OF _ dec_array_ok [OF _ dec_string_ok]]
  ptr_field_opt [OF _ dec_string_ok] ptr_field_opt [OF _ dec_int32_ok]

lemma dec_GitSyncSpec_ok: "adm_GitSyncSpec ms \<Longrightarrow> is_ok (dec_GitSyncSpec ms)"
  by (auto simp: adm_GitSyncSpec_def dec_GitSyncSpec_def intro!: bind_ok field_ok dest: req_opt)

lemma dec_JVMArgumentOverridesSpec_ok: "adm_JVMArgumentOverridesSpec ms \<Longrightarrow> is_ok (dec_JVMArgumentOverridesSpec ms)"
  by (auto simp: adm_JVMArgumentOverridesSpec_def dec_JVMArgumentOverridesSpec_def intro!: bind_ok field_ok)

lemma dec_TlsSpec_ok: "adm_TlsSpec ms \<Longrightarrow> is_ok (dec_TlsSpec ms)"
  by (auto simp: adm_TlsSpec_def dec_TlsSpec_def intro!: bind_ok field_ok dest: req_opt)

lemma dec_ImageSpec_ok: "adm_ImageSpec ms \<Longrightarrow> is_ok (dec_ImageSpec ms)"
  by (auto simp: adm_ImageSpec_def dec_ImageSpec_def intro!: bind_ok field_ok dest: req_opt)

lemma dec_SensitivePropertiesSpec_ok: "adm_SensitivePropertiesSpec ms \<Longrightarrow> is_ok (dec_SensitivePropertiesSpec ms)"
  by (auto simp: adm_SensitivePropertiesSpec_def dec_SensitivePropertiesSpec_def intro!: bind_ok field_ok dest: req_opt intro: opt_mono enum_string)

lemma dec_CreateReportingTaskJobSpec_ok: "adm_CreateReportingTaskJobSpec ms \<Longrightarrow> is_ok (dec_CreateReportingTaskJobSpec ms)"
  by (auto simp: adm_CreateReportingTaskJobSpec_def dec_CreateReportingTaskJobSpec_def
      intro!: bind_ok field_ok ptr_field_opt [of _ "is_object (\<lambda>_. True)"] dest: req_opt)

lemma dec_AuthenticationSpec_ok: "lib_json_laws K \<Longrightarrow> adm_AuthenticationSpec K ms \<Longrightarrow> is_ok (dec_AuthenticationSpec K ms)"
  by (auto simp: adm_AuthenticationSpec_def dec_AuthenticationSpec_def lib_json_laws_def
      intro!: bind_ok field_ok ptr_field_opt [of _ "LibSchema K ''OidcSpec''"] dest: req_opt)

lemma dec_ConfigSpec_ok:
  assumes "lib_json_laws K" "adm_ConfigSpec K ms"
  shows "\<exists>c. dec_ConfigSpec K ms = Ok c \<and> cfg_RoleGroupConfigSpec c \<noteq> None"
  using assms by (fastforce simp: adm_ConfigSpec_def dec_ConfigSpec_def lib_json_laws_def)

lemma dec_ConfigSpec_is_ok: "lib_json_laws K \<Longrightarrow> adm_ConfigSpec K ms \<Longrightarrow> is_ok (dec_ConfigSpec K ms)"
  using dec_ConfigSpec_ok unfolding is_ok_iff by blast

text \<open>A required struct is decoded to a non-nil pointer.\<close>

lemma struct_reqE:
  assumes "req k (is_object P) ms" "\<And>ns. P ns \<Longrightarrow> is_ok (dec ns)"
  obtains ns x where "P ns" "dec ns = Ok x" "ptr_field (dec_struct dec) k ms = Ok (Some x)"
  using assms by (cases "member k ms"; cases "the (member k ms)") (fastforce simp: req_def ptr_field_def is_ok_iff)+


subsection \<open>The values of admitted documents\<close>

definition wf_config :: "ClusterConfigSpec \<Rightarrow> bool" where
  "wf_config cc \<longleftrightarrow>
     (case SensitiveProperties cc of None \<Rightarrow> False
      | Some sp \<Rightarrow> Algorithm sp \<in> {''NIFI_PBKDF2_AES_GCM_256'', ''NIFI_ARGON2_AES_GCM_256''}) \<and>
     CreateReportingTaskJob cc \<noteq> None \<and> ExtraVolumes cc \<noteq> None \<and>
     list_all (\<lambda>gs. 0 \<le> sint (Depth gs)) (CustomComponentsGitSync cc)"

definition wf_group :: "RoleGroupSpec \<Rightarrow> bool" where
  "wf_group rg \<longleftrightarrow> rg_Replicas rg \<noteq> None \<and>
     (case rg_Config rg of None \<Rightarrow> False | Some c \<Rightarrow> cfg_RoleGroupConfigSpec c \<noteq> None)"

definition wf_spec :: "NifiClusterSpec \<Rightarrow> bool" where
  "wf_spec spec \<longleftrightarrow>
     (case ClusterConfig spec of None \<Rightarrow> False | Some cc \<Rightarrow> wf_config cc) \<and>
     (case spec_Image spec of None \<Rightarrow> False | Some i \<Rightarrow> img_PullPolicy i \<noteq> None) \<and>
     (case Nodes spec of None \<Rightarrow> False | Some n \<Rightarrow> list_all (\<lambda>e. wf_group (snd e)) (RoleGroups n))"

lemma decoded_depth_value:
  assumes "adm_GitSyncSpec ms" "dec_GitSyncSpec ms = Ok gs"
  obtains i where "member ''depth'' ms = Some (JNum i)" "in_int32 i" "0 \<le> i" "sint (Depth gs) = i"
proof -
  from assms(1) obtain i where i: "member ''depth'' ms = Some (JNum i)" "in_int32 i" "0 \<le> i"
    by (auto simp: adm_GitSyncSpec_def req_def split: option.splits elim: is_int32.elims)
  then have "sint (word_of_int i :: int32) = i"
    by (simp add: in_int32_def signed_of_int signed_take_bit_int_eq_self)
  with i assms(2) have "sint (Depth gs) = i"
    by (auto simp: dec_GitSyncSpec_def field_def [of 0] outcome_simps)
  with i show thesis by (rule that)
qed

lemma decoded_depth: "adm_GitSyncSpec ms \<Longrightarrow> dec_GitSyncSpec ms = Ok gs \<Longrightarrow> 0 \<le> sint (Depth gs)"
  by (erule (1) decoded_depth_value) (simp only:)

lemma decoded_algorithm:
  assumes "adm_SensitivePropertiesSpec ms" "dec_SensitivePropertiesSpec ms = Ok sp"
  shows "Algorithm sp \<in> {''NIFI_PBKDF2_AES_GCM_256'', ''NIFI_ARGON2_AES_GCM_256''}"
  using assms
  by (auto simp: adm_SensitivePropertiesSpec_def dec_SensitivePropertiesSpec_def req_def enum_def field_def outcome_simps split: option.splits)

lemma decoded_pull_policy:
  assumes "adm_ImageSpec ms" "dec_ImageSpec ms = Ok i"
  shows "img_PullPolicy i \<noteq> None"
proof -
  from assms(1) obtain p where "ptr_field dec_string ''pullPolicy'' ms = Ok (Some p)"
    by (auto simp: adm_ImageSpec_def elim: field_reqE [OF _ dec_string_ok])
  with assms(2) show ?thesis by (auto simp: dec_ImageSpec_def outcome_simps)
qed

lemma array_ofE:
  assumes "array_of (is_object P) j" "\<And>ms. P ms \<Longrightarrow> is_ok (dec ms)" "\<And>ms x. P ms \<Longrightarrow> dec ms = Ok x \<Longrightarrow> Q x"
  obtains xs where "dec_array z (dec_struct dec) j = Ok xs" "list_all Q xs"
proof -
  from assms(1) obtain js where j: "j = JArr js" "list_all (is_object P) js" by (cases j) simp_all
  from j(2) have "\<exists>xs. map_o (dec_elem z (dec_struct dec)) js = Ok xs \<and> list_all Q xs"
  proof (induction js)
    case (Cons j js)
    then obtain ms where ms: "j = JObj ms" "P ms" by (cases j) simp_all
    with assms(2,3) obtain x where "dec ms = Ok x" "Q x" unfolding is_ok_iff by blast
    with Cons ms show ?case by (auto simp: dec_elem_def)
  qed simp
  with that j(1) show thesis by auto
qed

lemma map_toE:
  assumes "map_to (is_object P) j" "\<And>ms. P ms \<Longrightarrow> \<exists>x. dec ms = Ok x \<and> Q x"
  obtains m where "dec_map z (dec_struct dec) j = Ok m" "list_all (\<lambda>e. Q (snd e)) m" "\<forall>es. j = JObj es \<longrightarrow> map fst m = map fst es"
proof -
  from assms(1) obtain es where j: "j = JObj es" "list_all (\<lambda>e. is_object P (snd e)) es" by (cases j) simp_all
  from j(2) have "\<exists>m. map_o (\<lambda>e. bind_o (dec_elem z (dec_struct dec) (snd e)) (\<lambda>v. Ok (fst e, v))) es = Ok m \<and>
    list_all (\<lambda>e. Q (snd e)) m \<and> map fst m = map fst es"
  proof (induction es)
    case (Cons e es)
    then obtain ms where ms: "snd e = JObj ms" "P ms" by (cases "snd e") simp_all
    with assms(2) obtain x where "dec ms = Ok x" "Q x" by blast
    with Cons ms show ?case by (auto simp: dec_elem_def)
  qed simp
  with that j(1) show thesis by auto
qed

lemma array_reqE:
  assumes "req k (array_of (is_object P)) ms" "\<And>ns. P ns \<Longrightarrow> is_ok (dec ns)" "\<And>ns x. P ns \<Longrightarrow> dec ns = Ok x \<Longrightarrow> Q x"
  obtains xs where "field y (dec_array z (dec_struct dec)) k ms = Ok xs" "list_all Q xs"
proof -
  from assms(1) obtain j where j: "member k ms = Some j" "array_of (is_object P) j" by (auto simp: req_def split: option.splits)
  obtain xs where "dec_array z (dec_struct dec) j = Ok xs" "list_all Q xs"
    by (rule array_ofE [OF j(2), of dec Q z]) (use assms(2,3) in blast)+
  with that j(1) show thesis by (simp add: field_def)
qed

lemma map_optE:
  assumes "opt k (map_to (is_object P)) ms" "\<And>ns. P ns \<Longrightarrow> \<exists>x. dec ns = Ok x \<and> Q x"
  obtains m where "field [] (dec_map z (dec_struct dec)) k ms = Ok m" "list_all (\<lambda>e. Q (snd e)) m"
proof (cases "member k ms")
  case None
  with that show thesis by (simp add: field_def)
next
  case (Some j)
  with assms(1) have j: "map_to (is_object P) j" by (simp add: opt_def)
  obtain m where "dec_map z (dec_struct dec) j = Ok m" "list_all (\<lambda>e. Q (snd e)) m"
    by (rule map_toE [OF j, of dec Q z]) (use assms(2) in blast)+
  with that Some show thesis by (simp add: field_def)
qed

lemma dec_ClusterConfigSpec_wf:
  assumes "lib_json_laws K" "adm_ClusterConfigSpec K ms"
  shows "\<exists>cc. dec_ClusterConfigSpec K ms = Ok cc \<and> wf_config cc"
proof -
  note a = assms(2) [unfolded adm_ClusterConfigSpec_def]
  obtain sp ns where sp: "ptr_field (dec_struct dec_SensitivePropertiesSpec) ''sensitiveProperties'' ms = Ok (Some sp)"
    "adm_SensitivePropertiesSpec ns" "dec_SensitivePropertiesSpec ns = Ok sp"
    using a by (auto elim: struct_reqE [OF _ dec_SensitivePropertiesSpec_ok])
  obtain job where job: "ptr_field (dec_struct dec_CreateReportingTaskJobSpec) ''createReportingTaskJob'' ms = Ok (Some job)"
    using a by (auto elim: struct_reqE [OF _ dec_CreateReportingTaskJobSpec_ok])
  obtain vols where vols: "ptr_field Ok ''extraVolumes'' ms = Ok (Some vols)"
    using a by (auto simp: req_def ptr_field_def split: option.splits)
  obtain gss where gss: "field [] (dec_array zero_GitSyncSpec (dec_struct dec_GitSyncSpec)) ''customComponentsGitSync'' ms = Ok gss"
    "list_all (\<lambda>gs. 0 \<le> sint (Depth gs)) gss"
    by (rule array_reqE [OF a [THEN conjunct2, THEN conjunct2, THEN conjunct2, THEN conjunct2, THEN conjunct1],
          of dec_GitSyncSpec "\<lambda>gs. 0 \<le> sint (Depth gs)" "[]" zero_GitSyncSpec])
      (use dec_GitSyncSpec_ok decoded_depth in blast)+
  have auth: "is_ok (ptr_field (dec_array z (dec_struct (dec_AuthenticationSpec K))) ''authentication'' ms)" for z
    using a by (auto intro: ptr_field_opt [OF _ dec_array_ok [OF _ dec_struct_ok [OF _ dec_AuthenticationSpec_ok [OF assms(1)]]]])
  have tls: "is_ok (ptr_field (dec_struct dec_TlsSpec) ''tls'' ms)"
    using a by (auto intro: ptr_field_opt [OF _ dec_struct_ok [OF _ dec_TlsSpec_ok]])
  have strings: "is_ok (field [] dec_string ''listenerClass'' ms)" "is_ok (field [] dec_string ''vectorAggregatorConfigMapName'' ms)"
    "is_ok (ptr_field dec_string ''zookeeperConfigMapName'' ms)"
    using a by (auto intro: field_ok)
  from auth tls strings obtain as t l v zk where
    "ptr_field (dec_array \<lparr>AuthenticationClass = [], Oidc = None\<rparr> (dec_struct (dec_AuthenticationSpec K))) ''authentication'' ms = Ok as"
    "ptr_field (dec_struct dec_TlsSpec) ''tls'' ms = Ok t" "field [] dec_string ''listenerClass'' ms = Ok l"
    "field [] dec_string ''vectorAggregatorConfigMapName'' ms = Ok v" "ptr_field dec_string ''zookeeperConfigMapName'' ms = Ok zk"
    unfolding is_ok_iff by meson
  then show ?thesis
    using decoded_algorithm [OF sp(2,3)] gss sp(1) job vols by (simp add: dec_ClusterConfigSpec_def wf_config_def)
qed

lemma dec_RoleGroupSpec_wf:
  assumes "lib_json_laws K" "adm_RoleGroupSpec K ms"
  shows "\<exists>rg. dec_RoleGroupSpec K ms = Ok rg \<and> wf_group rg"
proof -
  note a = assms(2) [unfolded adm_RoleGroupSpec_def]
  obtain n where n: "ptr_field dec_int32 ''replicas'' ms = Ok (Some n)"
    using a by (auto elim: field_reqE [OF _ dec_int32_ok])
  obtain ns c where c: "adm_ConfigSpec K ns" "dec_ConfigSpec K ns = Ok c" "ptr_field (dec_struct (dec_ConfigSpec K)) ''config'' ms = Ok (Some c)"
    by (rule struct_reqE [OF a [THEN conjunct2, THEN conjunct1], of "dec_ConfigSpec K"])
      (use dec_ConfigSpec_is_ok [OF assms(1)] in blast)+
  obtain ov where ov: "OverridesFrom K ms = Ok ov"
    using a assms(1) by (auto simp: lib_json_laws_def is_ok_iff)
  have "is_ok (ptr_field (dec_struct dec_JVMArgumentOverridesSpec) ''jvmArgumentOverrides'' ms)"
    using a by (auto intro: ptr_field_opt [OF _ dec_struct_ok [OF _ dec_JVMArgumentOverridesSpec_ok]])
  then obtain jvm where "ptr_field (dec_struct dec_JVMArgumentOverridesSpec) ''jvmArgumentOverrides'' ms = Ok jvm" unfolding is_ok_iff ..
  with n c ov dec_ConfigSpec_ok [OF assms(1) c(1)] show ?thesis
    by (auto simp: dec_RoleGroupSpec_def wf_group_def)
qed

lemma dec_NodesSpec_wf:
  assumes "lib_json_laws K" "adm_NodesSpec K ms"
  shows "\<exists>n. dec_NodesSpec K ms = Ok n \<and> list_all (\<lambda>e. wf_group (snd e)) (RoleGroups n)"
proof -
  note a = assms(2) [unfolded adm_NodesSpec_def]
  obtain rgs where rgs: "field [] (dec_map zero_RoleGroupSpec (dec_struct (dec_RoleGroupSpec K))) ''roleGroups'' ms = Ok rgs"
    "list_all (\<lambda>e. wf_group (snd e)) rgs"
    by (rule map_optE [OF a [THEN conjunct1], of "dec_RoleGroupSpec K" wf_group zero_RoleGroupSpec])
      (use dec_RoleGroupSpec_wf [OF assms(1)] in blast)+
  have "is_ok (ptr_field (RoleConfigFrom K) ''roleConfig'' ms)" "is_ok (OverridesFrom K ms)"
    using a assms(1) by (auto simp: lib_json_laws_def intro: ptr_field_opt)
  moreover have "is_ok (ptr_field (dec_struct (dec_ConfigSpec K)) ''config'' ms)"
    using a by (auto intro: ptr_field_opt [OF _ dec_struct_ok [OF _ dec_ConfigSpec_is_ok [OF assms(1)]]])
  moreover have "is_ok (ptr_field (dec_struct dec_JVMArgumentOverridesSpec) ''jvmArgumentOverrides'' ms)"
    using a by (auto intro: ptr_field_opt [OF _ dec_struct_ok [OF _ dec_JVMArgumentOverridesSpec_ok]])
  ultimately show ?thesis
    using rgs by (auto simp: dec_NodesSpec_def is_ok_iff)
qed

lemma admitted_spec_exists:
  assumes "lib_json_laws K" "adm_NifiClusterSpec K ms"
  shows "\<exists>spec. dec_NifiClusterSpec K ms = Ok spec \<and> wf_spec spec"
proof -
  note a = assms(2) [unfolded adm_NifiClusterSpec_def]
  have ok: "is_ok (dec_ClusterConfigSpec K ns)" if "adm_ClusterConfigSpec K ns" for ns
    using dec_ClusterConfigSpec_wf [OF assms(1) that] by auto
  have nodes_ok: "is_ok (dec_NodesSpec K ns)" if "adm_NodesSpec K ns" for ns
    using dec_NodesSpec_wf [OF assms(1) that] by auto
  obtain cs cc where cc: "adm_ClusterConfigSpec K cs" "dec_ClusterConfigSpec K cs = Ok cc"
    "ptr_field (dec_struct (dec_ClusterConfigSpec K)) ''clusterConfig'' ms = Ok (Some cc)"
    using a by (auto elim: struct_reqE [OF _ ok])
  obtain xs i where i: "adm_ImageSpec xs" "dec_ImageSpec xs = Ok i" "ptr_field (dec_struct dec_ImageSpec) ''image'' ms = Ok (Some i)"
    using a by (auto elim: struct_reqE [OF _ dec_ImageSpec_ok])
  obtain ns n where n: "adm_NodesSpec K ns" "dec_NodesSpec K ns = Ok n" "ptr_field (dec_struct (dec_NodesSpec K)) ''nodes'' ms = Ok (Some n)"
    using a by (auto elim: struct_reqE [OF _ nodes_ok])
  have "is_ok (ptr_field (ClusterOperationFrom K) ''clusterOperation'' ms)"
    using a assms(1) by (auto simp: lib_json_laws_def intro: ptr_field_opt)
  then obtain co where "ptr_field (ClusterOperationFrom K) ''clusterOperation'' ms = Ok co" unfolding is_ok_iff ..
  with cc i n dec_ClusterConfigSpec_wf [OF assms(1) cc(1)] decoded_pull_policy [OF i(1,2)] dec_NodesSpec_wf [OF assms(1) n(1)]
  show ?thesis by (auto simp: dec_NifiClusterSpec_def wf_spec_def)
qed

lemma admitted_spec:
  "lib_json_laws K \<Longrightarrow> adm_NifiClusterSpec K ms \<Longrightarrow> dec_NifiClusterSpec K ms = Ok spec \<Longrightarrow> wf_spec spec"
  using admitted_spec_exists by fastforce

text \<open>
  C8: A document that the schema admits decodes to a well-formed specification: the cluster
  configuration, its sensitive properties with one of the two supported algorithms, the image with a
  pull policy, the reporting task job, the nodes, and for every role group a replica count and a
  configuration are present, and no git depth is negative. No error and no nil pointer among them is
  left for the controllers to meet.
\<close>

theorem admitted_decodes:
  assumes "lib_json_laws K" "adm_NifiClusterSpec K ms"
  shows "\<exists>spec. dec_NifiClusterSpec K ms = Ok spec \<and> wf_spec spec"
  using assms by (rule admitted_spec_exists)

text \<open>The sample cluster as the API server stores it.\<close>

definition sample_config :: members where
  "sample_config =
     [(''authentication'', JArr [JObj [(''authenticationClass'', JStr ''users'')]]),
      (''createReportingTaskJob'', JObj [(''enable'', JBool True), (''podOverrides'', JObj [])]),
      (''customComponentsGitSync'', JArr []), (''extraVolumes'', JObj []),
      (''sensitiveProperties'', JObj [(''algorithm'', JStr ''NIFI_ARGON2_AES_GCM_256''), (''autoGenerate'', JBool True), (''keySecret'', JStr ''key'')])]"

definition sample_group :: json where
  "sample_group = JObj [(''replicas'', JNum 1), (''config'', JObj [(''gracefulShutdownTimeout'', JStr ''30s'')])]"

definition sample_spec :: members where
  "sample_spec =
     [(''clusterConfig'', JObj sample_config),
      (''image'', JObj [(''pullPolicy'', JStr ''IfNotPresent''), (''repo'', JStr ''quay.io/zncdatadev'')]),
      (''nodes'', JObj [(''roleGroups'', JObj [(''default'', sample_group)])])]"

lemmas schema_simps = req_def opt_def enum_def in_int32_def member_simps adm_NifiClusterSpec_def adm_ClusterConfigSpec_def adm_NodesSpec_def
  adm_ImageSpec_def adm_RoleGroupSpec_def adm_ConfigSpec_def adm_AuthenticationSpec_def adm_CreateReportingTaskJobSpec_def
  adm_SensitivePropertiesSpec_def

lemma sample_admitted: "adm_NifiClusterSpec plain_json sample_spec"
  by (simp add: schema_simps sample_spec_def sample_config_def sample_group_def plain_json_def)

theorem admitted_decodes_witness:
  "\<exists>spec. dec_NifiClusterSpec plain_json sample_spec = Ok spec \<and> wf_spec spec"
  using admitted_decodes [OF plain_json_laws sample_admitted] .

end
