(* ===== verification/Spec2Isabelle.thy ===== *)
theory Spec2Isabelle
  imports Controller Stability CopyValue Startup Admission
begin

section \<open>The NiFi operator: a verified model\<close>

text \<open>
  This development models the Kubernetes operator for Apache NiFi and proves what makes it
  correct. The operator watches resources of the kind \<^verbatim>\<open>NifiCluster\<close>; for each it computes the
  Kubernetes objects of a NiFi cluster (configuration files, stateful sets, services, secrets,
  permissions, a job) and hands them to a library that creates or updates them.

  \<^bold>\<open>The parts of the program and how they interact.\<close> \<^verbatim>\<open>cmd/main.go\<close> parses the command line,
  configures the manager of controller-runtime and starts it. For every change of a \<^verbatim>\<open>NifiCluster\<close>
  the manager calls \<^verbatim>\<open>Reconcile\<close> (\<^verbatim>\<open>internal/controller/nificluster_controller.go\<close>), which reads
  the resource, builds a cluster reconciler, lets it register its resources and runs them. The
  cluster reconciler (\<^verbatim>\<open>controller/cluster/cluster.go\<close>) registers a service account with a role and
  a role binding, the node role, the reconciler of the sensitive properties key and, for NiFi 1.x,
  the service and the job that create the Prometheus reporting task (\<^verbatim>\<open>controller/reporting_task\<close>).
  The node role (\<^verbatim>\<open>controller/node/role.go\<close>) registers a config map, a stateful set and a headless
  service for every role group, and the admin secret. These use the authenticators
  (\<^verbatim>\<open>common/security\<close>) and the git-sync containers (\<^verbatim>\<open>common/git_sync.go\<close>).

  \<^bold>\<open>Theories and the code they model\<close> (paths below \<^verbatim>\<open>src/internal\<close> unless given in full).
  \<^item> \<open>Prelude\<close>: the outcome of a Go call (\<open>Ok\<close>, \<open>Err\<close>, or \<open>Panic\<close> for a nil dereference),
    loops with early return, Go maps as association lists in the order a traversal visits them,
    and the locale \<open>map_traversal\<close> for functions that do not depend on that order.
  \<^item> \<open>GoStd\<close>, \<open>GoPath\<close>, \<open>GoEncoding\<close>, \<open>GoSlice\<close>: what the sources use of Go's standard library and
    runtime: \<^verbatim>\<open>strings\<close>, \<^verbatim>\<open>strconv\<close>, \<^verbatim>\<open>sort\<close>, \<^verbatim>\<open>path\<close>, \<^verbatim>\<open>net/url\<close>, \<^verbatim>\<open>encoding/base64\<close>, and slices that
    share a backing array.
  \<^item> \<open>Kube\<close>, \<open>Api\<close>: the Kubernetes structs the operator fills in, and the types of
    \<^verbatim>\<open>src/api/v1alpha1\<close> with their registration in the scheme. \<open>DeepCopy\<close>: the generated copy functions
    on these types as they lie in memory (\<^verbatim>\<open>zz_generated.deepcopy.go\<close>). \<open>CopyValue\<close>: the abstraction
    from the structs in memory to the records of \<open>Api\<close>.
  \<^item> \<open>Json\<close>: what the sources rely on of \<^verbatim>\<open>encoding/json\<close>. \<open>ApiJson\<close>: the decoder and the encoder that the
    \<^verbatim>\<open>json\<close> tags of the types stand for. \<open>Admission\<close>: the schema that the \<^verbatim>\<open>kubebuilder\<close> markers of the
    types stand for, as a predicate on stored documents.
  \<^item> \<open>OperatorGo\<close>: the library \<^verbatim>\<open>operator-go\<close> as parameters, with the laws the operator relies on;
    \<open>Instances\<close>: one concrete instance that satisfies all of them, used by the witnesses.
  \<^item> \<open>GitSync\<close>: \<^verbatim>\<open>common/git_sync.go\<close>. \<open>Secrets\<close>: \<^verbatim>\<open>common/security/sensitive_key.go\<close> and
    \<^verbatim>\<open>oidc_admin_secret.go\<close>. \<open>Authenticators\<close>: \<^verbatim>\<open>oidc.go\<close>, \<^verbatim>\<open>ldap.go\<close>, \<^verbatim>\<open>static.go\<close>.
    \<open>Authentication\<close>: \<^verbatim>\<open>authentication.go\<close>.
  \<^item> \<open>NodeConfig\<close> and \<open>NodeConfigProps\<close>: \<^verbatim>\<open>controller/node/port.go\<close> and \<^verbatim>\<open>configmap.go\<close>.
    \<open>NodeStatefulSet\<close>: \<^verbatim>\<open>statefulset.go\<close> and \<^verbatim>\<open>service.go\<close>. \<open>NodeRole\<close>: \<^verbatim>\<open>role.go\<close>.
  \<^item> \<open>ReportingTask\<close>: \<^verbatim>\<open>controller/reporting_task/service.go\<close> and \<^verbatim>\<open>job.go\<close>. \<open>Cluster\<close>:
    \<^verbatim>\<open>controller/cluster/cluster.go\<close>, and \<open>Stability\<close>: that the order of the role groups does not matter to it.
    \<open>Controller\<close>: \<^verbatim>\<open>controller/nificluster_controller.go\<close>.
  \<^item> \<open>Startup\<close>: \<^verbatim>\<open>src/cmd/main.go\<close>, with \<^verbatim>\<open>SetupWithManager\<close> of the controller and the building of the scheme.
    \<open>Version\<close>: \<^verbatim>\<open>version/version.go\<close>.
  \<^item> This theory: the properties that span the components.

  \<^bold>\<open>How state and operations correspond.\<close> A Go struct is a record with the same fields (a prefix
  keeps field names apart), a Go method a definition with the receiver as an argument, named after
  the method and, where needed, its type. A reconciler's mutable list of registered resources is
  threaded through \<open>AddResource\<close>. An optional pointer is an option, and following a nil
  pointer is \<open>Panic\<close>. Integers that the API declares as \<^verbatim>\<open>int32\<close> are 32-bit words. Logging and the
  \<^verbatim>\<open>context.Context\<close> arguments have no counterpart.

  \<^bold>\<open>Parameters.\<close> Code outside the repository is an argument of the definitions that use it: \<open>L\<close>
  the constants and pure functions of operator-go, \<open>C\<close>, \<open>S\<close>, \<open>V\<close>, \<open>P\<close>, \<open>B\<close> its builders, \<open>A\<close> the API server
  for secrets, \<open>g\<close> the lookup of authentication classes, \<open>getCluster\<close> and \<open>run\<close> the reading of the
  resource and the run of the registered resources, \<open>patch\<close> the strategic merge that applies a
  user's pod overrides to a stateful set, \<open>D\<close> the deep copies of library structs, \<open>Q\<close> their
  values, \<open>K\<close> the JSON form of library structs, \<open>F\<close> the
  flags of imported packages, \<open>ok\<close> which calls to controller-runtime succeed, \<open>grow\<close> how far Go's
  runtime grows a slice, and the bytes of \<^verbatim>\<open>rand.Read\<close>. Their documented behaviour is a named
  hypothesis of the theorems that need it (\<open>layout_laws\<close>, \<open>configmap_laws\<close>, \<open>statefulset_laws\<close>, \<open>api_laws\<close>,
  \<open>secret_laws\<close>, \<open>deepcopy_laws\<close>, \<open>values_laws\<close>, \<open>lib_json_laws\<close>, \<open>merge_laws\<close>, \<open>grow_law\<close> and others).
  Nothing is assumed of \<open>patch\<close>: pod overrides are arbitrary, so a theorem about a built pod either
  speaks of the stateful set that the overrides are applied to, or of a role group without overrides.
  \<open>api_laws\<close> describes an API server without faults; reads that fail are covered by the theorems, a
  failing create is not.

  \<^bold>\<open>Interfaces.\<close> \<open>map_traversal\<close> (a result that no map order changes: \<^verbatim>\<open>bootstrap.conf\<close>, the selected pod),
  \<open>indexed_names\<close> (numbered names are distinct: git-sync volumes, mounts, containers),
  \<open>create_once\<close> (a secret is created at most once: both secret reconcilers),
  \<open>authenticator_contract\<close> (what the builders may assume of an authenticator: OIDC, LDAP, static
  users, and the selected one), \<open>deep_copy\<close> (same value, fresh memory: the copy functions).

  \<^bold>\<open>What the theorems show.\<close>
  \<^item> End to end: a reconciliation of a valid cluster runs resources that serve every role group, and
    from every stored document that the schema admits, with named role groups, a usable authentication
    and overrides that can be merged and applied, all objects of the node role are built, so no
    nil pointer of a section with a default is followed (this theory); that the operator's permissions
    are enough for it (\<open>Controller\<close>); when the registration succeeds, exactly, the list of registered
    resources, and that the built pods run under the account the RBAC objects are for (\<open>Cluster\<close>).
  \<^item> Objects: for every list of git-sync entries and every usable authentication the stateful set is
    built, as the user's overrides applied to a pod that is well formed (\<open>NodeStatefulSet\<close>); config map, stateful set and service of a role group fit
    together (\<open>NodeRole\<close>); the reporting job is well formed and its service selects, exactly
    when there is one to select, a pod that does not depend on map order (\<open>ReportingTask\<close>); no line of \<^verbatim>\<open>nifi.properties\<close> overwrites another,
    the state providers agree, the templates read only variables that are set (\<open>NodeConfigProps\<close>,
    \<open>NodeStatefulSet\<close>).
  \<^item> Documents: what the schema admits decodes to a specification with every section the controllers
    follow unchecked (\<open>Admission\<close>); a cluster configuration reads back from its JSON up to documented
    normalisations (\<open>ApiJson\<close>).
  \<^item> Stability: two reconciliations of one specification register the same resources although the map of
    role groups is visited in different orders (\<open>Stability\<close>).
  \<^item> State over time: the sensitive key refines a write-once cell and no interleaving with other
    parties changes it (\<open>Secrets\<close>); a deep copy shares no memory with the original (\<open>DeepCopy\<close>)
    and refines the identity on values (\<open>CopyValue\<close>); the startup performs its actions in a fixed order and stops at the first failure,
    for every command line, and under which growth of a slice the two servers, which append to one slice,
    keep each their own TLS options (\<open>Startup\<close>).
  \<^item> Loops and encodings: the git-sync loop equals a map over the entries, which user options get past the
    filter of the operator's own flags (\<open>GitSync\<close>); passwords decode to their random bytes (\<open>Secrets\<close>); the
    command line and the version text read back (\<open>Startup\<close>, \<open>Version\<close>).
  \<^item> Errors: when authentication is accepted; which inputs lead to a nil dereference; files that
    are read but not mounted; secrets that are mounted but not created; a switched-off
    reporting job that a Go client switches on again. These are behaviours of the
    code that a user should know.

  \<^bold>\<open>Bounds.\<close> No definition uses fuel: every loop of the program runs over a list, a map or a string
  and is a structural recursion or a total function, so a theorem that gives a result shows that the
  code returns it.

  \<^bold>\<open>Not modelled.\<close> The internals of operator-go and controller-runtime: how registered resources are
  written to the API server, status and health checks, the stopping of a cluster (the flag is passed on),
  leader election, the delivery of watch events. The API server's check of field formats beyond the
  markers of the types. What runs in the containers: the shell scripts and templates are texts here. Log output.
  The tests, the test utilities and the YAML of CRDs, samples and charts.
\<close>


subsection \<open>From a request to the resources of every role group\<close>

text \<open>What a role group is entitled to: its config map, its stateful set and its service.\<close>

definition group_served ::
    "operator_go \<Rightarrow> 'c configmap_pkg \<Rightarrow> 'v service_pkg \<Rightarrow> RoleInfo \<Rightarrow> ('c, 's, 'v) node_resource list \<Rightarrow> string \<Rightarrow> bool" where
  "group_served L C V ri rs name \<longleftrightarrow>
     (let n = GetFullName L \<lparr>rgi_RoleInfo = ri, rgi_RoleGroupName = name\<rparr> in
      (\<exists>b. ConfigRes b \<in> set rs \<and> ncb_RoleGroupName b = name) \<and>
      (\<exists>s. StatefulSetRes s \<in> set rs \<and> sb_Name (sr_Builder s) = n) \<and>
      (\<exists>opt. ServiceRes (NewServiceReconciler V n Ports opt) \<in> set rs \<and> so_Headless opt))"

lemma registered_group_served:
  assumes "register_role_group L C S V g r spec e = Ok bs" "set bs \<subseteq> set rs"
  shows "group_served L C V (nr_RoleInfo r) rs (fst e)"
proof -
  from assms(1) obtain reps ov cfg where
    "RegisterResourceWithRoleGroup L C S V g r reps \<lparr>rgi_RoleInfo = nr_RoleInfo r, rgi_RoleGroupName = fst e\<rparr> ov cfg = Ok bs"
    by (auto simp: register_role_group_def bind_o_Ok_iff Let_def)
  then show ?thesis
    by (rule register_group_OkD)
      (use assms(2) in \<open>fastforce simp: group_served_def Let_def new_statefulset NewConfigReconciler_def NewNifiConfigBuilder_def headless_options_def\<close>)
qed

lemma all_groups_served:
  assumes "RegisterResources L C S V g r = Ok r'" "nr_Spec r = Some spec" "nr_Resources r = []" "e \<in> set (RoleGroups spec)"
  shows "group_served L C V (nr_RoleInfo r) (nr_Resources r') (fst e)"
proof -
  from assms(1-3) obtain bss where bss: "list_all2 (\<lambda>e bs. register_role_group L C S V g r spec e = Ok bs) (RoleGroups spec) bss"
    "nr_Resources r' = concat bss"
    by (auto simp: RegisterResources_def register_fold)
  from bss(1) assms(4) obtain bs where "bs \<in> set bss" "register_role_group L C S V g r spec e = Ok bs"
    by (induction rule: list_all2_induct) auto
  then show ?thesis using registered_group_served [of L C S V g r spec e bs "nr_Resources r'"] bss(2) by auto
qed

text \<open>What a reconciliation registers for a readable cluster with a valid specification.\<close>

lemma reconcile_registers:
  fixes C :: "'c configmap_pkg" and S :: "'s statefulset_pkg" and V :: "'v service_pkg"
  assumes "getCluster w (req_Namespace q) (req_Name q) = Ok inst"
    and "ClusterConfig (nc_Spec inst) = Some cc" "spec_Image (nc_Spec inst) = Some i" "img_PullPolicy i \<noteq> None"
    and "SensitiveProperties cc = Some sp" "Nodes (nc_Spec inst) = Some nodes"
    and "RoleGroups nodes \<noteq> []" "\<forall>e \<in> set (RoleGroups nodes). fst e \<noteq> []"
    and "Authentication cc = Some auths" "NewAuthentication (g w) (nc_Name inst) auths = Ok a"
    and "\<forall>e \<in> set (RoleGroups nodes). group_merges L nodes e"
  obtains r node role where
    "cluster_RegisterResources L C S V bv (g w) (cluster_NewReconciler (cluster_info inst) (nc_Spec inst)) = Ok r"
    "Reconcile L C S V bv g getCluster run q w = run r w"
    "cr_Resources r = rbac_resources L (cluster_NewReconciler (cluster_info inst) (nc_Spec inst)) @
       [NodeRes node, SensitiveKeyRes (NewSensitiveKeyReconciler (KeySecret sp) (AutoGenerate sp)
          (cluster_options L (cluster_NewReconciler (cluster_info inst) (nc_Spec inst) :: ('c, 's, 'v) ClusterReconciler)))] @ drop 5 (cr_Resources r)"
    "RegisterResources L C S V (g w) role = Ok node" "nr_Spec role = Some nodes" "nr_Resources role = []"
    "nr_RoleInfo role = \<lparr>ri_ClusterInfo = cluster_info inst, ri_RoleName = ''node''\<rparr>" "nr_ClusterConfig role = Some cc"
proof -
  let ?r = "cluster_NewReconciler (cluster_info inst) (nc_Spec inst) :: ('c, 's, 'v) ClusterReconciler"
  have "is_ok (cluster_RegisterResources L C S V bv (g w) ?r)"
    by (rule cluster_registration_succeeds [OF assms(2-4) _ assms(6-9) _ assms(11)])
      (use assms(5,10) in \<open>simp_all add: cluster_info_def\<close>)
  then obtain r where r: "cluster_RegisterResources L C S V bv (g w) ?r = Ok r" by (auto simp: is_ok_iff)
  from r new_cluster(1) obtain cc' img node key rep where n: "RegisterResources L C S V (g w) (role_of L ?r img) = Ok node"
    and k: "sensitiveKeyReconciler L ?r = Ok key" and res: "cr_Resources r = rbac_resources L ?r @ [NodeRes node, SensitiveKeyRes key] @ rep"
    by (rule cluster_register_OkD)
  have role: "nr_Spec (role_of L ?r img) = Some nodes" "nr_Resources (role_of L ?r img) = []"
    "nr_RoleInfo (role_of L ?r img) = \<lparr>ri_ClusterInfo = cluster_info inst, ri_RoleName = ''node''\<rparr>"
    "nr_ClusterConfig (role_of L ?r img) = Some cc"
    using assms(2,6) by (simp_all add: role_of_def node_NewReconciler_def)
  have "key = NewSensitiveKeyReconciler (KeySecret sp) (AutoGenerate sp) (cluster_options L ?r)"
    using k assms(2,5) by (simp add: sensitiveKeyReconciler_def)
  moreover have "drop 5 (cr_Resources r) = rep" using res by (simp add: rbac_resources_def Let_def)
  moreover have "Reconcile L C S V bv g getCluster run q w = run r w" by (simp add: Reconcile_def assms(1) r)
  ultimately show thesis using that [OF r _ _ n role] res by simp
qed

text \<open>
  C1: End to end: reconciling a request for an existing cluster with a valid specification runs the
  registered resources, and among them are the reconciler of the configured sensitive key secret
  and one node role that has, for every role group of the specification, a config map, a stateful
  set named after the cluster, the role and the group, and a headless service of the same name.
\<close>

theorem reconcile_serves_all_groups:
  fixes C :: "'c configmap_pkg" and S :: "'s statefulset_pkg" and V :: "'v service_pkg"
  assumes "getCluster w (req_Namespace q) (req_Name q) = Ok inst"
    and "ClusterConfig (nc_Spec inst) = Some cc" "spec_Image (nc_Spec inst) = Some i" "img_PullPolicy i \<noteq> None"
    and "SensitiveProperties cc = Some sp" "Nodes (nc_Spec inst) = Some nodes"
    and "RoleGroups nodes \<noteq> []" "\<forall>e \<in> set (RoleGroups nodes). fst e \<noteq> []"
    and "Authentication cc = Some auths" "NewAuthentication (g w) (nc_Name inst) auths = Ok a"
    and "\<And>x y. is_ok (MergeConfig L x y)" "\<And>x y. is_ok (MergeOverrides L x y)"
  shows "\<exists>r node key.
    cluster_RegisterResources L C S V bv (g w) (cluster_NewReconciler (cluster_info inst) (nc_Spec inst)) = Ok r \<and>
    Reconcile L C S V bv g getCluster run q w = run r w \<and>
    SensitiveKeyRes key \<in> set (cr_Resources r) \<and> skb_Name (skr_Builder key) = KeySecret sp \<and> autoGenerated key = AutoGenerate sp \<and>
    NodeRes node \<in> set (cr_Resources r) \<and>
    (\<forall>e \<in> set (RoleGroups nodes).
       group_served L C V \<lparr>ri_ClusterInfo = cluster_info inst, ri_RoleName = ''node''\<rparr> (nr_Resources node) (fst e))"
proof -
  have "\<forall>e \<in> set (RoleGroups nodes). group_merges L nodes e" using assms(11,12) by (simp add: group_merges_def)
  with assms(1-10) obtain r node role where r:
    "cluster_RegisterResources L C S V bv (g w) (cluster_NewReconciler (cluster_info inst) (nc_Spec inst)) = Ok r"
    "Reconcile L C S V bv g getCluster run q w = run r w"
    "cr_Resources r = rbac_resources L (cluster_NewReconciler (cluster_info inst) (nc_Spec inst)) @
       [NodeRes node, SensitiveKeyRes (NewSensitiveKeyReconciler (KeySecret sp) (AutoGenerate sp)
          (cluster_options L (cluster_NewReconciler (cluster_info inst) (nc_Spec inst) :: ('c, 's, 'v) ClusterReconciler)))] @ drop 5 (cr_Resources r)"
    and role: "RegisterResources L C S V (g w) role = Ok node" "nr_Spec role = Some nodes" "nr_Resources role = []"
      "nr_RoleInfo role = \<lparr>ri_ClusterInfo = cluster_info inst, ri_RoleName = ''node''\<rparr>"
    by (rule reconcile_registers)
  let ?key = "NewSensitiveKeyReconciler (KeySecret sp) (AutoGenerate sp)
    (cluster_options L (cluster_NewReconciler (cluster_info inst) (nc_Spec inst) :: ('c, 's, 'v) ClusterReconciler))"
  have "SensitiveKeyRes ?key \<in> set (cr_Resources r)" "NodeRes node \<in> set (cr_Resources r)"
    by (subst r(3), simp)+
  moreover have "\<forall>e \<in> set (RoleGroups nodes).
      group_served L C V \<lparr>ri_ClusterInfo = cluster_info inst, ri_RoleName = ''node''\<rparr> (nr_Resources node) (fst e)"
    using all_groups_served [OF role(1-3)] unfolding role(4) by blast
  ultimately show ?thesis using r(1,2)
    by (intro exI [of _ r] exI [of _ node] exI [of _ ?key]) (simp add: NewSensitiveKeyReconciler_def NewSensitiveKeyBuilder_def)
qed

definition demo_instance :: NifiCluster where
  "demo_instance = \<lparr>nc_Name = ''simple'', nc_Namespace = ''default'', nc_Spec = demo_spec (full_config None) ''1.28.1''\<rparr>"

theorem reconcile_serves_all_groups_witness:
  "\<exists>r node key.
     cluster_RegisterResources kubedoop plain_configmaps plain_sts plain_services ''0.0.0-dev'' static_class
       (cluster_NewReconciler (cluster_info demo_instance) (nc_Spec demo_instance)) = Ok r \<and>
     Reconcile kubedoop plain_configmaps plain_sts plain_services ''0.0.0-dev'' (\<lambda>w. static_class) (\<lambda>w ns n. Ok demo_instance)
       (\<lambda>r w. (Ok empty_result, w)) \<lparr>req_Name = ''simple'', req_Namespace = ''default''\<rparr> () = (Ok empty_result, ()) \<and>
     SensitiveKeyRes key \<in> set (cr_Resources r) \<and> skb_Name (skr_Builder key) = ''key'' \<and> NodeRes node \<in> set (cr_Resources r) \<and>
     (\<forall>e \<in> set two_groups. group_served kubedoop plain_configmaps plain_services
        \<lparr>ri_ClusterInfo = cluster_info demo_instance, ri_RoleName = ''node''\<rparr> (nr_Resources node) (fst e))"
proof -
  let ?q = "\<lparr>req_Name = ''simple'', req_Namespace = ''default''\<rparr>"
  have inst: "ClusterConfig (nc_Spec demo_instance) = Some (full_config None)" "Nodes (nc_Spec demo_instance) = Some (demo_nodes two_groups)"
    "spec_Image (nc_Spec demo_instance) = Some \<lparr>img_Custom = [], img_Repo = ''quay.io'', img_KubedoopVersion = [], img_ProductVersion = ''1.28.1'',
        img_PullPolicy = Some PullIfNotPresent, img_PullSecretName = ''regcred''\<rparr>"
    by (simp_all add: demo_instance_def demo_spec_def)
  have groups: "RoleGroups (demo_nodes two_groups) = two_groups" by (simp add: demo_nodes_def)
  have ne: "RoleGroups (demo_nodes two_groups) \<noteq> []" "\<forall>e \<in> set (RoleGroups (demo_nodes two_groups)). fst e \<noteq> []"
    unfolding groups by (simp_all add: two_groups_def)
  show ?thesis
    using reconcile_serves_all_groups [where getCluster = "\<lambda>w ns n. Ok demo_instance" and w = "()" and q = ?q and g = "\<lambda>w. static_class"
        and run = "\<lambda>r w. (Ok empty_result, w)" and L = kubedoop and C = plain_configmaps and S = plain_sts and V = plain_services and bv = "''0.0.0-dev''",
        OF refl inst(1,3) _ full_config_fields(3) inst(2) ne full_config_fields(1) static_authentication kubedoop_merge]
    by (simp add: groups) blast
qed

subsection \<open>From a stored document to the objects of every role group\<close>

text \<open>
  \<^verbatim>\<open>util.MergeObject\<close> of operator-go: if the merge succeeds, what the role group sets is set in the
  result. Whether it succeeds is a condition on the document (\<open>group_merges\<close>).
\<close>

definition merge_laws :: "operator_go \<Rightarrow> bool" where
  "merge_laws L \<longleftrightarrow>
     (\<forall>x c m. cfg_RoleGroupConfigSpec c \<noteq> None \<longrightarrow> MergeConfig L x (Some c) = Ok m \<longrightarrow>
        (\<exists>d. m = Some d \<and> cfg_RoleGroupConfigSpec d \<noteq> None))"

text \<open>
  The pod overrides of a role group, merged with those of the role, can be applied: \<open>patch\<close> is the
  library's strategic merge, which fails for instance on a template of the wrong shape.
\<close>

definition overrides_apply ::
    "operator_go \<Rightarrow> (OverridesSpec \<Rightarrow> StatefulSet \<Rightarrow> StatefulSet outcome) \<Rightarrow> NodesSpec \<Rightarrow> string \<times> RoleGroupSpec \<Rightarrow> bool" where
  "overrides_apply L patch nodes e \<longleftrightarrow>
     (\<forall>ov st. MergeOverrides L (nodes_OverridesSpec nodes) (rg_OverridesSpec (snd e)) = Ok (Some ov) \<longrightarrow> is_ok (patch ov st))"

text \<open>Whether the builder of a registered resource succeeds; \<open>rnd\<close> are the random bytes of a secret.\<close>

primrec builds ::
    "operator_go \<Rightarrow> 'p properties_pkg \<Rightarrow> 'c configmap_pkg \<Rightarrow> 'b container_pkg \<Rightarrow> 's statefulset_pkg \<Rightarrow> 'v service_pkg \<Rightarrow> 'x secret_pkg
      \<Rightarrow> class_lookup \<Rightarrow> byte list \<Rightarrow> ('c, 's, 'v) node_resource \<Rightarrow> bool" where
  "builds L P C B S V X g rnd (ConfigRes b) = is_ok (ConfigMap_Build L P C g b)"
| "builds L P C B S V X g rnd (StatefulSetRes s) = is_ok (StatefulSet_Build L B S (sr_Builder s))"
| "builds L P C B S V X g rnd (ServiceRes b) = is_ok (Service_Build V b)"
| "builds L P C B S V X g rnd (AdminSecretRes s) = is_ok (AdminSecretBuilder_Build X (asr_Builder s) (Ok rnd))"

lemma group_builds:
  assumes laws: "configmap_laws C" "container_laws B" "statefulset_laws S contents patch" "service_laws V" "\<And>p. is_ok (PropMarshal P p)"
    and reg: "RegisterResourceWithRoleGroup L C S V g r reps info ov (Some c) = Ok res" "rgi_RoleInfo info = nr_RoleInfo r"
    and cfg: "cfg_RoleGroupConfigSpec c \<noteq> None" and auth: "\<And>a. getAuthentrication g r = Ok a \<Longrightarrow> usable_auth L a"
    and patch: "\<And>o' st. ov = Some o' \<Longrightarrow> is_ok (patch o' st)"
  shows "list_all (builds L P C B S V X g rnd) res"
  using reg(1)
proof (rule register_group_OkD)
  fix cc a s
  let ?cb = "NewConfigReconciler L C (Some cc) (Some (nr_Image r)) info (Some c) (Some a)"
  let ?sb = "NewServiceReconciler V (GetFullName L info) Ports (headless_options L info)"
  assume cc: "nr_ClusterConfig r = Some cc" and a: "getAuthentrication g r = Ok (Some a)"
    and s: "NewStatefulSetReconciler L S info (Some cc) Ports (nr_Image r) reps (nr_ClusterStopped r) (Some a) ov (Some c) = Ok s"
    and res: "res = [ConfigRes ?cb, StatefulSetRes s, ServiceRes ?sb]
     @ concat (map (\<lambda>key. if key = AuthenticatorTypeLDAP
         then [AdminSecretRes (NewAdminSecretReconciler (ci_ClusterName (ri_ClusterInfo (nr_RoleInfo r))) (role_group_options L info))] else [])
         (map fst (Authenticators a)))"
  from a cc obtain auths where auths: "Authentication cc = Some auths" "NewAuthentication g (rgi_ClusterName info) auths = Ok a"
    by (rule getAuthentrication_SomeD) (simp add: rgi_ClusterName_def reg(2))
  have u: "usable_auth L (Some a)" using auth [OF a] .
  obtain cm where cm: "ConfigMap_Build L P C g ?cb = Ok (ObjConfigMap cm)"
    by (rule config_map_built [OF laws(1) refl refl cfg auths u laws(5)])
  obtain sv where sv: "Service_Build V ?sb = Ok (ObjService sv)" by (rule service_built [OF laws(4)])
  note b = role_group_builderD [OF role_group_builderI [OF s]]
  have "usable_auth L (sb_Authentication (sr_Builder s))" using u b(5) by simp
  then obtain st0 where "StatefulSet_Build L B S (sr_Builder s) =
      bind_o (apply_overrides patch ov st0) (\<lambda>st. Ok (ObjStatefulSet (run_as (NifiServiceAccountName (sb_ClusterName (sr_Builder s))) st)))"
    by (rule statefulset_base_built [OF laws(2,3) b(8) [OF laws(3)] _ b(1)])
  moreover have "is_ok (apply_overrides patch ov st0)" using patch by (cases ov) (simp_all add: apply_overrides_def)
  ultimately have st: "is_ok (StatefulSet_Build L B S (sr_Builder s))" by (auto simp: is_ok_iff)
  have "builds L P C B S V X g rnd (AdminSecretRes x)" for x by (simp add: AdminSecretBuilder_Build_def)
  with cm sv st show ?thesis unfolding res by (auto simp: list_all_iff)
qed

lemma all_groups_build:
  assumes laws: "configmap_laws C" "container_laws B" "statefulset_laws S contents patch" "service_laws V" "\<And>p. is_ok (PropMarshal P p)" "merge_laws L"
    and reg: "RegisterResources L C S V g r = Ok r'" "nr_Spec r = Some spec" "nr_Resources r = []"
    and wf: "list_all (\<lambda>e. wf_group (snd e) \<and> overrides_apply L patch spec e) (RoleGroups spec)" and auth: "\<And>a. getAuthentrication g r = Ok a \<Longrightarrow> usable_auth L a"
  shows "list_all (builds L P C B S V X g rnd) (nr_Resources r')"
proof -
  from reg obtain bss where bss: "list_all2 (\<lambda>e bs. register_role_group L C S V g r spec e = Ok bs) (RoleGroups spec) bss"
    "nr_Resources r' = concat bss"
    by (auto simp: RegisterResources_def register_fold)
  have "list_all (builds L P C B S V X g rnd) bs" if e: "register_role_group L C S V g r spec e = Ok bs" "wf_group (snd e)" "overrides_apply L patch spec e" for e bs
  proof -
    from e(2) obtain c where c: "rg_Config (snd e) = Some c" "cfg_RoleGroupConfigSpec c \<noteq> None"
      by (auto simp: wf_group_def split: option.splits)
    from e(1) obtain mc reps ov where m: "MergeConfig L (nodes_Config spec) (rg_Config (snd e)) = Ok mc"
      "MergeOverrides L (nodes_OverridesSpec spec) (rg_OverridesSpec (snd e)) = Ok ov"
      "RegisterResourceWithRoleGroup L C S V g r reps \<lparr>rgi_RoleInfo = nr_RoleInfo r, rgi_RoleGroupName = fst e\<rparr> ov mc = Ok bs"
      by (auto simp: register_role_group_def bind_o_Ok_iff Let_def)
    with c laws(6) obtain d where d: "mc = Some d" "cfg_RoleGroupConfigSpec d \<noteq> None" unfolding merge_laws_def by metis
    have "is_ok (patch o' st)" if "ov = Some o'" for o' st using e(3) m(2) that by (simp add: overrides_apply_def)
    from group_builds [OF laws(1-5) m(3) [unfolded d(1)] _ d(2) auth this] show ?thesis by simp
  qed
  with bss(1) wf have "list_all (list_all (builds L P C B S V X g rnd)) bss"
    by (induction rule: list_all2_induct) auto
  then show ?thesis unfolding bss(2) by (auto simp: list_all_iff)
qed


definition sample_value :: NifiClusterSpec where
  "sample_value =
     \<lparr>ClusterConfig = Some \<lparr>Authentication = Some [users_spec], CreateReportingTaskJob = Some \<lparr>Enable = True, PodOverrides = Some (JObj [])\<rparr>,
        ExtraVolumes = Some (JObj []),
        SensitiveProperties = Some \<lparr>Algorithm = ''NIFI_ARGON2_AES_GCM_256'', AutoGenerate = True, KeySecret = ''key''\<rparr>,
        CustomComponentsGitSync = [], Tls = None, ListenerClass = [], VectorAggregatorConfigMapName = [], ZookeeperConfigMapName = None\<rparr>,
      ClusterOperation = None,
      spec_Image = Some \<lparr>img_Custom = [], img_Repo = ''quay.io/zncdatadev'', img_KubedoopVersion = [], img_ProductVersion = [],
        img_PullPolicy = Some ''IfNotPresent'', img_PullSecretName = []\<rparr>,
      Nodes = Some \<lparr>RoleGroups = [(''default'', \<lparr>rg_Replicas = Some 1,
          rg_Config = Some \<lparr>cfg_RoleGroupConfigSpec = Some \<lparr>GracefulShutdownTimeout = ''30s''\<rparr>\<rparr>, rg_OverridesSpec = None, rg_JVMArgumentOverrides = None\<rparr>)],
        RoleConfig = None, nodes_Config = None, nodes_OverridesSpec = None, nodes_JVMArgumentOverrides = None\<rparr>\<rparr>"

lemma sample_decoded: "dec_NifiClusterSpec plain_json sample_spec = Ok sample_value"
proof -
  have config: "dec_ClusterConfigSpec plain_json sample_config = Ok (the (ClusterConfig sample_value))"
    by (simp add: sample_config_def sample_value_def dec_ClusterConfigSpec_def dec_AuthenticationSpec_def dec_CreateReportingTaskJobSpec_def
        dec_SensitivePropertiesSpec_def dec_elem_def decode_simps users_spec_def)
  have group: "dec_struct (dec_RoleGroupSpec plain_json) sample_group = Ok (snd (hd (RoleGroups (the (Nodes sample_value)))))"
    by (simp add: sample_group_def sample_value_def dec_RoleGroupSpec_def dec_ConfigSpec_def decode_simps plain_json_def in_int32_def)
  have "sample_group \<noteq> JNull" by (simp add: sample_group_def)
  then show ?thesis
    by (simp add: sample_spec_def dec_NifiClusterSpec_def dec_NodesSpec_def dec_ImageSpec_def dec_elem_def decode_simps config group)
      (simp add: sample_value_def plain_json_def)
qed

lemma kubedoop_merge_laws: "merge_laws kubedoop"
  by (simp add: merge_laws_def kubedoop_def)


subsection \<open>From a stored git-sync entry to the arguments of its containers\<close>

text \<open>
  C30: The depth of a clone passes from the document to the command line without wrap-around: for every
  stored git-sync entry that the schema admits, the number in the document fits the 32-bit field it
  is decoded into, and git-sync, in both containers, gets exactly one \<^verbatim>\<open>--depth\<close> argument from the
  operator, a positive decimal number of at most 2147483647: the number of the document, or 1 for 0.
\<close>

theorem git_depth_bounds:
  assumes "adm_GitSyncSpec ms" "dec_GitSyncSpec ms = Ok gs"
  shows "\<exists>i. member ''depth'' ms = Some (JNum i) \<and> 0 \<le> i \<and> max 1 i \<le> 2147483647 \<and>
    filter (\<lambda>a. HasPrefix a ''--depth='') (fixed_git_sync_args gs oneTime) = [''--depth='' @ Itoa (max 1 i)] \<and>
    ''--depth='' @ Itoa (max 1 i) \<in> set (buildGitSyncArgs gs oneTime)"
proof -
  from assms obtain i where i: "member ''depth'' ms = Some (JNum i)" "in_int32 i" "0 \<le> i" "sint (Depth gs) = i"
    by (rule decoded_depth_value)
  have "sint (if Depth gs = 0 then 1 else Depth gs) = max 1 i"
  proof (cases "Depth gs = 0")
    case False
    then have "i \<noteq> 0" using i(4) signed_eq_0_iff [of "Depth gs"] by metis
    then show ?thesis using False i(3,4) by simp
  qed (use i(4) in simp)
  then have d: "Format32 (if Depth gs = 0 then 1 else Depth gs) = Itoa (max 1 i)" by (simp add: Format32_def)
  have "filter (\<lambda>a. HasPrefix a ''--depth='') (fixed_git_sync_args gs oneTime) = [''--depth='' @ Itoa (max 1 i)]"
    by (simp add: fixed_git_sync_args_def Let_def d HasPrefix_def)
  moreover then have "''--depth='' @ Itoa (max 1 i) \<in> set (filter (\<lambda>a. HasPrefix a ''--depth='') (fixed_git_sync_args gs oneTime))" by simp
  then have "''--depth='' @ Itoa (max 1 i) \<in> set (buildGitSyncArgs gs oneTime)" by (simp add: buildGitSyncArgs_eq)
  moreover have "max 1 i \<le> 2147483647" using i(2) by (simp add: in_int32_def)
  ultimately show ?thesis using i(1,3) by blast
qed

definition deep_entry :: "int \<Rightarrow> members" where
  "deep_entry d = [(''repo'', JStr ''https://example.com/flows''), (''branch'', JStr ''main''), (''depth'', JNum d), (''gitFolder'', JStr ''/''),
     (''gitSyncConfig'', JObj []), (''wait'', JStr ''20s'')]"

theorem git_depth_bounds_witness:
  "\<exists>gs. dec_GitSyncSpec (deep_entry 2147483647) = Ok gs \<and> ''--depth='' @ Itoa 2147483647 \<in> set (buildGitSyncArgs gs True)"
proof -
  have adm: "adm_GitSyncSpec (deep_entry 2147483647)" by (simp add: schema_simps adm_GitSyncSpec_def deep_entry_def)
  then obtain gs where gs: "dec_GitSyncSpec (deep_entry 2147483647) = Ok gs" using dec_GitSyncSpec_ok unfolding is_ok_iff by blast
  have "member ''depth'' (deep_entry 2147483647) = Some (JNum 2147483647)" by (simp add: deep_entry_def member_simps)
  with git_depth_bounds [OF adm gs, of True] gs show ?thesis by auto
qed

end
